(* ===== verification/Prelude.thy ===== *)
theory Prelude
  imports Complex_Main
begin

text \<open>
  Shared vocabulary of the development: the rule collections the component theories feed,
  the outcome of an operation (the committed state together with the value returned or the
  exception raised), the Python string methods the code calls, and the two generic state
  interfaces the components are verified against: a table of rows keyed by an identifier,
  and a system of guarded operations with an invariant.

  Python strings are modelled as HOL strings, whose characters are the code points 0 to 255.
\<close>

section \<open>Collections of rules\<close>

named_theorems op_defs \<open>definitions of the operations that change the state\<close>
named_theorems frame \<open>what an operation leaves unchanged\<close>

section \<open>Identifiers, instants, outcomes\<close>

text \<open>
  A UUID is its 128-bit integer value (Python's \<open>UUID.int\<close>). An instant is a number of
  microseconds.
\<close>

type_synonym uuid = nat
type_synonym instant = int

text \<open>
  An operation on a state \<open>'s\<close> returns the state that is committed when it ends and either
  the exception it raised or its result. Work not committed before an exception is lost
  when the session closes, so an operation that raises returns the last committed state.
\<close>

type_synonym ('s, 'e, 'a) outcome = "'s \<times> ('e + 'a)"

definition returns :: "'s \<Rightarrow> 'a \<Rightarrow> ('s, 'e, 'a) outcome" where
  "returns s x = (s, Inr x)"

definition raises :: "'s \<Rightarrow> 'e \<Rightarrow> ('s, 'e, 'a) outcome" where
  "raises s e = (s, Inl e)"

definition succeeds :: "('s, 'e, 'a) outcome \<Rightarrow> bool" where
  "succeeds r = (case snd r of Inl _ \<Rightarrow> False | Inr _ \<Rightarrow> True)"

lemma outcome_simps [simp]:
  "fst (returns s x) = s" "snd (returns s x) = Inr x"
  "fst (raises s e) = s" "snd (raises s e) = Inl e"
  "succeeds (returns s x)" "\<not> succeeds (raises s e)"
  by (simp_all add: returns_def raises_def succeeds_def)

lemma outcome_eq_iff [simp]:
  "returns s x = returns t y \<longleftrightarrow> s = t \<and> x = y"
  "raises s e = raises t f \<longleftrightarrow> s = t \<and> e = f"
  "returns s x \<noteq> raises t e" "raises t e \<noteq> returns s x"
  "returns s x = (t, Inr y) \<longleftrightarrow> s = t \<and> x = y"
  "raises s e = (t, Inl f) \<longleftrightarrow> s = t \<and> e = f"
  "returns s x \<noteq> (t, Inl e)" "raises s e \<noteq> (t, Inr y)"
  by (auto simp: returns_def raises_def)

text \<open>
  A call that may raise, made by an operation whose committed state is \<open>s\<close>, and a check
  that raises or lets the operation go on.
\<close>

definition attempt :: "'s \<Rightarrow> 'e + 'a \<Rightarrow> ('a \<Rightarrow> ('s, 'e, 'b) outcome) \<Rightarrow> ('s, 'e, 'b) outcome" where
  "attempt s r k = (case r of Inl e \<Rightarrow> raises s e | Inr x \<Rightarrow> k x)"

definition checked :: "'s \<Rightarrow> 'e option \<Rightarrow> ('s, 'e, 'b) outcome \<Rightarrow> ('s, 'e, 'b) outcome" where
  "checked s c k = (case c of Some e \<Rightarrow> raises s e | None \<Rightarrow> k)"

definition raise_if :: "bool \<Rightarrow> 'e \<Rightarrow> 'e option" where
  "raise_if b e = (if b then Some e else None)"

lemma raise_if_None [simp]: "raise_if b e = None \<longleftrightarrow> \<not> b"
  by (simp add: raise_if_def)

lemma raise_if_simps [simp]: "raise_if True e = Some e" "raise_if False e = None"
  by (simp_all add: raise_if_def)

lemma attempt_simps [simp]:
  "attempt s (Inl e) k = raises s e" "attempt s (Inr x) k = k x"
  by (simp_all add: attempt_def)

lemma checked_simps [simp]:
  "checked s (Some e) k = raises s e" "checked s None k = k"
  by (simp_all add: checked_def)

lemma succeeds_attempt: "succeeds (attempt s r k) \<longleftrightarrow> (\<exists>x. r = Inr x \<and> succeeds (k x))"
  by (cases r) auto

lemma succeeds_checked: "succeeds (checked s c k) \<longleftrightarrow> c = None \<and> succeeds k"
  by (cases c) auto

lemma attempt_returns: "attempt s r k = (t, Inr y) \<longleftrightarrow> (\<exists>x. r = Inr x \<and> k x = (t, Inr y))"
  by (cases r) auto

lemma checked_returns: "checked s c k = (t, Inr y) \<longleftrightarrow> c = None \<and> k = (t, Inr y)"
  by (cases c) auto

lemma succeeds_iff: "succeeds r \<longleftrightarrow> (\<exists>t y. r = (t, Inr y))"
  by (cases r) (auto simp: succeeds_def split: sum.splits)

text \<open>Rules to show that an operation ends in a state with a property, by its control structure.\<close>

named_theorems ends \<open>a property of the committed state\<close>

definition ends_in :: "('s \<Rightarrow> bool) \<Rightarrow> ('s, 'e, 'a) outcome \<Rightarrow> bool" where
  "ends_in P r \<longleftrightarrow> P (fst r)"

lemma ends_in_returns [ends]: "P s \<Longrightarrow> ends_in P (returns s x)"
  by (simp add: ends_in_def)

lemma ends_in_raises [ends]: "P s \<Longrightarrow> ends_in P (raises s e)"
  by (simp add: ends_in_def)

lemma ends_in_attempt [ends]:
  "P s \<Longrightarrow> (\<And>x. r = Inr x \<Longrightarrow> ends_in P (k x)) \<Longrightarrow> ends_in P (attempt s r k)"
  by (cases r) (auto simp: ends_in_def)

lemma ends_in_checked [ends]:
  "P s \<Longrightarrow> (c = None \<Longrightarrow> ends_in P k) \<Longrightarrow> ends_in P (checked s c k)"
  by (cases c) (auto simp: ends_in_def)

lemma ends_in_if [ends]:
  "(b \<Longrightarrow> ends_in P x) \<Longrightarrow> (\<not> b \<Longrightarrow> ends_in P y) \<Longrightarrow> ends_in P (if b then x else y)"
  by simp

lemma ends_in_Let [ends]: "ends_in P (f x) \<Longrightarrow> ends_in P (let y = x in f y)"
  by simp

lemma ends_in_prod [ends]:
  "(\<And>x y. p = (x, y) \<Longrightarrow> ends_in P (f x y)) \<Longrightarrow> ends_in P (case p of (x, y) \<Rightarrow> f x y)"
  by (cases p) simp

lemma ends_in_case:
  assumes "ends_in P r" and "\<And>t e. P t \<Longrightarrow> ends_in P (f t e)" and "\<And>t x. P t \<Longrightarrow> ends_in P (g t x)"
  shows "ends_in P (case r of (t, Inl e) \<Rightarrow> f t e | (t, Inr x) \<Rightarrow> g t x)"
  using assms by (cases r) (auto simp: ends_in_def split: sum.split)

lemma case_returns:
  "(case r of (t, Inl e) \<Rightarrow> raises t e | (t, Inr x) \<Rightarrow> g t x) = (s, Inr y) \<longleftrightarrow>
   (\<exists>t x. r = (t, Inr x) \<and> g t x = (s, Inr y))"
  by (cases r) (auto split: sum.split)

text \<open>An operation that raises has changed nothing.\<close>

named_theorems atomic \<open>an operation that raises leaves the state it started in\<close>

definition atomic_from :: "'s \<Rightarrow> ('s, 'e, 'a) outcome \<Rightarrow> bool" where
  "atomic_from s r \<longleftrightarrow> (case snd r of Inl _ \<Rightarrow> fst r = s | Inr _ \<Rightarrow> True)"

lemma atomic_returns [atomic]: "atomic_from s (returns t x)"
  by (simp add: atomic_from_def)

lemma atomic_raises [atomic]: "atomic_from s (raises s e)"
  by (simp add: atomic_from_def)

lemma atomic_attempt [atomic]:
  "(\<And>x. r = Inr x \<Longrightarrow> atomic_from s (k x)) \<Longrightarrow> atomic_from s (attempt s r k)"
  by (cases r) (simp_all add: atomic_from_def)

lemma atomic_checked [atomic]: "(c = None \<Longrightarrow> atomic_from s k) \<Longrightarrow> atomic_from s (checked s c k)"
  by (cases c) (simp_all add: atomic_from_def)

lemma atomic_if [atomic]: "atomic_from s x \<Longrightarrow> atomic_from s y \<Longrightarrow> atomic_from s (if b then x else y)"
  by simp

lemma atomic_Let [atomic]: "atomic_from s (f x) \<Longrightarrow> atomic_from s (let y = x in f y)"
  by simp

lemma atomic_prod [atomic]:
  "(\<And>x y. p = (x, y) \<Longrightarrow> atomic_from s (f x y)) \<Longrightarrow> atomic_from s (case p of (x, y) \<Rightarrow> f x y)"
  by (cases p) simp

lemma atomicD: "atomic_from s r \<Longrightarrow> \<not> succeeds r \<Longrightarrow> fst r = s"
  by (auto simp: atomic_from_def succeeds_def split: sum.splits)

text \<open>Rows and errors.\<close>

definition or_raise :: "'e \<Rightarrow> 'a option \<Rightarrow> 'e + 'a" where
  "or_raise e x = (case x of None \<Rightarrow> Inl e | Some v \<Rightarrow> Inr v)"

lemma or_raise_simps [simp]:
  "or_raise e None = Inl e" "or_raise e (Some v) = Inr v"
  "or_raise e x = Inr v \<longleftrightarrow> x = Some v" "or_raise e x = Inl f \<longleftrightarrow> x = None \<and> e = f"
  by (cases x; auto simp: or_raise_def)+

section \<open>Python string methods\<close>

definition code_of :: "char \<Rightarrow> nat" where
  "code_of c = of_char c"

definition py_isspace :: "char \<Rightarrow> bool" where
  "py_isspace c = (let n = code_of c in 9 \<le> n \<and> n \<le> 13 \<or> 28 \<le> n \<and> n \<le> 32 \<or> n = 133 \<or> n = 160)"

definition py_strip_by :: "(char \<Rightarrow> bool) \<Rightarrow> string \<Rightarrow> string" where
  "py_strip_by p s = rev (dropWhile p (rev (dropWhile p s)))"

definition py_strip :: "string \<Rightarrow> string" where
  "py_strip = py_strip_by py_isspace"

definition py_rstrip_by :: "(char \<Rightarrow> bool) \<Rightarrow> string \<Rightarrow> string" where
  "py_rstrip_by p s = rev (dropWhile p (rev s))"

definition py_lower_char :: "char \<Rightarrow> char" where
  "py_lower_char c = (let n = code_of c in
     if 65 \<le> n \<and> n \<le> 90 \<or> 192 \<le> n \<and> n \<le> 222 \<and> n \<noteq> 215 then char_of (n + 32) else c)"

definition py_lower :: "string \<Rightarrow> string" where
  "py_lower = map py_lower_char"

definition is_digit :: "char \<Rightarrow> bool" where
  "is_digit c = (48 \<le> code_of c \<and> code_of c \<le> 57)"

definition digit_value :: "char \<Rightarrow> nat" where
  "digit_value c = code_of c - 48"

definition digit_char :: "nat \<Rightarrow> char" where
  "digit_char d = char_of (48 + d)"

text \<open>\<open>str(n)\<close> of an integer.\<close>

fun show_nat :: "nat \<Rightarrow> string" where
  "show_nat n = (if n < 10 then [digit_char n] else show_nat (n div 10) @ [digit_char (n mod 10)])"

declare show_nat.simps [simp del]

definition show_int :: "int \<Rightarrow> string" where
  "show_int i = (if i < 0 then CHR ''-'' # show_nat (nat (- i)) else show_nat (nat i))"

definition hex_char :: "nat \<Rightarrow> char" where
  "hex_char d = (if d < 10 then char_of (48 + d) else char_of (87 + d))"

text \<open>The lowest \<open>k\<close> hexadecimal digits of a number, most significant first.\<close>

fun hex_digits :: "nat \<Rightarrow> nat \<Rightarrow> string" where
  "hex_digits 0 n = []"
| "hex_digits (Suc k) n = hex_digits k (n div 16) @ [hex_char (n mod 16)]"

text \<open>\<open>uuid.hex\<close> and \<open>str(uuid)\<close>.\<close>

definition uuid_hex :: "uuid \<Rightarrow> string" where
  "uuid_hex u = hex_digits 32 u"

definition uuid_str :: "uuid \<Rightarrow> string" where
  "uuid_str u = (let h = uuid_hex u in
     take 8 h @ ''-'' @ take 4 (drop 8 h) @ ''-'' @ take 4 (drop 12 h) @ ''-'' @
     take 4 (drop 16 h) @ ''-'' @ drop 20 h)"

text \<open>\<open>sep.join(parts)\<close> and \<open>s.split(sep)\<close> for a one-character separator.\<close>

fun py_join :: "string \<Rightarrow> string list \<Rightarrow> string" where
  "py_join sep [] = []"
| "py_join sep [x] = x"
| "py_join sep (x # y # ys) = x @ sep @ py_join sep (y # ys)"

fun py_split :: "char \<Rightarrow> string \<Rightarrow> string list" where
  "py_split c [] = [[]]"
| "py_split c (x # xs) =
     (if x = c then [] # py_split c xs
      else (case py_split c xs of [] \<Rightarrow> [[x]] | w # ws \<Rightarrow> (x # w) # ws))"

lemma py_split_not_Nil [simp]: "py_split c s \<noteq> []"
  by (induction s) (auto split: list.splits)

lemma py_split_no_sep: "c \<notin> set s \<Longrightarrow> py_split c s = [s]"
  by (induction s) auto

lemma py_split_append_sep:
  "c \<notin> set x \<Longrightarrow> py_split c (x @ c # rest) = x # py_split c rest"
  by (induction x) auto

lemma py_split_join:
  assumes "xs \<noteq> []" and "\<forall>x \<in> set xs. c \<notin> set x"
  shows "py_split c (py_join [c] xs) = xs"
  using assms
proof (induction "[c]" xs rule: py_join.induct)
  case 1
  then show ?case by simp
next
  case (2 x)
  then show ?case by (simp add: py_split_no_sep)
next
  case (3 x y ys)
  then show ?case by (simp add: py_split_append_sep)
qed

lemma py_join_split: "py_join [c] (py_split c s) = s"
proof (induction s)
  case (Cons x s)
  obtain w ws where split: "py_split c s = w # ws" by (cases "py_split c s") auto
  have join: "py_join [c] ((x # w) # ws) = x # py_join [c] (w # ws)" for x w by (cases ws) auto
  show ?case using Cons split by (auto simp: join)
qed simp

lemma hex_digits_inj:
  "hex_digits k m = hex_digits k n \<Longrightarrow> m mod 16 ^ k = n mod 16 ^ k"
proof (induction k arbitrary: m n)
  case (Suc k)
  have hex: "hex_char a = hex_char b \<Longrightarrow> a < 16 \<Longrightarrow> b < 16 \<Longrightarrow> a = b" for a b
    by (auto simp: hex_char_def dest!: arg_cong [of _ _ "of_char :: char \<Rightarrow> nat"]
        split: if_splits)
  from Suc.prems have "hex_digits k (m div 16) = hex_digits k (n div 16)" "m mod 16 = n mod 16"
    by (auto intro!: hex)
  with Suc.IH have "m div 16 mod 16 ^ k = n div 16 mod 16 ^ k" by blast
  with \<open>m mod 16 = n mod 16\<close> show ?case
    by (simp add: mod_mult2_eq)
qed simp

lemma uuid_hex_inj: "uuid_hex a = uuid_hex b \<Longrightarrow> a < 2 ^ 128 \<Longrightarrow> b < 2 ^ 128 \<Longrightarrow> a = b"
  using hex_digits_inj [of 32 a b] by (simp add: uuid_hex_def)

lemma hex_digits_length [simp]: "length (hex_digits k n) = k"
  by (induction k arbitrary: n) auto

lemma uuid_hex_length [simp]: "length (uuid_hex u) = 32"
  by (simp add: uuid_hex_def)

lemma dropWhile_dropWhile_same [simp]: "dropWhile p (dropWhile p xs) = dropWhile p xs"
  by (induction xs) auto

lemma py_rstrip_by_prefix: "\<exists>ys. xs = py_rstrip_by p xs @ ys"
proof -
  have "rev xs = takeWhile p (rev xs) @ dropWhile p (rev xs)" by simp
  then have "xs = rev (dropWhile p (rev xs)) @ rev (takeWhile p (rev xs))"
    by (metis rev_append rev_rev_ident)
  then show ?thesis by (auto simp: py_rstrip_by_def)
qed

lemma set_py_rstrip_by: "set (py_rstrip_by p xs) \<subseteq> set xs"
  using py_rstrip_by_prefix [of xs p] by (metis Un_upper1 set_append)

lemma length_py_rstrip_by: "length (py_rstrip_by p xs) \<le> length xs"
  using py_rstrip_by_prefix [of xs p] by (metis le_add1 length_append)

lemma py_rstrip_by_hd:
  "py_rstrip_by p xs \<noteq> [] \<Longrightarrow> hd (py_rstrip_by p xs) = hd xs"
  using py_rstrip_by_prefix [of xs p] by (metis hd_append2)

section \<open>Dictionaries with insertion order\<close>

text \<open>
  A Python dictionary is an association list in insertion order with distinct keys:
  assigning to a key that exists keeps its position.
\<close>

fun dict_set :: "'k \<Rightarrow> 'v \<Rightarrow> ('k \<times> 'v) list \<Rightarrow> ('k \<times> 'v) list" where
  "dict_set k v [] = [(k, v)]"
| "dict_set k v ((k', v') # m) = (if k = k' then (k, v) # m else (k', v') # dict_set k v m)"

lemma map_of_dict_set [simp]: "map_of (dict_set k v m) = (map_of m)(k \<mapsto> v)"
  by (induction k v m rule: dict_set.induct) auto

lemma fst_set_dict_set [simp]: "fst ` set (dict_set k v m) = insert k (fst ` set m)"
  by (induction k v m rule: dict_set.induct) auto

lemma distinct_dict_set: "distinct (map fst m) \<Longrightarrow> distinct (map fst (dict_set k v m))"
proof (induction k v m rule: dict_set.induct)
  case (2 k v k' v' m)
  have "fst ` set (dict_set k v m) = insert k (fst ` set m)" by simp
  then show ?case using 2 by auto
qed simp

text \<open>\<open>d.setdefault(k, []).append(v)\<close>.\<close>

fun dict_append :: "'k \<Rightarrow> 'v \<Rightarrow> ('k \<times> 'v list) list \<Rightarrow> ('k \<times> 'v list) list" where
  "dict_append k v [] = [(k, [v])]"
| "dict_append k v ((k', vs) # m) = (if k = k' then (k', vs @ [v]) # m else (k', vs) # dict_append k v m)"

lemma map_of_dict_append [simp]:
  "map_of (dict_append k v m) =
     (map_of m)(k \<mapsto> (case map_of m k of None \<Rightarrow> [v] | Some vs \<Rightarrow> vs @ [v]))"
  by (induction k v m rule: dict_append.induct) auto

lemma fst_set_dict_append [simp]: "fst ` set (dict_append k v m) = insert k (fst ` set m)"
  by (induction k v m rule: dict_append.induct) auto

lemma distinct_dict_append: "distinct (map fst m) \<Longrightarrow> distinct (map fst (dict_append k v m))"
proof (induction k v m rule: dict_append.induct)
  case (2 k v k' vs m)
  have "fst ` set (dict_append k v m) = insert k (fst ` set m)" by simp
  then show ?case using 2 by auto
qed simp

section \<open>Queries for one row\<close>

text \<open>
  \<open>scalar_one_or_none()\<close>: no row, one row, or an exception when there are more.
\<close>

datatype 'r one_or_none = NoRow | OneRow 'r | ManyRows

fun scalar_one_or_none :: "'r list \<Rightarrow> 'r one_or_none" where
  "scalar_one_or_none [] = NoRow"
| "scalar_one_or_none [r] = OneRow r"
| "scalar_one_or_none (r # r' # rs) = ManyRows"

text \<open>The same query as a step of an operation: at most one row, or the exception \<open>many\<close>.\<close>

definition at_most_one :: "'e \<Rightarrow> 'r list \<Rightarrow> 'e + 'r option" where
  "at_most_one many rs =
     (case scalar_one_or_none rs of NoRow \<Rightarrow> Inr None | OneRow r \<Rightarrow> Inr (Some r) | ManyRows \<Rightarrow> Inl many)"

lemma scalar_NoRow [simp]: "scalar_one_or_none rs = NoRow \<longleftrightarrow> rs = []"
  by (cases rs rule: scalar_one_or_none.cases) auto

lemma scalar_OneRow [simp]: "scalar_one_or_none rs = OneRow r \<longleftrightarrow> rs = [r]"
  by (cases rs rule: scalar_one_or_none.cases) auto

lemma at_most_one_None [simp]: "at_most_one e rs = Inr None \<longleftrightarrow> rs = []"
  by (cases rs rule: scalar_one_or_none.cases) (auto simp: at_most_one_def)

lemma at_most_one_Some [simp]: "at_most_one e rs = Inr (Some r) \<longleftrightarrow> rs = [r]"
  by (cases rs rule: scalar_one_or_none.cases) (auto simp: at_most_one_def)

lemma at_most_one_simps [simp]:
  "at_most_one e [] = Inr None" "at_most_one e [r] = Inr (Some r)"
  "at_most_one e (r # r' # rs) = Inl e"
  by (simp_all add: at_most_one_def)

section \<open>Tables\<close>

text \<open>
  A table is the list of its rows in insertion order. \<open>find_row\<close> is \<open>Session.get\<close>:
  the row with a primary key, or nothing. \<open>upd_row\<close> writes attributes of one row.
\<close>

definition find_row :: "('r \<Rightarrow> uuid) \<Rightarrow> 'r list \<Rightarrow> uuid \<Rightarrow> 'r option" where
  "find_row idf t i = find (\<lambda>r. idf r = i) t"

definition upd_row :: "('r \<Rightarrow> uuid) \<Rightarrow> uuid \<Rightarrow> ('r \<Rightarrow> 'r) \<Rightarrow> 'r list \<Rightarrow> 'r list" where
  "upd_row idf i f t = map (\<lambda>r. if idf r = i then f r else r) t"

text \<open>The keys of a table are distinct and below the next key the database hands out.\<close>

definition keys_ok :: "('r \<Rightarrow> uuid) \<Rightarrow> nat \<Rightarrow> 'r list \<Rightarrow> bool" where
  "keys_ok idf n t \<longleftrightarrow> distinct (map idf t) \<and> (\<forall>r \<in> set t. idf r < n)"

lemma keys_ok_mono: "keys_ok idf n t \<Longrightarrow> n \<le> m \<Longrightarrow> keys_ok idf m t"
  by (auto simp: keys_ok_def)

lemma keys_ok_cong:
  assumes "map idf u = map idf t" shows "keys_ok idf n u \<longleftrightarrow> keys_ok idf n t"
proof -
  have "idf ` set u = idf ` set t" using assms by (metis set_map)
  moreover have "(\<forall>r \<in> set x. idf r < n) \<longleftrightarrow> (\<forall>k \<in> idf ` set x. k < n)" for x by auto
  ultimately have "(\<forall>r \<in> set u. idf r < n) \<longleftrightarrow> (\<forall>r \<in> set t. idf r < n)" by metis
  then show ?thesis using assms by (simp add: keys_ok_def)
qed

text \<open>The interface the services rely on when they read and write one table.\<close>

locale keyed_table =
  fixes idf :: "'r \<Rightarrow> uuid"
    and get :: "'r list \<Rightarrow> uuid \<Rightarrow> 'r option"
    and upd :: "uuid \<Rightarrow> ('r \<Rightarrow> 'r) \<Rightarrow> 'r list \<Rightarrow> 'r list"
  assumes get_SomeD: "get t i = Some r \<Longrightarrow> r \<in> set t \<and> idf r = i"
    and get_None: "get t i = None \<longleftrightarrow> i \<notin> idf ` set t"
    and get_append: "get (t @ u) i = (case get t i of None \<Rightarrow> get u i | Some r \<Rightarrow> Some r)"
    and get_Nil: "get [] i = None"
    and get_single: "get [r] i = (if idf r = i then Some r else None)"
    and set_upd: "set (upd i f t) = {if idf r = i then f r else r | r. r \<in> set t}"
    and keys_upd: "(\<And>r. idf (f r) = idf r) \<Longrightarrow> map idf (upd i f t) = map idf t"
    and get_upd: "(\<And>r. idf (f r) = idf r) \<Longrightarrow>
      get (upd i f t) j = (if i = j then map_option f (get t j) else get t j)"
begin

lemma get_fresh: "keys_ok idf n t \<Longrightarrow> get t n = None"
  by (auto simp: keys_ok_def get_None)

lemma get_insert:
  "keys_ok idf n t \<Longrightarrow> idf r = n \<Longrightarrow> get (t @ [r]) i = (if i = n then Some r else get t i)"
  by (auto simp: get_append get_single get_fresh split: option.splits)

lemma keys_ok_insert:
  "keys_ok idf n t \<Longrightarrow> idf r = n \<Longrightarrow> keys_ok idf (Suc n) (t @ [r])"
  by (auto simp: keys_ok_def less_Suc_eq)

lemma keys_ok_upd:
  assumes "keys_ok idf n t" and "\<And>r. idf (f r) = idf r"
  shows "keys_ok idf n (upd i f t)"
proof -
  have "map idf (upd i f t) = map idf t" by (rule keys_upd) (rule assms(2))
  moreover have "\<forall>r \<in> set (upd i f t). idf r < n"
    using assms by (auto simp: set_upd keys_ok_def)
  ultimately show ?thesis using assms(1) by (simp add: keys_ok_def)
qed

lemma get_unique:
  assumes "keys_ok idf n t" and "r \<in> set t"
  shows "get t (idf r) = Some r"
proof -
  have "get t (idf r) \<noteq> None" using assms(2) by (auto simp: get_None)
  then obtain r' where r': "get t (idf r) = Some r'" by auto
  then have "r' \<in> set t" "idf r' = idf r" using get_SomeD by blast+
  with assms have "r' = r" by (auto simp: keys_ok_def distinct_map inj_on_def)
  with r' show ?thesis by simp
qed

lemma upd_idle: "get t i = None \<Longrightarrow> (\<And>r. idf (f r) = idf r) \<Longrightarrow> get (upd i f t) j = get t j"
  by (auto simp: get_upd)

end

lemma find_row_SomeD: "find_row idf t i = Some r \<Longrightarrow> r \<in> set t \<and> idf r = i"
  by (auto simp: find_row_def find_Some_iff)

lemma find_row_None: "find_row idf t i = None \<longleftrightarrow> i \<notin> idf ` set t"
  by (auto simp: find_row_def find_None_iff)

lemma find_row_append:
  "find_row idf (t @ u) i = (case find_row idf t i of None \<Rightarrow> find_row idf u i | Some r \<Rightarrow> Some r)"
  by (induction t) (auto simp: find_row_def)

lemma set_upd_row: "set (upd_row idf i f t) = {if idf r = i then f r else r | r. r \<in> set t}"
  by (auto simp: upd_row_def)

lemma keys_upd_row: "(\<And>r. idf (f r) = idf r) \<Longrightarrow> map idf (upd_row idf i f t) = map idf t"
  by (auto simp: upd_row_def)

lemma find_row_upd_row:
  assumes "\<And>r. idf (f r) = idf r"
  shows "find_row idf (upd_row idf i f t) j =
    (if i = j then map_option f (find_row idf t j) else find_row idf t j)"
  using assms by (induction t) (auto simp: find_row_def upd_row_def)

lemma length_upd_row [simp]: "length (upd_row idf i f t) = length t"
  by (simp add: upd_row_def)

lemma keyed_table_find_row: "keyed_table idf (find_row idf) (upd_row idf)"
proof unfold_locales
  show "find_row idf [] i = None" for i by (simp add: find_row_def)
  show "find_row idf [r] i = (if idf r = i then Some r else None)" for r i
    by (simp add: find_row_def)
qed (simp_all add: find_row_SomeD find_row_None find_row_append set_upd_row keys_upd_row find_row_upd_row)

text \<open>Two keys that single out the same row update the same row.\<close>

lemma upd_row_cong:
  "(\<And>r. r \<in> set t \<Longrightarrow> idf r = i \<longleftrightarrow> idg r = j) \<Longrightarrow> upd_row idf i f t = upd_row idg j f t"
  by (auto simp: upd_row_def)

text \<open>A query on a unique column returns the row it finds, or nothing.\<close>

lemma filter_unique:
  assumes "distinct (map idf t)"
  shows "filter (\<lambda>r. idf r = i) t = (case find_row idf t i of None \<Rightarrow> [] | Some r \<Rightarrow> [r])"
  using assms
proof (induction t)
  case (Cons r t)
  then have "idf r \<notin> idf ` set t" by auto
  then have "find_row idf t (idf r) = None" by (simp add: find_row_None)
  with Cons show ?case by (auto simp: find_row_def)
qed (simp add: find_row_def)

lemma at_most_one_unique:
  "distinct (map idf t) \<Longrightarrow> at_most_one e (filter (\<lambda>r. idf r = i) t) = Inr (find_row idf t i)"
  by (simp add: filter_unique at_most_one_def split: option.splits)

text \<open>Selecting rows from a table whose rows are rewritten in place.\<close>

lemma filter_upd_row:
  assumes "\<And>r. p (f r) = p r"
  shows "filter p (upd_row idf i f t) = upd_row idf i f (filter p t)"
  using assms by (induction t) (auto simp: upd_row_def)

text \<open>A loop whose body is an operation: what it committed stays when a later body raises.\<close>

fun each_op :: "('x \<Rightarrow> 's \<Rightarrow> ('s, 'e, unit) outcome) \<Rightarrow> 'x list \<Rightarrow> 's \<Rightarrow> ('s, 'e, unit) outcome" where
  "each_op f [] s = returns s ()"
| "each_op f (x # xs) s = (case f x s of (t, Inl e) \<Rightarrow> raises t e | (t, Inr _) \<Rightarrow> each_op f xs t)"

lemma ends_in_each [ends]:
  assumes "P s" and "\<And>x s. x \<in> set xs \<Longrightarrow> P s \<Longrightarrow> ends_in P (f x s)"
  shows "ends_in P (each_op f xs s)"
  using assms
proof (induction xs arbitrary: s)
  case (Cons x xs)
  obtain t r where step: "f x s = (t, r)" by (cases "f x s")
  have "P t" using Cons.prems(2) [of x s] Cons.prems(1) step by (simp add: ends_in_def)
  moreover have "ends_in P (each_op f xs t)"
    by (rule Cons.IH [OF \<open>P t\<close>]) (simp add: Cons.prems(2))
  ultimately show ?case using step by (cases r) (simp_all add: ends_in_raises)
qed (simp add: ends_in_returns)

text \<open>Writing the one row a query found, by its key, is rewriting the rows the query selects.\<close>

lemma upd_row_single:
  assumes "distinct (map idf t)" and "filter p t = [r]"
  shows "upd_row idf (idf r) f t = map (\<lambda>x. if p x then f x else x) t"
proof -
  have "set (filter p t) = {r}" using assms(2) by simp
  then have r: "r \<in> set t" "p r" by auto
  have "idf x = idf r \<longleftrightarrow> p x" if "x \<in> set t" for x
  proof
    assume "idf x = idf r"
    then have "x = r" using assms(1) that r(1) by (auto simp: distinct_map inj_on_def)
    then show "p x" using r(2) by simp
  next
    assume "p x"
    then have "x \<in> set (filter p t)" using that by simp
    then show "idf x = idf r" using assms(2) by simp
  qed
  then show ?thesis by (auto simp: upd_row_def)
qed

lemma map_if_none: "filter p t = [] \<Longrightarrow> map (\<lambda>x. if p x then f x else x) t = t"
  by (induction t) (auto split: if_splits)

lemma length_filter_le_1_cases:
  assumes "length (filter p t) \<le> 1"
  obtains "filter p t = []" | r where "filter p t = [r]"
  using assms by (cases "filter p t" rule: scalar_one_or_none.cases) auto

section \<open>Loops that may raise\<close>

text \<open>A loop over a list whose body may raise, and a comprehension whose element may raise.\<close>

fun fold_ok :: "('x \<Rightarrow> 's \<Rightarrow> 'e + 's) \<Rightarrow> 'x list \<Rightarrow> 's \<Rightarrow> 'e + 's" where
  "fold_ok f [] s = Inr s"
| "fold_ok f (x # xs) s = (case f x s of Inl e \<Rightarrow> Inl e | Inr t \<Rightarrow> fold_ok f xs t)"

fun map_ok :: "('x \<Rightarrow> 'e + 'y) \<Rightarrow> 'x list \<Rightarrow> 'e + 'y list" where
  "map_ok f [] = Inr []"
| "map_ok f (x # xs) = (case f x of Inl e \<Rightarrow> Inl e | Inr y \<Rightarrow>
     (case map_ok f xs of Inl e \<Rightarrow> Inl e | Inr ys \<Rightarrow> Inr (y # ys)))"

lemma fold_ok_append:
  "fold_ok f (xs @ ys) s = (case fold_ok f xs s of Inl e \<Rightarrow> Inl e | Inr t \<Rightarrow> fold_ok f ys t)"
  by (induction xs arbitrary: s) (auto split: sum.splits)

lemma fold_ok_invariant:
  assumes "fold_ok f xs s = Inr t" and "P s"
    and "\<And>x s t. x \<in> set xs \<Longrightarrow> P s \<Longrightarrow> f x s = Inr t \<Longrightarrow> P t"
  shows "P t"
  using assms
proof (induction xs arbitrary: s)
  case (Cons x xs)
  then obtain s' where s': "f x s = Inr s'" "fold_ok f xs s' = Inr t"
    by (auto split: sum.splits)
  show ?case
  proof (rule Cons.IH [OF s'(2)])
    show "P s'" using Cons.prems(2,3) s'(1) by (meson list.set_intros(1))
    show "P u" if "y \<in> set xs" "P r" "f y r = Inr u" for y r u
      using Cons.prems(3) that by (meson list.set_intros(2))
  qed
qed simp

lemma fold_ok_pure: "fold_ok (\<lambda>x s. Inr (f x s)) xs s = Inr (fold f xs s)"
  by (induction xs arbitrary: s) auto

lemma map_ok_Inr: "map_ok f xs = Inr ys \<longleftrightarrow> list_all2 (\<lambda>x y. f x = Inr y) xs ys"
proof (induction xs arbitrary: ys)
  case (Cons x xs)
  show ?case
  proof (cases "f x")
    case (Inr y)
    then have "map_ok f (x # xs) = Inr ys \<longleftrightarrow> (\<exists>zs. map_ok f xs = Inr zs \<and> ys = y # zs)"
      by (auto split: sum.splits)
    then show ?thesis by (auto simp: Cons.IH list_all2_Cons1 Inr)
  qed (auto simp: list_all2_Cons1)
qed auto

lemma map_ok_total: "(\<And>x. x \<in> set xs \<Longrightarrow> f x = Inr (g x)) \<Longrightarrow> map_ok f xs = Inr (map g xs)"
  by (induction xs) auto

lemma map_ok_succeeds: "(\<exists>ys. map_ok f xs = Inr ys) \<longleftrightarrow> (\<forall>x \<in> set xs. \<exists>y. f x = Inr y)"
  by (induction xs) (auto split: sum.splits)

lemma map_ok_append:
  "map_ok f (xs @ ys) = (case map_ok f xs of Inl e \<Rightarrow> Inl e | Inr us \<Rightarrow>
     (case map_ok f ys of Inl e \<Rightarrow> Inl e | Inr vs \<Rightarrow> Inr (us @ vs)))"
  by (induction xs) (auto split: sum.splits)

lemma fold_ok_stuck:
  "x \<in> set xs \<Longrightarrow> (\<And>s t. f x s \<noteq> Inr t) \<Longrightarrow> fold_ok f xs s \<noteq> Inr t"
  by (induction xs arbitrary: s) (auto split: sum.splits)

lemma list_all2_member: "list_all2 R xs ys \<Longrightarrow> x \<in> set xs \<Longrightarrow> \<exists>y \<in> set ys. R x y"
  by (induction rule: list_all2_induct) auto

section \<open>Systems of guarded operations\<close>

text \<open>Running commands one after the other; a command that raises leaves what it committed.\<close>

fun run_all :: "('c \<Rightarrow> 's \<Rightarrow> 's) \<Rightarrow> 'c list \<Rightarrow> 's \<Rightarrow> 's" where
  "run_all step [] s = s"
| "run_all step (c # cs) s = run_all step cs (step c s)"

lemma run_all_append: "run_all step (cs @ ds) s = run_all step ds (run_all step cs s)"
  by (induction cs arbitrary: s) auto

text \<open>What a component promises: every command keeps the invariant.\<close>

locale guarded_system =
  fixes step :: "'c \<Rightarrow> 's \<Rightarrow> 's" and inv :: "'s \<Rightarrow> bool"
  assumes step_inv: "inv s \<Longrightarrow> inv (step c s)"
begin

lemma run_inv: "inv s \<Longrightarrow> inv (run_all step cs s)"
  by (induction cs arbitrary: s) (auto simp: step_inv)

end

text \<open>An invariant together with facts that, once true, no command undoes.\<close>

locale stable_system = guarded_system +
  fixes stable :: "'s \<Rightarrow> bool"
  assumes step_stable: "inv s \<Longrightarrow> stable s \<Longrightarrow> stable (step c s)"
begin

lemma run_stable: "inv s \<Longrightarrow> stable s \<Longrightarrow> stable (run_all step cs s)"
  by (induction cs arbitrary: s) (auto simp: step_inv step_stable)

end

end
