(* ===== verification/PyValues.thy ===== *)
theory PyValues
  imports Prelude
begin

text \<open>
  The Python values that travel through the platform: what a source row holds, what a rule
  definition (a JSON document) holds, how \<open>str\<close>, \<open>repr\<close>, \<open>int\<close>, \<open>float\<close> and
  \<open>Decimal\<close> read and write them, and equality of dictionary keys. A float is a binary64
  value: a rational that \<open>fl\<close> rounds to (53 bits, ties to even, subnormals, overflow to an
  infinity), an infinity or a NaN; the sign of zero is not represented.
\<close>

section \<open>Binary64\<close>

datatype pyfloat = Fin rat | PosInf | NegInf | NotANumber

fun pf_lt :: "pyfloat \<Rightarrow> pyfloat \<Rightarrow> bool" where
  "pf_lt NotANumber y = False"
| "pf_lt x NotANumber = False"
| "pf_lt (Fin a) (Fin b) = (a < b)"
| "pf_lt x NegInf = False"
| "pf_lt PosInf y = False"
| "pf_lt NegInf y = True"
| "pf_lt (Fin a) PosInf = True"

definition pf_eq :: "pyfloat \<Rightarrow> pyfloat \<Rightarrow> bool" where
  "pf_eq x y = (x = y \<and> x \<noteq> NotANumber)"

definition pf_le :: "pyfloat \<Rightarrow> pyfloat \<Rightarrow> bool" where
  "pf_le x y = (pf_lt x y \<or> pf_eq x y)"

text \<open>Rounding to the nearest integer, ties to even.\<close>

definition round_half_even :: "rat \<Rightarrow> int" where
  "round_half_even x = (let n = \<lfloor>x\<rfloor>; d = x - of_int n in
     if d < 1/2 then n else if 1/2 < d then n + 1 else if even n then n else n + 1)"

text \<open>The number of digits of a number in base \<open>b\<close>, and \<open>\<lfloor>log\<^sub>b x\<rfloor>\<close> of a positive rational.\<close>

fun ndigits :: "nat \<Rightarrow> nat \<Rightarrow> nat" where
  "ndigits b n = (if b \<le> 1 \<or> n < b then 1 else Suc (ndigits b (n div b)))"

declare ndigits.simps [simp del]

definition rat_pow :: "nat \<Rightarrow> int \<Rightarrow> rat" where
  "rat_pow b e = (if 0 \<le> e then of_nat b ^ nat e else 1 / of_nat b ^ nat (- e))"

definition floor_log :: "nat \<Rightarrow> rat \<Rightarrow> int" where
  "floor_log b x = (let (p, q) = quotient_of x;
       d = int (ndigits b (nat p)) - int (ndigits b (nat q))
     in if x < rat_pow b d then d - 1 else d)"

definition fl :: "rat \<Rightarrow> pyfloat" where
  "fl x = (if x = 0 then Fin 0 else
     let k = max (floor_log 2 \<bar>x\<bar> - 52) (- 1074);
         m = round_half_even (\<bar>x\<bar> / rat_pow 2 k);
         r = of_int m * rat_pow 2 k
     in if 2 ^ 1024 \<le> r then (if 0 < x then PosInf else NegInf)
        else Fin (if 0 < x then r else - r))"

text \<open>A whole number below 2^53 is a float.\<close>

lemma ndigits_le: "n < b ^ m \<Longrightarrow> 0 < m \<Longrightarrow> ndigits b n \<le> m"
proof (induction b n arbitrary: m rule: ndigits.induct)
  case (1 b n)
  show ?case
  proof (cases "b \<le> 1 \<or> n < b")
    case True
    then show ?thesis using 1 by (subst ndigits.simps) simp
  next
    case False
    then have "1 < m" using 1(2,3) by (cases "m = 1") auto
    then obtain k where k: "m = Suc k" "0 < k" by (cases m) auto
    have "n div b < b ^ k" using 1(2) False by (simp add: k less_mult_imp_div_less mult.commute)
    then show ?thesis using 1(1) [OF False, of k] False k by (subst ndigits.simps) auto
  qed
qed

lemma floor_log_int:
  assumes "0 < n" "n < 2 ^ 53"
  shows "floor_log 2 (of_int n) \<le> 52"
proof -
  have "ndigits 2 (nat n) \<le> 53"
    using assms by (intro ndigits_le) (auto simp: nat_less_iff)
  moreover have "ndigits 2 (nat 1) = 1" by (subst ndigits.simps) simp
  ultimately show ?thesis by (simp add: floor_log_def quotient_of_int Let_def)
qed

lemma round_half_even_int [simp]: "round_half_even (of_int n) = n"
  by (simp add: round_half_even_def)

lemma fl_parts_int:
  fixes n :: int
  assumes "0 < n" "n < 2 ^ 53"
  defines "k \<equiv> max (floor_log 2 (of_int n) - 52) (- 1074)"
  shows "of_int (round_half_even (of_int n / rat_pow 2 k)) * rat_pow 2 k = of_int n"
    and "(of_int n :: rat) < 2 ^ 1024"
proof -
  have "k \<le> 0" using floor_log_int [OF assms(1,2)] by (simp add: k_def)
  then have pow: "rat_pow 2 k = 1 / 2 ^ nat (- k)" by (cases "k = 0") (auto simp: rat_pow_def)
  have "(of_int n :: rat) / rat_pow 2 k = of_int (n * 2 ^ nat (- k))" by (simp add: pow)
  then have "round_half_even (of_int n / rat_pow 2 k) = n * 2 ^ nat (- k)" by (metis round_half_even_int)
  then show "of_int (round_half_even (of_int n / rat_pow 2 k)) * rat_pow 2 k = of_int n" by (simp add: pow)
  have "n < 2 ^ 1024" using assms(2) by (rule order_less_trans) simp
  then show "(of_int n :: rat) < 2 ^ 1024" by (metis of_int_less_iff of_int_numeral of_int_power)
qed

lemma fl_of_int:
  assumes "\<bar>n\<bar> < 2 ^ 53" shows "fl (of_int n) = Fin (of_int n)"
proof -
  consider "n = 0" | "0 < n" | "0 < - n" by linarith
  then show ?thesis
  proof cases
    case 1
    then show ?thesis by (simp add: fl_def)
  next
    case 2
    have "\<bar>rat_of_int n\<bar> = of_int n" using 2 by simp
    then show ?thesis using fl_parts_int [of n] 2 assms by (simp add: fl_def Let_def)
  next
    case 3
    have "\<bar>rat_of_int n\<bar> = of_int (- n)" using 3 by simp
    then show ?thesis using fl_parts_int [OF 3] 3 assms unfolding fl_def Let_def by simp
  qed
qed

section \<open>Values\<close>

text \<open>A decimal: sign, coefficient, exponent; or an infinity; or a NaN.\<close>

datatype dec = DFin bool nat int | DInf bool | DNaN

datatype pyval =
    PyNone
  | PyBool bool
  | PyInt int
  | PyFloat pyfloat
  | PyDec dec
  | PyStr string
  | PyDate nat nat nat
  | PyDateTime nat nat nat nat nat nat nat
  | PyBytes string
  | PyList "pyval list"
  | PyDict "(string \<times> pyval) list"

definition dec_value :: "bool \<Rightarrow> nat \<Rightarrow> int \<Rightarrow> rat" where
  "dec_value neg c e = (if neg then - 1 else 1) * of_nat c * rat_pow 10 e"

section \<open>\<open>str\<close> and \<open>repr\<close>\<close>

definition pad_left :: "nat \<Rightarrow> string \<Rightarrow> string" where
  "pad_left n s = replicate (n - length s) CHR ''0'' @ s"

text \<open>
  \<open>repr\<close> of a float: the shortest decimal that rounds back to it, fixed notation for
  exponents from -4 to 15.
\<close>

definition round_sig :: "nat \<Rightarrow> rat \<Rightarrow> nat \<times> int" where
  "round_sig n x = (let e = floor_log 10 x - int n + 1 in (nat (round_half_even (x / rat_pow 10 e)), e))"

fun shortest_from :: "nat \<Rightarrow> nat \<Rightarrow> rat \<Rightarrow> nat \<times> int" where
  "shortest_from 0 n x = round_sig n x"
| "shortest_from (Suc fuel) n x =
     (case round_sig n x of (m, e) \<Rightarrow>
        if fl (of_nat m * rat_pow 10 e) = Fin x then (m, e) else shortest_from fuel (Suc n) x)"

definition strip_zeros :: "string \<Rightarrow> string" where
  "strip_zeros = py_rstrip_by (\<lambda>c. c = CHR ''0'')"

definition repr_pos_float :: "rat \<Rightarrow> string" where
  "repr_pos_float x = (let (m, e) = shortest_from 16 1 x; ds = show_nat m;
       decpt = int (length ds) + e; s = strip_zeros ds
     in if decpt \<le> - 4 \<or> 16 < decpt then
          (let ex = decpt - 1 in
            take 1 s @ (if length s = 1 then [] else ''.'' @ drop 1 s) @ ''e'' @
            (if ex < 0 then ''-'' else ''+'') @ pad_left 2 (show_nat (nat \<bar>ex\<bar>)))
        else if decpt \<le> 0 then ''0.'' @ replicate (nat (- decpt)) CHR ''0'' @ s
        else if int (length s) \<le> decpt then s @ replicate (nat decpt - length s) CHR ''0'' @ ''.0''
        else take (nat decpt) s @ ''.'' @ drop (nat decpt) s)"

fun repr_float :: "pyfloat \<Rightarrow> string" where
  "repr_float (Fin x) =
     (if x = 0 then ''0.0'' else if 0 < x then repr_pos_float x else CHR ''-'' # repr_pos_float (- x))"
| "repr_float PosInf = ''inf''"
| "repr_float NegInf = ''-inf''"
| "repr_float NotANumber = ''nan''"

fun str_dec :: "dec \<Rightarrow> string" where
  "str_dec (DFin neg c e) = (let ds = show_nat c; left = e + int (length ds);
       dot = (if e \<le> 0 \<and> - 6 < left then left else 1);
       body = (if dot \<le> 0 then ''0.'' @ replicate (nat (- dot)) CHR ''0'' @ ds
               else if int (length ds) \<le> dot then ds @ replicate (nat dot - length ds) CHR ''0''
               else take (nat dot) ds @ ''.'' @ drop (nat dot) ds);
       ex = (if left = dot then [] else
               ''E'' @ (if left - dot < 0 then ''-'' else ''+'') @ show_nat (nat \<bar>left - dot\<bar>))
     in (if neg then ''-'' else []) @ body @ ex)"
| "str_dec (DInf neg) = (if neg then ''-Infinity'' else ''Infinity'')"
| "str_dec DNaN = ''NaN''"

definition printable :: "char \<Rightarrow> bool" where
  "printable c = (let n = code_of c in 32 \<le> n \<and> n \<le> 126 \<or> 161 \<le> n \<and> n \<noteq> 173)"

definition escape_char :: "char \<Rightarrow> char \<Rightarrow> string" where
  "escape_char q c =
     (if c = q \<or> code_of c = 92 then [char_of (92::nat), c]
      else if code_of c = 10 then [char_of (92::nat), CHR ''n'']
      else if code_of c = 13 then [char_of (92::nat), CHR ''r'']
      else if code_of c = 9 then [char_of (92::nat), CHR ''t'']
      else if printable c then [c]
      else [char_of (92::nat), CHR ''x''] @ hex_digits 2 (code_of c))"

definition quote_char :: "char \<Rightarrow> string \<Rightarrow> char" where
  "quote_char _ s = (if char_of (39::nat) \<in> set s \<and> char_of (34::nat) \<notin> set s
     then char_of (34::nat) else char_of (39::nat))"

definition repr_str :: "string \<Rightarrow> string" where
  "repr_str s = (let q = quote_char CHR '' '' s in [q] @ concat (map (escape_char q) s) @ [q])"

text \<open>\<open>isoformat()\<close> with the separator between date and time.\<close>

definition iso_date :: "nat \<Rightarrow> nat \<Rightarrow> nat \<Rightarrow> string" where
  "iso_date y m d =
     pad_left 4 (show_nat y) @ ''-'' @ pad_left 2 (show_nat m) @ ''-'' @ pad_left 2 (show_nat d)"

definition iso_time :: "nat \<Rightarrow> nat \<Rightarrow> nat \<Rightarrow> nat \<Rightarrow> string" where
  "iso_time h mi s us = pad_left 2 (show_nat h) @ '':'' @ pad_left 2 (show_nat mi) @ '':'' @
     pad_left 2 (show_nat s) @ (if us = 0 then [] else ''.'' @ pad_left 6 (show_nat us))"

definition iso_datetime :: "char \<Rightarrow> nat \<Rightarrow> nat \<Rightarrow> nat \<Rightarrow> nat \<Rightarrow> nat \<Rightarrow> nat \<Rightarrow> nat \<Rightarrow> string" where
  "iso_datetime sep y m d h mi s us = iso_date y m d @ [sep] @ iso_time h mi s us"

fun py_repr :: "pyval \<Rightarrow> string" where
  "py_repr PyNone = ''None''"
| "py_repr (PyBool b) = (if b then ''True'' else ''False'')"
| "py_repr (PyInt i) = show_int i"
| "py_repr (PyFloat f) = repr_float f"
| "py_repr (PyDec d) = ''Decimal('' @ repr_str (str_dec d) @ '')''"
| "py_repr (PyStr s) = repr_str s"
| "py_repr (PyDate y m d) =
     ''datetime.date('' @ py_join '', '' (map show_nat [y, m, d]) @ '')''"
| "py_repr (PyDateTime y m d h mi s us) =
     ''datetime.datetime('' @ py_join '', '' (map show_nat
        ([y, m, d, h, mi] @ (if us \<noteq> 0 then [s, us] else if s \<noteq> 0 then [s] else []))) @ '')''"
| "py_repr (PyBytes b) = CHR ''b'' # repr_str b"
| "py_repr (PyList vs) = ''['' @ py_join '', '' (map py_repr vs) @ '']''"
| "py_repr (PyDict kvs) =
     ''{'' @ py_join '', '' (map (\<lambda>(k, v). repr_str k @ '': '' @ py_repr v) kvs) @ ''}''"

fun py_str :: "pyval \<Rightarrow> string" where
  "py_str (PyStr s) = s"
| "py_str (PyDec d) = str_dec d"
| "py_str (PyDate y m d) = iso_date y m d"
| "py_str (PyDateTime y m d h mi s us) = iso_datetime CHR '' '' y m d h mi s us"
| "py_str v = py_repr v"

section \<open>Reading numbers\<close>

text \<open>
  The conversions that raise: \<open>TypeError\<close>, \<open>ValueError\<close>, \<open>OverflowError\<close> and
  \<open>decimal.InvalidOperation\<close>.
\<close>

datatype conv_error = TypeError | ValueError | OverflowError | InvalidOperation

text \<open>A run of digits in which single underscores may separate digits.\<close>

fun digits_us :: "string \<Rightarrow> string \<times> string" where
  "digits_us [] = ([], [])"
| "digits_us (c # cs) =
     (if is_digit c then (case digits_us cs of (ds, rest) \<Rightarrow> (c # ds, rest))
      else (case cs of
              d # _ \<Rightarrow> if c = CHR ''_'' \<and> is_digit d then
                         (case digits_us cs of (ds, rest) \<Rightarrow> (ds, rest))
                       else ([], c # cs)
            | [] \<Rightarrow> ([], c # cs)))"

definition read_digits :: "string \<Rightarrow> string \<times> string" where
  "read_digits s = (case s of c # _ \<Rightarrow> if is_digit c then digits_us s else ([], s) | [] \<Rightarrow> ([], []))"

definition digits_value :: "string \<Rightarrow> nat" where
  "digits_value ds = foldl (\<lambda>n c. 10 * n + digit_value c) 0 ds"

fun read_sign :: "string \<Rightarrow> bool \<times> string" where
  "read_sign (c # cs) = (if c = CHR ''-'' then (True, cs) else if c = CHR ''+'' then (False, cs) else (False, c # cs))"
| "read_sign [] = (False, [])"

text \<open>\<open>int(text)\<close>.\<close>

definition py_int_of_str :: "string \<Rightarrow> conv_error + int" where
  "py_int_of_str s = (let (neg, t) = read_sign (py_strip s); (ds, rest) = read_digits t
     in if ds = [] \<or> rest \<noteq> [] then Inl ValueError
        else Inr ((if neg then - 1 else 1) * int (digits_value ds)))"

text \<open>
  The unsigned decimal literal of \<open>float(text)\<close> and \<open>Decimal(text)\<close>: coefficient and
  exponent.
\<close>

definition read_exponent :: "string \<Rightarrow> int option" where
  "read_exponent s = (case s of [] \<Rightarrow> Some 0 | c # cs \<Rightarrow>
     if c = CHR ''e'' \<or> c = CHR ''E'' then
       (let (neg, t) = read_sign cs; (ds, rest) = read_digits t
        in if ds = [] \<or> rest \<noteq> [] then None
           else Some ((if neg then - 1 else 1) * int (digits_value ds)))
     else None)"

definition read_literal :: "string \<Rightarrow> (nat \<times> int) option" where
  "read_literal s = (let (ip, r1) = read_digits s;
       (fp, r2) = (case r1 of c # cs \<Rightarrow> if c = CHR ''.'' then read_digits cs else ([], r1) | [] \<Rightarrow> ([], []))
     in if ip = [] \<and> fp = [] then None
        else map_option (\<lambda>e. (digits_value (ip @ fp), e - int (length fp))) (read_exponent r2))"

definition py_float_of_str :: "string \<Rightarrow> conv_error + pyfloat" where
  "py_float_of_str s = (let (neg, t) = read_sign (py_strip s); w = py_lower t
     in if w = ''inf'' \<or> w = ''infinity'' then Inr (if neg then NegInf else PosInf)
        else if w = ''nan'' then Inr NotANumber
        else (case read_literal t of None \<Rightarrow> Inl ValueError
              | Some (c, e) \<Rightarrow> Inr (fl (dec_value neg c e))))"

text \<open>\<open>Decimal(text)\<close>: underscores are removed anywhere.\<close>

definition py_decimal_of_str :: "string \<Rightarrow> conv_error + dec" where
  "py_decimal_of_str s =
     (let (neg, t) = read_sign (filter (\<lambda>c. c \<noteq> CHR ''_'') (py_strip s)); w = py_lower t
      in if w = ''inf'' \<or> w = ''infinity'' then Inr (DInf neg)
         else if take 3 w = ''nan'' \<and> list_all is_digit (drop 3 w) \<or>
                 take 4 w = ''snan'' \<and> list_all is_digit (drop 4 w) then Inr DNaN
         else (case read_literal t of None \<Rightarrow> Inl InvalidOperation
               | Some (c, e) \<Rightarrow> Inr (DFin neg c e)))"

text \<open>\<open>float(value)\<close>. An integer too large for a float raises.\<close>

definition float_of_int :: "int \<Rightarrow> conv_error + pyfloat" where
  "float_of_int i = (case fl (of_int i) of Fin r \<Rightarrow> Inr (Fin r) | _ \<Rightarrow> Inl OverflowError)"

fun py_float :: "pyval \<Rightarrow> conv_error + pyfloat" where
  "py_float (PyBool b) = Inr (Fin (if b then 1 else 0))"
| "py_float (PyInt i) = float_of_int i"
| "py_float (PyFloat f) = Inr f"
| "py_float (PyDec (DFin neg c e)) = Inr (fl (dec_value neg c e))"
| "py_float (PyDec (DInf neg)) = Inr (if neg then NegInf else PosInf)"
| "py_float (PyDec DNaN) = Inr NotANumber"
| "py_float (PyStr s) = py_float_of_str s"
| "py_float (PyBytes s) = py_float_of_str s"
| "py_float _ = Inl TypeError"

text \<open>\<open>float(d)\<close> of a decimal.\<close>

fun dec_to_float :: "dec \<Rightarrow> pyfloat" where
  "dec_to_float (DFin neg c e) = fl (dec_value neg c e)"
| "dec_to_float (DInf neg) = (if neg then NegInf else PosInf)"
| "dec_to_float DNaN = NotANumber"

section \<open>Dictionary keys\<close>

text \<open>
  Numbers are equal across types when their values are (\<open>True == 1 == 1.0 == Decimal(1)\<close>);
  the other types only compare equal to themselves. A value is looked up in a dictionary by
  this normal form. A NaN is only equal to the same object; two NaN keys are kept equal here.
\<close>

datatype pykey = KNum rat | KOther pyval

fun py_key :: "pyval \<Rightarrow> pykey" where
  "py_key (PyBool b) = KNum (if b then 1 else 0)"
| "py_key (PyInt i) = KNum (of_int i)"
| "py_key (PyFloat (Fin r)) = KNum r"
| "py_key (PyFloat PosInf) = KOther (PyDec (DInf False))"
| "py_key (PyFloat NegInf) = KOther (PyDec (DInf True))"
| "py_key (PyDec (DFin neg c e)) = KNum (dec_value neg c e)"
| "py_key v = KOther v"

text \<open>\<open>dict.get(key)\<close> and truth of a value.\<close>

definition dict_get :: "(string \<times> pyval) list \<Rightarrow> string \<Rightarrow> pyval" where
  "dict_get d k = (case map_of d k of None \<Rightarrow> PyNone | Some v \<Rightarrow> v)"

fun py_truthy :: "pyval \<Rightarrow> bool" where
  "py_truthy PyNone = False"
| "py_truthy (PyBool b) = b"
| "py_truthy (PyInt i) = (i \<noteq> 0)"
| "py_truthy (PyFloat f) = (f \<noteq> Fin 0)"
| "py_truthy (PyDec d) = (case d of DFin _ c _ \<Rightarrow> c \<noteq> 0 | _ \<Rightarrow> True)"
| "py_truthy (PyStr s) = (s \<noteq> [])"
| "py_truthy (PyBytes s) = (s \<noteq> [])"
| "py_truthy (PyList vs) = (vs \<noteq> [])"
| "py_truthy (PyDict kvs) = (kvs \<noteq> [])"
| "py_truthy _ = True"

end
