(* ===== verification/Errors.thy ===== *)
theory Errors
  imports PyValues
begin

text \<open>
  The exceptions of the platform (\<open>app/core/exceptions.py\<close>): one constructor per class
  below \<open>AppError\<close>, grouped by the HTTP status of the class, the source adapters'
  exceptions, and the exceptions of Python and SQLAlchemy that the services let through.
  The text and the details of an exception are not represented.
  The constructors \<open>StagingIntegrityViolationError\<close> to
  \<open>ValidationCancelled\<close> are the workers' own exceptions. Each application error has
  a stable code and an HTTP status, which the exception handlers put in the response.
\<close>

section \<open>Application errors\<close>

text \<open>\<open>NotFoundError\<close> and its subclasses (status 404).\<close>

datatype (plugins only: code size) not_found_class =
    NotFoundError
  | UserNotFoundError
  | DataSourceNotFoundError
  | ConnectionNotFoundError
  | ConnectionTypeNotFoundError
  | DatasetNotFoundError
  | JobNotFoundError
  | ProfileRunNotFoundError
  | RuleNotFoundError
  | RuleVersionNotFoundError
  | RuleAssignmentNotFoundError
  | ValidationRunNotFoundError
  | ReviewRunNotFoundError
  | IssueNotFoundError
  | SuggestionNotFoundError
  | ApprovalRequestNotFoundError
  | StagingRunNotFoundError
  | StagingRecordNotFoundError
  | PublishRunNotFoundError
  | LineageEntityNotFoundError
  | AIConversationNotFoundError
  | AISuggestionNotFoundError
  | AIPromptVersionNotFoundError

text \<open>The classes with status 409.\<close>

datatype (plugins only: code size) conflict_class =
    EmailAlreadyExistsError
  | DataSourceNameAlreadyExistsError
  | ConnectionNameAlreadyExistsError
  | DataSourceHasActiveConnectionsError
  | DataSourceNotActiveError
  | DiscoveryAlreadyRunningError
  | JobNotCancellableError
  | ProfilingAlreadyRunningError
  | DatasetNotActiveError
  | DuplicateRuleAssignmentError
  | InvalidRuleReviewTransitionError
  | ValidationAlreadyRunningError
  | SourceValidationRunIncompleteError
  | SuggestionAlreadyDecidedError
  | InvalidReviewStatusTransitionError
  | ReviewRunNotReadyForSubmissionError
  | ApprovalRequestAlreadyPendingError
  | NoResolvedIssuesError
  | IssueNotInApprovalScopeError
  | ApprovalNotApprovedError
  | NoEligibleIssuesError
  | StagingAlreadyInProgressError
  | ReviewRunArchivedError
  | StagingRunNotEligibleError
  | PublishAlreadyInProgressError
  | DriftNotAcknowledgedError
  | TargetAlreadyExistsError
  | NoDriftToAcknowledgeError
  | StagingRunNotMaterializedError

text \<open>The classes with status 422.\<close>

datatype (plugins only: code size) unprocessable_class =
    InvalidKeyColumnConfigurationError
  | FullScanExceedsLimitError
  | SampleSizeExceedsLimitError
  | UnsupportedRuleTypeError
  | InvalidRuleAssignmentScopeError
  | RulePromotionNotSupportedError
  | EmptyFinalValueError
  | StagingRecordCountExceedsLimitError
  | TargetTypeNotSupportedError
  | InvalidTargetPathError
  | InvalidDateRangeError
  | AIDisabledError

text \<open>The remaining classes.\<close>

datatype (plugins only: code size) other_class =
    InvalidCredentialsError
  | AccountLockedError
  | InvalidRefreshTokenError
  | PermissionDeniedError
  | CredentialVaultError
  | AIProviderUnavailableError
  | AIResponseInvalidError
  | PreviewSourceUnavailableError
  | PreviewTimeoutError

primrec not_found_code :: "not_found_class \<Rightarrow> string" where
  "not_found_code NotFoundError = ''NOT_FOUND''"
| "not_found_code UserNotFoundError = ''USER_NOT_FOUND''"
| "not_found_code DataSourceNotFoundError = ''DATA_SOURCE_NOT_FOUND''"
| "not_found_code ConnectionNotFoundError = ''CONNECTION_NOT_FOUND''"
| "not_found_code ConnectionTypeNotFoundError = ''CONNECTION_TYPE_NOT_FOUND''"
| "not_found_code DatasetNotFoundError = ''DATASET_NOT_FOUND''"
| "not_found_code JobNotFoundError = ''JOB_NOT_FOUND''"
| "not_found_code ProfileRunNotFoundError = ''PROFILE_RUN_NOT_FOUND''"
| "not_found_code RuleNotFoundError = ''RULE_NOT_FOUND''"
| "not_found_code RuleVersionNotFoundError = ''RULE_VERSION_NOT_FOUND''"
| "not_found_code RuleAssignmentNotFoundError = ''RULE_ASSIGNMENT_NOT_FOUND''"
| "not_found_code ValidationRunNotFoundError = ''VALIDATION_RUN_NOT_FOUND''"
| "not_found_code ReviewRunNotFoundError = ''REVIEW_RUN_NOT_FOUND''"
| "not_found_code IssueNotFoundError = ''ISSUE_NOT_FOUND''"
| "not_found_code SuggestionNotFoundError = ''SUGGESTION_NOT_FOUND''"
| "not_found_code ApprovalRequestNotFoundError = ''APPROVAL_REQUEST_NOT_FOUND''"
| "not_found_code StagingRunNotFoundError = ''STAGING_RUN_NOT_FOUND''"
| "not_found_code StagingRecordNotFoundError = ''STAGING_RECORD_NOT_FOUND''"
| "not_found_code PublishRunNotFoundError = ''PUBLISH_RUN_NOT_FOUND''"
| "not_found_code LineageEntityNotFoundError = ''LINEAGE_ENTITY_NOT_FOUND''"
| "not_found_code AIConversationNotFoundError = ''AI_CONVERSATION_NOT_FOUND''"
| "not_found_code AISuggestionNotFoundError = ''AI_SUGGESTION_NOT_FOUND''"
| "not_found_code AIPromptVersionNotFoundError = ''AI_PROMPT_VERSION_NOT_FOUND''"

primrec conflict_code :: "conflict_class \<Rightarrow> string" where
  "conflict_code EmailAlreadyExistsError = ''EMAIL_ALREADY_EXISTS''"
| "conflict_code DataSourceNameAlreadyExistsError = ''DATA_SOURCE_NAME_ALREADY_EXISTS''"
| "conflict_code ConnectionNameAlreadyExistsError = ''CONNECTION_NAME_ALREADY_EXISTS''"
| "conflict_code DataSourceHasActiveConnectionsError = ''DATA_SOURCE_HAS_ACTIVE_CONNECTIONS''"
| "conflict_code DataSourceNotActiveError = ''DATA_SOURCE_NOT_ACTIVE''"
| "conflict_code DiscoveryAlreadyRunningError = ''DISCOVERY_ALREADY_RUNNING''"
| "conflict_code JobNotCancellableError = ''JOB_NOT_CANCELLABLE''"
| "conflict_code ProfilingAlreadyRunningError = ''PROFILING_ALREADY_RUNNING''"
| "conflict_code DatasetNotActiveError = ''DATASET_NOT_ACTIVE''"
| "conflict_code DuplicateRuleAssignmentError = ''DUPLICATE_RULE_ASSIGNMENT''"
| "conflict_code InvalidRuleReviewTransitionError = ''INVALID_RULE_REVIEW_TRANSITION''"
| "conflict_code ValidationAlreadyRunningError = ''VALIDATION_ALREADY_RUNNING''"
| "conflict_code SourceValidationRunIncompleteError = ''SOURCE_VALIDATION_RUN_INCOMPLETE''"
| "conflict_code SuggestionAlreadyDecidedError = ''SUGGESTION_ALREADY_DECIDED''"
| "conflict_code InvalidReviewStatusTransitionError = ''INVALID_REVIEW_STATUS_TRANSITION''"
| "conflict_code ReviewRunNotReadyForSubmissionError = ''REVIEW_RUN_NOT_READY_FOR_SUBMISSION''"
| "conflict_code ApprovalRequestAlreadyPendingError = ''APPROVAL_REQUEST_ALREADY_PENDING''"
| "conflict_code NoResolvedIssuesError = ''NO_RESOLVED_ISSUES''"
| "conflict_code IssueNotInApprovalScopeError = ''ISSUE_NOT_IN_APPROVAL_SCOPE''"
| "conflict_code ApprovalNotApprovedError = ''APPROVAL_NOT_APPROVED''"
| "conflict_code NoEligibleIssuesError = ''NO_ELIGIBLE_ISSUES''"
| "conflict_code StagingAlreadyInProgressError = ''STAGING_ALREADY_IN_PROGRESS''"
| "conflict_code ReviewRunArchivedError = ''REVIEW_RUN_ARCHIVED''"
| "conflict_code StagingRunNotEligibleError = ''STAGING_RUN_NOT_ELIGIBLE''"
| "conflict_code PublishAlreadyInProgressError = ''PUBLISH_ALREADY_IN_PROGRESS''"
| "conflict_code DriftNotAcknowledgedError = ''DRIFT_NOT_ACKNOWLEDGED''"
| "conflict_code TargetAlreadyExistsError = ''TARGET_ALREADY_EXISTS''"
| "conflict_code NoDriftToAcknowledgeError = ''NO_DRIFT_TO_ACKNOWLEDGE''"
| "conflict_code StagingRunNotMaterializedError = ''STAGING_RUN_NOT_MATERIALIZED''"

primrec unprocessable_code :: "unprocessable_class \<Rightarrow> string" where
  "unprocessable_code InvalidKeyColumnConfigurationError = ''INVALID_KEY_COLUMN_CONFIGURATION''"
| "unprocessable_code FullScanExceedsLimitError = ''FULL_SCAN_EXCEEDS_LIMIT''"
| "unprocessable_code SampleSizeExceedsLimitError = ''SAMPLE_SIZE_EXCEEDS_LIMIT''"
| "unprocessable_code UnsupportedRuleTypeError = ''VALIDATION_UNSUPPORTED_RULE_TYPE''"
| "unprocessable_code InvalidRuleAssignmentScopeError = ''INVALID_RULE_ASSIGNMENT_SCOPE''"
| "unprocessable_code RulePromotionNotSupportedError = ''RULE_PROMOTION_NOT_SUPPORTED''"
| "unprocessable_code EmptyFinalValueError = ''EMPTY_FINAL_VALUE''"
| "unprocessable_code StagingRecordCountExceedsLimitError = ''STAGING_RECORD_COUNT_EXCEEDS_LIMIT''"
| "unprocessable_code TargetTypeNotSupportedError = ''TARGET_TYPE_NOT_SUPPORTED''"
| "unprocessable_code InvalidTargetPathError = ''INVALID_TARGET_PATH''"
| "unprocessable_code InvalidDateRangeError = ''INVALID_DATE_RANGE''"
| "unprocessable_code AIDisabledError = ''AI_DISABLED''"

primrec other_code :: "other_class \<Rightarrow> string" where
  "other_code InvalidCredentialsError = ''INVALID_CREDENTIALS''"
| "other_code AccountLockedError = ''ACCOUNT_LOCKED''"
| "other_code InvalidRefreshTokenError = ''INVALID_REFRESH_TOKEN''"
| "other_code PermissionDeniedError = ''PERMISSION_DENIED''"
| "other_code CredentialVaultError = ''CREDENTIAL_VAULT_ERROR''"
| "other_code AIProviderUnavailableError = ''AI_PROVIDER_UNAVAILABLE''"
| "other_code AIResponseInvalidError = ''AI_RESPONSE_INVALID''"
| "other_code PreviewSourceUnavailableError = ''PREVIEW_SOURCE_UNAVAILABLE''"
| "other_code PreviewTimeoutError = ''PREVIEW_TIMEOUT''"

primrec other_status :: "other_class \<Rightarrow> nat" where
  "other_status InvalidCredentialsError = 401"
| "other_status AccountLockedError = 403"
| "other_status InvalidRefreshTokenError = 401"
| "other_status PermissionDeniedError = 403"
| "other_status CredentialVaultError = 502"
| "other_status AIProviderUnavailableError = 503"
| "other_status AIResponseInvalidError = 502"
| "other_status PreviewSourceUnavailableError = 502"
| "other_status PreviewTimeoutError = 504"

section \<open>Every exception\<close>

text \<open>\<open>app/source_adapters/exceptions.py\<close>.\<close>

datatype adapter_error =
    SourceAuthenticationError
  | SourceTimeoutError
  | SourceUnreachableError
  | SourceSSLError
  | SourceQueryError
  | SourceDriverNotInstalledError
  | ExactStatsTimeoutError

datatype exn =
    NotFound not_found_class
  | Conflict conflict_class
  | Unprocessable unprocessable_class
  | OtherApp other_class
  | Adapter adapter_error
  | Conv conv_error
  | NotImplementedError
  | KeyError
  | IndexError
  | AttributeError
  | IntegrityError
  | DataError
  | MultipleResultsFound
  | StagingIntegrityViolationError
  | CorrectionCoercionError
  | RowCountMismatchError
  | MaterializationCancelled
  | ValidationCancelled
  | ProgrammingError
  | StatementError
  | OtherException string

text \<open>An operation: its outcome on the state it starts in.\<close>

type_synonym ('s, 'a) op = "'s \<Rightarrow> ('s, exn, 'a) outcome"

text \<open>
  The response of the exception handlers: an application error keeps its status and its
  code, every other exception is an internal error.
\<close>

datatype response = Response (resp_status: nat) (resp_code: string)

fun error_response :: "exn \<Rightarrow> response" where
  "error_response (NotFound e) = Response 404 (not_found_code e)"
| "error_response (Conflict e) = Response 409 (conflict_code e)"
| "error_response (Unprocessable e) = Response 422 (unprocessable_code e)"
| "error_response (OtherApp e) = Response (other_status e) (other_code e)"
| "error_response _ = Response 500 ''INTERNAL_SERVER_ERROR''"

text \<open>What a \<open>Text\<close> column of error messages holds: a literal, or the text of an exception.\<close>

datatype errmsg = Literal string | TextOf exn

end
