(* ===== verification/Store.thy ===== *)
theory Store
  imports Errors
begin

text \<open>
  The database of the platform: one record per table (\<open>app/db/models\<close>), with the
  columns under their names behind a short prefix, and \<open>db\<close>, the tables together. A
  \<open>Text\<close> column whose values a CHECK constraint enumerates is a datatype. Identifiers are
  handed out by a counter (\<open>gen_random_uuid()\<close> only promises a fresh value). Rows are kept
  in insertion order; a query without ORDER BY returns them in that order.
\<close>

type_synonym json = "(string \<times> pyval) list"

section \<open>Users and connections: \<open>identity.py\<close>, \<open>connections.py\<close>\<close>

record user =
  usr_id :: uuid
  usr_email :: string
  usr_username :: "string option"
  usr_full_name :: "string option"
  usr_password_hash :: string
  usr_status :: string
  usr_require_password_reset :: bool
  usr_last_login_at :: "instant option"
  usr_last_password_changed_at :: "instant option"
  usr_created_by :: "uuid option"
  usr_created_at :: instant
  usr_updated_at :: "instant option"

record connection_type =
  ct_id :: uuid
  ct_code :: string
  ct_display_name :: string
  ct_driver_module :: "string option"
  ct_is_active :: bool
  ct_created_at :: instant

record connection =
  conn_id :: uuid
  conn_data_source_id :: uuid
  conn_connection_type_id :: uuid
  conn_name :: string
  conn_environment :: string
  conn_host :: string
  conn_port :: int
  conn_database_name :: "string option"
  conn_service_name :: "string option"
  conn_username :: string
  conn_credential_ref :: string
  conn_config :: json
  conn_status :: string
  conn_last_tested_at :: "instant option"
  conn_last_test_latency_ms :: "int option"
  conn_is_active :: bool
  conn_deactivated_at :: "instant option"
  conn_created_by :: "uuid option"
  conn_created_at :: instant
  conn_updated_at :: "instant option"

section \<open>Catalogue: \<open>metadata.py\<close>\<close>

record schema_row =
  sch_id :: uuid
  sch_connection_id :: uuid
  sch_name :: string
  sch_is_active :: bool
  sch_discovered_at :: instant
  sch_created_at :: instant
  sch_updated_at :: "instant option"

record dataset =
  ds_id :: uuid
  ds_schema_id :: uuid
  ds_name :: string
  ds_object_type :: string
  ds_key_strategy :: string
  ds_row_count_estimate :: "int option"
  ds_column_count :: "int option"
  ds_last_profiled_at :: "instant option"
  ds_last_validated_at :: "instant option"
  ds_last_quality_score :: "rat option"
  ds_is_active :: bool
  ds_discovered_at :: instant
  ds_created_at :: instant
  ds_updated_at :: "instant option"

record column =
  col_id :: uuid
  col_dataset_id :: uuid
  col_name :: string
  col_ordinal_position :: int
  col_native_data_type :: "string option"
  col_normalized_data_type :: string
  col_max_length :: "int option"
  col_numeric_precision :: "int option"
  col_numeric_scale :: "int option"
  col_is_nullable :: bool
  col_is_primary_key :: bool
  col_semantic_category :: "string option"
  col_semantic_category_source :: "string option"
  col_semantic_category_ai_suggestion_id :: "uuid option"
  col_semantic_confidence :: "dec option"
  col_discovered_at :: instant
  col_is_active :: bool
  col_created_at :: instant
  col_updated_at :: "instant option"

record dataset_key_column =
  dkc_dataset_id :: uuid
  dkc_column_id :: uuid
  dkc_ordinal :: int
  dkc_created_at :: instant

section \<open>Profiling: \<open>profiling.py\<close>\<close>

datatype run_status = RUN_CREATED | RUN_QUEUED | RUN_RUNNING | RUN_COMPLETED | RUN_FAILED | RUN_CANCELLED

record profile_run =
  prun_id :: uuid
  prun_dataset_id :: uuid
  prun_job_id :: "uuid option"
  prun_status :: run_status
  prun_sample_size :: "int option"
  prun_row_count :: "int option"
  prun_quality_score :: "rat option"
  prun_null_percentage :: "rat option"
  prun_duplicate_percentage :: "rat option"
  prun_error_message :: "errmsg option"
  prun_triggered_by :: "uuid option"
  prun_started_at :: "instant option"
  prun_completed_at :: "instant option"
  prun_created_at :: instant

record column_profile =
  cp_id :: uuid
  cp_profile_run_id :: uuid
  cp_column_id :: uuid
  cp_null_count :: "int option"
  cp_null_percentage :: "dec option"
  cp_distinct_count :: "int option"
  cp_distinct_percentage :: "dec option"
  cp_duplicate_count :: "int option"
  cp_duplicate_percentage :: "dec option"
  cp_min_value :: "string option"
  cp_max_value :: "string option"
  cp_mean_value :: "dec option"
  cp_median_value :: "dec option"
  cp_mode_value :: "string option"
  cp_min_length :: "int option"
  cp_max_length :: "int option"
  cp_avg_length :: "dec option"
  cp_outlier_count :: "int option"
  cp_pattern_summary :: "json option"
  cp_value_distribution :: "json option"
  cp_created_at :: instant
  cp_stddev_value :: "dec option"
  cp_sum_value :: "dec option"

text \<open>Rows with the defaults of their tables.\<close>

definition plain_column :: "uuid \<Rightarrow> uuid \<Rightarrow> string \<Rightarrow> string \<Rightarrow> int \<Rightarrow> column" where
  "plain_column i dsid name ty ord = \<lparr>col_id = i, col_dataset_id = dsid, col_name = name,
     col_ordinal_position = ord, col_native_data_type = None, col_normalized_data_type = ty,
     col_max_length = None, col_numeric_precision = None, col_numeric_scale = None,
     col_is_nullable = True, col_is_primary_key = False, col_semantic_category = None,
     col_semantic_category_source = None, col_semantic_category_ai_suggestion_id = None,
     col_semantic_confidence = None, col_discovered_at = 0, col_is_active = True,
     col_created_at = 0, col_updated_at = None\<rparr>"

definition plain_profile_run :: "uuid \<Rightarrow> uuid \<Rightarrow> run_status \<Rightarrow> instant \<Rightarrow> profile_run" where
  "plain_profile_run i dsid st now = \<lparr>prun_id = i, prun_dataset_id = dsid, prun_job_id = None,
     prun_status = st, prun_sample_size = None, prun_row_count = None, prun_quality_score = None,
     prun_null_percentage = None, prun_duplicate_percentage = None, prun_error_message = None,
     prun_triggered_by = None, prun_started_at = None, prun_completed_at = None, prun_created_at = now\<rparr>"

definition plain_column_profile :: "uuid \<Rightarrow> uuid \<Rightarrow> uuid \<Rightarrow> instant \<Rightarrow> column_profile" where
  "plain_column_profile i run col now = \<lparr>cp_id = i, cp_profile_run_id = run, cp_column_id = col,
     cp_null_count = None, cp_null_percentage = None, cp_distinct_count = None,
     cp_distinct_percentage = None, cp_duplicate_count = None, cp_duplicate_percentage = None,
     cp_min_value = None, cp_max_value = None, cp_mean_value = None, cp_median_value = None,
     cp_mode_value = None, cp_min_length = None, cp_max_length = None, cp_avg_length = None,
     cp_outlier_count = None, cp_pattern_summary = None, cp_value_distribution = None,
     cp_created_at = now, cp_stddev_value = None, cp_sum_value = None\<rparr>"

section \<open>Rules: \<open>rules.py\<close>\<close>

record rule =
  rule_id :: uuid
  rule_name :: string
  rule_description :: "string option"
  rule_category :: "string option"
  rule_type :: string
  rule_origin :: string
  rule_status :: string
  rule_created_by :: "uuid option"
  rule_created_at :: instant
  rule_updated_at :: "instant option"

record rule_version =
  rv_id :: uuid
  rv_rule_id :: uuid
  rv_version_number :: int
  rv_definition :: json
  rv_severity :: string
  rv_error_message_template :: "string option"
  rv_is_current :: bool
  rv_created_by :: "uuid option"
  rv_created_at :: instant

record validation_template =
  vt_id :: uuid
  vt_dataset_id :: uuid
  vt_name :: string
  vt_description :: "string option"
  vt_last_run_id :: "uuid option"
  vt_last_quality_score :: "rat option"
  vt_created_by :: "uuid option"
  vt_created_at :: instant
  vt_updated_at :: "instant option"

record rule_assignment =
  ra_id :: uuid
  ra_rule_version_id :: uuid
  ra_dataset_id :: uuid
  ra_assignment_scope :: string
  ra_column_id :: "uuid option"
  ra_cross_column_key :: "string option"
  ra_template_id :: "uuid option"
  ra_is_enabled :: bool
  ra_paused_at :: "instant option"
  ra_assigned_by :: "uuid option"
  ra_assigned_at :: instant
  ra_updated_at :: "instant option"

record rule_assignment_column =
  rac_rule_assignment_id :: uuid
  rac_column_id :: uuid
  rac_ordinal :: int

section \<open>Validation: \<open>validation.py\<close>\<close>

record validation_run =
  vr_id :: uuid
  vr_dataset_id :: uuid
  vr_template_id :: "uuid option"
  vr_job_id :: "uuid option"
  vr_status :: run_status
  vr_sample_size :: "int option"
  vr_total_rows :: int
  vr_passed_rows :: int
  vr_warning_rows :: int
  vr_failed_rows :: int
  vr_quality_score :: "rat option"
  vr_rules_evaluated_count :: int
  vr_no_applicable_rules :: bool
  vr_error_message :: "errmsg option"
  vr_triggered_by :: "uuid option"
  vr_started_at :: "instant option"
  vr_completed_at :: "instant option"
  vr_duration_ms :: "int option"
  vr_created_at :: instant
  vr_updated_at :: "instant option"

record validation_result =
  vres_id :: uuid
  vres_validation_run_id :: uuid
  vres_record_ref :: string
  vres_row_index :: int
  vres_status :: string
  vres_failure_count :: int
  vres_source_row_hash :: string
  vres_created_at :: instant

record validation_failure =
  vf_id :: uuid
  vf_validation_result_id :: uuid
  vf_validation_run_id :: uuid
  vf_rule_assignment_id :: uuid
  vf_column_id :: "uuid option"
  vf_severity :: string
  vf_failed_value :: "string option"
  vf_expected_value :: "string option"
  vf_reason :: "string option"
  vf_created_at :: instant

record validation_metric =
  vm_id :: uuid
  vm_validation_run_id :: uuid
  vm_metric_name :: string
  vm_metric_group :: "string option"
  vm_metric_value :: rat
  vm_created_at :: instant

section \<open>Review: \<open>review.py\<close>\<close>

datatype review_status = RR_DRAFT | RR_IN_REVIEW | RR_READY_FOR_APPROVAL | RR_ARCHIVED

record review_run =
  rr_id :: uuid
  rr_validation_run_id :: uuid
  rr_name :: "string option"
  rr_status :: review_status
  rr_created_by :: "uuid option"
  rr_created_at :: instant
  rr_updated_at :: "instant option"
  rr_archived_at :: "instant option"

datatype issue_status = ISS_PENDING | ISS_IN_PROGRESS | ISS_RESOLVED | ISS_SKIPPED

record issue =
  iss_id :: uuid
  iss_review_run_id :: uuid
  iss_validation_failure_id :: uuid
  iss_column_id :: "uuid option"
  iss_record_ref :: string
  iss_row_index :: int
  iss_original_value :: "string option"
  iss_severity :: string
  iss_status :: issue_status
  iss_assigned_reviewer_id :: "uuid option"
  iss_created_at :: instant
  iss_updated_at :: "instant option"

datatype value_source = RULE_BASED | AI | HUMAN

record correction_suggestion =
  sug_id :: uuid
  sug_issue_id :: uuid
  sug_source :: value_source
  sug_ai_suggestion_id :: "uuid option"
  sug_suggested_value :: string
  sug_confidence :: dec
  sug_category :: string
  sug_fix_type :: string
  sug_reasoning :: "string option"
  sug_is_selected :: bool
  sug_selected_by :: "uuid option"
  sug_selected_at :: "instant option"
  sug_created_at :: instant
  sug_strategy :: "string option"
  sug_evidence_detail :: "json option"

datatype correction_status = COR_SUGGESTED | COR_ACCEPTED | COR_EDITED | COR_REJECTED | COR_SKIPPED

record correction =
  cor_id :: uuid
  cor_issue_id :: uuid
  cor_correction_suggestion_id :: "uuid option"
  cor_final_value :: "string option"
  cor_value_source :: "value_source option"
  cor_status :: correction_status
  cor_decided_by :: "uuid option"
  cor_decided_at :: "instant option"
  cor_created_at :: instant
  cor_updated_at :: "instant option"

section \<open>Approval: \<open>approval.py\<close>\<close>

datatype approval_status = AR_PENDING | AR_APPROVED | AR_REJECTED | AR_PARTIALLY_APPROVED

record approval_request =
  ar_id :: uuid
  ar_review_run_id :: uuid
  ar_status :: approval_status
  ar_affected_issue_count :: int
  ar_affected_record_count :: int
  ar_requested_by :: "uuid option"
  ar_requested_at :: instant
  ar_decided_at :: "instant option"
  ar_created_at :: instant
  ar_updated_at :: "instant option"

datatype approval_choice = APPROVE | REJECT

record approval_decision =
  ad_id :: uuid
  ad_approval_request_id :: uuid
  ad_decision :: approval_choice
  ad_comment :: "string option"
  ad_decided_by :: uuid
  ad_decided_at :: instant
  ad_created_at :: instant

record approval_decision_issue =
  adi_approval_decision_id :: uuid
  adi_issue_id :: uuid

section \<open>Staging: \<open>staging.py\<close>\<close>

datatype staging_status = SR_NOT_STARTED | SR_BUILDING | SR_READY | SR_FAILED

datatype materialization_phase =
    PH_QUEUED | PH_PREPARING_SCHEMA | PH_CREATING_TABLE | PH_COPYING_SOURCE
  | PH_APPLYING_CORRECTIONS | PH_VALIDATING | PH_FINALIZING | PH_READY | PH_FAILED | PH_CANCELLED

record staging_run =
  sr_id :: uuid
  sr_review_run_id :: uuid
  sr_dataset_id :: uuid
  sr_job_id :: "uuid option"
  sr_attempt_number :: int
  sr_is_current :: bool
  sr_status :: staging_status
  sr_record_count :: int
  sr_field_count :: int
  sr_has_source_drift :: bool
  sr_error_message :: "errmsg option"
  sr_created_by :: "uuid option"
  sr_started_at :: "instant option"
  sr_completed_at :: "instant option"
  sr_created_at :: instant
  sr_updated_at :: "instant option"
  sr_destination_schema :: "string option"
  sr_destination_table :: "string option"
  sr_source_row_count :: "int option"
  sr_materialized_row_count :: "int option"
  sr_copied_row_count :: int
  sr_materialization_phase :: "materialization_phase option"
  sr_progress_percentage :: "int option"
  sr_materialization_error :: "errmsg option"

text \<open>One entry of the JSON column \<open>corrected_fields\<close>.\<close>

record corrected_field =
  cf_column_name :: "string option"
  cf_original_value :: "string option"
  cf_final_value :: string
  cf_issue_id :: uuid

datatype drift_status = UNCHANGED | VALUE_CHANGED | RECORD_NOT_FOUND

text \<open>
  The keys of \<open>row_snapshot\<close> are column names; a corrected field without a column has the
  key \<open>None\<close>, which the JSON serializer writes as \<open>null\<close>.
\<close>

record staging_record =
  srec_id :: uuid
  srec_staging_run_id :: uuid
  srec_record_ref :: string
  srec_row_snapshot :: "(string option \<times> pyval) list"
  srec_corrected_fields :: "corrected_field list"
  srec_source_row_hash_at_validation :: string
  srec_source_row_hash_at_staging :: "string option"
  srec_source_drift_status :: drift_status
  srec_source_drift_fields :: "string list option"
  srec_created_at :: instant

section \<open>Publishing: \<open>publishing.py\<close>\<close>

datatype publish_status = PUB_PENDING | PUB_PUBLISHING | PUB_PUBLISHED | PUB_FAILED

record publish_run =
  pr_id :: uuid
  pr_staging_run_id :: uuid
  pr_job_id :: "uuid option"
  pr_status :: publish_status
  pr_target_type :: string
  pr_target_reference :: "string option"
  pr_published_record_count :: "int option"
  pr_drift_acknowledged :: bool
  pr_drift_acknowledged_by :: "uuid option"
  pr_drift_acknowledged_at :: "instant option"
  pr_error_message :: "errmsg option"
  pr_published_by :: "uuid option"
  pr_started_at :: "instant option"
  pr_completed_at :: "instant option"
  pr_created_at :: instant
  pr_updated_at :: "instant option"

section \<open>Jobs: \<open>jobs.py\<close>\<close>

datatype job_status = JOB_QUEUED | JOB_RUNNING | JOB_COMPLETED | JOB_FAILED | JOB_CANCELLED

record job =
  job_id :: uuid
  job_type :: string
  job_entity_type :: string
  job_entity_id :: uuid
  job_status :: job_status
  job_progress_percentage :: "int option"
  job_error_message :: "errmsg option"
  job_result :: "json option"
  job_queued_at :: instant
  job_started_at :: "instant option"
  job_completed_at :: "instant option"
  job_created_by :: "uuid option"
  job_created_at :: instant
  job_updated_at :: "instant option"

section \<open>Lineage and audit: \<open>lineage.py\<close>, \<open>audit.py\<close>\<close>

record lineage_record =
  lin_id :: uuid
  lin_parent_entity_type :: string
  lin_parent_entity_id :: uuid
  lin_child_entity_type :: string
  lin_child_entity_id :: uuid
  lin_relationship_type :: string
  lin_created_at :: instant

record audit_event =
  aud_id :: uuid
  aud_actor_id :: "uuid option"
  aud_actor_type :: string
  aud_action :: string
  aud_entity_type :: string
  aud_entity_id :: uuid
  aud_before_value :: "json option"
  aud_after_value :: "json option"
  aud_metadata :: "json option"
  aud_created_at :: instant

section \<open>The database\<close>

text \<open>
  A physical table of the \<open>staging_data\<close> schema: its columns with their types and its rows,
  in the order they were inserted; \<open>staging_tables\<close> maps qualified table names to them. Three things live outside
  PostgreSQL and outlive a rollback. Redis: \<open>cancel_flags\<close> lists the jobs whose cancel flag
  is set, \<open>overwrite_flags\<close> and \<open>top_values_flags\<close> hold the options of publish and profile
  runs. The export directory: \<open>exported_files\<close> maps the path of a file (its components) to its
  text.
\<close>

record staging_table =
  stab_columns :: "(string \<times> string) list"
  stab_rows :: "(string \<times> pyval) list list"

record db =
  db_next :: nat
  users :: "user list"
  connection_types :: "connection_type list"
  connections :: "connection list"
  schemas :: "schema_row list"
  datasets :: "dataset list"
  columns :: "column list"
  dataset_key_columns :: "dataset_key_column list"
  profile_runs :: "profile_run list"
  column_profiles :: "column_profile list"
  rules :: "rule list"
  rule_versions :: "rule_version list"
  validation_templates :: "validation_template list"
  rule_assignments :: "rule_assignment list"
  rule_assignment_columns :: "rule_assignment_column list"
  validation_runs :: "validation_run list"
  validation_results :: "validation_result list"
  validation_failures :: "validation_failure list"
  validation_metrics :: "validation_metric list"
  review_runs :: "review_run list"
  issues :: "issue list"
  correction_suggestions :: "correction_suggestion list"
  corrections :: "correction list"
  approval_requests :: "approval_request list"
  approval_decisions :: "approval_decision list"
  approval_decision_issues :: "approval_decision_issue list"
  staging_runs :: "staging_run list"
  staging_records :: "staging_record list"
  staging_tables :: "(string \<times> staging_table) list"
  publish_runs :: "publish_run list"
  jobs :: "job list"
  lineage_records :: "lineage_record list"
  audit_events :: "audit_event list"
  cancel_flags :: "uuid list"
  overwrite_flags :: "(uuid \<times> bool) list"
  top_values_flags :: "(uuid \<times> bool) list"
  exported_files :: "(string list \<times> string) list"

definition empty_db :: db where
  "empty_db = \<lparr>db_next = 1, users = [], connection_types = [],
     connections = [], schemas = [], datasets = [], columns = [], dataset_key_columns = [],
     profile_runs = [], column_profiles = [], rules = [], rule_versions = [],
     validation_templates = [], rule_assignments = [], rule_assignment_columns = [],
     validation_runs = [], validation_results = [], validation_failures = [],
     validation_metrics = [], review_runs = [], issues = [], correction_suggestions = [],
     corrections = [], approval_requests = [], approval_decisions = [],
     approval_decision_issues = [], staging_runs = [], staging_records = [],
     staging_tables = [], publish_runs = [], jobs = [], lineage_records = [],
     audit_events = [], cancel_flags = [], overwrite_flags = [], top_values_flags = [],
     exported_files = []\<rparr>"

text \<open>\<open>Session.get(Model, id)\<close>.\<close>

abbreviation get_user :: "db \<Rightarrow> uuid \<Rightarrow> user option" where
  "get_user d \<equiv> find_row usr_id (users d)"

abbreviation get_connection_type :: "db \<Rightarrow> uuid \<Rightarrow> connection_type option" where
  "get_connection_type d \<equiv> find_row ct_id (connection_types d)"

abbreviation get_connection :: "db \<Rightarrow> uuid \<Rightarrow> connection option" where
  "get_connection d \<equiv> find_row conn_id (connections d)"

abbreviation get_schema :: "db \<Rightarrow> uuid \<Rightarrow> schema_row option" where
  "get_schema d \<equiv> find_row sch_id (schemas d)"

abbreviation get_dataset :: "db \<Rightarrow> uuid \<Rightarrow> dataset option" where
  "get_dataset d \<equiv> find_row ds_id (datasets d)"

abbreviation get_column :: "db \<Rightarrow> uuid \<Rightarrow> column option" where
  "get_column d \<equiv> find_row col_id (columns d)"

abbreviation get_profile_run :: "db \<Rightarrow> uuid \<Rightarrow> profile_run option" where
  "get_profile_run d \<equiv> find_row prun_id (profile_runs d)"

abbreviation get_validation_template :: "db \<Rightarrow> uuid \<Rightarrow> validation_template option" where
  "get_validation_template d \<equiv> find_row vt_id (validation_templates d)"

abbreviation get_staging_record :: "db \<Rightarrow> uuid \<Rightarrow> staging_record option" where
  "get_staging_record d \<equiv> find_row srec_id (staging_records d)"

abbreviation get_rule :: "db \<Rightarrow> uuid \<Rightarrow> rule option" where
  "get_rule d \<equiv> find_row rule_id (rules d)"

abbreviation get_rule_version :: "db \<Rightarrow> uuid \<Rightarrow> rule_version option" where
  "get_rule_version d \<equiv> find_row rv_id (rule_versions d)"

abbreviation get_rule_assignment :: "db \<Rightarrow> uuid \<Rightarrow> rule_assignment option" where
  "get_rule_assignment d \<equiv> find_row ra_id (rule_assignments d)"

abbreviation get_validation_run :: "db \<Rightarrow> uuid \<Rightarrow> validation_run option" where
  "get_validation_run d \<equiv> find_row vr_id (validation_runs d)"

abbreviation get_validation_result :: "db \<Rightarrow> uuid \<Rightarrow> validation_result option" where
  "get_validation_result d \<equiv> find_row vres_id (validation_results d)"

abbreviation get_validation_failure :: "db \<Rightarrow> uuid \<Rightarrow> validation_failure option" where
  "get_validation_failure d \<equiv> find_row vf_id (validation_failures d)"

abbreviation get_review_run :: "db \<Rightarrow> uuid \<Rightarrow> review_run option" where
  "get_review_run d \<equiv> find_row rr_id (review_runs d)"

abbreviation get_issue :: "db \<Rightarrow> uuid \<Rightarrow> issue option" where
  "get_issue d \<equiv> find_row iss_id (issues d)"

abbreviation get_suggestion :: "db \<Rightarrow> uuid \<Rightarrow> correction_suggestion option" where
  "get_suggestion d \<equiv> find_row sug_id (correction_suggestions d)"

abbreviation get_approval_request :: "db \<Rightarrow> uuid \<Rightarrow> approval_request option" where
  "get_approval_request d \<equiv> find_row ar_id (approval_requests d)"

abbreviation get_staging_run :: "db \<Rightarrow> uuid \<Rightarrow> staging_run option" where
  "get_staging_run d \<equiv> find_row sr_id (staging_runs d)"

abbreviation get_publish_run :: "db \<Rightarrow> uuid \<Rightarrow> publish_run option" where
  "get_publish_run d \<equiv> find_row pr_id (publish_runs d)"

abbreviation get_job :: "db \<Rightarrow> uuid \<Rightarrow> job option" where
  "get_job d \<equiv> find_row job_id (jobs d)"

text \<open>The tables that the services write, as instances of the table interface.\<close>

interpretation issue_table: keyed_table iss_id "find_row iss_id" "upd_row iss_id"
  by (rule keyed_table_find_row)

interpretation review_run_table: keyed_table rr_id "find_row rr_id" "upd_row rr_id"
  by (rule keyed_table_find_row)

interpretation correction_table: keyed_table cor_id "find_row cor_id" "upd_row cor_id"
  by (rule keyed_table_find_row)

interpretation suggestion_table: keyed_table sug_id "find_row sug_id" "upd_row sug_id"
  by (rule keyed_table_find_row)

interpretation request_table: keyed_table ar_id "find_row ar_id" "upd_row ar_id"
  by (rule keyed_table_find_row)

interpretation staging_run_table: keyed_table sr_id "find_row sr_id" "upd_row sr_id"
  by (rule keyed_table_find_row)

interpretation publish_run_table: keyed_table pr_id "find_row pr_id" "upd_row pr_id"
  by (rule keyed_table_find_row)

interpretation validation_run_table: keyed_table vr_id "find_row vr_id" "upd_row vr_id"
  by (rule keyed_table_find_row)

interpretation dataset_table: keyed_table ds_id "find_row ds_id" "upd_row ds_id"
  by (rule keyed_table_find_row)

interpretation rule_table: keyed_table rule_id "find_row rule_id" "upd_row rule_id"
  by (rule keyed_table_find_row)

interpretation assignment_table: keyed_table ra_id "find_row ra_id" "upd_row ra_id"
  by (rule keyed_table_find_row)

interpretation job_table: keyed_table job_id "find_row job_id" "upd_row job_id"
  by (rule keyed_table_find_row)

end
