(* ===== verification/AuditLineage.thy ===== *)
theory AuditLineage
  imports Store
begin

text \<open>
  The two logs every service writes: audit events (\<open>app/modules/audit/service.py\<close>) and
  lineage edges (\<open>app/modules/lineage/service.py\<close>). An audit event is appended; a lineage
  edge is inserted unless the unique constraint on its five columns already holds a row for
  it. The locale \<open>edge_log\<close> states what a writer of edges promises; its interpretation on
  \<open>record_edge\<close> gives the facts the services use.
\<close>

section \<open>Audit events\<close>

definition audit_record ::
  "uuid option \<Rightarrow> string \<Rightarrow> string \<Rightarrow> string \<Rightarrow> uuid \<Rightarrow> json option \<Rightarrow> json option \<Rightarrow> json option \<Rightarrow>
   instant \<Rightarrow> db \<Rightarrow> db" where
  "audit_record actor actor_type action etype eid before_v after_v meta now d =
     d\<lparr>audit_events := audit_events d @
         [\<lparr>aud_id = db_next d, aud_actor_id = actor, aud_actor_type = actor_type,
           aud_action = action, aud_entity_type = etype, aud_entity_id = eid,
           aud_before_value = before_v, aud_after_value = after_v, aud_metadata = meta,
           aud_created_at = now\<rparr>],
       db_next := Suc (db_next d)\<rparr>"

text \<open>The call most services make: an actor, an action, an entity and metadata.\<close>

definition audit_by :: "uuid \<Rightarrow> string \<Rightarrow> string \<Rightarrow> uuid \<Rightarrow> json option \<Rightarrow> instant \<Rightarrow> db \<Rightarrow> db" where
  "audit_by actor action etype eid meta now d =
     audit_record (Some actor) ''USER'' action etype eid None None meta now d"

section \<open>Lineage edges\<close>

type_synonym edge = "string \<times> uuid \<times> string \<times> uuid \<times> string"

definition edge_of :: "lineage_record \<Rightarrow> edge" where
  "edge_of r = (lin_parent_entity_type r, lin_parent_entity_id r,
     lin_child_entity_type r, lin_child_entity_id r, lin_relationship_type r)"

definition edges_of :: "db \<Rightarrow> edge list" where
  "edges_of d = map edge_of (lineage_records d)"

definition record_edge :: "instant \<Rightarrow> edge \<Rightarrow> db \<Rightarrow> db" where
  "record_edge now e d = (if e \<in> set (edges_of d) then d else
     (case e of (pt, pid, ct, cid, rel) \<Rightarrow>
       d\<lparr>lineage_records := lineage_records d @
           [\<lparr>lin_id = db_next d, lin_parent_entity_type = pt, lin_parent_entity_id = pid,
             lin_child_entity_type = ct, lin_child_entity_id = cid,
             lin_relationship_type = rel, lin_created_at = now\<rparr>],
         db_next := Suc (db_next d)\<rparr>))"

text \<open>One statement for a list of edges; the constraint applies to each of its rows in turn.\<close>

definition record_edges_bulk :: "instant \<Rightarrow> edge list \<Rightarrow> db \<Rightarrow> db" where
  "record_edges_bulk now es d = (if es = [] then d else fold (record_edge now) es d)"

definition get_upstream :: "string \<Rightarrow> uuid \<Rightarrow> db \<Rightarrow> lineage_record list" where
  "get_upstream t i d =
     filter (\<lambda>r. lin_child_entity_type r = t \<and> lin_child_entity_id r = i) (lineage_records d)"

definition get_downstream :: "string \<Rightarrow> uuid \<Rightarrow> db \<Rightarrow> lineage_record list" where
  "get_downstream t i d =
     filter (\<lambda>r. lin_parent_entity_type r = t \<and> lin_parent_entity_id r = i) (lineage_records d)"

definition get_both :: "string \<Rightarrow> uuid \<Rightarrow> db \<Rightarrow> lineage_record list" where
  "get_both t i d =
     filter (\<lambda>r. lin_child_entity_type r = t \<and> lin_child_entity_id r = i \<or>
                 lin_parent_entity_type r = t \<and> lin_parent_entity_id r = i) (lineage_records d)"

definition get_edges_for_direction ::
  "string \<Rightarrow> uuid \<Rightarrow> string \<Rightarrow> db \<Rightarrow> exn + lineage_record list" where
  "get_edges_for_direction t i direction d =
     (let both = get_both t i d in
      if both = [] then Inl (NotFound LineageEntityNotFoundError)
      else if direction = ''up'' then Inr (get_upstream t i d)
      else if direction = ''down'' then Inr (get_downstream t i d)
      else Inr both)"

section \<open>What a writer of edges promises\<close>

locale edge_log =
  fixes add :: "'e \<Rightarrow> 's \<Rightarrow> 's" and edges :: "'s \<Rightarrow> 'e list"
  assumes edges_add: "edges (add e s) = (if e \<in> set (edges s) then edges s else edges s @ [e])"
    and add_known: "e \<in> set (edges s) \<Longrightarrow> add e s = s"
begin

lemma add_twice: "add e (add e s) = add e s"
  by (rule add_known) (simp add: edges_add)

lemma set_edges_fold: "set (edges (fold add es s)) = set (edges s) \<union> set es"
  by (induction es arbitrary: s) (auto simp: edges_add)

lemma distinct_edges_fold: "distinct (edges s) \<Longrightarrow> distinct (edges (fold add es s))"
  by (induction es arbitrary: s) (auto simp: edges_add)

lemma fold_known: "set es \<subseteq> set (edges s) \<Longrightarrow> fold add es s = s"
  by (induction es) (auto simp: add_known)

lemma fold_twice: "fold add es (fold add es s) = fold add es s"
  by (rule fold_known) (simp add: set_edges_fold)

lemma edges_grow: "\<exists>new. edges (fold add es s) = edges s @ new"
proof (induction es arbitrary: s)
  case (Cons e es)
  then obtain new where "edges (fold add es (add e s)) = edges (add e s) @ new" by blast
  then show ?case by (auto simp: edges_add)
qed simp

end

interpretation lineage: edge_log "record_edge now" edges_of for now
proof unfold_locales
  show "edges_of (record_edge now e s) = (if e \<in> set (edges_of s) then edges_of s else edges_of s @ [e])"
    for e s
    by (cases e) (auto simp: record_edge_def edges_of_def edge_of_def)
  show "record_edge now e s = s" if "e \<in> set (edges_of s)" for e s
    using that by (simp add: record_edge_def)
qed

lemma record_edges_bulk_fold: "record_edges_bulk now es d = fold (record_edge now) es d"
  by (simp add: record_edges_bulk_def)

section \<open>What the logs leave unchanged\<close>

text \<open>Both logs write one table of their own and the key counter; every other table is kept.\<close>

lemma audit_record_frame [simp]:
  "users (audit_record a ty ac et ei b af m now d) = users d"
  "connection_types (audit_record a ty ac et ei b af m now d) = connection_types d"
  "connections (audit_record a ty ac et ei b af m now d) = connections d"
  "schemas (audit_record a ty ac et ei b af m now d) = schemas d"
  "overwrite_flags (audit_record a ty ac et ei b af m now d) = overwrite_flags d"
  "top_values_flags (audit_record a ty ac et ei b af m now d) = top_values_flags d"
  "exported_files (audit_record a ty ac et ei b af m now d) = exported_files d"
  "datasets (audit_record a ty ac et ei b af m now d) = datasets d"
  "columns (audit_record a ty ac et ei b af m now d) = columns d"
  "dataset_key_columns (audit_record a ty ac et ei b af m now d) = dataset_key_columns d"
  "profile_runs (audit_record a ty ac et ei b af m now d) = profile_runs d"
  "column_profiles (audit_record a ty ac et ei b af m now d) = column_profiles d"
  "rules (audit_record a ty ac et ei b af m now d) = rules d"
  "rule_versions (audit_record a ty ac et ei b af m now d) = rule_versions d"
  "validation_templates (audit_record a ty ac et ei b af m now d) = validation_templates d"
  "rule_assignments (audit_record a ty ac et ei b af m now d) = rule_assignments d"
  "rule_assignment_columns (audit_record a ty ac et ei b af m now d) = rule_assignment_columns d"
  "validation_runs (audit_record a ty ac et ei b af m now d) = validation_runs d"
  "validation_results (audit_record a ty ac et ei b af m now d) = validation_results d"
  "validation_failures (audit_record a ty ac et ei b af m now d) = validation_failures d"
  "validation_metrics (audit_record a ty ac et ei b af m now d) = validation_metrics d"
  "review_runs (audit_record a ty ac et ei b af m now d) = review_runs d"
  "issues (audit_record a ty ac et ei b af m now d) = issues d"
  "correction_suggestions (audit_record a ty ac et ei b af m now d) = correction_suggestions d"
  "corrections (audit_record a ty ac et ei b af m now d) = corrections d"
  "approval_requests (audit_record a ty ac et ei b af m now d) = approval_requests d"
  "approval_decisions (audit_record a ty ac et ei b af m now d) = approval_decisions d"
  "approval_decision_issues (audit_record a ty ac et ei b af m now d) = approval_decision_issues d"
  "staging_runs (audit_record a ty ac et ei b af m now d) = staging_runs d"
  "staging_records (audit_record a ty ac et ei b af m now d) = staging_records d"
  "staging_tables (audit_record a ty ac et ei b af m now d) = staging_tables d"
  "publish_runs (audit_record a ty ac et ei b af m now d) = publish_runs d"
  "jobs (audit_record a ty ac et ei b af m now d) = jobs d"
  "cancel_flags (audit_record a ty ac et ei b af m now d) = cancel_flags d"
  "lineage_records (audit_record a ty ac et ei b af m now d) = lineage_records d"
  "edges_of (audit_record a ty ac et ei b af m now d) = edges_of d"
  by (simp_all add: audit_record_def edges_of_def)

lemma audit_by_frame [simp]:
  "users (audit_by a ac et ei m now d) = users d"
  "connection_types (audit_by a ac et ei m now d) = connection_types d"
  "connections (audit_by a ac et ei m now d) = connections d"
  "schemas (audit_by a ac et ei m now d) = schemas d"
  "overwrite_flags (audit_by a ac et ei m now d) = overwrite_flags d"
  "top_values_flags (audit_by a ac et ei m now d) = top_values_flags d"
  "exported_files (audit_by a ac et ei m now d) = exported_files d"
  "datasets (audit_by a ac et ei m now d) = datasets d"
  "columns (audit_by a ac et ei m now d) = columns d"
  "dataset_key_columns (audit_by a ac et ei m now d) = dataset_key_columns d"
  "profile_runs (audit_by a ac et ei m now d) = profile_runs d"
  "column_profiles (audit_by a ac et ei m now d) = column_profiles d"
  "rules (audit_by a ac et ei m now d) = rules d"
  "rule_versions (audit_by a ac et ei m now d) = rule_versions d"
  "validation_templates (audit_by a ac et ei m now d) = validation_templates d"
  "rule_assignments (audit_by a ac et ei m now d) = rule_assignments d"
  "rule_assignment_columns (audit_by a ac et ei m now d) = rule_assignment_columns d"
  "validation_runs (audit_by a ac et ei m now d) = validation_runs d"
  "validation_results (audit_by a ac et ei m now d) = validation_results d"
  "validation_failures (audit_by a ac et ei m now d) = validation_failures d"
  "validation_metrics (audit_by a ac et ei m now d) = validation_metrics d"
  "review_runs (audit_by a ac et ei m now d) = review_runs d"
  "issues (audit_by a ac et ei m now d) = issues d"
  "correction_suggestions (audit_by a ac et ei m now d) = correction_suggestions d"
  "corrections (audit_by a ac et ei m now d) = corrections d"
  "approval_requests (audit_by a ac et ei m now d) = approval_requests d"
  "approval_decisions (audit_by a ac et ei m now d) = approval_decisions d"
  "approval_decision_issues (audit_by a ac et ei m now d) = approval_decision_issues d"
  "staging_runs (audit_by a ac et ei m now d) = staging_runs d"
  "staging_records (audit_by a ac et ei m now d) = staging_records d"
  "staging_tables (audit_by a ac et ei m now d) = staging_tables d"
  "publish_runs (audit_by a ac et ei m now d) = publish_runs d"
  "jobs (audit_by a ac et ei m now d) = jobs d"
  "cancel_flags (audit_by a ac et ei m now d) = cancel_flags d"
  "lineage_records (audit_by a ac et ei m now d) = lineage_records d"
  "edges_of (audit_by a ac et ei m now d) = edges_of d"
  by (simp_all add: audit_by_def)

lemma record_edge_frame [simp]:
  "users (record_edge now e d) = users d"
  "connection_types (record_edge now e d) = connection_types d"
  "connections (record_edge now e d) = connections d"
  "schemas (record_edge now e d) = schemas d"
  "overwrite_flags (record_edge now e d) = overwrite_flags d"
  "top_values_flags (record_edge now e d) = top_values_flags d"
  "exported_files (record_edge now e d) = exported_files d"
  "datasets (record_edge now e d) = datasets d"
  "columns (record_edge now e d) = columns d"
  "dataset_key_columns (record_edge now e d) = dataset_key_columns d"
  "profile_runs (record_edge now e d) = profile_runs d"
  "column_profiles (record_edge now e d) = column_profiles d"
  "rules (record_edge now e d) = rules d"
  "rule_versions (record_edge now e d) = rule_versions d"
  "validation_templates (record_edge now e d) = validation_templates d"
  "rule_assignments (record_edge now e d) = rule_assignments d"
  "rule_assignment_columns (record_edge now e d) = rule_assignment_columns d"
  "validation_runs (record_edge now e d) = validation_runs d"
  "validation_results (record_edge now e d) = validation_results d"
  "validation_failures (record_edge now e d) = validation_failures d"
  "validation_metrics (record_edge now e d) = validation_metrics d"
  "review_runs (record_edge now e d) = review_runs d"
  "issues (record_edge now e d) = issues d"
  "correction_suggestions (record_edge now e d) = correction_suggestions d"
  "corrections (record_edge now e d) = corrections d"
  "approval_requests (record_edge now e d) = approval_requests d"
  "approval_decisions (record_edge now e d) = approval_decisions d"
  "approval_decision_issues (record_edge now e d) = approval_decision_issues d"
  "staging_runs (record_edge now e d) = staging_runs d"
  "staging_records (record_edge now e d) = staging_records d"
  "staging_tables (record_edge now e d) = staging_tables d"
  "publish_runs (record_edge now e d) = publish_runs d"
  "jobs (record_edge now e d) = jobs d"
  "cancel_flags (record_edge now e d) = cancel_flags d"
  "audit_events (record_edge now e d) = audit_events d"
  by (simp_all add: record_edge_def split: prod.split)

lemma fold_frame: "(\<And>x s. f (g x s) = f s) \<Longrightarrow> f (fold g xs s) = f s"
  by (induction xs arbitrary: s) auto

lemma record_edges_bulk_frame [simp]:
  "users (record_edges_bulk now es d) = users d"
  "connection_types (record_edges_bulk now es d) = connection_types d"
  "connections (record_edges_bulk now es d) = connections d"
  "schemas (record_edges_bulk now es d) = schemas d"
  "overwrite_flags (record_edges_bulk now es d) = overwrite_flags d"
  "top_values_flags (record_edges_bulk now es d) = top_values_flags d"
  "exported_files (record_edges_bulk now es d) = exported_files d"
  "datasets (record_edges_bulk now es d) = datasets d"
  "columns (record_edges_bulk now es d) = columns d"
  "dataset_key_columns (record_edges_bulk now es d) = dataset_key_columns d"
  "profile_runs (record_edges_bulk now es d) = profile_runs d"
  "column_profiles (record_edges_bulk now es d) = column_profiles d"
  "rules (record_edges_bulk now es d) = rules d"
  "rule_versions (record_edges_bulk now es d) = rule_versions d"
  "validation_templates (record_edges_bulk now es d) = validation_templates d"
  "rule_assignments (record_edges_bulk now es d) = rule_assignments d"
  "rule_assignment_columns (record_edges_bulk now es d) = rule_assignment_columns d"
  "validation_runs (record_edges_bulk now es d) = validation_runs d"
  "validation_results (record_edges_bulk now es d) = validation_results d"
  "validation_failures (record_edges_bulk now es d) = validation_failures d"
  "validation_metrics (record_edges_bulk now es d) = validation_metrics d"
  "review_runs (record_edges_bulk now es d) = review_runs d"
  "issues (record_edges_bulk now es d) = issues d"
  "correction_suggestions (record_edges_bulk now es d) = correction_suggestions d"
  "corrections (record_edges_bulk now es d) = corrections d"
  "approval_requests (record_edges_bulk now es d) = approval_requests d"
  "approval_decisions (record_edges_bulk now es d) = approval_decisions d"
  "approval_decision_issues (record_edges_bulk now es d) = approval_decision_issues d"
  "staging_runs (record_edges_bulk now es d) = staging_runs d"
  "staging_records (record_edges_bulk now es d) = staging_records d"
  "staging_tables (record_edges_bulk now es d) = staging_tables d"
  "publish_runs (record_edges_bulk now es d) = publish_runs d"
  "jobs (record_edges_bulk now es d) = jobs d"
  "cancel_flags (record_edges_bulk now es d) = cancel_flags d"
  "audit_events (record_edges_bulk now es d) = audit_events d"
  by (simp_all add: record_edges_bulk_fold fold_frame)

lemma audit_next [simp]:
  "db_next (audit_record a ty ac et ei b af m now d) = Suc (db_next d)"
  "db_next (audit_by u ac et ei m now d) = Suc (db_next d)"
  by (simp_all add: audit_record_def audit_by_def)

lemma record_edge_next: "db_next d \<le> db_next (record_edge now e d)"
  by (simp add: record_edge_def split: prod.split)

lemma record_edges_bulk_next: "db_next d \<le> db_next (record_edges_bulk now es d)"
proof -
  have "db_next d \<le> db_next (fold (record_edge now) es d)"
    by (induction es arbitrary: d) (auto intro: order_trans [OF record_edge_next])
  then show ?thesis by (simp add: record_edges_bulk_fold)
qed

lemma edges_next: "db_next d \<le> db_next (record_edges_bulk now es (record_edge now e d))"
  by (rule order_trans [OF record_edge_next record_edges_bulk_next])

end
