(* ===== verification/Review.thy ===== *)
theory Review
  imports AuditLineage
begin

text \<open>
  Review runs: \<open>app/modules/review/state_machine.py\<close> and \<open>app/modules/review/service.py\<close>.
  A review run is created from a completed validation run with one issue per failure, and
  moves between its four statuses; archiving is refused while an approval request is open.
\<close>

section \<open>Transitions\<close>

definition ARCHIVE_ALLOWED_FROM :: "review_status list" where
  "ARCHIVE_ALLOWED_FROM = [RR_DRAFT, RR_IN_REVIEW, RR_READY_FOR_APPROVAL]"

definition RESTORE_ALLOWED_FROM :: "review_status list" where
  "RESTORE_ALLOWED_FROM = [RR_ARCHIVED]"

definition validate_archive_transition :: "review_status \<Rightarrow> exn option" where
  "validate_archive_transition st =
     raise_if (st \<notin> set ARCHIVE_ALLOWED_FROM) (Conflict InvalidReviewStatusTransitionError)"

definition validate_restore_transition :: "review_status \<Rightarrow> exn option" where
  "validate_restore_transition st =
     raise_if (st \<notin> set RESTORE_ALLOWED_FROM) (Conflict InvalidReviewStatusTransitionError)"

section \<open>Queries\<close>

definition review_get :: "uuid \<Rightarrow> db \<Rightarrow> exn + review_run" where
  "review_get i d = or_raise (NotFound ReviewRunNotFoundError) (get_review_run d i)"

definition list_review_runs :: "uuid option \<Rightarrow> review_status option \<Rightarrow> db \<Rightarrow> review_run list" where
  "list_review_runs vrun st d = sort_key (\<lambda>rr. - rr_created_at rr)
     (filter (\<lambda>rr. (case vrun of None \<Rightarrow> True | Some v \<Rightarrow> rr_validation_run_id rr = v) \<and>
                   (case st of None \<Rightarrow> True | Some s \<Rightarrow> rr_status rr = s)) (review_runs d))"

definition list_issues :: "uuid \<Rightarrow> issue_status option \<Rightarrow> db \<Rightarrow> exn + issue list" where
  "list_issues i st d = (case review_get i d of Inl e \<Rightarrow> Inl e | Inr _ \<Rightarrow>
     Inr (sort_key iss_row_index
       (filter (\<lambda>x. iss_review_run_id x = i \<and> (case st of None \<Rightarrow> True | Some s \<Rightarrow> iss_status x = s))
         (issues d))))"

section \<open>Creation\<close>

text \<open>The failures of a validation run joined with the result row each belongs to.\<close>

definition failures_with_results :: "uuid \<Rightarrow> db \<Rightarrow> (validation_failure \<times> validation_result) list" where
  "failures_with_results vrun d =
     [(vf, vres). vf \<leftarrow> validation_failures d, vf_validation_run_id vf = vrun,
                  vres \<leftarrow> validation_results d, vres_id vres = vf_validation_result_id vf]"

definition new_issue :: "instant \<Rightarrow> uuid \<Rightarrow> nat \<times> validation_failure \<times> validation_result \<Rightarrow> issue" where
  "new_issue now run = (\<lambda>(k, vf, vres).
     \<lparr>iss_id = k, iss_review_run_id = run, iss_validation_failure_id = vf_id vf,
      iss_column_id = vf_column_id vf, iss_record_ref = vres_record_ref vres,
      iss_row_index = vres_row_index vres, iss_original_value = vf_failed_value vf,
      iss_severity = vf_severity vf, iss_status = ISS_PENDING, iss_assigned_reviewer_id = None,
      iss_created_at = now, iss_updated_at = None\<rparr>)"

definition add_issues :: "instant \<Rightarrow> uuid \<Rightarrow> (validation_failure \<times> validation_result) list \<Rightarrow> db \<Rightarrow> db" where
  "add_issues now run rows d =
     d\<lparr>issues := issues d @ map (new_issue now run) (enumerate (db_next d) rows),
       db_next := db_next d + length rows\<rparr>"

definition add_review_run :: "instant \<Rightarrow> uuid \<Rightarrow> string option \<Rightarrow> uuid \<Rightarrow> db \<Rightarrow> db" where
  "add_review_run now vrun name actor d =
     d\<lparr>review_runs := review_runs d @
         [\<lparr>rr_id = db_next d, rr_validation_run_id = vrun, rr_name = name, rr_status = RR_DRAFT,
           rr_created_by = Some actor, rr_created_at = now, rr_updated_at = None, rr_archived_at = None\<rparr>],
       db_next := Suc (db_next d)\<rparr>"

definition create_from_validation_run ::
  "uuid \<Rightarrow> string option \<Rightarrow> uuid \<Rightarrow> instant \<Rightarrow> (db, uuid) op" where
  "create_from_validation_run vrun name actor now d =
     attempt d (or_raise (NotFound ValidationRunNotFoundError) (get_validation_run d vrun)) (\<lambda>vr.
     checked d (raise_if (vr_status vr \<noteq> RUN_COMPLETED) (Conflict SourceValidationRunIncompleteError))
       (let run = db_next d;
            d1 = add_review_run now (vr_id vr) name actor d;
            rows = failures_with_results (vr_id vr) d1;
            ids = map fst (enumerate (db_next d1) rows);
            d2 = add_issues now run rows d1;
            d3 = record_edge now (''VALIDATION_RUN'', vr_id vr, ''REVIEW_RUN'', run, ''DERIVED_FROM'') d2;
            d4 = record_edges_bulk now
                   (map (\<lambda>i. (''REVIEW_RUN'', run, ''ISSUE'', i, ''DERIVED_FROM'')) ids) d3;
            d5 = audit_by actor ''review_run.created'' ''REVIEW_RUN'' run
                   (Some [(''validation_run_id'', PyStr (uuid_str (vr_id vr))),
                          (''issue_count'', PyInt (int (length rows)))]) now d4
        in returns d5 run))"

section \<open>Archiving and restoring\<close>

text \<open>\<open>_OPEN_APPROVAL_STATUSES\<close> of the approval service, and the same pair in the archive guard.\<close>

definition open_approval :: "approval_status \<Rightarrow> bool" where
  "open_approval st = (st \<in> {AR_PENDING, AR_PARTIALLY_APPROVED})"

definition open_requests :: "uuid \<Rightarrow> db \<Rightarrow> approval_request list" where
  "open_requests run d =
     filter (\<lambda>a. ar_review_run_id a = run \<and> open_approval (ar_status a)) (approval_requests d)"

definition set_review_status :: "uuid \<Rightarrow> review_status \<Rightarrow> instant option \<Rightarrow> instant \<Rightarrow> db \<Rightarrow> db" where
  "set_review_status run st archived now d =
     d\<lparr>review_runs := upd_row rr_id run
         (\<lambda>r. r\<lparr>rr_status := st, rr_archived_at := archived, rr_updated_at := Some now\<rparr>) (review_runs d)\<rparr>"

definition archive :: "uuid \<Rightarrow> uuid \<Rightarrow> instant \<Rightarrow> (db, uuid) op" where
  "archive run actor now d =
     attempt d (review_get run d) (\<lambda>rr.
     checked d (validate_archive_transition (rr_status rr)) (
     attempt d (at_most_one MultipleResultsFound (open_requests (rr_id rr) d)) (\<lambda>blocking.
     checked d (raise_if (blocking \<noteq> None) (Conflict InvalidReviewStatusTransitionError))
       (let d1 = set_review_status run RR_ARCHIVED (Some now) now d
        in returns (audit_by actor ''review_run.archived'' ''REVIEW_RUN'' run None now d1) run))))"

definition restore :: "uuid \<Rightarrow> uuid \<Rightarrow> instant \<Rightarrow> (db, uuid) op" where
  "restore run actor now d =
     attempt d (review_get run d) (\<lambda>rr.
     checked d (validate_restore_transition (rr_status rr))
       (let d1 = set_review_status run RR_IN_REVIEW None now d
        in returns (audit_by actor ''review_run.restored'' ''REVIEW_RUN'' run None now d1) run))"

lemmas review_op_defs [op_defs] =
  create_from_validation_run_def archive_def restore_def add_issues_def add_review_run_def
  set_review_status_def

section \<open>Effect of the transitions\<close>

lemma get_review_run_set_status:
  "get_review_run (set_review_status run st arch now d) i =
     (if run = i then map_option (\<lambda>r. r\<lparr>rr_status := st, rr_archived_at := arch, rr_updated_at := Some now\<rparr>)
        (get_review_run d i) else get_review_run d i)"
  by (simp add: set_review_status_def review_run_table.get_upd)

lemma archive_succeeds_iff:
  "succeeds (archive run actor now d) \<longleftrightarrow>
     (\<exists>rr. get_review_run d run = Some rr \<and> rr_status rr \<noteq> RR_ARCHIVED \<and> open_requests run d = [])"
proof -
  have "st \<in> set ARCHIVE_ALLOWED_FROM \<longleftrightarrow> st \<noteq> RR_ARCHIVED" for st
    by (cases st) (auto simp: ARCHIVE_ALLOWED_FROM_def)
  then show ?thesis
    by (auto simp: archive_def review_get_def succeeds_attempt succeeds_checked Let_def
        validate_archive_transition_def dest: review_run_table.get_SomeD)
qed

lemma restore_succeeds_iff:
  "succeeds (restore run actor now d) \<longleftrightarrow>
     (\<exists>rr. get_review_run d run = Some rr \<and> rr_status rr = RR_ARCHIVED)"
  by (auto simp: restore_def review_get_def succeeds_attempt succeeds_checked Let_def
      validate_restore_transition_def RESTORE_ALLOWED_FROM_def)

end
