(* ===== verification/Sample.thy ===== *)
theory Sample
  imports Review
begin

text \<open>
  A small database at which the properties are exercised: a dataset with one column, a rule
  assigned to it, a completed validation run with two failing rows, and a review run with
  one issue per failure; the first issue has a suggestion.
\<close>

definition sample_dataset :: dataset where
  "sample_dataset = \<lparr>ds_id = 1, ds_schema_id = 100, ds_name = ''t'', ds_object_type = ''TABLE'',
     ds_key_strategy = ''SINGLE_COLUMN'', ds_row_count_estimate = None, ds_column_count = Some 2,
     ds_last_profiled_at = None, ds_last_validated_at = None, ds_last_quality_score = None,
     ds_is_active = True, ds_discovered_at = 0, ds_created_at = 0, ds_updated_at = None\<rparr>"

definition sample_column :: "uuid \<Rightarrow> string \<Rightarrow> string \<Rightarrow> int \<Rightarrow> column" where
  "sample_column i name ty ord = plain_column i 1 name ty ord"

definition sample_rule :: rule where
  "sample_rule = \<lparr>rule_id = 3, rule_name = ''r'', rule_description = None, rule_category = None,
     rule_type = ''COMPLETENESS'', rule_origin = ''CUSTOM'', rule_status = ''ACTIVE'',
     rule_created_by = None, rule_created_at = 0, rule_updated_at = None\<rparr>"

definition sample_rule_version :: rule_version where
  "sample_rule_version = \<lparr>rv_id = 4, rv_rule_id = 3, rv_version_number = 1, rv_definition = [],
     rv_severity = ''HIGH'', rv_error_message_template = None, rv_is_current = True,
     rv_created_by = None, rv_created_at = 0\<rparr>"

definition sample_assignment :: rule_assignment where
  "sample_assignment = \<lparr>ra_id = 5, ra_rule_version_id = 4, ra_dataset_id = 1,
     ra_assignment_scope = ''SINGLE_COLUMN'', ra_column_id = Some 2, ra_cross_column_key = None,
     ra_template_id = None, ra_is_enabled = True, ra_paused_at = None, ra_assigned_by = None,
     ra_assigned_at = 0, ra_updated_at = None\<rparr>"

definition sample_validation_run :: validation_run where
  "sample_validation_run = \<lparr>vr_id = 6, vr_dataset_id = 1, vr_template_id = None, vr_job_id = None,
     vr_status = RUN_COMPLETED, vr_sample_size = None, vr_total_rows = 2, vr_passed_rows = 0,
     vr_warning_rows = 0, vr_failed_rows = 2, vr_quality_score = Some 0, vr_rules_evaluated_count = 1,
     vr_no_applicable_rules = False, vr_error_message = None, vr_triggered_by = None,
     vr_started_at = None, vr_completed_at = None, vr_duration_ms = None, vr_created_at = 0,
     vr_updated_at = None\<rparr>"

definition sample_result :: "uuid \<Rightarrow> string \<Rightarrow> int \<Rightarrow> validation_result" where
  "sample_result i ref row = \<lparr>vres_id = i, vres_validation_run_id = 6, vres_record_ref = ref,
     vres_row_index = row, vres_status = ''FAILED'', vres_failure_count = 1,
     vres_source_row_hash = ''h'', vres_created_at = 0\<rparr>"

definition sample_failure :: "uuid \<Rightarrow> uuid \<Rightarrow> validation_failure" where
  "sample_failure i res = \<lparr>vf_id = i, vf_validation_result_id = res, vf_validation_run_id = 6,
     vf_rule_assignment_id = 5, vf_column_id = Some 2, vf_severity = ''HIGH'',
     vf_failed_value = None, vf_expected_value = None, vf_reason = None, vf_created_at = 0\<rparr>"

definition sample_review_run :: "uuid \<Rightarrow> review_status \<Rightarrow> review_run" where
  "sample_review_run i st = \<lparr>rr_id = i, rr_validation_run_id = 6, rr_name = None, rr_status = st,
     rr_created_by = None, rr_created_at = 0, rr_updated_at = None, rr_archived_at = None\<rparr>"

definition sample_issue :: "uuid \<Rightarrow> uuid \<Rightarrow> uuid \<Rightarrow> string \<Rightarrow> issue_status \<Rightarrow> issue" where
  "sample_issue i run vf ref st = \<lparr>iss_id = i, iss_review_run_id = run,
     iss_validation_failure_id = vf, iss_column_id = Some 2, iss_record_ref = ref,
     iss_row_index = 0, iss_original_value = None, iss_severity = ''HIGH'', iss_status = st,
     iss_assigned_reviewer_id = None, iss_created_at = 0, iss_updated_at = None\<rparr>"

definition sample_suggestion :: "uuid \<Rightarrow> uuid \<Rightarrow> string \<Rightarrow> correction_suggestion" where
  "sample_suggestion i iss v = \<lparr>sug_id = i, sug_issue_id = iss, sug_source = RULE_BASED,
     sug_ai_suggestion_id = None, sug_suggested_value = v, sug_confidence = DFin False 5 (- 1),
     sug_category = ''DETERMINISTIC'', sug_fix_type = ''mode_fill'', sug_reasoning = None,
     sug_is_selected = False, sug_selected_by = None, sug_selected_at = None, sug_created_at = 0,
     sug_strategy = None, sug_evidence_detail = None\<rparr>"

definition sample_correction :: "uuid \<Rightarrow> uuid \<Rightarrow> string option \<Rightarrow> correction_status \<Rightarrow> correction" where
  "sample_correction i iss v st = \<lparr>cor_id = i, cor_issue_id = iss, cor_correction_suggestion_id = None,
     cor_final_value = v, cor_value_source = None, cor_status = st, cor_decided_by = None,
     cor_decided_at = None, cor_created_at = 0, cor_updated_at = None\<rparr>"

text \<open>The review run has the given status; nothing has been decided.\<close>

definition sample_db :: "review_status \<Rightarrow> db" where
  "sample_db st = empty_db\<lparr>db_next := 40, datasets := [sample_dataset],
     columns := [sample_column 2 ''c'' ''STRING'' 1],
     rules := [sample_rule], rule_versions := [sample_rule_version],
     rule_assignments := [sample_assignment], validation_runs := [sample_validation_run],
     validation_results := [sample_result 7 ''A'' 0, sample_result 8 ''B'' 1],
     validation_failures := [sample_failure 9 7, sample_failure 10 8],
     review_runs := [sample_review_run 12 st, sample_review_run 17 RR_IN_REVIEW],
     issues := [sample_issue 13 12 9 ''A'' ISS_PENDING, sample_issue 14 12 10 ''B'' ISS_PENDING],
     correction_suggestions := [sample_suggestion 16 13 ''x'']\<rparr>"

text \<open>The first issue resolved with the value \<open>x\<close>, the second one rejected.\<close>

definition decided_db :: "review_status \<Rightarrow> db" where
  "decided_db st = (sample_db st)\<lparr>
     issues := [sample_issue 13 12 9 ''A'' ISS_RESOLVED, sample_issue 14 12 10 ''B'' ISS_RESOLVED],
     corrections := [sample_correction 18 13 (Some ''x'') COR_ACCEPTED,
                     sample_correction 19 14 None COR_REJECTED]\<rparr>"

lemmas sample_row_defs = sample_dataset_def sample_column_def plain_column_def sample_rule_def sample_rule_version_def
  sample_assignment_def sample_validation_run_def sample_result_def sample_failure_def
  sample_review_run_def sample_issue_def sample_suggestion_def sample_correction_def

lemmas sample_defs = sample_row_defs sample_db_def decided_db_def empty_db_def

end
