(* ===== verification/Decisions.thy ===== *)
theory Decisions
  imports Sample
begin

text \<open>
  Correction decisions: \<open>app/modules/review/decision_service.py\<close>, the only code that writes
  the final value and the status of a correction. A reviewer accepts, edits or rejects a
  suggestion, skips an issue, corrects it directly, or skips and rejects issues in bulk.
\<close>

section \<open>Checks\<close>

definition TERMINAL_STATUSES :: "correction_status list" where
  "TERMINAL_STATUSES = [COR_REJECTED, COR_SKIPPED]"

definition is_blank :: "string option \<Rightarrow> bool" where
  "is_blank v = (case v of None \<Rightarrow> True | Some s \<Rightarrow> py_strip s = [])"

definition suggestion_by_id :: "uuid \<Rightarrow> db \<Rightarrow> exn + correction_suggestion" where
  "suggestion_by_id i d = or_raise (NotFound SuggestionNotFoundError) (get_suggestion d i)"

definition issue_by_id :: "uuid \<Rightarrow> db \<Rightarrow> exn + issue" where
  "issue_by_id i d = or_raise (NotFound IssueNotFoundError) (get_issue d i)"

definition corrections_of :: "uuid \<Rightarrow> db \<Rightarrow> correction list" where
  "corrections_of i d = filter (\<lambda>c. cor_issue_id c = i) (corrections d)"

definition existing_correction :: "uuid \<Rightarrow> db \<Rightarrow> exn + correction option" where
  "existing_correction i d = at_most_one MultipleResultsFound (corrections_of i d)"

definition check_not_terminal :: "correction option \<Rightarrow> exn option" where
  "check_not_terminal c = (case c of None \<Rightarrow> None
     | Some c \<Rightarrow> raise_if (cor_status c \<in> set TERMINAL_STATUSES) (Conflict SuggestionAlreadyDecidedError))"

definition check_review_run_not_ready_for_approval :: "uuid \<Rightarrow> db \<Rightarrow> exn option" where
  "check_review_run_not_ready_for_approval run d = (case get_review_run d run of None \<Rightarrow> None
     | Some rr \<Rightarrow> raise_if (rr_status rr = RR_READY_FOR_APPROVAL) (Conflict InvalidReviewStatusTransitionError))"

text \<open>A row that is missing on the way from an issue to its rule is an \<open>AttributeError\<close>.\<close>

definition resolve_rule_type :: "issue \<Rightarrow> db \<Rightarrow> exn + string" where
  "resolve_rule_type iss d =
     (case get_validation_failure d (iss_validation_failure_id iss) of None \<Rightarrow> Inl AttributeError | Some vf \<Rightarrow>
      (case get_rule_assignment d (vf_rule_assignment_id vf) of None \<Rightarrow> Inl AttributeError | Some ra \<Rightarrow>
       (case get_rule_version d (ra_rule_version_id ra) of None \<Rightarrow> Inl AttributeError | Some rv \<Rightarrow>
        (case get_rule d (rv_rule_id rv) of None \<Rightarrow> Inl AttributeError | Some r \<Rightarrow> Inr (rule_type r)))))"

definition decision_metadata :: "issue \<Rightarrow> string \<Rightarrow> db \<Rightarrow> exn + json" where
  "decision_metadata iss decision d = (case resolve_rule_type iss d of Inl e \<Rightarrow> Inl e | Inr rt \<Rightarrow>
     Inr [(''issue_id'', PyStr (uuid_str (iss_id iss))),
          (''column_id'', (case iss_column_id iss of None \<Rightarrow> PyNone | Some c \<Rightarrow> PyStr (uuid_str c))),
          (''rule_type'', PyStr rt),
          (''decision'', PyStr decision)])"

section \<open>Writes\<close>

text \<open>The values a decision gives a correction, and the correction it creates.\<close>

record verdict =
  v_suggestion :: "uuid option"
  v_final_value :: "string option"
  v_source :: "value_source option"
  v_status :: correction_status

definition new_correction :: "nat \<Rightarrow> uuid \<Rightarrow> verdict \<Rightarrow> uuid \<Rightarrow> instant \<Rightarrow> correction" where
  "new_correction k iss v actor now =
     \<lparr>cor_id = k, cor_issue_id = iss, cor_correction_suggestion_id = v_suggestion v,
      cor_final_value = v_final_value v, cor_value_source = v_source v, cor_status = v_status v,
      cor_decided_by = Some actor, cor_decided_at = Some now, cor_created_at = now,
      cor_updated_at = None\<rparr>"

definition redecide :: "verdict \<Rightarrow> uuid \<Rightarrow> instant \<Rightarrow> correction \<Rightarrow> correction" where
  "redecide v actor now c = c\<lparr>cor_correction_suggestion_id := v_suggestion v,
     cor_final_value := v_final_value v, cor_value_source := v_source v, cor_status := v_status v,
     cor_decided_by := Some actor, cor_decided_at := Some now, cor_updated_at := Some now\<rparr>"

definition upsert_correction :: "issue \<Rightarrow> verdict \<Rightarrow> uuid \<Rightarrow> instant \<Rightarrow> db \<Rightarrow> exn + (db \<times> uuid)" where
  "upsert_correction iss v actor now d =
     (case existing_correction (iss_id iss) d of
        Inl e \<Rightarrow> Inl e
      | Inr None \<Rightarrow>
          (let k = db_next d;
               d1 = d\<lparr>corrections := corrections d @ [new_correction k (iss_id iss) v actor now],
                      db_next := Suc k\<rparr>
           in Inr (record_edge now (''ISSUE'', iss_id iss, ''CORRECTION'', k, ''CORRECTED_BY'') d1, k))
      | Inr (Some c) \<Rightarrow>
          Inr (d\<lparr>corrections := upd_row cor_id (cor_id c) (redecide v actor now) (corrections d)\<rparr>, cor_id c))"

definition clear_other_selections :: "uuid \<Rightarrow> uuid \<Rightarrow> db \<Rightarrow> db" where
  "clear_other_selections iss keep d =
     d\<lparr>correction_suggestions := map (\<lambda>s. if sug_issue_id s = iss \<and> sug_id s \<noteq> keep
         then s\<lparr>sug_is_selected := False\<rparr> else s) (correction_suggestions d)\<rparr>"

definition select_suggestion :: "uuid \<Rightarrow> uuid \<Rightarrow> instant \<Rightarrow> db \<Rightarrow> db" where
  "select_suggestion sug actor now d =
     d\<lparr>correction_suggestions := upd_row sug_id sug (\<lambda>s. s\<lparr>sug_is_selected := True,
         sug_selected_by := Some actor, sug_selected_at := Some now\<rparr>) (correction_suggestions d)\<rparr>"

definition set_issue_status :: "uuid \<Rightarrow> issue_status \<Rightarrow> instant \<Rightarrow> db \<Rightarrow> db" where
  "set_issue_status iss st now d =
     d\<lparr>issues := upd_row iss_id iss (\<lambda>i. i\<lparr>iss_status := st, iss_updated_at := Some now\<rparr>) (issues d)\<rparr>"

section \<open>Operations\<close>

definition accept :: "uuid \<Rightarrow> uuid \<Rightarrow> instant \<Rightarrow> (db, uuid) op" where
  "accept sid actor now d =
     attempt d (suggestion_by_id sid d) (\<lambda>s.
     attempt d (issue_by_id (sug_issue_id s) d) (\<lambda>iss.
     checked d (check_review_run_not_ready_for_approval (iss_review_run_id iss) d) (
     attempt d (existing_correction (iss_id iss) d) (\<lambda>c0.
     checked d (check_not_terminal c0) (
     checked d (raise_if (is_blank (Some (sug_suggested_value s))) (Unprocessable EmptyFinalValueError)) (
     attempt d (upsert_correction iss \<lparr>v_suggestion = Some (sug_id s),
         v_final_value = Some (sug_suggested_value s), v_source = Some (sug_source s),
         v_status = COR_ACCEPTED\<rparr> actor now d) (\<lambda>(d1, c).
     let d2 = clear_other_selections (iss_id iss) (sug_id s) d1;
         d3 = select_suggestion (sug_id s) actor now d2;
         d4 = set_issue_status (iss_id iss) ISS_RESOLVED now d3
     in attempt d (decision_metadata iss ''ACCEPTED'' d4) (\<lambda>m.
        returns (audit_by actor ''issue.accepted'' ''ISSUE'' (iss_id iss) (Some m) now d4) c))))))))"

definition edit :: "uuid \<Rightarrow> string \<Rightarrow> uuid \<Rightarrow> instant \<Rightarrow> (db, uuid) op" where
  "edit sid final_value actor now d =
     attempt d (suggestion_by_id sid d) (\<lambda>s.
     attempt d (issue_by_id (sug_issue_id s) d) (\<lambda>iss.
     checked d (check_review_run_not_ready_for_approval (iss_review_run_id iss) d) (
     attempt d (existing_correction (iss_id iss) d) (\<lambda>c0.
     checked d (check_not_terminal c0) (
     checked d (raise_if (is_blank (Some final_value)) (Unprocessable EmptyFinalValueError)) (
     attempt d (upsert_correction iss \<lparr>v_suggestion = Some (sug_id s), v_final_value = Some final_value,
         v_source = Some HUMAN, v_status = COR_EDITED\<rparr> actor now d) (\<lambda>(d1, c).
     let d2 = clear_other_selections (iss_id iss) (sug_id s) d1;
         d3 = select_suggestion (sug_id s) actor now d2;
         d4 = set_issue_status (iss_id iss) ISS_RESOLVED now d3
     in attempt d (decision_metadata iss ''EDITED'' d4) (\<lambda>m.
        returns (audit_by actor ''issue.edited'' ''ISSUE'' (iss_id iss) (Some m) now d4) c))))))))"

definition reject :: "uuid \<Rightarrow> string option \<Rightarrow> uuid \<Rightarrow> instant \<Rightarrow> (db, uuid) op" where
  "reject sid reason actor now d =
     attempt d (suggestion_by_id sid d) (\<lambda>s.
     attempt d (issue_by_id (sug_issue_id s) d) (\<lambda>iss.
     checked d (check_review_run_not_ready_for_approval (iss_review_run_id iss) d) (
     attempt d (existing_correction (iss_id iss) d) (\<lambda>c0.
     checked d (check_not_terminal c0) (
     attempt d (upsert_correction iss \<lparr>v_suggestion = Some (sug_id s), v_final_value = None,
         v_source = Some (sug_source s), v_status = COR_REJECTED\<rparr> actor now d) (\<lambda>(d1, c).
     let d2 = set_issue_status (iss_id iss) ISS_RESOLVED now d1
     in attempt d (decision_metadata iss ''REJECTED'' d2) (\<lambda>m.
        let m' = (case reason of None \<Rightarrow> m | Some r \<Rightarrow>
                   if r = [] then m else dict_set ''reason'' (PyStr r) m)
        in returns (audit_by actor ''issue.rejected'' ''ISSUE'' (iss_id iss) (Some m') now d2) c)))))))"

definition skip :: "uuid \<Rightarrow> uuid \<Rightarrow> instant \<Rightarrow> (db, uuid) op" where
  "skip iid actor now d =
     attempt d (issue_by_id iid d) (\<lambda>iss.
     checked d (check_review_run_not_ready_for_approval (iss_review_run_id iss) d) (
     attempt d (existing_correction (iss_id iss) d) (\<lambda>c0.
     checked d (check_not_terminal c0) (
     attempt d (upsert_correction iss \<lparr>v_suggestion = None, v_final_value = None, v_source = None,
         v_status = COR_SKIPPED\<rparr> actor now d) (\<lambda>(d1, c).
     let d2 = set_issue_status (iss_id iss) ISS_SKIPPED now d1
     in attempt d (decision_metadata iss ''SKIPPED'' d2) (\<lambda>m.
        returns (audit_by actor ''issue.skipped'' ''ISSUE'' (iss_id iss) (Some m) now d2) c))))))"

definition correct_directly :: "uuid \<Rightarrow> string \<Rightarrow> uuid \<Rightarrow> instant \<Rightarrow> (db, uuid) op" where
  "correct_directly iid final_value actor now d =
     attempt d (issue_by_id iid d) (\<lambda>iss.
     checked d (check_review_run_not_ready_for_approval (iss_review_run_id iss) d) (
     attempt d (existing_correction (iss_id iss) d) (\<lambda>c0.
     checked d (check_not_terminal c0) (
     checked d (raise_if (is_blank (Some final_value)) (Unprocessable EmptyFinalValueError)) (
     attempt d (upsert_correction iss \<lparr>v_suggestion = None, v_final_value = Some final_value,
         v_source = Some HUMAN, v_status = COR_EDITED\<rparr> actor now d) (\<lambda>(d1, c).
     let d2 = set_issue_status (iss_id iss) ISS_RESOLVED now d1
     in attempt d (decision_metadata iss ''CORRECTED_DIRECTLY'' d2) (\<lambda>m.
        returns (audit_by actor ''issue.corrected_directly'' ''ISSUE'' (iss_id iss) (Some m) now d2) c)))))))"

text \<open>
  In bulk: every issue is checked before the first one is changed. The action is the literal
  \<open>skip\<close> or \<open>reject\<close> (the request schema).
\<close>

fun bulk_issues :: "uuid list \<Rightarrow> db \<Rightarrow> exn + issue list" where
  "bulk_issues [] d = Inr []"
| "bulk_issues (i # is) d =
     (case issue_by_id i d of Inl e \<Rightarrow> Inl e | Inr iss \<Rightarrow>
      (case existing_correction (iss_id iss) d of Inl e \<Rightarrow> Inl e | Inr c0 \<Rightarrow>
       (case check_not_terminal c0 of Some e \<Rightarrow> Inl e | None \<Rightarrow>
        (case bulk_issues is d of Inl e \<Rightarrow> Inl e | Inr rest \<Rightarrow> Inr (iss # rest)))))"

definition bulk_verdict :: "string \<Rightarrow> verdict" where
  "bulk_verdict action = \<lparr>v_suggestion = None, v_final_value = None, v_source = None,
     v_status = (if action = ''skip'' then COR_SKIPPED else COR_REJECTED)\<rparr>"

fun bulk_apply :: "string \<Rightarrow> uuid \<Rightarrow> instant \<Rightarrow> issue list \<Rightarrow> db \<Rightarrow> exn + db" where
  "bulk_apply action actor now [] d = Inr d"
| "bulk_apply action actor now (iss # rest) d =
     (case upsert_correction iss (bulk_verdict action) actor now d of Inl e \<Rightarrow> Inl e
      | Inr (d1, c) \<Rightarrow> bulk_apply action actor now rest
          (set_issue_status (iss_id iss) (if action = ''skip'' then ISS_SKIPPED else ISS_RESOLVED) now d1))"

definition bulk_action :: "uuid \<Rightarrow> uuid list \<Rightarrow> string \<Rightarrow> uuid \<Rightarrow> instant \<Rightarrow> (db, nat) op" where
  "bulk_action run iids action actor now d =
     attempt d (review_get run d) (\<lambda>rr.
     checked d (raise_if (rr_status rr = RR_READY_FOR_APPROVAL) (Conflict InvalidReviewStatusTransitionError)) (
     attempt d (bulk_issues iids d) (\<lambda>iss.
     attempt d (bulk_apply action actor now iss d) (\<lambda>d1.
     returns (audit_by actor ''issue.bulk_action'' ''REVIEW_RUN'' (rr_id rr)
       (Some [(''action'', PyStr action), (''issue_count'', PyInt (int (length iss)))]) now d1)
       (length iss)))))"

lemmas decision_op_defs [op_defs] =
  accept_def edit_def reject_def skip_def correct_directly_def bulk_action_def

section \<open>The invariant of the decisions\<close>

text \<open>
  A correction that counts as resolved has a value that is not blank, a rejected or skipped
  one has none; an issue has at most one correction, and its status tells which kind; at
  most one suggestion of an issue is selected.
\<close>

definition resolving :: "correction_status \<Rightarrow> bool" where
  "resolving st \<longleftrightarrow> st = COR_ACCEPTED \<or> st = COR_EDITED"

definition value_ok :: "correction_status \<Rightarrow> string option \<Rightarrow> bool" where
  "value_ok st v \<longleftrightarrow> st \<noteq> COR_SUGGESTED \<and> (if resolving st then \<not> is_blank v else v = None)"

definition issue_status_for :: "correction_status \<Rightarrow> issue_status" where
  "issue_status_for st = (if st = COR_SKIPPED then ISS_SKIPPED else ISS_RESOLVED)"

definition keys_wf :: "db \<Rightarrow> bool" where
  "keys_wf d \<longleftrightarrow> keys_ok cor_id (db_next d) (corrections d) \<and> keys_ok iss_id (db_next d) (issues d) \<and>
     keys_ok sug_id (db_next d) (correction_suggestions d)"

definition corrections_wf :: "db \<Rightarrow> bool" where
  "corrections_wf d \<longleftrightarrow> distinct (map cor_issue_id (corrections d)) \<and>
     (\<forall>c \<in> set (corrections d). value_ok (cor_status c) (cor_final_value c) \<and>
        (\<exists>i \<in> set (issues d). iss_id i = cor_issue_id c \<and> iss_status i = issue_status_for (cor_status c)))"

definition selections_wf :: "db \<Rightarrow> bool" where
  "selections_wf d \<longleftrightarrow> (\<forall>s \<in> set (correction_suggestions d). \<forall>t \<in> set (correction_suggestions d).
     sug_is_selected s \<longrightarrow> sug_is_selected t \<longrightarrow> sug_issue_id s = sug_issue_id t \<longrightarrow> sug_id s = sug_id t)"

definition decisions_inv :: "db \<Rightarrow> bool" where
  "decisions_inv d \<longleftrightarrow> keys_wf d \<and> corrections_wf d \<and> selections_wf d"

section \<open>What one verdict does\<close>

definition verdict_of :: "correction \<Rightarrow> verdict" where
  "verdict_of c = \<lparr>v_suggestion = cor_correction_suggestion_id c, v_final_value = cor_final_value c,
     v_source = cor_value_source c, v_status = cor_status c\<rparr>"

text \<open>The abstract content of the table: the verdict each issue carries.\<close>

definition verdicts :: "db \<Rightarrow> uuid \<Rightarrow> verdict option" where
  "verdicts d i = map_option verdict_of (find_row cor_issue_id (corrections d) i)"

lemma verdict_of_simps [simp]:
  "verdict_of (new_correction k i v a now) = v" "verdict_of (redecide v a now c) = v"
  by (simp_all add: verdict_of_def new_correction_def redecide_def)

lemma verdict_of_fields [simp]:
  "v_status (verdict_of c) = cor_status c" "v_final_value (verdict_of c) = cor_final_value c"
  by (simp_all add: verdict_of_def)

lemma redecide_keys [simp]:
  "cor_id (redecide v a now c) = cor_id c" "cor_issue_id (redecide v a now c) = cor_issue_id c"
  "cor_status (redecide v a now c) = v_status v" "cor_final_value (redecide v a now c) = v_final_value v"
  by (simp_all add: redecide_def)

lemma new_correction_keys [simp]:
  "cor_id (new_correction k i v a now) = k" "cor_issue_id (new_correction k i v a now) = i"
  "cor_status (new_correction k i v a now) = v_status v"
  "cor_final_value (new_correction k i v a now) = v_final_value v"
  by (simp_all add: new_correction_def)

text \<open>With one correction per issue, the query for the correction of an issue finds it or nothing.\<close>

lemma existing_correction_find:
  "distinct (map cor_issue_id (corrections d)) \<Longrightarrow>
   existing_correction i d = Inr (find_row cor_issue_id (corrections d) i)"
  by (simp add: existing_correction_def corrections_of_def at_most_one_unique)

text \<open>Writing a verdict, as one of two updates of the table.\<close>

lemma upsert_cases:
  assumes "upsert_correction iss v actor now d = Inr (d1, k)"
    and "distinct (map cor_issue_id (corrections d))"
  obtains (insert) "find_row cor_issue_id (corrections d) (iss_id iss) = None" "k = db_next d"
      "corrections d1 = corrections d @ [new_correction k (iss_id iss) v actor now]"
      "db_next d < db_next d1"
  | (update) c where "find_row cor_issue_id (corrections d) (iss_id iss) = Some c" "k = cor_id c"
      "corrections d1 = upd_row cor_id k (redecide v actor now) (corrections d)"
      "db_next d1 = db_next d"
proof (cases "find_row cor_issue_id (corrections d) (iss_id iss)")
  case None
  let ?d = "d\<lparr>corrections := corrections d @ [new_correction (db_next d) (iss_id iss) v actor now],
    db_next := Suc (db_next d)\<rparr>"
  have "d1 = record_edge now (''ISSUE'', iss_id iss, ''CORRECTION'', db_next d, ''CORRECTED_BY'') ?d"
    and k: "k = db_next d"
    using assms None by (auto simp: upsert_correction_def existing_correction_find Let_def)
  moreover from this have "db_next ?d \<le> db_next d1" by (simp only: record_edge_next)
  ultimately show ?thesis using None k by (intro insert) auto
next
  case (Some c)
  then have "d1 = d\<lparr>corrections := upd_row cor_id (cor_id c) (redecide v actor now) (corrections d)\<rparr>"
    and "k = cor_id c"
    using assms by (auto simp: upsert_correction_def existing_correction_find)
  with Some show ?thesis by (intro update) auto
qed

lemma upsert_frame:
  assumes "upsert_correction iss v actor now d = Inr (d1, k)"
  shows "issues d1 = issues d" "correction_suggestions d1 = correction_suggestions d"
    "review_runs d1 = review_runs d" "approval_requests d1 = approval_requests d"
    "approval_decisions d1 = approval_decisions d"
    "approval_decision_issues d1 = approval_decision_issues d"
    "staging_runs d1 = staging_runs d" "staging_records d1 = staging_records d"
    "publish_runs d1 = publish_runs d" "jobs d1 = jobs d"
    "validation_failures d1 = validation_failures d" "rule_assignments d1 = rule_assignments d"
    "rule_versions d1 = rule_versions d" "rules d1 = rules d" "audit_events d1 = audit_events d"
  using assms by (auto simp: upsert_correction_def Let_def split: sum.splits option.splits)

interpretation by_issue: keyed_table cor_issue_id "find_row cor_issue_id" "upd_row cor_issue_id"
  by (rule keyed_table_find_row)

text \<open>Both updates of the table are updates of the row of the issue.\<close>

lemma update_by_issue:
  assumes "keys_ok cor_id n cs" "distinct (map cor_issue_id cs)" "find_row cor_issue_id cs i = Some c"
  shows "upd_row cor_id (cor_id c) f cs = upd_row cor_issue_id i f cs"
proof (rule upd_row_cong)
  fix r assume r: "r \<in> set cs"
  have c: "c \<in> set cs" "cor_issue_id c = i" using assms(3) by (auto dest: by_issue.get_SomeD)
  show "cor_id r = cor_id c \<longleftrightarrow> cor_issue_id r = i"
    using assms(1,2) c r by (auto simp: keys_ok_def distinct_map dest: inj_onD)
qed

lemma upsert_table:
  assumes inv: "keys_wf d" "distinct (map cor_issue_id (corrections d))"
    and up: "upsert_correction iss v actor now d = Inr (d1, k)"
  shows "verdicts d1 = (verdicts d)(iss_id iss \<mapsto> v)"
    and "keys_ok cor_id (db_next d1) (corrections d1)"
    and "distinct (map cor_issue_id (corrections d1))"
    and "db_next d \<le> db_next d1"
    and "c \<in> set (corrections d1) \<Longrightarrow>
      cor_issue_id c = iss_id iss \<and> verdict_of c = v \<or> c \<in> set (corrections d) \<and> cor_issue_id c \<noteq> iss_id iss"
proof -
  have keys: "keys_ok cor_id (db_next d) (corrections d)" using inv by (simp add: keys_wf_def)
  show "verdicts d1 = (verdicts d)(iss_id iss \<mapsto> v)"
    using up inv(2)
  proof (cases rule: upsert_cases)
    case insert
    then show ?thesis
      by (intro ext) (auto simp: verdicts_def by_issue.get_append by_issue.get_single split: option.splits)
  next
    case (update c)
    then show ?thesis
      by (intro ext) (auto simp: verdicts_def update_by_issue [OF keys inv(2)] by_issue.get_upd)
  qed
  show "keys_ok cor_id (db_next d1) (corrections d1)"
    using up inv(2)
  proof (cases rule: upsert_cases)
    case insert
    then have "keys_ok cor_id (Suc (db_next d)) (corrections d1)"
      using correction_table.keys_ok_insert [OF keys] by simp
    then show ?thesis using insert by (auto elim: keys_ok_mono)
  next
    case (update c)
    then show ?thesis using correction_table.keys_ok_upd [OF keys] by simp
  qed
  show "distinct (map cor_issue_id (corrections d1))"
    using up inv(2)
  proof (cases rule: upsert_cases)
    case insert
    then show ?thesis using inv(2) by (simp add: by_issue.get_None)
  next
    case (update c)
    then show ?thesis using inv(2) by (simp add: update_by_issue [OF keys inv(2)] by_issue.keys_upd)
  qed
  show "db_next d \<le> db_next d1"
    using up inv(2) by (cases rule: upsert_cases) simp_all
  show "cor_issue_id c = iss_id iss \<and> verdict_of c = v \<or> c \<in> set (corrections d) \<and> cor_issue_id c \<noteq> iss_id iss"
    if "c \<in> set (corrections d1)"
    using up inv(2)
  proof (cases rule: upsert_cases)
    case insert
    then show ?thesis using that by (force simp: by_issue.get_None)
  next
    case (update c')
    then show ?thesis using that
      by (auto simp: update_by_issue [OF keys inv(2)] by_issue.set_upd split: if_splits)
        (metis verdict_of_simps(2))
  qed
qed

text \<open>A verdict on an issue, written with the issue's status, keeps the invariant.\<close>

lemma set_issue_status_simps [simp]:
  "corrections (set_issue_status i st now d) = corrections d"
  "correction_suggestions (set_issue_status i st now d) = correction_suggestions d"
  "db_next (set_issue_status i st now d) = db_next d"
  "review_runs (set_issue_status i st now d) = review_runs d"
  "approval_requests (set_issue_status i st now d) = approval_requests d"
  "approval_decisions (set_issue_status i st now d) = approval_decisions d"
  "approval_decision_issues (set_issue_status i st now d) = approval_decision_issues d"
  "verdicts (set_issue_status i st now d) = verdicts d"
  by (simp_all add: set_issue_status_def verdicts_def fun_eq_iff)

lemma set_issue_statusD:
  assumes "i \<in> set (issues d)"
  shows "\<exists>i' \<in> set (issues (set_issue_status j st now d)). iss_id i' = iss_id i \<and>
     iss_status i' = (if iss_id i = j then st else iss_status i)"
  using assms by (auto simp: set_issue_status_def issue_table.set_upd)

lemma write_verdict_inv:
  assumes inv: "decisions_inv d" and iss: "iss_id iss \<in> iss_id ` set (issues d)"
    and up: "upsert_correction iss v actor now d = Inr (d1, k)"
    and ok: "value_ok (v_status v) (v_final_value v)"
    and st: "st = issue_status_for (v_status v)"
  shows "decisions_inv (set_issue_status (iss_id iss) st now d1)"
proof -
  have kd: "keys_wf d" "distinct (map cor_issue_id (corrections d))"
    using inv by (auto simp: decisions_inv_def corrections_wf_def)
  note tab = upsert_table [OF kd up] and fr = upsert_frame [OF up]
  let ?d = "set_issue_status (iss_id iss) st now d1"
  have "keys_ok iss_id (db_next d1) (issues ?d)"
    unfolding set_issue_status_def using kd(1) tab(4)
    by (auto simp: keys_wf_def fr intro!: issue_table.keys_ok_upd elim: keys_ok_mono)
  moreover have "keys_ok sug_id (db_next d1) (correction_suggestions ?d)"
    using kd(1) tab(4) by (auto simp: keys_wf_def fr elim: keys_ok_mono)
  ultimately have "keys_wf ?d" using tab(2) by (simp add: keys_wf_def)
  moreover have row: "value_ok (cor_status c) (cor_final_value c) \<and> (\<exists>i \<in> set (issues ?d).
      iss_id i = cor_issue_id c \<and> iss_status i = issue_status_for (cor_status c))"
    if c: "c \<in> set (corrections d1)" for c
  proof (cases "cor_issue_id c = iss_id iss")
    case True
    with tab(5) [OF c] have "cor_status c = v_status v" "cor_final_value c = v_final_value v"
      by auto
    moreover have "\<exists>i \<in> set (issues ?d). iss_id i = iss_id iss \<and> iss_status i = st"
    proof -
      from iss obtain i where i: "i \<in> set (issues d1)" "iss_id i = iss_id iss" by (auto simp: fr)
      from set_issue_statusD [OF i(1), of "iss_id iss" st now] i(2) show ?thesis by simp
    qed
    ultimately show ?thesis using True ok st by auto
  next
    case False
    with tab(5) [OF c] inv obtain i where "i \<in> set (issues d)" "iss_id i = cor_issue_id c"
      "iss_status i = issue_status_for (cor_status c)" "value_ok (cor_status c) (cor_final_value c)"
      by (auto simp: decisions_inv_def corrections_wf_def)
    with set_issue_statusD [of i d1 "iss_id iss" st now] False show ?thesis
      by (auto simp: fr)
  qed
  have "corrections_wf ?d"
    unfolding corrections_wf_def set_issue_status_simps using tab(3) row by blast
  moreover have "selections_wf ?d" using inv
    unfolding decisions_inv_def selections_wf_def set_issue_status_simps fr by blast
  ultimately show ?thesis by (simp add: decisions_inv_def)
qed

text \<open>Selecting a suggestion of an issue after clearing the others keeps the invariant.\<close>

lemma selection_simps [simp]:
  "corrections (select_suggestion s a now d) = corrections d"
  "issues (select_suggestion s a now d) = issues d"
  "db_next (select_suggestion s a now d) = db_next d"
  "review_runs (select_suggestion s a now d) = review_runs d"
  "approval_requests (select_suggestion s a now d) = approval_requests d"
  "approval_decisions (select_suggestion s a now d) = approval_decisions d"
  "approval_decision_issues (select_suggestion s a now d) = approval_decision_issues d"
  "corrections (clear_other_selections i s d) = corrections d"
  "issues (clear_other_selections i s d) = issues d"
  "db_next (clear_other_selections i s d) = db_next d"
  "review_runs (clear_other_selections i s d) = review_runs d"
  "approval_requests (clear_other_selections i s d) = approval_requests d"
  "approval_decisions (clear_other_selections i s d) = approval_decisions d"
  "approval_decision_issues (clear_other_selections i s d) = approval_decision_issues d"
  by (simp_all add: select_suggestion_def clear_other_selections_def)

lemma verdicts_selection [simp]:
  "verdicts (select_suggestion s a now d) = verdicts d"
  "verdicts (clear_other_selections i s d) = verdicts d"
  by (simp_all add: verdicts_def fun_eq_iff)

lemma selection_inv:
  assumes inv: "decisions_inv d" and s: "s \<in> set (correction_suggestions d)" "sug_issue_id s = i"
  shows "decisions_inv (select_suggestion (sug_id s) actor now (clear_other_selections i (sug_id s) d))"
    (is "decisions_inv ?d")
proof -
  let ?f = "\<lambda>t. if sug_issue_id t = i \<and> sug_id t \<noteq> sug_id s then t\<lparr>sug_is_selected := False\<rparr> else t"
  have tab: "correction_suggestions ?d = map (\<lambda>t. if sug_id t = sug_id s
      then t\<lparr>sug_is_selected := True, sug_selected_by := Some actor, sug_selected_at := Some now\<rparr>
      else ?f t) (correction_suggestions d)"
    by (auto simp: select_suggestion_def clear_other_selections_def upd_row_def)
  have uniq: "sug_issue_id t = i" if "t \<in> set (correction_suggestions d)" "sug_id t = sug_id s" for t
    using inv that s by (auto simp: decisions_inv_def keys_wf_def keys_ok_def distinct_map dest: inj_onD)
  have "map sug_id (correction_suggestions ?d) = map sug_id (correction_suggestions d)"
    unfolding tab by simp
  then have "keys_ok sug_id n (correction_suggestions ?d) \<longleftrightarrow> keys_ok sug_id n (correction_suggestions d)" for n
    by (rule keys_ok_cong)
  then have "keys_wf ?d" using inv by (simp add: decisions_inv_def keys_wf_def)
  moreover have "corrections_wf ?d" using inv by (simp add: decisions_inv_def corrections_wf_def)
  moreover have "selections_wf ?d"
    unfolding selections_wf_def
  proof (intro ballI impI)
    have origin: "sug_id x = sug_id s \<and> sug_issue_id x = i \<or>
        (\<exists>t \<in> set (correction_suggestions d). sug_is_selected t \<and> sug_issue_id x \<noteq> i \<and>
           sug_id x = sug_id t \<and> sug_issue_id x = sug_issue_id t)"
      if x: "x \<in> set (correction_suggestions ?d)" "sug_is_selected x" for x
    proof -
      obtain t where t: "t \<in> set (correction_suggestions d)"
        and xt: "x = (if sug_id t = sug_id s then t\<lparr>sug_is_selected := True,
            sug_selected_by := Some actor, sug_selected_at := Some now\<rparr> else ?f t)"
        using x(1)[unfolded tab] by auto
      show ?thesis
      proof (cases "sug_id t = sug_id s")
        case True
        then show ?thesis using xt uniq [OF t True] by simp
      next
        case False
        then have "sug_issue_id t \<noteq> i" "x = t" using xt x(2) by (auto split: if_splits)
        then show ?thesis using t x(2) by blast
      qed
    qed
    fix x y
    assume "x \<in> set (correction_suggestions ?d)" "y \<in> set (correction_suggestions ?d)"
      "sug_is_selected x" "sug_is_selected y" and same: "sug_issue_id x = sug_issue_id y"
    with origin [of x] origin [of y]
    consider "sug_id x = sug_id s" "sug_id y = sug_id s" | t u where
      "t \<in> set (correction_suggestions d)" "u \<in> set (correction_suggestions d)"
      "sug_is_selected t" "sug_is_selected u" "sug_issue_id t = sug_issue_id u"
      "sug_id x = sug_id t" "sug_id y = sug_id u"
      by metis
    then show "sug_id x = sug_id y"
      using inv unfolding decisions_inv_def selections_wf_def by cases metis+
  qed
  ultimately show ?thesis by (simp add: decisions_inv_def)
qed

lemma status_commutes_with_selection:
  "set_issue_status i st now (select_suggestion s a now (clear_other_selections j s d)) =
   select_suggestion s a now (clear_other_selections j s (set_issue_status i st now d))"
  by (simp add: set_issue_status_def select_suggestion_def clear_other_selections_def)

section \<open>Every operation keeps the invariant\<close>

lemma decisions_inv_cong:
  assumes "decisions_inv d" "corrections e = corrections d" "issues e = issues d"
    "correction_suggestions e = correction_suggestions d" "db_next d \<le> db_next e"
  shows "decisions_inv e"
  using assms unfolding decisions_inv_def keys_wf_def corrections_wf_def selections_wf_def
  by (metis keys_ok_mono)

lemma audit_by_inv: "decisions_inv d \<Longrightarrow> decisions_inv (audit_by u ac et ei m now d)"
  by (erule decisions_inv_cong) simp_all

lemma select_verdict_inv:
  assumes "decisions_inv d" "s \<in> set (correction_suggestions d)" "sug_issue_id s = iss_id iss"
    "iss_id iss \<in> iss_id ` set (issues d)" "upsert_correction iss v actor now d = Inr (d1, k)"
    "value_ok (v_status v) (v_final_value v)" "st = issue_status_for (v_status v)"
  shows "decisions_inv (set_issue_status (iss_id iss) st now
     (select_suggestion (sug_id s) actor now (clear_other_selections (iss_id iss) (sug_id s) d1)))"
  unfolding status_commutes_with_selection
proof (rule selection_inv)
  show "decisions_inv (set_issue_status (iss_id iss) st now d1)"
    using assms by (intro write_verdict_inv) auto
  show "s \<in> set (correction_suggestions (set_issue_status (iss_id iss) st now d1))"
    using assms(2) by (simp add: upsert_frame [OF assms(5)])
qed (rule assms(3))

lemma issue_by_idD: "issue_by_id i d = Inr iss \<Longrightarrow> iss \<in> set (issues d) \<and> iss_id iss = i"
  by (auto simp: issue_by_id_def dest: issue_table.get_SomeD)

lemma suggestion_by_idD:
  "suggestion_by_id i d = Inr s \<Longrightarrow> s \<in> set (correction_suggestions d) \<and> sug_id s = i"
  by (auto simp: suggestion_by_id_def dest: suggestion_table.get_SomeD)

lemma value_ok_simps [simp]:
  "value_ok COR_ACCEPTED v \<longleftrightarrow> \<not> is_blank v" "value_ok COR_EDITED v \<longleftrightarrow> \<not> is_blank v"
  "value_ok COR_REJECTED v \<longleftrightarrow> v = None" "value_ok COR_SKIPPED v \<longleftrightarrow> v = None"
  by (simp_all add: value_ok_def resolving_def)

lemma issue_status_for_simps [simp]:
  "issue_status_for COR_ACCEPTED = ISS_RESOLVED" "issue_status_for COR_EDITED = ISS_RESOLVED"
  "issue_status_for COR_REJECTED = ISS_RESOLVED" "issue_status_for COR_SKIPPED = ISS_SKIPPED"
  by (simp_all add: issue_status_for_def)

lemma accept_inv: "decisions_inv d \<Longrightarrow> ends_in decisions_inv (accept sid actor now d)"
  unfolding accept_def
  by (intro ends audit_by_inv select_verdict_inv)
    (auto dest: issue_by_idD suggestion_by_idD)

lemma edit_inv: "decisions_inv d \<Longrightarrow> ends_in decisions_inv (edit sid v actor now d)"
  unfolding edit_def
  by (intro ends audit_by_inv select_verdict_inv)
    (auto dest: issue_by_idD suggestion_by_idD)

lemma reject_inv: "decisions_inv d \<Longrightarrow> ends_in decisions_inv (reject sid reason actor now d)"
  unfolding reject_def
  by (intro ends audit_by_inv write_verdict_inv) (auto dest: issue_by_idD)

lemma skip_inv: "decisions_inv d \<Longrightarrow> ends_in decisions_inv (skip iid actor now d)"
  unfolding skip_def
  by (intro ends audit_by_inv write_verdict_inv) (auto dest: issue_by_idD)

lemma correct_directly_inv: "decisions_inv d \<Longrightarrow> ends_in decisions_inv (correct_directly iid v actor now d)"
  unfolding correct_directly_def
  by (intro ends audit_by_inv write_verdict_inv) (auto dest: issue_by_idD)

lemma ids_set_issue_status [simp]:
  "iss_id ` set (issues (set_issue_status i st now d)) = iss_id ` set (issues d)"
proof -
  have "map iss_id (issues (set_issue_status i st now d)) = map iss_id (issues d)"
    by (simp add: set_issue_status_def issue_table.keys_upd)
  then show ?thesis by (metis set_map)
qed

lemma bulk_apply_inv:
  assumes "bulk_apply action actor now isss d = Inr d'" "decisions_inv d"
    "\<forall>iss \<in> set isss. iss_id iss \<in> iss_id ` set (issues d)"
  shows "decisions_inv d'"
  using assms
proof (induction isss arbitrary: d)
  case (Cons iss rest)
  let ?st = "if action = ''skip'' then ISS_SKIPPED else ISS_RESOLVED"
  obtain d1 k where up: "upsert_correction iss (bulk_verdict action) actor now d = Inr (d1, k)"
    and rest: "bulk_apply action actor now rest (set_issue_status (iss_id iss) ?st now d1) = Inr d'"
    using Cons.prems(1) by (auto split: sum.splits)
  have "decisions_inv (set_issue_status (iss_id iss) ?st now d1)"
    using Cons.prems by (intro write_verdict_inv [OF _ _ up]) (auto simp: bulk_verdict_def)
  moreover have "\<forall>x \<in> set rest. iss_id x \<in> iss_id ` set (issues (set_issue_status (iss_id iss) ?st now d1))"
    using Cons.prems(3) upsert_frame(1) [OF up] by auto
  ultimately show ?case using Cons.IH [OF rest] by simp
qed simp

lemma bulk_issuesD: "bulk_issues is d = Inr isss \<Longrightarrow> set isss \<subseteq> set (issues d) \<and> map iss_id isss = is"
  by (induction "is" arbitrary: isss) (auto split: sum.splits option.splits dest: issue_by_idD)

lemma bulk_action_inv: "decisions_inv d \<Longrightarrow> ends_in decisions_inv (bulk_action run iids action actor now d)"
  unfolding bulk_action_def
  by (intro ends audit_by_inv) (auto dest!: bulk_issuesD bulk_apply_inv)

section \<open>The commands of a reviewer\<close>

datatype decision_command =
    Accept uuid
  | Edit uuid string
  | Reject uuid "string option"
  | Skip uuid
  | CorrectDirectly uuid string
  | BulkAction uuid "uuid list" string

definition forget :: "('s, 'e, 'a) outcome \<Rightarrow> ('s, 'e, unit) outcome" where
  "forget r = (fst r, map_sum id (\<lambda>_. ()) (snd r))"

lemma forget_simps [simp]:
  "fst (forget r) = fst r" "succeeds (forget r) = succeeds r"
  by (simp_all add: forget_def succeeds_def split: sum.splits)

fun run_decision :: "decision_command \<Rightarrow> uuid \<Rightarrow> instant \<Rightarrow> (db, unit) op" where
  "run_decision (Accept sid) a now d = forget (accept sid a now d)"
| "run_decision (Edit sid v) a now d = forget (edit sid v a now d)"
| "run_decision (Reject sid r) a now d = forget (reject sid r a now d)"
| "run_decision (Skip iid) a now d = forget (skip iid a now d)"
| "run_decision (CorrectDirectly iid v) a now d = forget (correct_directly iid v a now d)"
| "run_decision (BulkAction run iids action) a now d = forget (bulk_action run iids action a now d)"

lemma run_decision_inv:
  assumes "decisions_inv d" shows "decisions_inv (fst (run_decision c a now d))"
proof (cases c)
  case (Accept x1) then show ?thesis using accept_inv [OF assms] by (simp add: ends_in_def)
next
  case (Edit x1 x2) then show ?thesis using edit_inv [OF assms] by (simp add: ends_in_def)
next
  case (Reject x1 x2) then show ?thesis using reject_inv [OF assms] by (simp add: ends_in_def)
next
  case (Skip x1) then show ?thesis using skip_inv [OF assms] by (simp add: ends_in_def)
next
  case (CorrectDirectly x1 x2)
  then show ?thesis using correct_directly_inv [OF assms] by (simp add: ends_in_def)
next
  case (BulkAction x1 x2 x3)
  then show ?thesis using bulk_action_inv [OF assms] by (simp add: ends_in_def)
qed

text \<open>The verdicts a command is to write, in a state that accepts it.\<close>

definition suggested_issue :: "uuid \<Rightarrow> db \<Rightarrow> uuid" where
  "suggested_issue sid d = (case get_suggestion d sid of None \<Rightarrow> 0 | Some s \<Rightarrow> sug_issue_id s)"

fun intended :: "decision_command \<Rightarrow> db \<Rightarrow> (uuid \<times> verdict) list" where
  "intended (Accept sid) d = (case get_suggestion d sid of None \<Rightarrow> [] | Some s \<Rightarrow>
     [(sug_issue_id s, \<lparr>v_suggestion = Some sid, v_final_value = Some (sug_suggested_value s),
        v_source = Some (sug_source s), v_status = COR_ACCEPTED\<rparr>)])"
| "intended (Edit sid v) d = (case get_suggestion d sid of None \<Rightarrow> [] | Some s \<Rightarrow>
     [(sug_issue_id s, \<lparr>v_suggestion = Some sid, v_final_value = Some v, v_source = Some HUMAN,
        v_status = COR_EDITED\<rparr>)])"
| "intended (Reject sid r) d = (case get_suggestion d sid of None \<Rightarrow> [] | Some s \<Rightarrow>
     [(sug_issue_id s, \<lparr>v_suggestion = Some sid, v_final_value = None, v_source = Some (sug_source s),
        v_status = COR_REJECTED\<rparr>)])"
| "intended (Skip iid) d = [(iid, \<lparr>v_suggestion = None, v_final_value = None, v_source = None,
     v_status = COR_SKIPPED\<rparr>)]"
| "intended (CorrectDirectly iid v) d = [(iid, \<lparr>v_suggestion = None, v_final_value = Some v,
     v_source = Some HUMAN, v_status = COR_EDITED\<rparr>)]"
| "intended (BulkAction run iids action) d = map (\<lambda>i. (i, bulk_verdict action)) iids"

definition write_all :: "(uuid \<times> verdict) list \<Rightarrow> (uuid \<Rightarrow> verdict option) \<Rightarrow> uuid \<Rightarrow> verdict option" where
  "write_all ws m = fold (\<lambda>(i, v) m. m(i \<mapsto> v)) ws m"

lemma write_all_simps [simp]:
  "write_all [] m = m" "write_all ((i, v) # ws) m = write_all ws (m(i \<mapsto> v))"
  by (simp_all add: write_all_def)

lemma verdicts_audit_by [simp]: "verdicts (audit_by u ac et ei m now d) = verdicts d"
  by (simp add: verdicts_def fun_eq_iff)

lemma bulk_apply_verdicts:
  assumes "bulk_apply action actor now isss d = Inr d'" "decisions_inv d"
    "\<forall>iss \<in> set isss. iss_id iss \<in> iss_id ` set (issues d)"
  shows "verdicts d' = write_all (map (\<lambda>i. (i, bulk_verdict action)) (map iss_id isss)) (verdicts d)"
  using assms
proof (induction isss arbitrary: d)
  case (Cons iss rest)
  let ?st = "if action = ''skip'' then ISS_SKIPPED else ISS_RESOLVED"
  obtain d1 k where up: "upsert_correction iss (bulk_verdict action) actor now d = Inr (d1, k)"
    and rest: "bulk_apply action actor now rest (set_issue_status (iss_id iss) ?st now d1) = Inr d'"
    using Cons.prems(1) by (auto split: sum.splits)
  have kd: "keys_wf d" "distinct (map cor_issue_id (corrections d))"
    using Cons.prems(2) by (auto simp: decisions_inv_def corrections_wf_def)
  have "decisions_inv (set_issue_status (iss_id iss) ?st now d1)"
    using Cons.prems by (intro write_verdict_inv [OF _ _ up]) (auto simp: bulk_verdict_def)
  moreover have "\<forall>x \<in> set rest. iss_id x \<in> iss_id ` set (issues (set_issue_status (iss_id iss) ?st now d1))"
    using Cons.prems(3) upsert_frame(1) [OF up] by auto
  ultimately show ?case using Cons.IH [OF rest] upsert_table(1) [OF kd up] by (simp add: fun_upd_def)
qed simp

lemma decisions_invD:
  "decisions_inv d \<Longrightarrow> keys_wf d" "decisions_inv d \<Longrightarrow> distinct (map cor_issue_id (corrections d))"
  by (auto simp: decisions_inv_def corrections_wf_def)

lemmas upsert_verdicts = upsert_table(1) [OF decisions_invD]

lemmas returned = attempt_returns checked_returns Let_def

lemma suggestion_found:
  "suggestion_by_id i d = Inr s \<Longrightarrow> get_suggestion d i = Some s \<and> sug_id s = i"
  by (auto simp: suggestion_by_id_def dest: suggestion_table.get_SomeD)

lemma accept_returns:
  assumes "decisions_inv d" "accept sid a now d = (d', Inr k)"
  shows "verdicts d' = write_all (intended (Accept sid) d) (verdicts d)"
  using assms(2) by (auto simp: accept_def returned split: prod.splits
      dest!: suggestion_found upsert_verdicts [OF assms(1,1)] issue_by_idD)

lemma edit_returns:
  assumes "decisions_inv d" "edit sid v a now d = (d', Inr k)"
  shows "verdicts d' = write_all (intended (Edit sid v) d) (verdicts d)"
  using assms(2) by (auto simp: edit_def returned split: prod.splits
      dest!: suggestion_found upsert_verdicts [OF assms(1,1)] issue_by_idD)

lemma reject_returns:
  assumes "decisions_inv d" "reject sid r a now d = (d', Inr k)"
  shows "verdicts d' = write_all (intended (Reject sid r) d) (verdicts d)"
  using assms(2) by (auto simp: reject_def returned split: prod.splits
      dest!: suggestion_found upsert_verdicts [OF assms(1,1)] issue_by_idD)

lemma skip_returns:
  assumes "decisions_inv d" "skip i a now d = (d', Inr k)"
  shows "verdicts d' = write_all (intended (Skip i) d) (verdicts d)"
  using assms(2) by (auto simp: skip_def returned split: prod.splits
      dest!: upsert_verdicts [OF assms(1,1)] issue_by_idD)

lemma correct_directly_returns:
  assumes "decisions_inv d" "correct_directly i v a now d = (d', Inr k)"
  shows "verdicts d' = write_all (intended (CorrectDirectly i v) d) (verdicts d)"
  using assms(2) by (auto simp: correct_directly_def returned split: prod.splits
      dest!: upsert_verdicts [OF assms(1,1)] issue_by_idD)

lemma bulk_action_returns:
  assumes "decisions_inv d" "bulk_action run iids action a now d = (d', Inr k)"
  shows "verdicts d' = write_all (intended (BulkAction run iids action) d) (verdicts d)"
proof -
  obtain isss d1 where "bulk_issues iids d = Inr isss" "bulk_apply action a now isss d = Inr d1"
    "verdicts d' = verdicts d1"
    using assms(2) by (auto simp: bulk_action_def returned)
  then show ?thesis
    using bulk_apply_verdicts [OF _ assms(1)] bulk_issuesD [of iids d isss] by fastforce
qed

lemma forget_returns: "forget r = (t, Inr u) \<longleftrightarrow> (\<exists>x. r = (t, Inr x))"
  by (cases r; cases "snd r") (auto simp: forget_def)

lemma run_decision_returns:
  assumes "decisions_inv d" "run_decision c a now d = (d', Inr u)"
  shows "verdicts d' = write_all (intended c d) (verdicts d)"
proof (cases c)
  case (Accept x1)
  then show ?thesis using assms accept_returns by (auto simp: forget_returns simp del: intended.simps)
next
  case (Edit x1 x2)
  then show ?thesis using assms edit_returns by (auto simp: forget_returns simp del: intended.simps)
next
  case (Reject x1 x2)
  then show ?thesis using assms reject_returns by (auto simp: forget_returns simp del: intended.simps)
next
  case (Skip x1)
  then show ?thesis using assms skip_returns by (auto simp: forget_returns simp del: intended.simps)
next
  case (CorrectDirectly x1 x2)
  then show ?thesis using assms correct_directly_returns
    by (auto simp: forget_returns simp del: intended.simps)
next
  case (BulkAction x1 x2 x3)
  then show ?thesis using assms bulk_action_returns
    by (auto simp: forget_returns simp del: intended.simps)
qed

lemma decision_atomic:
  "atomic_from d (accept sid a now d)" "atomic_from d (edit sid v a now d)"
  "atomic_from d (reject sid r a now d)" "atomic_from d (skip i a now d)"
  "atomic_from d (correct_directly i v a now d)" "atomic_from d (bulk_action run is action a now d)"
  unfolding op_defs by (intro atomic)+

lemma run_decision_atomic: "\<not> succeeds (run_decision c a now d) \<Longrightarrow> fst (run_decision c a now d) = d"
  by (cases c) (auto dest: atomicD [OF decision_atomic(1)] atomicD [OF decision_atomic(2)]
      atomicD [OF decision_atomic(3)] atomicD [OF decision_atomic(4)]
      atomicD [OF decision_atomic(5)] atomicD [OF decision_atomic(6)])

section \<open>What a successful command has checked\<close>

definition settled :: "db \<Rightarrow> uuid \<Rightarrow> bool" where
  "settled d i \<longleftrightarrow> (\<exists>v. verdicts d i = Some v \<and> (v_status v = COR_REJECTED \<or> v_status v = COR_SKIPPED))"

lemma check_not_terminal_settled:
  assumes "decisions_inv d" "existing_correction i d = Inr c0" "check_not_terminal c0 = None"
  shows "\<not> settled d i"
  using assms by (auto simp: existing_correction_find [OF decisions_invD(2) [OF assms(1)]] settled_def
      verdicts_def check_not_terminal_def TERMINAL_STATUSES_def split: option.splits)

lemma bulk_issues_unsettled:
  "bulk_issues is d = Inr isss \<Longrightarrow> decisions_inv d \<Longrightarrow> \<forall>i \<in> set is. \<not> settled d i"
  by (induction "is" arbitrary: isss)
    (auto split: sum.splits option.splits dest: issue_by_idD check_not_terminal_settled)

lemma run_decision_unsettled:
  assumes inv: "decisions_inv d" and ok: "succeeds (run_decision c a now d)"
    and i: "i \<in> fst ` set (intended c d)"
  shows "\<not> settled d i"
proof (cases c)
  case (BulkAction run iids action)
  then show ?thesis using ok i bulk_issues_unsettled [OF _ inv]
    by (auto simp: bulk_action_def succeeds_attempt succeeds_checked)
qed (use ok i inv in \<open>auto simp: op_defs succeeds_attempt succeeds_checked suggestion_by_id_def
      dest!: issue_by_idD dest: check_not_terminal_settled split: option.splits\<close>)

lemma write_all_other: "i \<notin> fst ` set ws \<Longrightarrow> write_all ws m i = m i"
  by (induction ws arbitrary: m) (auto simp: write_all_def)

lemma run_decision_settled:
  assumes "decisions_inv d" "settled d i"
  shows "verdicts (fst (run_decision c a now d)) i = verdicts d i"
proof (cases "succeeds (run_decision c a now d)")
  case True
  then obtain d' u where "run_decision c a now d = (d', Inr u)" by (auto simp: succeeds_iff)
  moreover have "i \<notin> fst ` set (intended c d)"
    using run_decision_unsettled [OF assms(1) True] assms(2) by blast
  ultimately show ?thesis using run_decision_returns [OF assms(1)] by (simp add: write_all_other)
qed (simp add: run_decision_atomic)

text \<open>Every command but the bulk one looks at the review run of the issue it is about.\<close>

definition in_bulk :: "decision_command \<Rightarrow> bool" where
  "in_bulk c = (case c of BulkAction _ _ _ \<Rightarrow> True | _ \<Rightarrow> False)"

lemma run_decision_not_ready:
  assumes "\<not> in_bulk c" "succeeds (run_decision c a now d)" "(i, v) \<in> set (intended c d)"
    "get_issue d i = Some iss" "get_review_run d (iss_review_run_id iss) = Some rr"
  shows "rr_status rr \<noteq> RR_READY_FOR_APPROVAL"
proof (cases c)
  case (BulkAction run iids action)
  with assms(1) show ?thesis by (simp add: in_bulk_def)
qed (use assms in \<open>auto simp: op_defs succeeds_attempt succeeds_checked suggestion_by_id_def
      issue_by_id_def check_review_run_not_ready_for_approval_def split: option.splits\<close>)

section \<open>The commands as a system\<close>

definition decision_step :: "decision_command \<times> uuid \<times> instant \<Rightarrow> db \<Rightarrow> db" where
  "decision_step = (\<lambda>(c, a, now) d. fst (run_decision c a now d))"

interpretation reviewer: guarded_system decision_step decisions_inv
  by unfold_locales (auto simp: decision_step_def run_decision_inv)

section \<open>Properties\<close>

text \<open>
  C1. Refinement. A decision command either succeeds, and then the verdicts of the issues are
  the previous ones overwritten by exactly the verdicts the command stands for (accepting a
  suggestion takes its value and source, editing takes the reviewer's value, rejecting and
  skipping carry no value, a bulk action does so for every listed issue), or it raises, and
  then nothing in the database has changed.
\<close>

theorem decision_refines_verdict_map:
  assumes "decisions_inv d"
  shows "if succeeds (run_decision c actor now d)
    then verdicts (fst (run_decision c actor now d)) = write_all (intended c d) (verdicts d)
    else fst (run_decision c actor now d) = d"
  using run_decision_returns [OF assms] run_decision_atomic
  by (auto simp: succeeds_iff)

lemma sample_decisions_inv: "decisions_inv (sample_db st)" "decisions_inv (decided_db st)"
  by (simp_all add: decisions_inv_def keys_wf_def corrections_wf_def selections_wf_def keys_ok_def
      sample_defs is_blank_def py_strip_def py_strip_by_def py_isspace_def code_of_def)

lemma sample_accept_succeeds: "succeeds (run_decision (Accept 16) 1 5 (sample_db RR_IN_REVIEW))"
  by (simp add: accept_def succeeds_attempt succeeds_checked suggestion_by_id_def issue_by_id_def
      find_row_def check_review_run_not_ready_for_approval_def existing_correction_def
      corrections_of_def check_not_terminal_def is_blank_def py_strip_def py_strip_by_def
      py_isspace_def code_of_def upsert_correction_def decision_metadata_def resolve_rule_type_def
      set_issue_status_def select_suggestion_def clear_other_selections_def record_edge_def
      edges_of_def sample_defs Let_def)

theorem decision_refines_verdict_map_witness:
  "verdicts (fst (run_decision (Accept 16) 1 5 (sample_db RR_IN_REVIEW))) 13 =
     Some \<lparr>v_suggestion = Some 16, v_final_value = Some ''x'', v_source = Some RULE_BASED,
       v_status = COR_ACCEPTED\<rparr>"
  using decision_refines_verdict_map [OF sample_decisions_inv(1), of "Accept 16" 1 5 RR_IN_REVIEW]
    sample_accept_succeeds
  by (simp add: find_row_def sample_defs)

text \<open>
  C6. While a review run is READY_FOR_APPROVAL, accepting, editing, rejecting, skipping or
  directly correcting one of its issues raises and changes nothing.
\<close>

theorem ready_for_approval_freezes_single_decisions:
  assumes "get_issue d i = Some iss" and "get_review_run d (iss_review_run_id iss) = Some rr"
    and "rr_status rr = RR_READY_FOR_APPROVAL"
    and "\<not> in_bulk c" and "(i, v) \<in> set (intended c d)"
  shows "\<not> succeeds (run_decision c actor now d) \<and> fst (run_decision c actor now d) = d"
  using run_decision_not_ready [OF assms(4) _ assms(5) assms(1,2)] assms(3) run_decision_atomic
  by blast

theorem ready_for_approval_freezes_single_decisions_witness:
  "\<not> succeeds (run_decision (Edit 16 ''y'') 1 5 (sample_db RR_READY_FOR_APPROVAL)) \<and>
   fst (run_decision (Edit 16 ''y'') 1 5 (sample_db RR_READY_FOR_APPROVAL)) = sample_db RR_READY_FOR_APPROVAL"
  by (rule ready_for_approval_freezes_single_decisions
      [where i = 13 and iss = "sample_issue 13 12 9 ''A'' ISS_PENDING"
         and rr = "sample_review_run 12 RR_READY_FOR_APPROVAL"
         and v = "\<lparr>v_suggestion = Some 16, v_final_value = Some ''y'', v_source = Some HUMAN,
            v_status = COR_EDITED\<rparr>"])
    (simp_all add: find_row_def sample_defs in_bulk_def)

lemma sample_bulk_succeeds:
  "succeeds (run_decision (BulkAction 17 [13] ''reject'') 1 5 (decided_db RR_READY_FOR_APPROVAL))"
  by (simp add: bulk_action_def succeeds_attempt succeeds_checked review_get_def issue_by_id_def
      find_row_def existing_correction_def corrections_of_def check_not_terminal_def
      TERMINAL_STATUSES_def upsert_correction_def sample_defs)

text \<open>
  The bulk action only looks at the review run it is given, not at the run of the issues
  it lists: called with the run 17, it rejects the resolved issue 13 of the run 12, although
  the run 12 is READY_FOR_APPROVAL and every single-issue decision on it raises.
\<close>

theorem bulk_action_reaches_frozen_run:
  "map_option rr_status (get_review_run (decided_db RR_READY_FOR_APPROVAL) 12) = Some RR_READY_FOR_APPROVAL \<and>
   map_option iss_review_run_id (get_issue (decided_db RR_READY_FOR_APPROVAL) 13) = Some 12 \<and>
   map_option v_status (verdicts (decided_db RR_READY_FOR_APPROVAL) 13) = Some COR_ACCEPTED \<and>
   map_option v_status (verdicts (fst (run_decision (BulkAction 17 [13] ''reject'') 1 5
     (decided_db RR_READY_FOR_APPROVAL))) 13) = Some COR_REJECTED"
proof -
  let ?d = "decided_db RR_READY_FOR_APPROVAL" and ?c = "BulkAction 17 [13] ''reject''"
  obtain d' u where r: "run_decision ?c 1 5 ?d = (d', Inr u)"
    using sample_bulk_succeeds unfolding succeeds_iff by blast
  have "map_option v_status (verdicts d' 13) = Some COR_REJECTED"
    unfolding run_decision_returns [OF sample_decisions_inv(2) r] by (simp add: bulk_verdict_def)
  then show ?thesis
    unfolding r by (simp add: find_row_def verdicts_def verdict_of_def sample_defs)
qed

end
