(* ===== verification/Approval.thy ===== *)
theory Approval
  imports Decisions
begin

text \<open>
  Approval requests: \<open>app/modules/approval/status_logic.py\<close> and
  \<open>app/modules/approval/service.py\<close>. Submitting a review run freezes it and opens a request
  over its resolved issues; decisions then approve or reject subsets of the issues that are
  still undecided, and the status of the request is recomputed from all of them.
\<close>

section \<open>Pure status logic\<close>

definition recompute_approval_request_status :: "approval_choice list \<Rightarrow> uuid set \<Rightarrow> approval_status" where
  "recompute_approval_request_status all_decisions remaining_after =
     (if remaining_after = {} then
        (if list_all (\<lambda>c. c = APPROVE) all_decisions then AR_APPROVED else AR_REJECTED)
      else AR_PARTIALLY_APPROVED)"

definition resolved_scope_from_rows :: "(uuid \<times> string) list \<Rightarrow> uuid list \<times> nat" where
  "resolved_scope_from_rows rows = (map fst rows, card (set (map snd rows)))"

section \<open>The service\<close>

definition approval_get :: "uuid \<Rightarrow> db \<Rightarrow> exn + approval_request" where
  "approval_get i d = or_raise (NotFound ApprovalRequestNotFoundError) (get_approval_request d i)"

definition list_requests :: "approval_status option \<Rightarrow> uuid option \<Rightarrow> db \<Rightarrow> approval_request list" where
  "list_requests st run d = sort_key (\<lambda>a. - ar_requested_at a)
     (filter (\<lambda>a. (case st of None \<Rightarrow> True | Some s \<Rightarrow> ar_status a = s) \<and>
                  (case run of None \<Rightarrow> True | Some r \<Rightarrow> ar_review_run_id a = r)) (approval_requests d))"

definition RESOLVED_CORRECTION_STATUSES :: "correction_status list" where
  "RESOLVED_CORRECTION_STATUSES = [COR_ACCEPTED, COR_EDITED]"

definition resolved_rows :: "uuid \<Rightarrow> db \<Rightarrow> (uuid \<times> string) list" where
  "resolved_rows run d =
     [(iss_id i, iss_record_ref i). i \<leftarrow> issues d, iss_review_run_id i = run,
        c \<leftarrow> corrections d, cor_issue_id c = iss_id i \<and> cor_final_value c \<noteq> None \<and>
          cor_status c \<in> set RESOLVED_CORRECTION_STATUSES]"

definition resolved_scope :: "uuid \<Rightarrow> db \<Rightarrow> uuid list \<times> nat" where
  "resolved_scope run d = resolved_scope_from_rows (resolved_rows run d)"

definition decided_issue_ids :: "uuid \<Rightarrow> db \<Rightarrow> uuid set" where
  "decided_issue_ids req d =
     set [adi_issue_id x. x \<leftarrow> approval_decision_issues d, a \<leftarrow> approval_decisions d,
            ad_id a = adi_approval_decision_id x \<and> ad_approval_request_id a = req]"

definition new_request :: "nat \<Rightarrow> uuid \<Rightarrow> nat \<Rightarrow> nat \<Rightarrow> uuid \<Rightarrow> instant \<Rightarrow> approval_request" where
  "new_request k run n_issues n_records actor now =
     \<lparr>ar_id = k, ar_review_run_id = run, ar_status = AR_PENDING,
      ar_affected_issue_count = int n_issues, ar_affected_record_count = int n_records,
      ar_requested_by = Some actor, ar_requested_at = now, ar_decided_at = None,
      ar_created_at = now, ar_updated_at = None\<rparr>"

definition submit :: "uuid \<Rightarrow> uuid \<Rightarrow> instant \<Rightarrow> (db, uuid) op" where
  "submit run actor now d =
     attempt d (review_get run d) (\<lambda>rr.
     checked d (raise_if (rr_status rr \<noteq> RR_IN_REVIEW) (Conflict ReviewRunNotReadyForSubmissionError)) (
     attempt d (at_most_one MultipleResultsFound (open_requests run d)) (\<lambda>existing.
     checked d (raise_if (existing \<noteq> None) (Conflict ApprovalRequestAlreadyPendingError)) (
     let (issue_ids, record_count) = resolved_scope run d
     in checked d (raise_if (issue_ids = []) (Conflict NoResolvedIssuesError)) (
        let k = db_next d;
            d1 = d\<lparr>approval_requests := approval_requests d @
                     [new_request k run (length issue_ids) record_count actor now],
                   db_next := Suc k\<rparr>;
            d2 = d1\<lparr>review_runs := upd_row rr_id run
                     (\<lambda>r. r\<lparr>rr_status := RR_READY_FOR_APPROVAL, rr_updated_at := Some now\<rparr>) (review_runs d1)\<rparr>;
            correction_ids = [cor_id c. c \<leftarrow> corrections d2, cor_issue_id c \<in> set issue_ids];
            d3 = record_edges_bulk now
                   (map (\<lambda>c. (''CORRECTION'', c, ''APPROVAL_REQUEST'', k, ''APPROVED_BY'')) correction_ids) d2;
            d4 = audit_by actor ''approval_request.submitted'' ''APPROVAL_REQUEST'' k
                   (Some [(''review_run_id'', PyStr (uuid_str run)),
                          (''affected_issue_count'', PyInt (int (length issue_ids))),
                          (''affected_record_count'', PyInt (int record_count))]) now d3
        in returns d4 k)))))"

definition new_decision :: "nat \<Rightarrow> uuid \<Rightarrow> approval_choice \<Rightarrow> string option \<Rightarrow> uuid \<Rightarrow> instant \<Rightarrow> approval_decision" where
  "new_decision k req choice comment actor now =
     \<lparr>ad_id = k, ad_approval_request_id = req, ad_decision = choice, ad_comment = comment,
      ad_decided_by = actor, ad_decided_at = now, ad_created_at = now\<rparr>"

definition add_decision ::
  "uuid \<Rightarrow> approval_choice \<Rightarrow> uuid list \<Rightarrow> string option \<Rightarrow> uuid \<Rightarrow> instant \<Rightarrow> db \<Rightarrow> db" where
  "add_decision req choice ids comment actor now d =
     d\<lparr>approval_decisions := approval_decisions d @ [new_decision (db_next d) req choice comment actor now],
       approval_decision_issues := approval_decision_issues d @
         map (\<lambda>i. \<lparr>adi_approval_decision_id = db_next d, adi_issue_id = i\<rparr>) ids,
       db_next := Suc (db_next d)\<rparr>"

definition choices_of :: "uuid \<Rightarrow> db \<Rightarrow> approval_choice list" where
  "choices_of req d = [ad_decision a. a \<leftarrow> approval_decisions d, ad_approval_request_id a = req]"

definition set_request_status :: "uuid \<Rightarrow> approval_status \<Rightarrow> bool \<Rightarrow> instant \<Rightarrow> db \<Rightarrow> db" where
  "set_request_status req st final now d =
     d\<lparr>approval_requests := upd_row ar_id req
         (\<lambda>a. a\<lparr>ar_status := st, ar_decided_at := (if final then Some now else ar_decided_at a),
                ar_updated_at := Some now\<rparr>) (approval_requests d)\<rparr>"

text \<open>
  The issues asked for form a set; the rows of a decision are written in the order of its
  first occurrences.
\<close>

definition remaining_scope :: "approval_request \<Rightarrow> db \<Rightarrow> uuid set" where
  "remaining_scope ar d =
     set (fst (resolved_scope (ar_review_run_id ar) d)) - decided_issue_ids (ar_id ar) d"

definition decide ::
  "uuid \<Rightarrow> approval_choice \<Rightarrow> uuid list \<Rightarrow> string option \<Rightarrow> uuid \<Rightarrow> instant \<Rightarrow> (db, uuid) op" where
  "decide req choice issue_ids comment actor now d =
     attempt d (approval_get req d) (\<lambda>ar.
     let remaining = remaining_scope ar d;
         requested = set issue_ids
     in checked d (raise_if (requested = {} \<or> \<not> requested \<subseteq> remaining) (Conflict IssueNotInApprovalScopeError)) (
        let d1 = add_decision (ar_id ar) choice (remdups issue_ids) comment actor now d;
            new_remaining = remaining - requested;
            st = recompute_approval_request_status (choices_of (ar_id ar) d1) new_remaining;
            d2 = set_request_status (ar_id ar) st (new_remaining = {}) now d1;
            meta = [(''decision'', PyStr (if choice = APPROVE then ''APPROVE'' else ''REJECT'')),
                    (''issue_count'', PyInt (int (card requested)))] @
                   (case comment of None \<Rightarrow> [] | Some c \<Rightarrow> if c = [] then [] else [(''comment'', PyStr c)])
        in returns (audit_by actor ''approval_request.decided'' ''APPROVAL_REQUEST'' (ar_id ar)
             (Some meta) now d2) (ar_id ar)))"

definition approval_detail :: "uuid \<Rightarrow> db \<Rightarrow> exn + (approval_request \<times> nat \<times> nat)" where
  "approval_detail req d = (case approval_get req d of Inl e \<Rightarrow> Inl e | Inr ar \<Rightarrow>
     (let resolved = set (fst (resolved_scope (ar_review_run_id ar) d));
          decided = decided_issue_ids (ar_id ar) d
      in Inr (ar, card decided, card (resolved - decided))))"

lemmas approval_op_defs [op_defs] = submit_def decide_def

section \<open>Ballots\<close>

text \<open>The abstract content of a request: which issue was decided how, in order.\<close>

definition ballots_by :: "approval_decision \<Rightarrow> approval_decision_issue list \<Rightarrow> (uuid \<times> approval_choice) list" where
  "ballots_by a xs = map (\<lambda>x. (adi_issue_id x, ad_decision a)) (filter (\<lambda>x. adi_approval_decision_id x = ad_id a) xs)"

definition ballots :: "uuid \<Rightarrow> db \<Rightarrow> (uuid \<times> approval_choice) list" where
  "ballots req d = concat (map (\<lambda>a. ballots_by a (approval_decision_issues d))
     (filter (\<lambda>a. ad_approval_request_id a = req) (approval_decisions d)))"

lemma set_ballots: "set (ballots req d) = {(adi_issue_id x, ad_decision a) | a x.
    a \<in> set (approval_decisions d) \<and> x \<in> set (approval_decision_issues d) \<and>
    ad_approval_request_id a = req \<and> adi_approval_decision_id x = ad_id a}"
  by (auto simp: ballots_def ballots_by_def)

lemma decided_issue_ids_ballots: "decided_issue_ids req d = fst ` set (ballots req d)"
proof (intro set_eqI iffI)
  fix i
  assume "i \<in> decided_issue_ids req d"
  then obtain x a where "x \<in> set (approval_decision_issues d)" "a \<in> set (approval_decisions d)"
    "ad_id a = adi_approval_decision_id x" "ad_approval_request_id a = req" "i = adi_issue_id x"
    by (auto simp: decided_issue_ids_def split: if_splits)
  then have "(i, ad_decision a) \<in> set (ballots req d)" unfolding set_ballots mem_Collect_eq by metis
  then show "i \<in> fst ` set (ballots req d)" by force
next
  fix i
  assume "i \<in> fst ` set (ballots req d)"
  then obtain a x where "a \<in> set (approval_decisions d)" "x \<in> set (approval_decision_issues d)"
    "ad_approval_request_id a = req" "adi_approval_decision_id x = ad_id a" "i = adi_issue_id x"
    by (auto simp: set_ballots)
  then show "i \<in> decided_issue_ids req d" by (force simp: decided_issue_ids_def)
qed

definition request_ok :: "db \<Rightarrow> approval_request \<Rightarrow> bool" where
  "request_ok d ar \<longleftrightarrow> (let b = ballots (ar_id ar) d in distinct (map fst b) \<and>
     (case ar_status ar of
        AR_PENDING \<Rightarrow> b = []
      | AR_PARTIALLY_APPROVED \<Rightarrow> b \<noteq> []
      | AR_APPROVED \<Rightarrow> b \<noteq> [] \<and> (\<forall>(i, c) \<in> set b. c = APPROVE)
      | AR_REJECTED \<Rightarrow> (\<exists>(i, c) \<in> set b. c = REJECT)))"

definition approval_inv :: "db \<Rightarrow> bool" where
  "approval_inv d \<longleftrightarrow> keys_ok ar_id (db_next d) (approval_requests d) \<and>
     keys_ok ad_id (db_next d) (approval_decisions d) \<and>
     (\<forall>x \<in> set (approval_decision_issues d). adi_approval_decision_id x < db_next d) \<and>
     (\<forall>a \<in> set (approval_decisions d). ad_approval_request_id a < db_next d \<and>
        (\<exists>x \<in> set (approval_decision_issues d). adi_approval_decision_id x = ad_id a)) \<and>
     (\<forall>ar \<in> set (approval_requests d). request_ok d ar)"

text \<open>The operations write these tables; the other ones of the invariant stay as they are.\<close>

lemma ballots_cong:
  "approval_decisions e = approval_decisions d \<Longrightarrow>
   approval_decision_issues e = approval_decision_issues d \<Longrightarrow> ballots req e = ballots req d"
  by (simp add: ballots_def)

lemma approval_inv_cong:
  assumes "approval_inv d" "approval_requests e = approval_requests d"
    "approval_decisions e = approval_decisions d"
    "approval_decision_issues e = approval_decision_issues d" "db_next d \<le> db_next e"
  shows "approval_inv e"
proof -
  have "request_ok e ar = request_ok d ar" for ar
    using ballots_cong [OF assms(3,4)] by (simp add: request_ok_def)
  with assms show ?thesis
    unfolding approval_inv_def by (metis keys_ok_mono order_less_le_trans)
qed

lemma audit_by_approval_inv: "approval_inv d \<Longrightarrow> approval_inv (audit_by u ac et ei m now d)"
  by (erule approval_inv_cong) simp_all

section \<open>Submission\<close>

lemma ballots_fresh:
  assumes "approval_inv d" "db_next d \<le> k" shows "ballots k d = []"
  using assms by (fastforce simp: approval_inv_def ballots_def filter_empty_conv)

lemma submit_inv:
  assumes inv: "approval_inv d" shows "ends_in approval_inv (submit run actor now d)"
proof -
  have step: "approval_inv e" if e:
      "approval_requests e = approval_requests d @ [new_request (db_next d) run n m actor now]"
      "approval_decisions e = approval_decisions d"
      "approval_decision_issues e = approval_decision_issues d" "Suc (db_next d) \<le> db_next e" for e n m
  proof -
    let ?r = "new_request (db_next d) run n m actor now" and ?e = "d\<lparr>db_next := db_next e\<rparr>"
    have ok: "request_ok e ar = request_ok d ar" for ar
      using ballots_cong [OF e(2,3)] by (simp add: request_ok_def)
    have e': "approval_inv ?e" by (rule approval_inv_cong [OF inv]) (use e in auto)
    have keys: "keys_ok ar_id (db_next d) (approval_requests d)" using inv by (simp add: approval_inv_def)
    have "keys_ok ar_id (Suc (db_next d)) (approval_requests d @ [?r])"
      by (rule request_table.keys_ok_insert [OF keys]) (simp add: new_request_def)
    then have "keys_ok ar_id (db_next e) (approval_requests e)"
      using e(1,4) by (auto elim: keys_ok_mono)
    moreover have "request_ok d ?r"
      using ballots_fresh [OF inv] by (simp add: request_ok_def new_request_def)
    moreover have "\<forall>ar \<in> set (approval_requests d). request_ok d ar"
      using inv by (simp add: approval_inv_def)
    ultimately show ?thesis
      using e' by (simp add: approval_inv_def e(1-3) ok)
  qed
  then show ?thesis
    unfolding submit_def
    by (intro ends inv audit_by_approval_inv step)
      (simp_all add: Let_def order_trans [OF _ record_edges_bulk_next])
qed

section \<open>Decisions\<close>

lemma ballots_add_decision:
  assumes inv: "approval_inv d"
  shows "ballots req (add_decision r choice ids comment actor now d) =
    ballots req d @ (if req = r then map (\<lambda>i. (i, choice)) ids else [])"
proof -
  let ?k = "db_next d" and ?new = "map (\<lambda>i. \<lparr>adi_approval_decision_id = db_next d, adi_issue_id = i\<rparr>) ids"
  let ?a = "new_decision (db_next d) r choice comment actor now"
  have old: "ballots_by a (approval_decision_issues d @ ?new) = ballots_by a (approval_decision_issues d)"
    if "a \<in> set (approval_decisions d)" for a
  proof -
    have "ad_id a < ?k" using that inv by (auto simp: approval_inv_def keys_ok_def)
    then show ?thesis by (simp add: ballots_by_def filter_empty_conv)
  qed
  have "filter (\<lambda>x. adi_approval_decision_id x = ?k) (approval_decision_issues d) = []"
    using inv by (auto simp: approval_inv_def filter_empty_conv)
  moreover have "filter (\<lambda>x. adi_approval_decision_id x = ?k) ?new = ?new" by (induction ids) auto
  ultimately have new: "ballots_by ?a (approval_decision_issues d @ ?new) = map (\<lambda>i. (i, choice)) ids"
    by (simp add: ballots_by_def new_decision_def comp_def)
  have "map (\<lambda>a. ballots_by a (approval_decision_issues d @ ?new))
      (filter (\<lambda>a. ad_approval_request_id a = req) (approval_decisions d)) =
    map (\<lambda>a. ballots_by a (approval_decision_issues d))
      (filter (\<lambda>a. ad_approval_request_id a = req) (approval_decisions d))"
    using old by (intro map_cong) auto
  note same = this
  have "ad_approval_request_id ?a = r" by (simp add: new_decision_def)
  then have "ballots req (add_decision r choice ids comment actor now d) =
    concat (map (\<lambda>a. ballots_by a (approval_decision_issues d @ ?new))
      (filter (\<lambda>a. ad_approval_request_id a = req) (approval_decisions d))) @
    (if req = r then ballots_by ?a (approval_decision_issues d @ ?new) else [])"
    by (simp add: ballots_def add_decision_def)
  then show ?thesis unfolding same new by (simp add: ballots_def)
qed

text \<open>Every decision has an issue, so the choices of a request are those of its ballots.\<close>

lemma choices_ballots:
  assumes "approval_inv d" shows "set (choices_of req d) = snd ` set (ballots req d)"
proof (intro set_eqI iffI)
  fix c
  assume "c \<in> set (choices_of req d)"
  then obtain a where a: "a \<in> set (approval_decisions d)" "ad_approval_request_id a = req" "ad_decision a = c"
    by (auto simp: choices_of_def split: if_splits)
  moreover obtain x where "x \<in> set (approval_decision_issues d)" "adi_approval_decision_id x = ad_id a"
    using assms a(1) by (auto simp: approval_inv_def)
  ultimately have "(adi_issue_id x, c) \<in> set (ballots req d)"
    unfolding set_ballots mem_Collect_eq by metis
  then show "c \<in> snd ` set (ballots req d)" by force
next
  fix c
  assume "c \<in> snd ` set (ballots req d)"
  then show "c \<in> set (choices_of req d)" by (force simp: set_ballots choices_of_def)
qed

lemma add_decision_rows:
  assumes inv: "approval_inv d" and req: "r < db_next d" and ids: "ids \<noteq> []"
  shows "keys_ok ad_id (Suc (db_next d)) (approval_decisions (add_decision r choice ids comment actor now d))"
    and "\<forall>x \<in> set (approval_decision_issues (add_decision r choice ids comment actor now d)).
      adi_approval_decision_id x < Suc (db_next d)"
    and "\<forall>a \<in> set (approval_decisions (add_decision r choice ids comment actor now d)).
      ad_approval_request_id a < Suc (db_next d) \<and>
      (\<exists>x \<in> set (approval_decision_issues (add_decision r choice ids comment actor now d)).
        adi_approval_decision_id x = ad_id a)"
  using assms
  by (auto simp: add_decision_def approval_inv_def keys_ok_def new_decision_def less_Suc_eq neq_Nil_conv)

lemma set_request_status_simps [simp]:
  "approval_decisions (set_request_status r st fin now d) = approval_decisions d"
  "approval_decision_issues (set_request_status r st fin now d) = approval_decision_issues d"
  "db_next (set_request_status r st fin now d) = db_next d"
  "corrections (set_request_status r st fin now d) = corrections d"
  "issues (set_request_status r st fin now d) = issues d"
  "correction_suggestions (set_request_status r st fin now d) = correction_suggestions d"
  "review_runs (set_request_status r st fin now d) = review_runs d"
  "ballots req (set_request_status r st fin now d) = ballots req d"
  by (simp_all add: set_request_status_def ballots_def)

lemma add_decision_simps [simp]:
  "approval_requests (add_decision r ch ids c a now d) = approval_requests d"
  "db_next (add_decision r ch ids c a now d) = Suc (db_next d)"
  "corrections (add_decision r ch ids c a now d) = corrections d"
  "issues (add_decision r ch ids c a now d) = issues d"
  "correction_suggestions (add_decision r ch ids c a now d) = correction_suggestions d"
  "review_runs (add_decision r ch ids c a now d) = review_runs d"
  by (simp_all add: add_decision_def)

lemma ballots_audit_by [simp]: "ballots req (audit_by u ac et ei m now d) = ballots req d"
  by (simp add: ballots_def)

text \<open>The status a decision computes is the one its ballots stand for.\<close>

lemma add_decision_inv:
  assumes inv: "approval_inv d" and ar: "get_approval_request d r = Some ar"
    and ids: "ids \<noteq> []" "distinct ids" "set ids \<inter> fst ` set (ballots r d) = {}"
    and st: "st = recompute_approval_request_status
        (choices_of r (add_decision r choice ids comment actor now d)) rest"
  shows "approval_inv (set_request_status r st fin now' (add_decision r choice ids comment actor now d))"
    (is "approval_inv (set_request_status r st fin now' ?d)")
proof -
  let ?e = "set_request_status r st fin now' ?d"
  have r: "r < db_next d" "ar_id ar = r"
    using inv request_table.get_SomeD [OF ar] by (auto simp: approval_inv_def keys_ok_def)
  note rows = add_decision_rows [OF inv r(1) ids(1), of choice comment actor now]
  have b: "ballots q ?e = ballots q d @ (if q = r then map (\<lambda>i. (i, choice)) ids else [])" for q
    using ballots_add_decision [OF inv] by simp
  have keys: "keys_ok ar_id (Suc (db_next d)) (approval_requests ?e)"
    using inv by (auto simp: set_request_status_def approval_inv_def
        intro!: request_table.keys_ok_upd elim: keys_ok_mono)
  have choices: "set (choices_of r ?d) = snd ` set (ballots r ?d)"
    using rows by (auto simp: choices_of_def set_ballots image_iff split: if_splits) metis+
  have own: "request_ok ?e (a\<lparr>ar_status := st, ar_decided_at := t, ar_updated_at := u\<rparr>)"
    if a: "a \<in> set (approval_requests d)" "ar_id a = r" for a t u
  proof -
    have "request_ok d a" using inv a(1) by (simp add: approval_inv_def)
    then have "distinct (map fst (ballots r d))" using a(2) by (simp add: request_ok_def Let_def)
    then have dist: "distinct (map fst (ballots r ?e))"
      using ids(2,3) by (auto simp: ballots_add_decision [OF inv] comp_def)
    have ne: "ballots r ?e \<noteq> []" using ids(1) by (simp add: ballots_add_decision [OF inv])
    have all: "list_all (\<lambda>c. c = APPROVE) (choices_of r ?d) \<longleftrightarrow> (\<forall>(i, c) \<in> set (ballots r ?e). c = APPROVE)"
      using choices by (auto simp: list_all_iff)
    have some: "c \<noteq> APPROVE \<longleftrightarrow> c = REJECT" for c by (cases c) auto
    show ?thesis
      using dist ne all a(2) unfolding st
      by (auto simp: request_ok_def Let_def recompute_approval_request_status_def some split: if_splits)
  qed
  have "request_ok ?e x" if "x \<in> set (approval_requests ?e)" for x
  proof -
    have other: "request_ok ?e a" if "a \<in> set (approval_requests d)" "ar_id a \<noteq> r" for a
      using inv that by (auto simp: approval_inv_def request_ok_def b simp del: set_request_status_simps)
    show ?thesis
      using that own other by (auto simp: set_request_status_def request_table.set_upd)
  qed
  then show ?thesis using rows keys by (simp add: approval_inv_def)
qed

lemma resolved_scope_cong:
  "issues e = issues d \<Longrightarrow> corrections e = corrections d \<Longrightarrow> resolved_scope run e = resolved_scope run d"
  by (simp add: resolved_scope_def resolved_rows_def cong: if_cong)

lemma remaining_scope_ballots:
  "get_approval_request d r = Some ar \<Longrightarrow> remaining_scope ar d =
     set (fst (resolved_scope (ar_review_run_id ar) d)) - fst ` set (ballots r d)"
  by (auto simp: remaining_scope_def decided_issue_ids_ballots dest!: request_table.get_SomeD)

lemma decide_inv:
  assumes inv: "approval_inv d" shows "ends_in approval_inv (decide r choice ids comment actor now d)"
  unfolding decide_def
proof (intro ends inv audit_by_approval_inv)
  fix ar
  assume "approval_get r d = Inr ar"
  then have ar: "get_approval_request d r = Some ar" "ar_id ar = r"
    by (auto simp: approval_get_def dest: request_table.get_SomeD)
  assume "raise_if (set ids = {} \<or> \<not> set ids \<subseteq> remaining_scope ar d)
    (Conflict IssueNotInApprovalScopeError) = None"
  then have "ids \<noteq> []" "set ids \<inter> fst ` set (ballots r d) = {}"
    by (auto simp: remaining_scope_ballots [OF ar(1)])
  then show "approval_inv (set_request_status (ar_id ar)
      (recompute_approval_request_status (choices_of (ar_id ar)
         (add_decision (ar_id ar) choice (remdups ids) comment actor now d)) (remaining_scope ar d - set ids))
      (remaining_scope ar d - set ids = {}) now
      (add_decision (ar_id ar) choice (remdups ids) comment actor now d))"
    unfolding ar(2) by (intro add_decision_inv [OF inv ar(1)]) auto
qed

lemma get_request_set_status:
  "get_approval_request (set_request_status r st fin now d) r =
     map_option (\<lambda>a. a\<lparr>ar_status := st, ar_decided_at := (if fin then Some now else ar_decided_at a),
       ar_updated_at := Some now\<rparr>) (get_approval_request d r)"
  by (simp add: set_request_status_def request_table.get_upd)

lemma decide_in_scope:
  assumes ar: "get_approval_request d r = Some ar" and ids: "ids \<noteq> []" "set ids \<subseteq> remaining_scope ar d"
  shows "decide r choice ids comment actor now d = (let
      d1 = add_decision r choice (remdups ids) comment actor now d;
      rest = remaining_scope ar d - set ids
    in returns (audit_by actor ''approval_request.decided'' ''APPROVAL_REQUEST'' r
      (Some ([(''decision'', PyStr (if choice = APPROVE then ''APPROVE'' else ''REJECT'')),
              (''issue_count'', PyInt (int (card (set ids))))] @
             (case comment of None \<Rightarrow> [] | Some c \<Rightarrow> if c = [] then [] else [(''comment'', PyStr c)]))) now
      (set_request_status r (recompute_approval_request_status (choices_of r d1) rest) (rest = {}) now d1)) r)"
  using assms request_table.get_SomeD [OF ar]
  by (simp add: decide_def approval_get_def raise_if_def Let_def)

section \<open>Properties\<close>

text \<open>
  C8. Submitting a review run succeeds exactly when the run is IN_REVIEW, none of its approval
  requests is open and it has a resolved issue; it then freezes the run and opens one PENDING
  request that counts the resolved issues and the distinct records they are about.
\<close>

theorem submit_spec:
  assumes "approval_inv d" and "get_review_run d run = Some rr"
  shows "if rr_status rr = RR_IN_REVIEW \<and> open_requests run d = [] \<and> resolved_rows run d \<noteq> []
    then \<exists>d'. submit run actor now d = (d', Inr (db_next d)) \<and>
      approval_requests d' = approval_requests d @
        [new_request (db_next d) run (length (resolved_rows run d))
           (card (snd ` set (resolved_rows run d))) actor now] \<and>
      map_option rr_status (get_review_run d' run) = Some RR_READY_FOR_APPROVAL \<and>
      open_requests run d' = [new_request (db_next d) run (length (resolved_rows run d))
           (card (snd ` set (resolved_rows run d))) actor now]
    else fst (submit run actor now d) = d \<and> \<not> succeeds (submit run actor now d)"
proof (cases "rr_status rr = RR_IN_REVIEW \<and> open_requests run d = [] \<and> resolved_rows run d \<noteq> []")
  case True
  have rr: "rr_id rr = run" using review_run_table.get_SomeD [OF assms(2)] by simp
  from True show ?thesis
    using assms(2) rr
    by (auto simp: submit_def review_get_def resolved_scope_def resolved_scope_from_rows_def Let_def
        review_run_table.get_upd open_requests_def open_approval_def new_request_def)
next
  case False
  have "atomic_from d (submit run actor now d)" unfolding submit_def by (intro atomic)
  moreover have "\<not> succeeds (submit run actor now d)"
    using False assms(2)
    by (auto simp: submit_def review_get_def succeeds_attempt succeeds_checked resolved_scope_def
        resolved_scope_from_rows_def)
  ultimately show ?thesis using False by (auto dest: atomicD)
qed

lemma sample_approval_inv: "approval_inv (sample_db st)" "approval_inv (decided_db st)"
  by (simp_all add: approval_inv_def keys_ok_def sample_db_def decided_db_def empty_db_def)

lemma sample_submit:
  "open_requests 12 (decided_db RR_IN_REVIEW) = []" "resolved_rows 12 (decided_db RR_IN_REVIEW) = [(13, ''A'')]"
  by (simp_all add: open_requests_def resolved_rows_def RESOLVED_CORRECTION_STATUSES_def sample_defs)

theorem submit_spec_witness:
  "\<exists>d'. submit 12 1 5 (decided_db RR_IN_REVIEW) = (d', Inr 40) \<and>
     open_requests 12 d' = [new_request 40 12 1 1 1 5]"
proof -
  have "get_review_run (decided_db RR_IN_REVIEW) 12 = Some (sample_review_run 12 RR_IN_REVIEW)"
    by (simp add: find_row_def sample_defs)
  moreover have "db_next (decided_db RR_IN_REVIEW) = 40" by (simp add: decided_db_def sample_db_def)
  ultimately show ?thesis
    using submit_spec [OF sample_approval_inv(2) [of RR_IN_REVIEW], of 12 "sample_review_run 12 RR_IN_REVIEW" 1 5]
    by (auto simp: sample_submit sample_review_run_def)
qed

text \<open>
  C3. A decision on a request is accepted exactly when it names at least one issue and only
  issues that are resolved in the review run and not yet decided in this request; otherwise
  it raises ISSUE_NOT_IN_APPROVAL_SCOPE and changes nothing. When accepted it adds one ballot
  per named issue, touches no other request, and the request becomes PARTIALLY_APPROVED while
  issues remain, else APPROVED if every ballot ever cast in it approves and REJECTED if not.
\<close>

theorem decide_spec:
  assumes inv: "approval_inv d" and ar: "get_approval_request d r = Some ar"
  shows "if ids \<noteq> [] \<and> set ids \<subseteq> remaining_scope ar d
    then \<exists>d'. decide r choice ids comment actor now d = (d', Inr r) \<and>
      ballots r d' = ballots r d @ map (\<lambda>i. (i, choice)) (remdups ids) \<and>
      (\<forall>q. q \<noteq> r \<longrightarrow> ballots q d' = ballots q d) \<and>
      map_option ar_status (get_approval_request d' r) = Some (
        if \<not> remaining_scope ar d \<subseteq> set ids then AR_PARTIALLY_APPROVED
        else if \<forall>(i, c) \<in> set (ballots r d'). c = APPROVE then AR_APPROVED else AR_REJECTED)
    else decide r choice ids comment actor now d = (d, Inl (Conflict IssueNotInApprovalScopeError))"
proof (cases "ids \<noteq> [] \<and> set ids \<subseteq> remaining_scope ar d")
  case True
  let ?d1 = "add_decision r choice (remdups ids) comment actor now d"
  have fresh: "set (remdups ids) \<inter> fst ` set (ballots r d) = {}"
    using True by (auto simp: remaining_scope_ballots [OF ar])
  have "list_all (\<lambda>c. c = APPROVE) (choices_of r ?d1) \<longleftrightarrow> list_all (\<lambda>c. c = APPROVE) (choices_of r d) \<and> choice = APPROVE"
    by (auto simp: choices_of_def add_decision_def new_decision_def list_all_iff)
  moreover have "list_all (\<lambda>c. c = APPROVE) (choices_of r d) \<longleftrightarrow> (\<forall>(i, c) \<in> set (ballots r d). c = APPROVE)"
    using choices_ballots [OF inv, of r] by (auto simp: list_all_iff)
  moreover have "remdups ids \<noteq> []" using True by simp
  ultimately have "list_all (\<lambda>c. c = APPROVE) (choices_of r ?d1) \<longleftrightarrow>
      (\<forall>(i, c) \<in> set (ballots r ?d1). c = APPROVE)"
    by (auto simp: ballots_add_decision [OF inv] neq_Nil_conv)
  then show ?thesis using True ar
    by (simp add: decide_in_scope [OF ar] Let_def get_request_set_status ballots_add_decision [OF inv]
        recompute_approval_request_status_def)
next
  case False
  then have "decide r choice ids comment actor now d = (d, Inl (Conflict IssueNotInApprovalScopeError))"
    using request_table.get_SomeD [OF ar] ar by (auto simp: decide_def approval_get_def raise_if_def Let_def)
  with False show ?thesis by (simp only: if_False)
qed

text \<open>The sample review run after its submission.\<close>

definition submitted_db :: db where
  "submitted_db = (decided_db RR_READY_FOR_APPROVAL)\<lparr>approval_requests := [new_request 30 12 1 1 1 2]\<rparr>"

lemma submitted_inv: "approval_inv submitted_db"
  by (simp add: approval_inv_def keys_ok_def submitted_db_def decided_db_def sample_db_def empty_db_def
      new_request_def request_ok_def ballots_def)

lemma submitted_scope: "remaining_scope (new_request 30 12 1 1 1 2) submitted_db = {13}"
  by (simp add: remaining_scope_def decided_issue_ids_def resolved_scope_def resolved_scope_from_rows_def
      resolved_rows_def RESOLVED_CORRECTION_STATUSES_def submitted_db_def new_request_def sample_defs)

lemma submitted_request: "get_approval_request submitted_db 30 = Some (new_request 30 12 1 1 1 2)"
  by (simp add: find_row_def submitted_db_def new_request_def)

theorem decide_spec_witness:
  "\<exists>d'. decide 30 APPROVE [13, 13] None 2 7 submitted_db = (d', Inr 30) \<and>
     ballots 30 d' = ballots 30 submitted_db @ [(13, APPROVE)] \<and>
     decide 30 REJECT [14] None 2 7 submitted_db = (submitted_db, Inl (Conflict IssueNotInApprovalScopeError))"
  using decide_spec [OF submitted_inv submitted_request, of "[13, 13]" APPROVE None 2 7]
    decide_spec [OF submitted_inv submitted_request, of "[14]" REJECT None 2 7]
  by (auto simp: submitted_scope simp del: One_nat_def)

text \<open>
  C4. When a decision leaves its request APPROVED, every resolved issue of the review run
  carries an approving ballot in that request, and no ballot in it rejects anything.
\<close>

theorem approved_request_covers_resolved_issues:
  assumes inv: "approval_inv d" and run: "decide r choice ids comment actor now d = (d', Inr k)"
    and ar': "get_approval_request d' r = Some ar'" and st: "ar_status ar' = AR_APPROVED"
    and i: "i \<in> set (fst (resolved_scope (ar_review_run_id ar') d'))"
  shows "(i, APPROVE) \<in> set (ballots r d') \<and> (\<forall>j. (j, REJECT) \<notin> set (ballots r d'))"
proof -
  obtain ar where ar: "get_approval_request d r = Some ar"
    using run by (auto simp: decide_def approval_get_def attempt_returns)
  have ok: "ids \<noteq> [] \<and> set ids \<subseteq> remaining_scope ar d"
    using decide_spec [OF inv ar, of ids choice comment actor now] run by (auto split: if_splits)
  then have sp: "ballots r d' = ballots r d @ map (\<lambda>i. (i, choice)) (remdups ids)"
    "Some (ar_status ar') = Some (
        if \<not> remaining_scope ar d \<subseteq> set ids then AR_PARTIALLY_APPROVED
        else if \<forall>(i, c) \<in> set (ballots r d'). c = APPROVE then AR_APPROVED else AR_REJECTED)"
    using decide_spec [OF inv ar, of ids choice comment actor now] run ar' by (auto split: if_splits)
  have same: "ar_review_run_id ar' = ar_review_run_id ar" "issues d' = issues d" "corrections d' = corrections d"
    using run ar' ok ar by (auto simp: decide_in_scope [OF ar] Let_def get_request_set_status)
  have "i \<in> set (fst (resolved_scope (ar_review_run_id ar) d))"
    using i unfolding same(1) resolved_scope_cong [OF same(2,3)] .
  then have "i \<in> fst ` set (ballots r d) \<or> i \<in> remaining_scope ar d"
    unfolding remaining_scope_ballots [OF ar] by blast
  moreover have all: "remaining_scope ar d \<subseteq> set ids" "\<forall>(i, c) \<in> set (ballots r d'). c = APPROVE"
    using sp(2) st by (auto split: if_splits)
  ultimately have "i \<in> fst ` set (ballots r d')"
    unfolding sp(1) by (auto simp: image_Un image_image)
  then obtain c where "(i, c) \<in> set (ballots r d')" by auto
  with all(2) show ?thesis by auto
qed

lemma submitted_decision:
  "snd (decide 30 APPROVE [13] None 2 7 submitted_db) = Inr 30 \<and>
   map_option ar_status (get_approval_request (fst (decide 30 APPROVE [13] None 2 7 submitted_db)) 30) = Some AR_APPROVED \<and>
   map_option ar_review_run_id (get_approval_request (fst (decide 30 APPROVE [13] None 2 7 submitted_db)) 30) = Some 12 \<and>
   fst (resolved_scope 12 (fst (decide 30 APPROVE [13] None 2 7 submitted_db))) = [13]"
  by code_simp

theorem approved_request_covers_resolved_issues_witness:
  "(13, APPROVE) \<in> set (ballots 30 (fst (decide 30 APPROVE [13] None 2 7 submitted_db)))"
proof -
  let ?d = "fst (decide 30 APPROVE [13] None 2 7 submitted_db)"
  have run: "decide 30 APPROVE [13] None 2 7 submitted_db = (?d, Inr 30)"
    using submitted_decision by (metis prod.collapse)
  obtain ar where ar: "get_approval_request ?d 30 = Some ar" "ar_status ar = AR_APPROVED" "ar_review_run_id ar = 12"
    using submitted_decision by auto
  have "13 \<in> set (fst (resolved_scope (ar_review_run_id ar) ?d))"
    using submitted_decision unfolding ar(3) by simp
  then show ?thesis
    using approved_request_covers_resolved_issues [OF submitted_inv run ar(1,2)] by blast
qed

end
