(* ===== verification/Generators.thy ===== *)
theory Generators
  imports Store
begin

text \<open>
  The deterministic correction generators (\<open>app/modules/review/generators\<close>): a registry from
  rule types to generators, each of which proposes a value for an issue or declines.
  Arithmetic on floats is rounded operation by operation. The regular expression engine is a
  parameter: \<open>regex p\<close> is the compiled pattern as a predicate on the text (\<open>re.match\<close>), or
  nothing when \<open>p\<close> does not compile.
\<close>

section \<open>Float arithmetic\<close>

fun pf_sub :: "pyfloat \<Rightarrow> pyfloat \<Rightarrow> pyfloat" where
  "pf_sub (Fin a) (Fin b) = fl (a - b)"
| "pf_sub NotANumber y = NotANumber"
| "pf_sub x NotANumber = NotANumber"
| "pf_sub PosInf PosInf = NotANumber"
| "pf_sub NegInf NegInf = NotANumber"
| "pf_sub PosInf y = PosInf"
| "pf_sub NegInf y = NegInf"
| "pf_sub (Fin a) PosInf = NegInf"
| "pf_sub (Fin a) NegInf = PosInf"

fun pf_abs :: "pyfloat \<Rightarrow> pyfloat" where
  "pf_abs (Fin a) = Fin \<bar>a\<bar>"
| "pf_abs NotANumber = NotANumber"
| "pf_abs x = PosInf"

text \<open>Division by a number that is zero or positive; by zero it raises.\<close>

fun pf_div_pos :: "pyfloat \<Rightarrow> pyfloat \<Rightarrow> exn + pyfloat" where
  "pf_div_pos x (Fin b) = (if b = 0 then Inl (OtherException ''ZeroDivisionError'')
     else (case x of Fin a \<Rightarrow> Inr (fl (a / b)) | y \<Rightarrow> Inr y))"
| "pf_div_pos (Fin a) PosInf = Inr (Fin 0)"
| "pf_div_pos x y = Inr NotANumber"

text \<open>\<open>min(0.9, max(0.1, raw))\<close>: a comparison with a NaN is false, so a NaN gives 0.1.\<close>

definition clamp_confidence :: "pyfloat \<Rightarrow> pyfloat" where
  "clamp_confidence raw = (let m = (if pf_lt (fl (1/10)) raw then raw else fl (1/10))
     in if pf_lt m (fl (9/10)) then m else fl (9/10))"

text \<open>
  \<open>Decimal(str(round(x, 3)))\<close> of a number between 0 and 1: rounding to three places and
  printing the shortest decimal gives the thousandths, without trailing zeros.
\<close>

definition decimal_thousandths :: "nat \<Rightarrow> dec" where
  "decimal_thousandths k =
     (if k mod 100 = 0 then DFin False (k div 100) (- 1)
      else if k mod 10 = 0 then DFin False (k div 10) (- 2)
      else DFin False k (- 3))"

definition decimal_round3 :: "pyfloat \<Rightarrow> dec" where
  "decimal_round3 x = (case x of Fin r \<Rightarrow> decimal_thousandths (nat (round_half_even (1000 * r))) | _ \<Rightarrow> DNaN)"

section \<open>Generators\<close>

record generator_context =
  gc_issue :: issue
  gc_failure :: validation_failure
  gc_column :: "column option"
  gc_profile :: "column_profile option"
  gc_version :: rule_version

record suggestion_draft =
  sd_suggested_value :: string
  sd_confidence :: dec
  sd_reasoning :: string

definition NUMERIC_TYPES :: "string list" where
  "NUMERIC_TYPES = [''INTEGER'', ''DECIMAL'']"

definition CATEGORICAL_TYPES :: "string list" where
  "CATEGORICAL_TYPES = [''STRING'', ''TEXT'', ''BOOLEAN'', ''DATE'', ''DATETIME'']"

fun dec_is_zero :: "dec \<Rightarrow> bool" where
  "dec_is_zero (DFin _ c _) = (c = 0)"
| "dec_is_zero _ = False"

definition median_fill :: "generator_context \<Rightarrow> exn + suggestion_draft option" where
  "median_fill ctx = (case gc_column ctx of None \<Rightarrow> Inr None | Some col \<Rightarrow>
     if col_normalized_data_type col \<notin> set NUMERIC_TYPES then Inr None else
     (case gc_profile ctx of None \<Rightarrow> Inr None | Some p \<Rightarrow>
      (case (cp_median_value p, cp_stddev_value p) of
         (Some median, Some stddev) \<Rightarrow>
           (case (if dec_is_zero median then Inr (DFin False 5 (- 1))
                  else map_sum id (\<lambda>q. decimal_round3 (clamp_confidence (pf_sub (Fin 1) q)))
                    (pf_div_pos (dec_to_float stddev) (pf_abs (dec_to_float median)))) of
              Inl e \<Rightarrow> Inl e
            | Inr conf \<Rightarrow> Inr (Some \<lparr>sd_suggested_value = str_dec median, sd_confidence = conf,
                sd_reasoning = ''Median value from the dataset's most recent completed profile run''\<rparr>))
       | _ \<Rightarrow> Inr None)))"

definition mode_fill :: "generator_context \<Rightarrow> exn + suggestion_draft option" where
  "mode_fill ctx = (case gc_column ctx of None \<Rightarrow> Inr None | Some col \<Rightarrow>
     if col_normalized_data_type col \<notin> set CATEGORICAL_TYPES then Inr None else
     (case gc_profile ctx of None \<Rightarrow> Inr None | Some p \<Rightarrow>
      (case (cp_mode_value p, cp_distinct_percentage p) of
         (Some mode, Some pct) \<Rightarrow>
           (case pf_div_pos (dec_to_float pct) (Fin 100) of
              Inl e \<Rightarrow> Inl e
            | Inr q \<Rightarrow> Inr (Some \<lparr>sd_suggested_value = mode,
                sd_confidence = decimal_round3 (clamp_confidence (pf_sub (Fin 1) q)),
                sd_reasoning = ''Most frequent value (mode) from the dataset's most recent completed profile run''\<rparr>))
       | _ \<Rightarrow> Inr None)))"

text \<open>A bound that is not a number raises once it is compared.\<close>

definition bound_float :: "pyval \<Rightarrow> exn + pyfloat" where
  "bound_float v = map_sum Conv id (py_float v)"

definition clamp_draft :: "pyval \<Rightarrow> suggestion_draft" where
  "clamp_draft b = \<lparr>sd_suggested_value = py_str b, sd_confidence = DFin False 85 (- 2),
     sd_reasoning = ''Clamped to the rule's configured bound ('' @ py_str b @ '')''\<rparr>"

definition range_clamp :: "generator_context \<Rightarrow> exn + suggestion_draft option" where
  "range_clamp ctx = (let def = rv_definition (gc_version ctx);
       min_bound = dict_get def ''min''; max_bound = dict_get def ''max''
     in case vf_failed_value (gc_failure ctx) of None \<Rightarrow> Inr None | Some text \<Rightarrow>
       (case py_float_of_str text of Inl _ \<Rightarrow> Inr None | Inr v \<Rightarrow>
         (let above = (if max_bound = PyNone then Inr None else
                (case bound_float max_bound of Inl e \<Rightarrow> Inl e
                 | Inr b \<Rightarrow> if pf_lt b v then Inr (Some (clamp_draft max_bound)) else Inr None))
          in if min_bound = PyNone then above else
             (case bound_float min_bound of Inl e \<Rightarrow> Inl e
              | Inr b \<Rightarrow> if pf_lt v b then Inr (Some (clamp_draft min_bound)) else above))))"

type_synonym regex_engine = "string \<Rightarrow> (string \<Rightarrow> bool) option"

definition trim_whitespace :: "regex_engine \<Rightarrow> generator_context \<Rightarrow> exn + suggestion_draft option" where
  "trim_whitespace regex ctx = (case vf_failed_value (gc_failure ctx) of None \<Rightarrow> Inr None | Some text \<Rightarrow>
     (let trimmed = py_strip text; pat = dict_get (rv_definition (gc_version ctx)) ''regex''
      in if trimmed = text then Inr None
         else if \<not> py_truthy pat then Inr None
         else (case pat of
             PyStr p \<Rightarrow> (case regex p of None \<Rightarrow> Inr None
               | Some matches \<Rightarrow> if \<not> matches trimmed then Inr None
                   else Inr (Some \<lparr>sd_suggested_value = trimmed, sd_confidence = DFin False 95 (- 2),
                     sd_reasoning = ''Leading/trailing whitespace removed; trimmed value matches the rule's pattern''\<rparr>))
           | _ \<Rightarrow> Inl (Conv TypeError))))"

text \<open>The registry: fix type and generator, in the order the modules are imported.\<close>

definition GENERATOR_REGISTRY ::
  "regex_engine \<Rightarrow> string \<Rightarrow> (string \<times> (generator_context \<Rightarrow> exn + suggestion_draft option)) list" where
  "GENERATOR_REGISTRY regex rt =
     (if rt = ''COMPLETENESS'' then [(''median_fill'', median_fill), (''mode_fill'', mode_fill)]
      else if rt = ''RANGE'' then [(''range_clamp'', range_clamp)]
      else if rt = ''PATTERN'' then [(''trim_whitespace'', trim_whitespace regex)]
      else [])"

section \<open>Confidences\<close>

lemma map_sum_Inr_iff [simp]: "map_sum f g s = Inr y \<longleftrightarrow> (\<exists>x. s = Inr x \<and> y = g x)"
  by (cases s) auto

lemma round_half_even_ge: "of_int n \<le> x \<Longrightarrow> n \<le> round_half_even x"
  using le_floor_iff [of n x] by (auto simp: round_half_even_def Let_def)

lemma round_half_even_le:
  assumes "x < of_int n + 1/2" shows "round_half_even x \<le> n"
proof -
  have f: "of_int \<lfloor>x\<rfloor> \<le> x" by simp
  with assms have "of_int \<lfloor>x\<rfloor> < (of_int n + 1 :: rat)" by linarith
  then have "of_int \<lfloor>x\<rfloor> < (of_int (n + 1) :: rat)" by simp
  then have "\<lfloor>x\<rfloor> \<le> n" by linarith
  moreover have "\<lfloor>x\<rfloor> \<noteq> n" if "1/2 \<le> x - of_int \<lfloor>x\<rfloor>" using that assms by auto
  ultimately show ?thesis by (fastforce simp: round_half_even_def Let_def)
qed

lemma decimal_thousandths_value:
  "\<exists>c e. decimal_thousandths k = DFin False c e \<and> dec_value False c e = of_nat k / 1000"
proof (cases "k mod 100 = 0")
  case True
  then obtain j where "k = 100 * j" by (metis dvd_def mod_0_imp_dvd)
  then show ?thesis by (auto simp: decimal_thousandths_def dec_value_def rat_pow_def)
next
  case False
  show ?thesis
  proof (cases "k mod 10 = 0")
    case True
    then obtain j where "k = 10 * j" by (metis dvd_def mod_0_imp_dvd)
    then show ?thesis using False
      by (auto simp: decimal_thousandths_def dec_value_def rat_pow_def)
  qed (use False in \<open>auto simp: decimal_thousandths_def dec_value_def rat_pow_def\<close>)
qed

lemma fl_tenth: "fl (1/10) = Fin (3602879701896397 / 36028797018963968)" by code_simp

lemma fl_nine_tenths: "fl (9/10) = Fin (8106479329266893 / 9007199254740992)" by code_simp

lemma clamp_between:
  "a \<le> b \<Longrightarrow> \<exists>r. (let m = (if pf_lt (Fin a) x then x else Fin a) in if pf_lt m (Fin b) then m else Fin b) = Fin r \<and>
     a \<le> r \<and> r \<le> b"
  by (cases x) auto

lemma clamp_confidence_range:
  "\<exists>r. clamp_confidence x = Fin r \<and> 3602879701896397 / 36028797018963968 \<le> r \<and>
     r \<le> 8106479329266893 / 9007199254740992"
  unfolding clamp_confidence_def fl_tenth fl_nine_tenths by (rule clamp_between) simp

definition confidence_ok :: "dec \<Rightarrow> bool" where
  "confidence_ok c = (case c of DFin neg m e \<Rightarrow>
     \<not> neg \<and> 1/10 \<le> dec_value neg m e \<and> dec_value neg m e \<le> 95/100 | _ \<Rightarrow> False)"

lemma clamped_confidence_ok: "confidence_ok (decimal_round3 (clamp_confidence x))"
proof -
  obtain r where r: "clamp_confidence x = Fin r" "3602879701896397 / 36028797018963968 \<le> r"
    "r \<le> 8106479329266893 / 9007199254740992"
    using clamp_confidence_range by blast
  let ?k = "round_half_even (1000 * r)"
  have "100 \<le> ?k" using r(2) by (intro round_half_even_ge) simp
  moreover have "?k \<le> 900" using r(3) by (intro round_half_even_le) simp
  ultimately have k: "100 \<le> nat ?k" "nat ?k \<le> 900" by auto
  obtain c e where ce: "decimal_thousandths (nat ?k) = DFin False c e" "dec_value False c e = of_nat (nat ?k) / 1000"
    using decimal_thousandths_value by blast
  have "(100 :: rat) \<le> of_nat (nat ?k)" "of_nat (nat ?k) \<le> (900 :: rat)"
    using k by linarith+
  then show ?thesis using ce by (simp add: confidence_ok_def decimal_round3_def r(1))
qed

section \<open>The two fills exclude each other\<close>

lemma fills_exclusive:
  "median_fill ctx = Inr (Some draft) \<Longrightarrow> mode_fill ctx = Inr None"
  "mode_fill ctx = Inr (Some draft) \<Longrightarrow> median_fill ctx = Inr None"
  by (auto simp: median_fill_def mode_fill_def NUMERIC_TYPES_def CATEGORICAL_TYPES_def
      split: option.splits if_splits)

section \<open>Properties\<close>

text \<open>
  C11. Whatever the profile contains (zero, NaN, infinite or huge values included), every
  suggestion of every registered generator carries a confidence between 0.1 and 0.95.
\<close>

theorem generator_confidence_bounds:
  assumes "(fix, gen) \<in> set (GENERATOR_REGISTRY regex rt)" and "gen ctx = Inr (Some draft)"
  shows "confidence_ok (sd_confidence draft)"
proof -
  have fixed: "confidence_ok (DFin False 5 (- 1))" "confidence_ok (DFin False 85 (- 2))"
    "confidence_ok (DFin False 95 (- 2))"
    by (simp_all add: confidence_ok_def dec_value_def rat_pow_def)
  consider "gen = median_fill" | "gen = mode_fill" | "gen = range_clamp" | "gen = trim_whitespace regex"
    using assms(1) by (auto simp: GENERATOR_REGISTRY_def split: if_splits)
  then show ?thesis
  proof cases
    case 1
    then show ?thesis using assms(2) fixed clamped_confidence_ok
      by (auto simp: median_fill_def split: option.splits if_splits sum.splits)
  next
    case 2
    then show ?thesis using assms(2) clamped_confidence_ok
      by (auto simp: mode_fill_def split: option.splits if_splits sum.splits)
  next
    case 3
    then show ?thesis using assms(2) fixed
      by (auto simp: range_clamp_def clamp_draft_def Let_def split: option.splits if_splits sum.splits)
  next
    case 4
    then show ?thesis using assms(2) fixed
      by (auto simp: trim_whitespace_def Let_def split: option.splits if_splits pyval.splits)
  qed
qed

definition sample_context :: "string \<Rightarrow> string option \<Rightarrow> json \<Rightarrow> generator_context" where
  "sample_context ty failed def = \<lparr>gc_issue = \<lparr>iss_id = 13, iss_review_run_id = 12, iss_validation_failure_id = 9,
       iss_column_id = Some 2, iss_record_ref = ''A'', iss_row_index = 0, iss_original_value = failed,
       iss_severity = ''HIGH'', iss_status = ISS_PENDING, iss_assigned_reviewer_id = None,
       iss_created_at = 0, iss_updated_at = None\<rparr>,
     gc_failure = \<lparr>vf_id = 9, vf_validation_result_id = 7, vf_validation_run_id = 6,
       vf_rule_assignment_id = 5, vf_column_id = Some 2, vf_severity = ''HIGH'', vf_failed_value = failed,
       vf_expected_value = None, vf_reason = None, vf_created_at = 0\<rparr>,
     gc_column = Some (plain_column 2 1 ''c'' ty 1),
     gc_profile = Some ((plain_column_profile 30 31 2 0)\<lparr>
       cp_distinct_percentage := Some (DFin False 50 0), cp_median_value := Some (DFin False 0 0),
       cp_mode_value := Some ''x'', cp_stddev_value := Some (DFin False 1 0)\<rparr>),
     gc_version = \<lparr>rv_id = 4, rv_rule_id = 3, rv_version_number = 1, rv_definition = def,
       rv_severity = ''HIGH'', rv_error_message_template = None, rv_is_current = True,
       rv_created_by = None, rv_created_at = 0\<rparr>\<rparr>"

theorem generator_confidence_bounds_witness:
  "confidence_ok (sd_confidence (case median_fill (sample_context ''INTEGER'' None []) of
     Inr (Some draft) \<Rightarrow> draft | _ \<Rightarrow> undefined))"
  by (rule generator_confidence_bounds [of "''median_fill''" median_fill "\<lambda>_. None" "''COMPLETENESS''"
        "sample_context ''INTEGER'' None []"])
    (simp_all add: GENERATOR_REGISTRY_def median_fill_def sample_context_def NUMERIC_TYPES_def
      plain_column_def plain_column_profile_def)

text \<open>
  C10. A suggested value repairs what the rule objected to. A clamped value is the text of the
  configured bound the failing number lies strictly beyond; a trimmed value is the failing text
  without the white space around it, differs from it, and matches the pattern of the rule; and
  for one issue at most one of the two fills for missing values applies.
\<close>

theorem suggestions_repair_the_failure:
  assumes "gen ctx = Inr (Some draft)"
  shows "(gen = range_clamp \<longrightarrow> (\<exists>text v b x. vf_failed_value (gc_failure ctx) = Some text \<and>
      py_float_of_str text = Inr v \<and> sd_suggested_value draft = py_str b \<and> bound_float b = Inr x \<and>
      (b = dict_get (rv_definition (gc_version ctx)) ''min'' \<and> pf_lt v x \<or>
       b = dict_get (rv_definition (gc_version ctx)) ''max'' \<and> pf_lt x v))) \<and>
    (gen = trim_whitespace regex \<longrightarrow> (\<exists>text p matches. vf_failed_value (gc_failure ctx) = Some text \<and>
      dict_get (rv_definition (gc_version ctx)) ''regex'' = PyStr p \<and> regex p = Some matches \<and>
      sd_suggested_value draft = py_strip text \<and> py_strip text \<noteq> text \<and> matches (sd_suggested_value draft))) \<and>
    (gen = median_fill \<longrightarrow> mode_fill ctx = Inr None) \<and> (gen = mode_fill \<longrightarrow> median_fill ctx = Inr None)"
proof (intro conjI impI)
  assume "gen = range_clamp"
  then show "\<exists>text v b x. vf_failed_value (gc_failure ctx) = Some text \<and>
      py_float_of_str text = Inr v \<and> sd_suggested_value draft = py_str b \<and> bound_float b = Inr x \<and>
      (b = dict_get (rv_definition (gc_version ctx)) ''min'' \<and> pf_lt v x \<or>
       b = dict_get (rv_definition (gc_version ctx)) ''max'' \<and> pf_lt x v)"
    using assms by (auto simp: range_clamp_def clamp_draft_def Let_def
        split: option.splits if_splits sum.splits)
next
  assume "gen = trim_whitespace regex"
  then show "\<exists>text p matches. vf_failed_value (gc_failure ctx) = Some text \<and>
      dict_get (rv_definition (gc_version ctx)) ''regex'' = PyStr p \<and> regex p = Some matches \<and>
      sd_suggested_value draft = py_strip text \<and> py_strip text \<noteq> text \<and> matches (sd_suggested_value draft)"
    using assms by (auto simp: trim_whitespace_def Let_def split: option.splits if_splits pyval.splits)
qed (use assms fills_exclusive in blast)+

lemma sample_clamp:
  "range_clamp (sample_context ''INTEGER'' (Some ''inf'') [(''max'', PyInt 0)]) =
     Inr (Some (clamp_draft (PyInt 0)))"
  by code_simp

theorem suggestions_repair_the_failure_witness:
  "\<exists>text v b x. vf_failed_value (gc_failure (sample_context ''INTEGER'' (Some ''inf'')
       [(''max'', PyInt 0)])) = Some text \<and> py_float_of_str text = Inr v \<and>
     sd_suggested_value (clamp_draft (PyInt 0)) = py_str b \<and> bound_float b = Inr x \<and> (pf_lt v x \<or> pf_lt x v)"
  using suggestions_repair_the_failure [where gen = range_clamp, OF sample_clamp]
  by (metis (no_types, lifting))

end
