(* ===== verification/Suggestions.thy ===== *)
theory Suggestions
  imports Decisions Generators "HOL-Library.Sublist"
begin

text \<open>
  Generating rule-based suggestions for a review run:
  \<open>app/modules/review/suggestion_service.py\<close>. Pending issues without a suggestion are worked
  through in batches of 200, with one commit per batch. The two caches of the service are
  not represented: they hold what the same queries would return.
\<close>

definition BATCH_SIZE :: nat where
  "BATCH_SIZE = 200"

text \<open>The latest completed profile run is the first one with the largest creation time.\<close>

definition latest_run :: "profile_run list \<Rightarrow> profile_run option" where
  "latest_run rs = (case sort_key (\<lambda>r. - prun_created_at r) rs of [] \<Rightarrow> None | r # _ \<Rightarrow> Some r)"

definition latest_column_profile :: "uuid \<Rightarrow> uuid \<Rightarrow> db \<Rightarrow> exn + column_profile option" where
  "latest_column_profile dsid col d =
     (case latest_run (filter (\<lambda>r. prun_dataset_id r = dsid \<and> prun_status r = RUN_COMPLETED) (profile_runs d)) of
        None \<Rightarrow> Inr None
      | Some r \<Rightarrow> at_most_one MultipleResultsFound
          (filter (\<lambda>p. cp_profile_run_id p = prun_id r \<and> cp_column_id p = col) (column_profiles d)))"

definition rule_chain :: "uuid \<Rightarrow> db \<Rightarrow> exn + (rule_version \<times> rule)" where
  "rule_chain ra d =
     (case get_rule_assignment d ra of None \<Rightarrow> Inl AttributeError | Some a \<Rightarrow>
      (case get_rule_version d (ra_rule_version_id a) of None \<Rightarrow> Inl AttributeError | Some rv \<Rightarrow>
       (case get_rule d (rv_rule_id rv) of None \<Rightarrow> Inl AttributeError | Some r \<Rightarrow> Inr (rv, r))))"

definition generator_context_for :: "uuid \<Rightarrow> issue \<Rightarrow> db \<Rightarrow> exn + (generator_context \<times> string)" where
  "generator_context_for dsid iss d =
     (case get_validation_failure d (iss_validation_failure_id iss) of None \<Rightarrow> Inl AttributeError | Some vf \<Rightarrow>
      (case rule_chain (vf_rule_assignment_id vf) d of Inl e \<Rightarrow> Inl e | Inr (rv, r) \<Rightarrow>
       (case (case iss_column_id iss of None \<Rightarrow> Inr None | Some c \<Rightarrow> latest_column_profile dsid c d) of
          Inl e \<Rightarrow> Inl e
        | Inr prof \<Rightarrow>
            Inr (\<lparr>gc_issue = iss, gc_failure = vf,
                  gc_column = (case iss_column_id iss of None \<Rightarrow> None | Some c \<Rightarrow> get_column d c),
                  gc_profile = prof, gc_version = rv\<rparr>, rule_type r))))"

definition new_suggestion :: "nat \<Rightarrow> uuid \<Rightarrow> string \<Rightarrow> suggestion_draft \<Rightarrow> instant \<Rightarrow> correction_suggestion" where
  "new_suggestion k iss fix draft now =
     \<lparr>sug_id = k, sug_issue_id = iss, sug_source = RULE_BASED, sug_ai_suggestion_id = None,
      sug_suggested_value = sd_suggested_value draft, sug_confidence = sd_confidence draft,
      sug_category = ''DETERMINISTIC'', sug_fix_type = fix, sug_reasoning = Some (sd_reasoning draft),
      sug_is_selected = False, sug_selected_by = None, sug_selected_at = None,
      sug_created_at = now, sug_strategy = None, sug_evidence_detail = None\<rparr>"

definition add_suggestion :: "uuid \<Rightarrow> string \<Rightarrow> suggestion_draft \<Rightarrow> instant \<Rightarrow> db \<Rightarrow> db" where
  "add_suggestion iss fix draft now d =
     d\<lparr>correction_suggestions := correction_suggestions d @ [new_suggestion (db_next d) iss fix draft now],
       db_next := Suc (db_next d)\<rparr>"

text \<open>The generators of the issue's rule type, one after the other; counts the suggestions.\<close>

fun run_generators ::
  "(string \<times> (generator_context \<Rightarrow> exn + suggestion_draft option)) list \<Rightarrow> generator_context \<Rightarrow> uuid \<Rightarrow>
   instant \<Rightarrow> db \<Rightarrow> exn + (db \<times> nat)" where
  "run_generators [] ctx iss now d = Inr (d, 0)"
| "run_generators ((fix, gen) # gs) ctx iss now d =
     (case gen ctx of
        Inl e \<Rightarrow> Inl e
      | Inr None \<Rightarrow> run_generators gs ctx iss now d
      | Inr (Some draft) \<Rightarrow> map_sum id (\<lambda>(d', n). (d', Suc n))
          (run_generators gs ctx iss now (add_suggestion iss fix draft now d)))"

text \<open>One batch: the state, the number of suggestions and the number of issues without any.\<close>

fun generate_batch ::
  "regex_engine \<Rightarrow> uuid \<Rightarrow> instant \<Rightarrow> issue list \<Rightarrow> db \<Rightarrow> nat \<Rightarrow> nat \<Rightarrow> exn + (db \<times> nat \<times> nat)" where
  "generate_batch regex dsid now [] d gen none = Inr (d, gen, none)"
| "generate_batch regex dsid now (iss # rest) d gen none =
     (case generator_context_for dsid iss d of Inl e \<Rightarrow> Inl e | Inr (ctx, rt) \<Rightarrow>
      (case run_generators (GENERATOR_REGISTRY regex rt) ctx (iss_id iss) now d of Inl e \<Rightarrow> Inl e
       | Inr (d', n) \<Rightarrow> generate_batch regex dsid now rest d' (gen + n) (if n = 0 then Suc none else none)))"

text \<open>The loop over batches: \<open>saved\<close> is the last committed state, \<open>d\<close> the current one.\<close>

function generate_batches ::
  "regex_engine \<Rightarrow> uuid \<Rightarrow> instant \<Rightarrow> issue list \<Rightarrow> db \<Rightarrow> db \<Rightarrow> nat \<Rightarrow> nat \<Rightarrow> (db, exn, db \<times> nat \<times> nat) outcome" where
  "generate_batches regex dsid now targets saved d gen none =
     (if targets = [] then returns saved (d, gen, none)
      else attempt saved (generate_batch regex dsid now (take BATCH_SIZE targets) d gen none) (\<lambda>(d', gen', none').
        generate_batches regex dsid now (drop BATCH_SIZE targets) d' d' gen' none'))"
  by pat_completeness auto
termination
  by (relation "measure (\<lambda>(r, ds, now, ts, rest). length ts)") (auto simp: BATCH_SIZE_def)

declare generate_batches.simps [simp del]

definition generation_audit :: "uuid \<Rightarrow> uuid \<Rightarrow> nat \<Rightarrow> nat \<Rightarrow> instant \<Rightarrow> db \<Rightarrow> db" where
  "generation_audit actor run gen none now d =
     audit_by actor ''suggestions.generated'' ''REVIEW_RUN'' run
       (Some [(''generated_count'', PyInt (int gen)),
              (''issues_with_no_suggestion_count'', PyInt (int none))]) now d"

definition pending_issues :: "uuid \<Rightarrow> db \<Rightarrow> issue list" where
  "pending_issues run d = filter (\<lambda>i. iss_review_run_id i = run \<and> iss_status i = ISS_PENDING) (issues d)"

definition target_issues :: "uuid \<Rightarrow> db \<Rightarrow> issue list" where
  "target_issues run d =
     filter (\<lambda>i. iss_id i \<notin> sug_issue_id ` set (correction_suggestions d)) (pending_issues run d)"

definition start_review :: "uuid \<Rightarrow> review_run \<Rightarrow> db \<Rightarrow> db" where
  "start_review run rr d = (if rr_status rr = RR_DRAFT
     then d\<lparr>review_runs := upd_row rr_id run (\<lambda>r. r\<lparr>rr_status := RR_IN_REVIEW\<rparr>) (review_runs d)\<rparr> else d)"

definition generate_for_review_run ::
  "regex_engine \<Rightarrow> uuid \<Rightarrow> uuid \<Rightarrow> instant \<Rightarrow> (db, nat \<times> nat) op" where
  "generate_for_review_run regex run actor now d =
     attempt d (review_get run d) (\<lambda>rr.
     let d1 = start_review run rr d in
     attempt d (or_raise AttributeError (get_validation_run d1 (rr_validation_run_id rr))) (\<lambda>vr.
     if pending_issues run d1 = []
     then returns (generation_audit actor (rr_id rr) 0 0 now d1) (0, 0)
     else (case generate_batches regex (vr_dataset_id vr) now (target_issues run d1) d d1 0 0 of
         (saved, Inl e) \<Rightarrow> raises saved e
       | (saved, Inr (d2, gen, none)) \<Rightarrow>
           returns (generation_audit actor (rr_id rr) gen none now d2) (gen, none))))"

section \<open>What a generation adds\<close>

text \<open>
  \<open>grows d d' ss\<close>: the state \<open>d'\<close> is \<open>d\<close> with the suggestions \<open>ss\<close> appended, all
  rule-based, unselected and with fresh keys.
\<close>

definition grows :: "db \<Rightarrow> db \<Rightarrow> correction_suggestion list \<Rightarrow> bool" where
  "grows d d' ss \<longleftrightarrow>
     d' = d\<lparr>correction_suggestions := correction_suggestions d @ ss, db_next := db_next d + length ss\<rparr> \<and>
     map sug_id ss = [db_next d..<db_next d + length ss] \<and>
     (\<forall>s \<in> set ss. sug_source s = RULE_BASED \<and> \<not> sug_is_selected s)"

lemma grows_refl: "grows d d []"
  by (simp add: grows_def)

lemma grows_add_suggestion: "grows d (add_suggestion iss fix draft now d) [new_suggestion (db_next d) iss fix draft now]"
  by (simp add: grows_def add_suggestion_def new_suggestion_def)

lemma grows_trans: "grows d e ss \<Longrightarrow> grows e f ts \<Longrightarrow> grows d f (ss @ ts)"
  using upt_add_eq_append [of "db_next d" "db_next d + length ss" "length ts"]
  by (auto simp: grows_def add.assoc)

lemma run_generators_grows:
  assumes "run_generators gs ctx iss now d = Inr (d', n)"
  shows "\<exists>ss. grows d d' ss \<and> length ss = n \<and> (\<forall>s \<in> set ss. sug_issue_id s = iss)"
  using assms
proof (induction gs arbitrary: d n)
  case Nil
  then show ?case using grows_refl by auto
next
  case (Cons g gs)
  obtain fx gen where g: "g = (fx, gen)" by force
  show ?case
  proof (cases "gen ctx")
    case (Inl e)
    with Cons.prems g show ?thesis by simp
  next
    case (Inr r)
    show ?thesis
    proof (cases r)
      case None
      with Cons g Inr show ?thesis by simp
    next
      case (Some draft)
      let ?s = "new_suggestion (db_next d) iss fx draft now"
      obtain m where m: "run_generators gs ctx iss now (add_suggestion iss fx draft now d) = Inr (d', m)" "n = Suc m"
        using Cons.prems g Inr Some by auto
      from Cons.IH [OF m(1)] obtain ss where ss: "grows (add_suggestion iss fx draft now d) d' ss"
        "length ss = m" "\<forall>s \<in> set ss. sug_issue_id s = iss" by blast
      have "grows d d' ([?s] @ ss)" by (rule grows_trans [OF grows_add_suggestion ss(1)])
      then show ?thesis using ss(2,3) m(2)
        by (intro exI [of _ "?s # ss"]) (simp add: new_suggestion_def)
    qed
  qed
qed

text \<open>Of the registered generators at most one makes a suggestion.\<close>

lemma registry_at_most_one:
  "run_generators (GENERATOR_REGISTRY regex rt) ctx iss now d = Inr (d', n) \<Longrightarrow> n \<le> 1"
  using fills_exclusive [of ctx]
  by (auto simp: GENERATOR_REGISTRY_def split: if_splits sum.splits option.splits)

lemma generate_batch_grows:
  assumes "generate_batch regex dsid now targets d gen none = Inr (d', gen', none')"
  shows "\<exists>ss. grows d d' ss \<and> gen' = gen + length ss \<and> none' + length ss = none + length targets \<and>
    subseq (map sug_issue_id ss) (map iss_id targets)"
  using assms
proof (induction targets arbitrary: d gen none)
  case Nil
  then show ?case using grows_refl by force
next
  case (Cons iss rest)
  obtain ctx rt d1 n where g: "run_generators (GENERATOR_REGISTRY regex rt) ctx (iss_id iss) now d = Inr (d1, n)"
    and rest: "generate_batch regex dsid now rest d1 (gen + n) (if n = 0 then Suc none else none) =
      Inr (d', gen', none')"
    using Cons.prems by (auto split: sum.splits)
  obtain ss where ss: "grows d d1 ss" "length ss = n" "\<forall>s \<in> set ss. sug_issue_id s = iss_id iss"
    using run_generators_grows [OF g] by blast
  obtain ts where ts: "grows d1 d' ts" "gen' = gen + n + length ts"
      "none' + length ts = (if n = 0 then Suc none else none) + length rest"
      "subseq (map sug_issue_id ts) (map iss_id rest)"
    using Cons.IH [OF rest] by blast
  have n: "n \<le> 1" by (rule registry_at_most_one [OF g])
  have "grows d d' (ss @ ts)" by (rule grows_trans [OF ss(1) ts(1)])
  moreover have "none' + length (ss @ ts) = none + length (iss # rest)"
    using ts(3) ss(2) n by (auto split: if_splits)
  moreover have "subseq (map sug_issue_id (ss @ ts)) (map iss_id (iss # rest))"
    using ss(2,3) ts(4) n by (cases ss) auto
  ultimately show ?case using ts(2) ss(2) by (intro exI [of _ "ss @ ts"]) simp
qed

lemma generate_batches_grows:
  assumes "grows d0 d pre"
  shows "case generate_batches regex dsid now targets saved d gen none of
      (d', Inl e) \<Rightarrow> (\<exists>ss. grows d0 d' ss) \<or> d' = saved
    | (d', Inr (d'', gen', none')) \<Rightarrow> \<exists>ss. grows d d'' ss \<and> gen' = gen + length ss \<and>
        none' + length ss = none + length targets \<and> subseq (map sug_issue_id ss) (map iss_id targets)"
  using assms
proof (induction regex dsid now targets saved d gen none arbitrary: pre rule: generate_batches.induct)
  case (1 regex dsid now targets saved d gen none)
  show ?case
  proof (cases "targets = []")
    case True
    then show ?thesis by (simp add: generate_batches.simps returns_def) (use grows_refl in force)
  next
    case False
    show ?thesis
    proof (cases "generate_batch regex dsid now (take BATCH_SIZE targets) d gen none")
      case (Inl e)
      then show ?thesis using False by (simp add: generate_batches.simps [of _ _ _ targets] raises_def)
    next
      case (Inr r)
      obtain d1 g1 n1 where r: "r = (d1, g1, n1)" by (cases r)
      obtain ss where ss: "grows d d1 ss" "g1 = gen + length ss"
        "n1 + length ss = none + length (take BATCH_SIZE targets)"
        "subseq (map sug_issue_id ss) (map iss_id (take BATCH_SIZE targets))"
        using generate_batch_grows [of regex dsid now "take BATCH_SIZE targets" d gen none d1 g1 n1] Inr r by auto
      have g01: "grows d0 d1 (pre @ ss)" by (rule grows_trans [OF 1(2) ss(1)])
      have eq: "generate_batches regex dsid now targets saved d gen none =
        generate_batches regex dsid now (drop BATCH_SIZE targets) d1 d1 g1 n1"
        using False Inr r by (simp add: generate_batches.simps [of _ _ _ targets])
      note IH = 1(1) [OF False g01, of g1 n1]
      show ?thesis
      proof (cases "generate_batches regex dsid now (drop BATCH_SIZE targets) d1 d1 g1 n1")
        case (Pair d' res)
        show ?thesis
        proof (cases res)
          case (Inl e)
          with Pair IH g01 show ?thesis unfolding eq by auto
        next
          case (Inr r2)
          obtain d2 g2 n2 where r2: "r2 = (d2, g2, n2)" by (cases r2)
          obtain ts where ts: "grows d1 d2 ts" "g2 = g1 + length ts"
            "n2 + length ts = n1 + length (drop BATCH_SIZE targets)"
            "subseq (map sug_issue_id ts) (map iss_id (drop BATCH_SIZE targets))"
            using IH Pair Inr r2 by auto
          have "map iss_id targets = map iss_id (take BATCH_SIZE targets) @ map iss_id (drop BATCH_SIZE targets)"
            by (metis append_take_drop_id map_append)
          then have "subseq (map sug_issue_id (ss @ ts)) (map iss_id targets)"
            using list_emb_append_mono [OF ss(4) ts(4)] by simp
          moreover have "n2 + length (ss @ ts) = none + length targets"
            using ss(3) ts(3) by simp
          moreover have "grows d d2 (ss @ ts)" by (rule grows_trans [OF ss(1) ts(1)])
          ultimately show ?thesis using Pair Inr r2 ts(2) ss(2) unfolding eq by auto
        qed
      qed
    qed
  qed
qed

section \<open>The invariant of the decisions\<close>

lemma grows_inv:
  assumes inv: "decisions_inv d" and g: "grows d d' ss" shows "decisions_inv d'"
proof -
  have d': "corrections d' = corrections d" "issues d' = issues d" "db_next d' = db_next d + length ss"
    "correction_suggestions d' = correction_suggestions d @ ss" using g by (auto simp: grows_def)
  have ids: "map sug_id ss = [db_next d..<db_next d + length ss]" using g by (simp add: grows_def)
  then have set: "sug_id ` set ss = {db_next d..<db_next d + length ss}" by (metis set_map set_upt)
  have old: "distinct (map sug_id (correction_suggestions d))" "sug_id ` set (correction_suggestions d) \<subseteq> {..<db_next d}"
    using inv by (auto simp: decisions_inv_def keys_wf_def keys_ok_def)
  have "keys_ok sug_id (db_next d') (correction_suggestions d')"
    using old ids set unfolding d' keys_ok_def by (fastforce simp: ids)
  then have "keys_wf d'" using inv unfolding decisions_inv_def keys_wf_def d'
    by (auto elim: keys_ok_mono)
  moreover have "selections_wf d'"
    using inv g unfolding decisions_inv_def selections_wf_def d' grows_def by auto
  moreover have "corrections_wf d'" using inv by (simp add: decisions_inv_def corrections_wf_def d')
  ultimately show ?thesis by (simp add: decisions_inv_def)
qed

lemma start_review_simps [simp]:
  "corrections (start_review run rr d) = corrections d" "issues (start_review run rr d) = issues d"
  "correction_suggestions (start_review run rr d) = correction_suggestions d"
  "db_next (start_review run rr d) = db_next d"
  "approval_requests (start_review run rr d) = approval_requests d"
  "approval_decisions (start_review run rr d) = approval_decisions d"
  "approval_decision_issues (start_review run rr d) = approval_decision_issues d"
  "validation_runs (start_review run rr d) = validation_runs d"
  by (simp_all add: start_review_def)

lemma target_issues_start_review [simp]:
  "target_issues run (start_review run' rr d) = target_issues run d"
  "pending_issues run (start_review run' rr d) = pending_issues run d"
  by (simp_all add: target_issues_def pending_issues_def)

text \<open>The two ways a generation ends: some batches are committed, or all of them.\<close>

lemma generate_cases:
  obtains (unchanged) "fst (generate_for_review_run regex run actor now d) = d"
      "\<not> succeeds (generate_for_review_run regex run actor now d)"
  | (some) rr ss d' where "grows (start_review run rr d) d' ss"
      "fst (generate_for_review_run regex run actor now d) = d'"
      "\<not> succeeds (generate_for_review_run regex run actor now d)"
  | (all) rr ss d' gen none where "get_review_run d run = Some rr" "grows (start_review run rr d) d' ss"
      "generate_for_review_run regex run actor now d =
         (generation_audit actor (rr_id rr) gen none now d', Inr (gen, none))"
      "gen = length ss" "gen + none = length (target_issues run d)"
      "subseq (map sug_issue_id ss) (map iss_id (target_issues run d))"
proof (cases "review_get run d")
  case (Inl e)
  then show ?thesis by (intro unchanged) (simp_all add: generate_for_review_run_def)
next
  case (Inr rr)
  let ?d1 = "start_review run rr d"
  have rr: "get_review_run d run = Some rr" using Inr by (simp add: review_get_def)
  show ?thesis
  proof (cases "get_validation_run ?d1 (rr_validation_run_id rr)")
    case None
    then show ?thesis using Inr by (intro unchanged) (simp_all add: generate_for_review_run_def Let_def)
  next
    case (Some vr)
    show ?thesis
    proof (cases "pending_issues run d = []")
      case True
      then have "target_issues run d = []" by (simp add: target_issues_def)
      then show ?thesis
        using Inr Some True rr grows_refl
        by (intro all [of rr ?d1 "[]" 0 0]) (simp_all add: generate_for_review_run_def Let_def returns_def)
    next
      case False
      obtain saved res where g: "generate_batches regex (vr_dataset_id vr) now (target_issues run d) d ?d1 0 0 = (saved, res)"
        by force
      show ?thesis
      proof (cases res)
        case (Inl e)
        then have "fst (generate_for_review_run regex run actor now d) = saved"
          "\<not> succeeds (generate_for_review_run regex run actor now d)"
          using Inr Some False g \<open>review_get run d = Inr rr\<close>
          by (simp_all add: generate_for_review_run_def Let_def)
        moreover have "(\<exists>ss. grows ?d1 saved ss) \<or> saved = d"
          using generate_batches_grows [OF grows_refl [of ?d1], where regex = regex and dsid = "vr_dataset_id vr" and
            now = now and targets = "target_issues run d" and saved = d and gen = 0 and none = 0]
            g Inl by simp
        ultimately show ?thesis using some unchanged by blast
      next
        case (Inr r)
        obtain d2 gen none where r: "r = (d2, gen, none)" by (cases r)
        obtain ss where "grows ?d1 d2 ss" "gen = length ss" "none + length ss = length (target_issues run d)"
          "subseq (map sug_issue_id ss) (map iss_id (target_issues run d))"
          using generate_batches_grows [OF grows_refl [of ?d1], where regex = regex and dsid = "vr_dataset_id vr" and
            now = now and targets = "target_issues run d" and saved = d and gen = 0 and none = 0]
            g Inr r by auto
        then show ?thesis
          using \<open>review_get run d = Inr rr\<close> Some False g Inr r rr
          by (intro all [of rr d2 ss gen none]) (simp_all add: generate_for_review_run_def Let_def returns_def)
      qed
    qed
  qed
qed

lemma generate_inv:
  assumes "decisions_inv d" shows "ends_in decisions_inv (generate_for_review_run regex run actor now d)"
proof -
  have d1: "decisions_inv (start_review run rr d)" for rr
    by (rule decisions_inv_cong [OF assms]) simp_all
  show ?thesis
    unfolding ends_in_def
    by (cases rule: generate_cases [of regex run actor now d])
      (auto simp: assms generation_audit_def intro: audit_by_inv grows_inv [OF d1])
qed

lemma subseq_set: "subseq xs ys \<Longrightarrow> set xs \<subseteq> set ys"
  by (induction rule: list_emb.induct) auto

lemma subseq_keeps_distinct: "subseq xs ys \<Longrightarrow> distinct ys \<Longrightarrow> distinct xs"
  by (induction rule: list_emb.induct) (auto dest: subseq_set)

section \<open>Properties\<close>

text \<open>
  C9. A completed generation only appends suggestions: unselected, rule-based, at most one for
  each pending issue of the run that had none, and none for any other issue; the two counts it
  reports add up to the number of those issues. Issues, corrections and every older suggestion
  stay as they are, however many batches the run takes.
\<close>

theorem generation_spec:
  assumes "keys_ok iss_id (db_next d) (issues d)"
    and "generate_for_review_run regex run actor now d = (d', Inr (gen, none))"
  shows "\<exists>new. correction_suggestions d' = correction_suggestions d @ new \<and> length new = gen \<and>
    gen + none = length (target_issues run d) \<and> distinct (map sug_issue_id new) \<and>
    sug_issue_id ` set new \<subseteq> iss_id ` set (target_issues run d) \<and>
    (\<forall>s \<in> set new. sug_source s = RULE_BASED \<and> \<not> sug_is_selected s) \<and>
    issues d' = issues d \<and> corrections d' = corrections d"
proof (cases rule: generate_cases [of regex run actor now d])
  case (all rr ss e gen' none')
  have "distinct (map iss_id (target_issues run d))"
    using assms(1) by (auto simp: target_issues_def pending_issues_def keys_ok_def distinct_map_filter)
  then have "distinct (map sug_issue_id ss)" using all(6) by (rule subseq_keeps_distinct [rotated])
  moreover have "set (map sug_issue_id ss) \<subseteq> set (map iss_id (target_issues run d))"
    by (rule subseq_set [OF all(6)])
  ultimately show ?thesis
    using all assms(2) by (intro exI [of _ ss]) (auto simp: generation_audit_def grows_def)
qed (use assms(2) in \<open>auto simp: succeeds_def\<close>)

text \<open>The sample database with a numeric column that has been profiled.\<close>

definition profiled_db :: db where
  "profiled_db = (sample_db RR_DRAFT)\<lparr>columns := [sample_column 2 ''c'' ''INTEGER'' 1],
     profile_runs := [plain_profile_run 30 1 RUN_COMPLETED 0],
     column_profiles := [(plain_column_profile 31 30 2 0)\<lparr>cp_median_value := Some (DFin False 0 0),
       cp_stddev_value := Some (DFin False 1 0)\<rparr>]\<rparr>"

lemma profiled_generation:
  "snd (generate_for_review_run (\<lambda>_. None) 12 1 5 profiled_db) = Inr (1, 0)" by code_simp

theorem generation_spec_witness:
  "\<exists>new. correction_suggestions (fst (generate_for_review_run (\<lambda>_. None) 12 1 5 profiled_db)) =
     correction_suggestions profiled_db @ new \<and> length new = 1 \<and>
     sug_issue_id ` set new \<subseteq> iss_id ` set (target_issues 12 profiled_db)"
proof -
  have "keys_ok iss_id (db_next profiled_db) (issues profiled_db)"
    by (simp add: keys_ok_def profiled_db_def sample_defs)
  moreover have "generate_for_review_run (\<lambda>_. None) 12 1 5 profiled_db =
      (fst (generate_for_review_run (\<lambda>_. None) 12 1 5 profiled_db), Inr (1, 0))"
    using profiled_generation by (metis prod.collapse)
  ultimately show ?thesis by (fast dest: generation_spec)
qed

end
