(* ===== verification/Workflow.thy ===== *)
theory Workflow
  imports Approval Suggestions
begin

text \<open>
  The review workflow as one system: creating a review run, generating suggestions, deciding
  issues, submitting the run, deciding its approval request, archiving and restoring, in any
  order, by anyone. The invariants of the decisions and of the approval requests hold in
  every state these commands reach, whatever each of them returns or raises.
\<close>

section \<open>Commands\<close>

datatype command =
    CreateReview uuid "string option"
  | Generate uuid
  | Decision decision_command
  | Submit uuid
  | Decide uuid approval_choice "uuid list" "string option"
  | Archive uuid
  | Restore uuid

fun run_command :: "regex_engine \<Rightarrow> command \<Rightarrow> uuid \<Rightarrow> instant \<Rightarrow> (db, unit) op" where
  "run_command regex (CreateReview vrun name) a now d = forget (create_from_validation_run vrun name a now d)"
| "run_command regex (Generate run) a now d = forget (generate_for_review_run regex run a now d)"
| "run_command regex (Decision c) a now d = run_decision c a now d"
| "run_command regex (Submit run) a now d = forget (submit run a now d)"
| "run_command regex (Decide req choice ids comment) a now d = forget (decide req choice ids comment a now d)"
| "run_command regex (Archive run) a now d = forget (archive run a now d)"
| "run_command regex (Restore run) a now d = forget (restore run a now d)"

definition workflow_step :: "regex_engine \<Rightarrow> command \<times> uuid \<times> instant \<Rightarrow> db \<Rightarrow> db" where
  "workflow_step regex = (\<lambda>(c, a, now) d. fst (run_command regex c a now d))"

text \<open>The same as a step relation.\<close>

inductive reachable :: "regex_engine \<Rightarrow> db \<Rightarrow> db \<Rightarrow> bool" for regex :: regex_engine and d0 :: db where
  start: "reachable regex d0 d0"
| step: "reachable regex d0 d \<Longrightarrow> reachable regex d0 (fst (run_command regex c a now d))"

lemma reachable_run_all: "reachable regex d0 d \<longleftrightarrow> (\<exists>cs. d = run_all (workflow_step regex) cs d0)"
proof
  assume "reachable regex d0 d"
  then show "\<exists>cs. d = run_all (workflow_step regex) cs d0"
  proof induction
    case start
    then show ?case by (intro exI [of _ "[]"]) simp
  next
    case (step d c a now)
    then obtain cs where "d = run_all (workflow_step regex) cs d0" by blast
    then show ?case
      by (intro exI [of _ "cs @ [(c, a, now)]"]) (simp add: run_all_append workflow_step_def)
  qed
next
  assume "\<exists>cs. d = run_all (workflow_step regex) cs d0"
  then obtain cs where "d = run_all (workflow_step regex) cs d0" by blast
  then show "reachable regex d0 d"
  proof (induction cs arbitrary: d rule: rev_induct)
    case Nil
    then show ?case by (simp add: reachable.start)
  next
    case (snoc x cs)
    then show ?case using reachable.step by (cases x) (auto simp: run_all_append workflow_step_def)
  qed
qed

section \<open>Invariant\<close>

definition workflow_inv :: "db \<Rightarrow> bool" where
  "workflow_inv d \<longleftrightarrow> decisions_inv d \<and> approval_inv d"

text \<open>Creating a review run adds issues with fresh keys that no correction refers to.\<close>

lemma create_inv:
  assumes inv: "workflow_inv d"
  shows "ends_in workflow_inv (create_from_validation_run vrun name actor now d)"
proof -
  have step: "workflow_inv e" if e: "issues e = issues d @ map (new_issue now run) (enumerate (Suc (db_next d)) rows)"
      "corrections e = corrections d" "correction_suggestions e = correction_suggestions d"
      "approval_requests e = approval_requests d" "approval_decisions e = approval_decisions d"
      "approval_decision_issues e = approval_decision_issues d"
      "db_next (add_issues now run rows (add_review_run now v name actor d)) \<le> db_next e" for e run rows v
  proof -
    let ?n = "Suc (db_next d)"
    have next_id: "?n + length rows \<le> db_next e" using e(7) by (simp add: add_issues_def add_review_run_def)
    have ids: "map iss_id (map (new_issue now run) (enumerate ?n rows)) = [?n..<?n + length rows]"
      by (auto simp: new_issue_def comp_def case_prod_beta enumerate_eq_zip simp flip: map_map
          intro!: nth_equalityI)
    then have ids_set: "iss_id ` set (map (new_issue now run) (enumerate ?n rows)) = {?n..<?n + length rows}"
      by (metis set_map set_upt)
    have old: "distinct (map iss_id (issues d))" "\<forall>i \<in> iss_id ` set (issues d). i < db_next d"
      using inv by (auto simp: workflow_inv_def decisions_inv_def keys_wf_def keys_ok_def)
    have "distinct (map iss_id (issues e))"
      using old ids ids_set unfolding e(1) map_append distinct_append by (auto simp: disjoint_iff)
    moreover have "\<forall>i \<in> iss_id ` set (issues e). i < db_next e"
      using old(2) next_id unfolding e(1) set_append image_Un ids_set by auto
    ultimately have "keys_ok iss_id (db_next e) (issues e)" by (simp add: keys_ok_def)
    moreover have "db_next d \<le> db_next e" using next_id by simp
    ultimately have "keys_wf e" using inv
      unfolding workflow_inv_def decisions_inv_def keys_wf_def e(2,3) by (metis keys_ok_mono)
    moreover have "corrections_wf e"
      using inv unfolding workflow_inv_def decisions_inv_def corrections_wf_def e(2) e(1) by fastforce
    moreover have "selections_wf e"
      using inv unfolding workflow_inv_def decisions_inv_def selections_wf_def e(3) by blast
    moreover have "approval_inv e"
      by (rule approval_inv_cong [OF _ e(4-6)]) (use inv next_id in \<open>simp_all add: workflow_inv_def\<close>)
    ultimately show ?thesis by (simp add: workflow_inv_def decisions_inv_def)
  qed
  show ?thesis
    unfolding create_from_validation_run_def
  proof (intro ends inv)
    fix vr
    let ?d1 = "add_review_run now (vr_id vr) name actor d"
    let ?rows = "failures_with_results (vr_id vr) ?d1"
    show "workflow_inv (audit_by actor ''review_run.created'' ''REVIEW_RUN'' (db_next d)
        (Some [(''validation_run_id'', PyStr (uuid_str (vr_id vr))), (''issue_count'', PyInt (int (length ?rows)))]) now
        (record_edges_bulk now (map (\<lambda>i. (''REVIEW_RUN'', db_next d, ''ISSUE'', i, ''DERIVED_FROM''))
            (map fst (enumerate (db_next ?d1) ?rows)))
          (record_edge now (''VALIDATION_RUN'', vr_id vr, ''REVIEW_RUN'', db_next d, ''DERIVED_FROM'')
            (add_issues now (db_next d) ?rows ?d1))))"
      by (rule step [where run = "db_next d" and rows = ?rows and v = "vr_id vr"])
        (simp_all only: audit_next audit_by_frame record_edges_bulk_frame record_edge_frame le_SucI [OF edges_next],
         simp_all add: add_issues_def add_review_run_def)
  qed
qed

text \<open>Decisions leave the approval tables alone, approvals leave the issues and corrections alone.\<close>

lemma upsert_next:
  assumes up: "upsert_correction iss v a now d = Inr (d1, k)" shows "db_next d \<le> db_next d1"
proof -
  let ?d = "d\<lparr>corrections := corrections d @ [new_correction (db_next d) (iss_id iss) v a now],
    db_next := Suc (db_next d)\<rparr>"
  consider "d1 = record_edge now (''ISSUE'', iss_id iss, ''CORRECTION'', db_next d, ''CORRECTED_BY'') ?d"
    | "db_next d1 = db_next d"
    using up by (auto simp: upsert_correction_def Let_def split: sum.splits option.splits)
  then show ?thesis
  proof cases
    case 1
    have "db_next ?d \<le> db_next d1" unfolding 1 by (rule record_edge_next)
    then show ?thesis by simp
  qed simp
qed

lemma status_write_approval_inv:
  assumes "upsert_correction iss v a now d = Inr (d1, k)" "approval_inv d"
  shows "approval_inv (set_issue_status i st now' d1)"
  by (rule approval_inv_cong [OF assms(2)]) (simp_all add: upsert_frame [OF assms(1)] upsert_next [OF assms(1)])

lemma selection_approval_inv:
  assumes "upsert_correction iss v a now d = Inr (d1, k)" "approval_inv d"
  shows "approval_inv (set_issue_status i st now' (select_suggestion s a' now'' (clear_other_selections j t d1)))"
  by (rule approval_inv_cong [OF status_write_approval_inv [OF assms, of i st now']]) simp_all

lemma bulk_apply_approval_inv:
  "bulk_apply action a now isss d = Inr d' \<Longrightarrow> approval_inv d \<Longrightarrow> approval_inv d'"
proof (induction isss arbitrary: d)
  case (Cons iss rest)
  then show ?case by (auto split: sum.splits intro: status_write_approval_inv)
qed simp

lemma decision_approval_inv:
  "approval_inv d \<Longrightarrow> ends_in approval_inv (accept sid a now d)"
  "approval_inv d \<Longrightarrow> ends_in approval_inv (edit sid v a now d)"
  "approval_inv d \<Longrightarrow> ends_in approval_inv (reject sid r a now d)"
  "approval_inv d \<Longrightarrow> ends_in approval_inv (skip i a now d)"
  "approval_inv d \<Longrightarrow> ends_in approval_inv (correct_directly i v a now d)"
  "approval_inv d \<Longrightarrow> ends_in approval_inv (bulk_action run ids action a now d)"
  unfolding accept_def edit_def reject_def skip_def correct_directly_def bulk_action_def
  by (intro ends audit_by_approval_inv; auto intro: selection_approval_inv status_write_approval_inv
      bulk_apply_approval_inv)+

lemma run_decision_approval_inv: "approval_inv d \<Longrightarrow> approval_inv (fst (run_decision c a now d))"
  using decision_approval_inv by (cases c) (simp_all add: ends_in_def)

lemma set_review_status_simps [simp]:
  "corrections (set_review_status run st arch now d) = corrections d"
  "issues (set_review_status run st arch now d) = issues d"
  "correction_suggestions (set_review_status run st arch now d) = correction_suggestions d"
  "approval_requests (set_review_status run st arch now d) = approval_requests d"
  "approval_decisions (set_review_status run st arch now d) = approval_decisions d"
  "approval_decision_issues (set_review_status run st arch now d) = approval_decision_issues d"
  "db_next (set_review_status run st arch now d) = db_next d"
  by (simp_all add: set_review_status_def)

lemma archive_inv: "workflow_inv d \<Longrightarrow> ends_in workflow_inv (archive run a now d)"
  unfolding archive_def
  by (intro ends) (auto simp: workflow_inv_def intro!: audit_by_inv audit_by_approval_inv
      elim: decisions_inv_cong approval_inv_cong)

lemma restore_inv: "workflow_inv d \<Longrightarrow> ends_in workflow_inv (restore run a now d)"
  unfolding restore_def
  by (intro ends) (auto simp: workflow_inv_def intro!: audit_by_inv audit_by_approval_inv
      elim: decisions_inv_cong approval_inv_cong)

text \<open>An operation that changes none of the decisions' tables keeps their invariant.\<close>

lemma submit_frame:
  "corrections (fst (submit run a now d)) = corrections d" "issues (fst (submit run a now d)) = issues d"
  "correction_suggestions (fst (submit run a now d)) = correction_suggestions d"
  "db_next d \<le> db_next (fst (submit run a now d))"
proof -
  let ?P = "\<lambda>e. corrections e = corrections d \<and> issues e = issues d \<and>
    correction_suggestions e = correction_suggestions d \<and> db_next d \<le> db_next e"
  have logs: "?P e \<Longrightarrow> ?P (audit_by u ac et ei m now (record_edges_bulk now es e))" for u ac et ei m es e
    using record_edges_bulk_next [of e now es] by simp
  have "ends_in ?P (submit run a now d)"
    unfolding submit_def by (intro ends logs) simp_all
  then show "corrections (fst (submit run a now d)) = corrections d" "issues (fst (submit run a now d)) = issues d"
    "correction_suggestions (fst (submit run a now d)) = correction_suggestions d"
    "db_next d \<le> db_next (fst (submit run a now d))"
    by (simp_all add: ends_in_def)
qed

lemma decide_frame:
  "corrections (fst (decide r ch ids c a now d)) = corrections d"
  "issues (fst (decide r ch ids c a now d)) = issues d"
  "correction_suggestions (fst (decide r ch ids c a now d)) = correction_suggestions d"
  "db_next d \<le> db_next (fst (decide r ch ids c a now d))"
proof -
  let ?P = "\<lambda>e. corrections e = corrections d \<and> issues e = issues d \<and>
    correction_suggestions e = correction_suggestions d \<and> db_next d \<le> db_next e"
  have "ends_in ?P (decide r ch ids c a now d)"
    unfolding decide_def by (intro ends) simp_all
  then show "corrections (fst (decide r ch ids c a now d)) = corrections d"
    "issues (fst (decide r ch ids c a now d)) = issues d"
    "correction_suggestions (fst (decide r ch ids c a now d)) = correction_suggestions d"
    "db_next d \<le> db_next (fst (decide r ch ids c a now d))"
    by (simp_all add: ends_in_def)
qed

lemma generate_frame:
  "corrections (fst (generate_for_review_run regex run a now d)) = corrections d \<and>
   approval_requests (fst (generate_for_review_run regex run a now d)) = approval_requests d \<and>
   approval_decisions (fst (generate_for_review_run regex run a now d)) = approval_decisions d \<and>
   approval_decision_issues (fst (generate_for_review_run regex run a now d)) = approval_decision_issues d \<and>
   db_next d \<le> db_next (fst (generate_for_review_run regex run a now d))"
  by (cases rule: generate_cases [of regex run a now d]) (auto simp: grows_def generation_audit_def)

lemma run_command_inv:
  assumes inv: "workflow_inv d" shows "workflow_inv (fst (run_command regex c a now d))"
proof (cases c)
  case (CreateReview vrun name)
  then show ?thesis using create_inv [OF inv] by (simp add: ends_in_def)
next
  case (Generate run)
  have "decisions_inv (fst (generate_for_review_run regex run a now d))"
    using generate_inv inv by (simp add: workflow_inv_def ends_in_def)
  moreover have "approval_inv (fst (generate_for_review_run regex run a now d))"
    by (rule approval_inv_cong [of d]) (use inv in \<open>simp_all add: workflow_inv_def generate_frame\<close>)
  ultimately show ?thesis using Generate by (simp add: workflow_inv_def)
next
  case (Decision x)
  then show ?thesis using inv run_decision_inv run_decision_approval_inv by (simp add: workflow_inv_def)
next
  case (Submit run)
  have "decisions_inv (fst (submit run a now d))"
    by (rule decisions_inv_cong [OF _ submit_frame]) (use inv in \<open>simp only: workflow_inv_def\<close>)
  then show ?thesis using Submit submit_inv inv by (simp add: workflow_inv_def ends_in_def)
next
  case (Decide r ch ids com)
  have "decisions_inv (fst (decide r ch ids com a now d))"
    by (rule decisions_inv_cong [OF _ decide_frame]) (use inv in \<open>simp only: workflow_inv_def\<close>)
  then show ?thesis using Decide decide_inv inv by (simp add: workflow_inv_def ends_in_def)
next
  case (Archive run)
  then show ?thesis using archive_inv [OF inv] by (simp add: ends_in_def)
next
  case (Restore run)
  then show ?thesis using restore_inv [OF inv] by (simp add: ends_in_def)
qed

interpretation workflow: guarded_system "workflow_step regex" workflow_inv for regex
  by unfold_locales (auto simp: workflow_step_def run_command_inv)

lemma reachable_inv: "reachable regex d0 d \<Longrightarrow> workflow_inv d0 \<Longrightarrow> workflow_inv d"
  by (induction rule: reachable.induct) (simp_all add: run_command_inv)

section \<open>Settled issues\<close>

lemma create_frame:
  "corrections (fst (create_from_validation_run vrun name a now d)) = corrections d"
proof -
  have "ends_in (\<lambda>e. corrections e = corrections d) (create_from_validation_run vrun name a now d)"
    unfolding create_from_validation_run_def
    by (intro ends) (simp_all add: add_issues_def add_review_run_def)
  then show ?thesis by (simp add: ends_in_def)
qed

lemma archive_restore_frame:
  "corrections (fst (archive run a now d)) = corrections d"
  "corrections (fst (restore run a now d)) = corrections d"
proof -
  have "ends_in (\<lambda>e. corrections e = corrections d) (archive run a now d)"
    "ends_in (\<lambda>e. corrections e = corrections d) (restore run a now d)"
    unfolding archive_def restore_def by (intro ends; simp)+
  then show "corrections (fst (archive run a now d)) = corrections d"
    "corrections (fst (restore run a now d)) = corrections d" by (simp_all add: ends_in_def)
qed

lemma verdicts_cong: "corrections e = corrections d \<Longrightarrow> verdicts e = verdicts d"
  by (simp add: verdicts_def fun_eq_iff)

text \<open>Only decisions write verdicts.\<close>

lemma run_command_verdicts:
  "\<nexists>x. c = Decision x \<Longrightarrow> verdicts (fst (run_command regex c a now d)) = verdicts d"
  by (rule verdicts_cong, cases c)
    (simp_all add: create_frame generate_frame submit_frame decide_frame archive_restore_frame)

lemma run_command_settled:
  assumes "workflow_inv d" "settled d i"
  shows "verdicts (fst (run_command regex c a now d)) i = verdicts d i"
proof (cases "\<exists>x. c = Decision x")
  case True
  then show ?thesis using assms run_decision_settled by (auto simp: workflow_inv_def)
qed (simp add: run_command_verdicts)

interpretation settled_verdict: stable_system "workflow_step regex" workflow_inv
  "\<lambda>d. verdicts d i = Some v \<and> settled d i" for regex i v
proof unfold_locales
  fix s c
  assume inv: "workflow_inv s" and st: "verdicts s i = Some v \<and> settled s i"
  then have "verdicts (workflow_step regex c s) i = verdicts s i"
    by (cases c) (simp add: workflow_step_def run_command_settled)
  with st show "verdicts (workflow_step regex c s) i = Some v \<and> settled (workflow_step regex c s) i"
    by (auto simp: settled_def)
qed

section \<open>Properties\<close>

text \<open>A database without review data is consistent.\<close>

lemma empty_inv: "workflow_inv (empty_db\<lparr>validation_runs := vrs, validation_results := res,
    validation_failures := vfs, rule_assignments := ras, rule_versions := rvs, rules := rs, columns := cols\<rparr>)"
  by (simp add: workflow_inv_def decisions_inv_def keys_wf_def corrections_wf_def selections_wf_def
      approval_inv_def keys_ok_def empty_db_def)

lemma sample_workflow_inv: "workflow_inv (sample_db st)" "workflow_inv (decided_db st)"
  unfolding workflow_inv_def using sample_decisions_inv sample_approval_inv by blast+

text \<open>
  C5. A rejected or skipped issue is settled: no sequence of workflow commands (decisions and
  bulk actions by any reviewer, submissions, approvals, archiving, restoring, generating),
  whatever they return or raise, changes its verdict again.
\<close>

theorem terminal_decision_is_final:
  assumes "workflow_inv d" and "verdicts d i = Some v"
    and "v_status v = COR_REJECTED \<or> v_status v = COR_SKIPPED"
  shows "verdicts (run_all (workflow_step regex) cs d) i = Some v"
proof -
  have "settled d i" using assms(2,3) by (auto simp: settled_def)
  then show ?thesis using settled_verdict.run_stable [OF assms(1)] assms(2) by blast
qed

theorem terminal_decision_is_final_witness:
  "verdicts (run_all (workflow_step (\<lambda>_. None)) [(Decision (Accept 16), 1, 5), (Submit 12, 1, 6),
     (Decision (BulkAction 17 [14] ''skip''), 1, 7)] (decided_db RR_IN_REVIEW)) 14 =
   Some \<lparr>v_suggestion = None, v_final_value = None, v_source = None, v_status = COR_REJECTED\<rparr>"
  by (rule terminal_decision_is_final [OF sample_workflow_inv(2)])
    (simp_all add: verdicts_def verdict_of_def find_row_def sample_defs)

text \<open>
  C2. In every state the workflow reaches from a consistent one (a database without review data
  is consistent), a correction that counts as resolved (ACCEPTED or EDITED) has a value that is not blank, a REJECTED or
  SKIPPED one has none and no other status occurs; an issue has at most one correction, which
  agrees with the status of the issue; and at most one suggestion of an issue is selected.
\<close>

theorem reachable_corrections_consistent:
  assumes "workflow_inv d0" and "reachable regex d0 d"
  shows "(\<forall>c \<in> set (corrections d).
      (cor_status c \<in> {COR_ACCEPTED, COR_EDITED} \<and> (\<exists>v. cor_final_value c = Some v \<and> py_strip v \<noteq> []) \<or>
       cor_status c \<in> {COR_REJECTED, COR_SKIPPED} \<and> cor_final_value c = None) \<and>
      (\<exists>i \<in> set (issues d). iss_id i = cor_issue_id c \<and>
         iss_status i = (if cor_status c = COR_SKIPPED then ISS_SKIPPED else ISS_RESOLVED))) \<and>
    distinct (map cor_issue_id (corrections d)) \<and>
    (\<forall>s \<in> set (correction_suggestions d). \<forall>t \<in> set (correction_suggestions d).
      sug_is_selected s \<and> sug_is_selected t \<and> sug_issue_id s = sug_issue_id t \<longrightarrow> sug_id s = sug_id t)"
proof -
  have inv: "decisions_inv d" using reachable_inv [OF assms(2,1)] by (simp only: workflow_inv_def)
  have val: "value_ok st v \<Longrightarrow> st \<in> {COR_ACCEPTED, COR_EDITED} \<and> (\<exists>x. v = Some x \<and> py_strip x \<noteq> []) \<or>
      st \<in> {COR_REJECTED, COR_SKIPPED} \<and> v = None" for st v
    by (cases st) (auto simp: value_ok_def resolving_def is_blank_def split: option.splits)
  show ?thesis
    using inv val unfolding decisions_inv_def corrections_wf_def selections_wf_def issue_status_for_def
    by (intro conjI ballI) (blast | metis)+
qed

text \<open>The sample run after its submission.\<close>

definition sample_final :: db where
  "sample_final = fst (run_command (\<lambda>_. None) (Submit 12) 1 5 (decided_db RR_IN_REVIEW))"

lemma sample_final_reachable: "reachable (\<lambda>_. None) (decided_db RR_IN_REVIEW) sample_final"
  unfolding sample_final_def by (intro reachable.intros)

lemma sample_final_rows:
  "map cor_issue_id (corrections sample_final) = [13, 14]"
  "map ar_status (approval_requests sample_final) = [AR_PENDING]"
  by code_simp+

theorem reachable_corrections_consistent_witness:
  "\<exists>c \<in> set (corrections sample_final). \<exists>i \<in> set (issues sample_final). iss_id i = cor_issue_id c"
proof -
  obtain c cs where "corrections sample_final = c # cs"
    using sample_final_rows(1) by (cases "corrections sample_final") auto
  then have "c \<in> set (corrections sample_final)" by simp
  with reachable_corrections_consistent [OF sample_workflow_inv(2) sample_final_reachable] show ?thesis by blast
qed

text \<open>
  C7. In every state the workflow reaches from a consistent one, each approval request has decided an issue at most
  once, is PENDING only while nothing is decided, APPROVED only if every ballot approves and
  REJECTED only if some ballot rejects.
\<close>

theorem reachable_requests_consistent:
  assumes "workflow_inv d0" and "reachable regex d0 d"
    and "ar \<in> set (approval_requests d)"
  shows "distinct (map fst (ballots (ar_id ar) d)) \<and>
    (ar_status ar = AR_PENDING \<longrightarrow> ballots (ar_id ar) d = []) \<and>
    (ar_status ar = AR_APPROVED \<longrightarrow> ballots (ar_id ar) d \<noteq> [] \<and> (\<forall>(i, c) \<in> set (ballots (ar_id ar) d). c = APPROVE)) \<and>
    (ar_status ar = AR_REJECTED \<longrightarrow> (\<exists>i. (i, REJECT) \<in> set (ballots (ar_id ar) d)))"
proof -
  have "approval_inv d" using reachable_inv [OF assms(2,1)] by (simp only: workflow_inv_def)
  then have "request_ok d ar" using assms(3) by (simp add: approval_inv_def)
  then show ?thesis by (auto simp: request_ok_def Let_def split: approval_status.splits)
qed

theorem reachable_requests_consistent_witness:
  "\<exists>ar \<in> set (approval_requests sample_final). ballots (ar_id ar) sample_final = []"
proof -
  obtain ar where ar: "approval_requests sample_final = [ar]" "ar_status ar = AR_PENDING"
    using sample_final_rows(2) by (cases "approval_requests sample_final") auto
  with reachable_requests_consistent [OF sample_workflow_inv(2) sample_final_reachable, of ar] show ?thesis
    by auto
qed

text \<open>A history with a decision on a request that is closed.\<close>

definition closed_request_trace :: "(command \<times> uuid \<times> instant) list" where
  "closed_request_trace = [(Decision (Accept 16), 1, 1), (Submit 12, 1, 2), (Decide 43 APPROVE [13] None, 2, 3),
     (Archive 12, 1, 4), (Restore 12, 1, 5), (Decision (CorrectDirectly 14 ''z''), 1, 6),
     (Decide 43 REJECT [14] None, 2, 7)]"

text \<open>
  A closed request is not final. The issue 13 is accepted, submitted and approved: the
  request 43 is APPROVED. The run is archived and restored, a second issue is corrected, and a
  decision on the closed request rejects it: the request is now REJECTED.
\<close>

theorem closed_request_can_be_reopened:
  "map ar_status (approval_requests (run_all (workflow_step (\<lambda>_. None)) (take 3 closed_request_trace)
     (sample_db RR_IN_REVIEW))) = [AR_APPROVED] \<and>
   map ar_status (approval_requests (run_all (workflow_step (\<lambda>_. None)) closed_request_trace
     (sample_db RR_IN_REVIEW))) = [AR_REJECTED]"
  by code_simp

end
