(* ===== verification/Jobs.thy ===== *)
theory Jobs
  imports AuditLineage
begin

text \<open>
  Background jobs: \<open>app/modules/jobs/service.py\<close> and \<open>app/modules/jobs/tasks.py\<close>. A job is
  queued by a service, marked running and then completed, failed or cancelled by a worker;
  a user may ask for its cancellation, and a watchdog fails jobs whose heartbeat stopped.
  Every operation of \<open>JobsService\<close> commits. The cancel flag is a Redis key, written outside
  the database transaction.
\<close>

section \<open>The cancel flag\<close>

definition cancel_key :: "uuid \<Rightarrow> string" where
  "cancel_key i = ''job:'' @ uuid_str i @ '':cancel_requested''"

definition set_cancel_flag :: "uuid \<Rightarrow> db \<Rightarrow> db" where
  "set_cancel_flag i d = d\<lparr>cancel_flags := List.insert i (cancel_flags d)\<rparr>"

definition is_cancel_requested :: "uuid \<Rightarrow> db \<Rightarrow> bool" where
  "is_cancel_requested i d = (i \<in> set (cancel_flags d))"

definition clear_cancel_flag :: "uuid \<Rightarrow> db \<Rightarrow> db" where
  "clear_cancel_flag i d = d\<lparr>cancel_flags := removeAll i (cancel_flags d)\<rparr>"

section \<open>Queries and creation\<close>

definition job_in_flight :: "job_status \<Rightarrow> bool" where
  "job_in_flight st = (st \<in> {JOB_QUEUED, JOB_RUNNING})"

definition jobs_get :: "uuid \<Rightarrow> db \<Rightarrow> exn + job" where
  "jobs_get i d = or_raise (NotFound JobNotFoundError) (get_job d i)"

definition find_in_flight :: "string \<Rightarrow> string \<Rightarrow> uuid \<Rightarrow> db \<Rightarrow> job option" where
  "find_in_flight ty ety eid d = find (\<lambda>j. job_type j = ty \<and> job_entity_type j = ety \<and>
     job_entity_id j = eid \<and> job_in_flight (job_status j)) (jobs d)"

definition new_job :: "uuid \<Rightarrow> string \<Rightarrow> string \<Rightarrow> uuid \<Rightarrow> uuid \<Rightarrow> instant \<Rightarrow> job" where
  "new_job i ty ety eid actor now =
     \<lparr>job_id = i, job_type = ty, job_entity_type = ety, job_entity_id = eid,
      job_status = JOB_QUEUED, job_progress_percentage = None, job_error_message = None,
      job_result = None, job_queued_at = now, job_started_at = None, job_completed_at = None,
      job_created_by = Some actor, job_created_at = now, job_updated_at = None\<rparr>"

definition add_job :: "string \<Rightarrow> string \<Rightarrow> uuid \<Rightarrow> uuid \<Rightarrow> instant \<Rightarrow> db \<Rightarrow> db" where
  "add_job ty ety eid actor now d =
     d\<lparr>jobs := jobs d @ [new_job (db_next d) ty ety eid actor now], db_next := Suc (db_next d)\<rparr>"

definition create_job :: "string \<Rightarrow> string \<Rightarrow> uuid \<Rightarrow> uuid \<Rightarrow> instant \<Rightarrow> (db, uuid) op" where
  "create_job ty ety eid actor now d = returns (add_job ty ety eid actor now d) (db_next d)"

section \<open>Progress of a job\<close>

definition upd_job :: "uuid \<Rightarrow> (job \<Rightarrow> job) \<Rightarrow> db \<Rightarrow> db" where
  "upd_job i f d = d\<lparr>jobs := upd_row job_id i f (jobs d)\<rparr>"

definition write_job :: "uuid \<Rightarrow> (job \<Rightarrow> job) \<Rightarrow> (db, uuid) op" where
  "write_job i f d = attempt d (jobs_get i d) (\<lambda>_. returns (upd_job i f d) i)"

definition mark_running :: "uuid \<Rightarrow> instant \<Rightarrow> (db, uuid) op" where
  "mark_running i now = write_job i
     (\<lambda>j. j\<lparr>job_status := JOB_RUNNING, job_started_at := Some now, job_updated_at := Some now\<rparr>)"

definition update_progress :: "uuid \<Rightarrow> int option \<Rightarrow> instant \<Rightarrow> (db, uuid) op" where
  "update_progress i p now = write_job i
     (\<lambda>j. j\<lparr>job_progress_percentage := (case p of None \<Rightarrow> job_progress_percentage j | Some v \<Rightarrow> Some v),
            job_updated_at := Some now\<rparr>)"

definition mark_completed :: "uuid \<Rightarrow> errmsg option \<Rightarrow> json option \<Rightarrow> instant \<Rightarrow> (db, uuid) op" where
  "mark_completed i msg res now = write_job i
     (\<lambda>j. j\<lparr>job_status := JOB_COMPLETED, job_completed_at := Some now, job_updated_at := Some now,
            job_error_message := msg,
            job_result := (case res of None \<Rightarrow> job_result j | Some v \<Rightarrow> Some v)\<rparr>)"

definition mark_failed :: "uuid \<Rightarrow> errmsg \<Rightarrow> instant \<Rightarrow> (db, uuid) op" where
  "mark_failed i msg now = write_job i
     (\<lambda>j. j\<lparr>job_status := JOB_FAILED, job_completed_at := Some now, job_updated_at := Some now,
            job_error_message := Some msg\<rparr>)"

definition mark_cancelled :: "uuid \<Rightarrow> instant \<Rightarrow> (db, uuid) op" where
  "mark_cancelled i now = write_job i
     (\<lambda>j. j\<lparr>job_status := JOB_CANCELLED, job_completed_at := Some now, job_updated_at := Some now\<rparr>)"

text \<open>The user a worker acts for: \<open>db.get(User, job.created_by)\<close>, when there is one.\<close>

definition job_actor :: "job \<Rightarrow> db \<Rightarrow> uuid option" where
  "job_actor j d = Option.bind (job_created_by j) (\<lambda>u. map_option usr_id (get_user d u))"

section \<open>The run behind a job\<close>

text \<open>
  The registries map a job type to the table of its runs. The two tables \<open>cancel\<close> writes
  have the statuses QUEUED, RUNNING and so on; \<open>publish_runs\<close> has its own statuses, none of
  which the sweep's condition names.
\<close>

datatype run_table = ProfileRuns | ValidationRuns | PublishRuns

definition cancellable_run_table :: "string \<Rightarrow> run_table option" where
  "cancellable_run_table ty =
     map_of [(''PROFILE_RUN'', ProfileRuns), (''VALIDATION_RUN'', ValidationRuns)] ty"

definition swept_run_table :: "string \<Rightarrow> run_table option" where
  "swept_run_table ty = map_of [(''PROFILE_RUN'', ProfileRuns),
     (''VALIDATION_RUN'', ValidationRuns), (''PUBLISH'', PublishRuns)] ty"

definition profile_runs_of :: "uuid \<Rightarrow> db \<Rightarrow> profile_run list" where
  "profile_runs_of i d = filter (\<lambda>r. prun_job_id r = Some i) (profile_runs d)"

definition validation_runs_of :: "uuid \<Rightarrow> db \<Rightarrow> validation_run list" where
  "validation_runs_of i d = filter (\<lambda>r. vr_job_id r = Some i) (validation_runs d)"

definition publish_runs_of :: "uuid \<Rightarrow> db \<Rightarrow> publish_run list" where
  "publish_runs_of i d = filter (\<lambda>r. pr_job_id r = Some i) (publish_runs d)"

definition set_profile_run :: "uuid \<Rightarrow> (profile_run \<Rightarrow> profile_run) \<Rightarrow> db \<Rightarrow> db" where
  "set_profile_run i f d = d\<lparr>profile_runs := upd_row prun_id i f (profile_runs d)\<rparr>"

definition set_validation_run :: "uuid \<Rightarrow> (validation_run \<Rightarrow> validation_run) \<Rightarrow> db \<Rightarrow> db" where
  "set_validation_run i f d = d\<lparr>validation_runs := upd_row vr_id i f (validation_runs d)\<rparr>"

section \<open>Cancellation\<close>

definition cancel_run :: "string \<Rightarrow> uuid \<Rightarrow> instant \<Rightarrow> db \<Rightarrow> exn + db" where
  "cancel_run ty i now d =
     (case cancellable_run_table ty of
        Some ProfileRuns \<Rightarrow> (case at_most_one MultipleResultsFound (profile_runs_of i d) of
            Inl e \<Rightarrow> Inl e
          | Inr None \<Rightarrow> Inr d
          | Inr (Some r) \<Rightarrow> Inr (if prun_status r = RUN_QUEUED then set_profile_run (prun_id r)
              (\<lambda>r. r\<lparr>prun_status := RUN_CANCELLED, prun_completed_at := Some now\<rparr>) d else d))
      | Some ValidationRuns \<Rightarrow> (case at_most_one MultipleResultsFound (validation_runs_of i d) of
            Inl e \<Rightarrow> Inl e
          | Inr None \<Rightarrow> Inr d
          | Inr (Some r) \<Rightarrow> Inr (if vr_status r = RUN_QUEUED then set_validation_run (vr_id r)
              (\<lambda>r. r\<lparr>vr_status := RUN_CANCELLED, vr_completed_at := Some now\<rparr>) d else d))
      | _ \<Rightarrow> Inr d)"

text \<open>The flag is set before anything else; the job's cancellation is committed before its run is.\<close>

definition cancel :: "uuid \<Rightarrow> instant \<Rightarrow> (db, uuid) op" where
  "cancel i now d =
     attempt d (jobs_get i d) (\<lambda>j.
     checked d (raise_if (\<not> job_in_flight (job_status j)) (Conflict JobNotCancellableError))
       (let d1 = set_cancel_flag i d in
        if job_status j = JOB_QUEUED then
          (let d2 = fst (mark_cancelled i now d1) in
           attempt d2 (cancel_run (job_type j) i now d2) (\<lambda>d3. returns d3 i))
        else returns d1 i))"

section \<open>The watchdog\<close>

definition stale_threshold :: "int \<Rightarrow> instant \<Rightarrow> instant" where
  "stale_threshold minutes now = now - minutes * 60 * 1000000"

definition is_stale :: "int \<Rightarrow> instant \<Rightarrow> job \<Rightarrow> bool" where
  "is_stale minutes now j = (job_status j = JOB_RUNNING \<and>
     (case job_updated_at j of None \<Rightarrow> False | Some t \<Rightarrow> t < stale_threshold minutes now))"

definition stale_message :: "int \<Rightarrow> errmsg" where
  "stale_message minutes = Literal (''Marked stale: no progress for over '' @ show_int minutes @ '' minutes'')"

definition fail_stale_job :: "int \<Rightarrow> instant \<Rightarrow> job \<Rightarrow> job" where
  "fail_stale_job minutes now j = j\<lparr>job_status := JOB_FAILED, job_completed_at := Some now,
     job_updated_at := Some now, job_error_message := Some (stale_message minutes)\<rparr>"

definition run_in_flight :: "run_status \<Rightarrow> bool" where
  "run_in_flight st = (st \<in> {RUN_QUEUED, RUN_RUNNING})"

definition fail_stale_run :: "int \<Rightarrow> instant \<Rightarrow> job \<Rightarrow> db \<Rightarrow> exn + db" where
  "fail_stale_run minutes now j d =
     (case swept_run_table (job_type j) of
        Some ProfileRuns \<Rightarrow> (case at_most_one MultipleResultsFound (profile_runs_of (job_id j) d) of
            Inl e \<Rightarrow> Inl e
          | Inr None \<Rightarrow> Inr d
          | Inr (Some r) \<Rightarrow> Inr (if run_in_flight (prun_status r) then set_profile_run (prun_id r)
              (\<lambda>r. r\<lparr>prun_status := RUN_FAILED, prun_completed_at := Some now,
                      prun_error_message := Some (stale_message minutes)\<rparr>) d else d))
      | Some ValidationRuns \<Rightarrow> (case at_most_one MultipleResultsFound (validation_runs_of (job_id j) d) of
            Inl e \<Rightarrow> Inl e
          | Inr None \<Rightarrow> Inr d
          | Inr (Some r) \<Rightarrow> Inr (if run_in_flight (vr_status r) then set_validation_run (vr_id r)
              (\<lambda>r. r\<lparr>vr_status := RUN_FAILED, vr_completed_at := Some now,
                      vr_error_message := Some (stale_message minutes)\<rparr>) d else d))
      | Some PublishRuns \<Rightarrow> (case at_most_one MultipleResultsFound (publish_runs_of (job_id j) d) of
            Inl e \<Rightarrow> Inl e
          | Inr _ \<Rightarrow> Inr d)
      | None \<Rightarrow> Inr d)"

definition sweep_job :: "int \<Rightarrow> instant \<Rightarrow> job \<Rightarrow> db \<Rightarrow> exn + db" where
  "sweep_job minutes now j d =
     (case fail_stale_run minutes now j (upd_job (job_id j) (fail_stale_job minutes now) d) of
        Inl e \<Rightarrow> Inl e
      | Inr d1 \<Rightarrow> Inr (audit_record None ''SYSTEM'' ''job.marked_stale'' ''JOB'' (job_id j) None None
          (Some [(''threshold_minutes'', PyInt minutes)]) now d1))"

definition sweep_stale_jobs :: "int \<Rightarrow> instant \<Rightarrow> (db, nat) op" where
  "sweep_stale_jobs minutes now d =
     (let stale = filter (is_stale minutes now) (jobs d) in
      attempt d (fold_ok (sweep_job minutes now) stale d) (\<lambda>d1. returns d1 (length stale)))"

lemmas job_op_defs [op_defs] =
  create_job_def mark_running_def update_progress_def mark_completed_def mark_failed_def
  mark_cancelled_def write_job_def cancel_def sweep_stale_jobs_def

section \<open>Keys of the run tables\<close>

text \<open>
  Primary keys are unique; a run is created together with its job, so a job has at most one
  run in each table.
\<close>

definition jobs_wf :: "db \<Rightarrow> bool" where
  "jobs_wf d \<longleftrightarrow> distinct (map job_id (jobs d)) \<and>
     distinct (map prun_id (profile_runs d)) \<and> distinct (map vr_id (validation_runs d)) \<and>
     (\<forall>i. length (profile_runs_of i d) \<le> 1 \<and> length (validation_runs_of i d) \<le> 1 \<and>
          length (publish_runs_of i d) \<le> 1)"

definition cancel_profile_run :: "uuid \<Rightarrow> instant \<Rightarrow> profile_run \<Rightarrow> profile_run" where
  "cancel_profile_run i now r = (if prun_job_id r = Some i \<and> prun_status r = RUN_QUEUED
     then r\<lparr>prun_status := RUN_CANCELLED, prun_completed_at := Some now\<rparr> else r)"

definition cancel_validation_run :: "uuid \<Rightarrow> instant \<Rightarrow> validation_run \<Rightarrow> validation_run" where
  "cancel_validation_run i now r = (if vr_job_id r = Some i \<and> vr_status r = RUN_QUEUED
     then r\<lparr>vr_status := RUN_CANCELLED, vr_completed_at := Some now\<rparr> else r)"

text \<open>Both writers look a job's run up and rewrite it when its status passes a test.\<close>

lemma map_single_run:
  assumes "filter p t = [r]"
  shows "map (\<lambda>x. if p x \<and> q x then f x else x) t =
    (if q r then map (\<lambda>x. if p x then f x else x) t else t)"
proof -
  have "set (filter p t) = {r}" using assms by simp
  then have "x = r" if "x \<in> set t" "p x" for x using that by auto
  then show ?thesis by (cases "q r") (auto intro!: map_cong map_idI)
qed

lemma map_no_run: "filter p t = [] \<Longrightarrow> map (\<lambda>x. if p x \<and> q x then f x else x) t = t"
  by (induction t) (auto split: if_splits)

lemma single_run_update:
  assumes "distinct (map idf t)" and "length (filter p t) \<le> 1"
  shows "(case at_most_one e (filter p t) of Inl e \<Rightarrow> Inl e
       | Inr None \<Rightarrow> Inr (put t)
       | Inr (Some r) \<Rightarrow> Inr (if q r then put (upd_row idf (idf r) f t) else put t)) =
     Inr (put (map (\<lambda>x. if p x \<and> q x then f x else x) t))"
  using assms(2)
proof (rule length_filter_le_1_cases)
  assume "filter p t = []"
  then show ?thesis by (simp add: map_no_run)
next
  fix r assume "filter p t = [r]"
  then show ?thesis using assms(1) by (simp add: map_single_run upd_row_single)
qed

lemma unchanged_profile_runs: "d\<lparr>profile_runs := profile_runs d\<rparr> = d" by simp

lemma unchanged_validation_runs: "d\<lparr>validation_runs := validation_runs d\<rparr> = d" by simp

lemma profile_run_update:
  assumes "jobs_wf d"
  shows "(case at_most_one e (profile_runs_of i d) of Inl e \<Rightarrow> Inl e | Inr None \<Rightarrow> Inr d
       | Inr (Some r) \<Rightarrow> Inr (if q (prun_status r) then set_profile_run (prun_id r) f d else d)) =
     Inr (d\<lparr>profile_runs :=
       map (\<lambda>x. if prun_job_id x = Some i \<and> q (prun_status x) then f x else x) (profile_runs d)\<rparr>)"
  using single_run_update [where idf = prun_id and t = "profile_runs d" and e = e and f = f and
      p = "\<lambda>r. prun_job_id r = Some i" and put = "\<lambda>t. d\<lparr>profile_runs := t\<rparr>" and
      q = "\<lambda>r. q (prun_status r)"] assms
  unfolding profile_runs_of_def set_profile_run_def jobs_wf_def unchanged_profile_runs by blast

lemma validation_run_update:
  assumes "jobs_wf d"
  shows "(case at_most_one e (validation_runs_of i d) of Inl e \<Rightarrow> Inl e | Inr None \<Rightarrow> Inr d
       | Inr (Some r) \<Rightarrow> Inr (if q (vr_status r) then set_validation_run (vr_id r) f d else d)) =
     Inr (d\<lparr>validation_runs :=
       map (\<lambda>x. if vr_job_id x = Some i \<and> q (vr_status x) then f x else x) (validation_runs d)\<rparr>)"
  using single_run_update [where idf = vr_id and t = "validation_runs d" and e = e and f = f and
      p = "\<lambda>r. vr_job_id r = Some i" and put = "\<lambda>t. d\<lparr>validation_runs := t\<rparr>" and
      q = "\<lambda>r. q (vr_status r)"] assms
  unfolding validation_runs_of_def set_validation_run_def jobs_wf_def unchanged_validation_runs by blast

lemma cancel_run_eq:
  assumes wf: "jobs_wf d"
  shows "cancel_run ty i now d = Inr (d\<lparr>
     profile_runs := (if ty = ''PROFILE_RUN'' then map (cancel_profile_run i now) (profile_runs d)
                      else profile_runs d),
     validation_runs := (if ty = ''VALIDATION_RUN'' then map (cancel_validation_run i now) (validation_runs d)
                         else validation_runs d)\<rparr>)"
proof -
  consider "ty = ''PROFILE_RUN''" | "ty = ''VALIDATION_RUN''" | "cancellable_run_table ty = None"
    "ty \<noteq> ''PROFILE_RUN''" "ty \<noteq> ''VALIDATION_RUN''"
    by (auto simp: cancellable_run_table_def)
  then show ?thesis
  proof cases
    case 1
    then show ?thesis
      using profile_run_update [OF wf, where q = "\<lambda>st. st = RUN_QUEUED"]
      by (simp add: cancel_run_def cancellable_run_table_def cancel_profile_run_def [abs_def])
  next
    case 2
    then show ?thesis
      using validation_run_update [OF wf, where q = "\<lambda>st. st = RUN_QUEUED"]
      by (simp add: cancel_run_def cancellable_run_table_def cancel_validation_run_def [abs_def])
  next
    case 3
    then show ?thesis by (simp add: cancel_run_def)
  qed
qed

lemma jobs_wf_set_cancel_flag [simp]: "jobs_wf (set_cancel_flag i d) = jobs_wf d"
  by (simp add: jobs_wf_def set_cancel_flag_def profile_runs_of_def validation_runs_of_def publish_runs_of_def)

lemma jobs_wf_upd_job:
  assumes "\<And>j. job_id (f j) = job_id j" shows "jobs_wf (upd_job i f d) = jobs_wf d"
proof -
  have "map job_id (upd_row job_id i f (jobs d)) = map job_id (jobs d)"
    by (rule job_table.keys_upd) (rule assms)
  then show ?thesis
    by (simp add: jobs_wf_def upd_job_def profile_runs_of_def validation_runs_of_def publish_runs_of_def)
qed

lemma get_job_upd_job:
  assumes "\<And>j. job_id (f j) = job_id j"
  shows "get_job (upd_job i f d) k = (if i = k then map_option f (get_job d k) else get_job d k)"
  using assms by (simp add: upd_job_def job_table.get_upd)

lemma mark_cancelled_eq:
  "get_job d i = Some j \<Longrightarrow> mark_cancelled i now d =
     returns (upd_job i (\<lambda>j. j\<lparr>job_status := JOB_CANCELLED, job_completed_at := Some now,
       job_updated_at := Some now\<rparr>) d) i"
  by (simp add: mark_cancelled_def write_job_def jobs_get_def)

section \<open>Writing a job\<close>

lemma upd_job_frame [simp]:
  "profile_runs (upd_job i g d) = profile_runs d"
  "validation_runs (upd_job i g d) = validation_runs d"
  "staging_runs (upd_job i g d) = staging_runs d"
  "staging_records (upd_job i g d) = staging_records d"
  "publish_runs (upd_job i g d) = publish_runs d"
  "staging_tables (upd_job i g d) = staging_tables d"
  "cancel_flags (upd_job i g d) = cancel_flags d"
  "overwrite_flags (upd_job i g d) = overwrite_flags d"
  "top_values_flags (upd_job i g d) = top_values_flags d"
  "exported_files (upd_job i g d) = exported_files d"
  "db_next (upd_job i g d) = db_next d"
  "lineage_records (upd_job i g d) = lineage_records d"
  "audit_events (upd_job i g d) = audit_events d"
  "datasets (upd_job i g d) = datasets d"
  "columns (upd_job i g d) = columns d"
  "schemas (upd_job i g d) = schemas d"
  "connections (upd_job i g d) = connections d"
  "connection_types (upd_job i g d) = connection_types d"
  "users (upd_job i g d) = users d"
  "rules (upd_job i g d) = rules d"
  "rule_versions (upd_job i g d) = rule_versions d"
  "rule_assignments (upd_job i g d) = rule_assignments d"
  "rule_assignment_columns (upd_job i g d) = rule_assignment_columns d"
  "dataset_key_columns (upd_job i g d) = dataset_key_columns d"
  "validation_results (upd_job i g d) = validation_results d"
  "validation_failures (upd_job i g d) = validation_failures d"
  by (simp_all add: upd_job_def)

lemma write_job_frame [simp]:
  "profile_runs (fst (write_job i g d)) = profile_runs d"
  "validation_runs (fst (write_job i g d)) = validation_runs d"
  "staging_runs (fst (write_job i g d)) = staging_runs d"
  "staging_records (fst (write_job i g d)) = staging_records d"
  "publish_runs (fst (write_job i g d)) = publish_runs d"
  "staging_tables (fst (write_job i g d)) = staging_tables d"
  "cancel_flags (fst (write_job i g d)) = cancel_flags d"
  "overwrite_flags (fst (write_job i g d)) = overwrite_flags d"
  "top_values_flags (fst (write_job i g d)) = top_values_flags d"
  "exported_files (fst (write_job i g d)) = exported_files d"
  "db_next (fst (write_job i g d)) = db_next d"
  "lineage_records (fst (write_job i g d)) = lineage_records d"
  "audit_events (fst (write_job i g d)) = audit_events d"
  "datasets (fst (write_job i g d)) = datasets d"
  "columns (fst (write_job i g d)) = columns d"
  "schemas (fst (write_job i g d)) = schemas d"
  "connections (fst (write_job i g d)) = connections d"
  "connection_types (fst (write_job i g d)) = connection_types d"
  "users (fst (write_job i g d)) = users d"
  "rules (fst (write_job i g d)) = rules d"
  "rule_versions (fst (write_job i g d)) = rule_versions d"
  "rule_assignments (fst (write_job i g d)) = rule_assignments d"
  "rule_assignment_columns (fst (write_job i g d)) = rule_assignment_columns d"
  "dataset_key_columns (fst (write_job i g d)) = dataset_key_columns d"
  "validation_results (fst (write_job i g d)) = validation_results d"
  "validation_failures (fst (write_job i g d)) = validation_failures d"
  by (cases "get_job d i"; simp add: write_job_def jobs_get_def)+

lemma write_job_eq: "get_job d i = Some j \<Longrightarrow> write_job i f d = returns (upd_job i f d) i"
  by (simp add: write_job_def jobs_get_def)

lemma get_job_marked:
  assumes "get_job d i = Some j" and "\<And>j. job_id (f j) = job_id j"
  shows "get_job (fst (write_job i f d)) k = (if i = k then Some (f j) else get_job d k)"
  using assms by (auto simp: write_job_eq get_job_upd_job)

lemmas mark_defs = mark_running_def mark_completed_def mark_failed_def mark_cancelled_def

lemma job_id_of: "get_job d i = Some j \<Longrightarrow> job_id j = i"
  by (drule find_row_SomeD) simp

lemma cleared_flag: "cancel_flags (clear_cancel_flag i d) = removeAll i (cancel_flags d)"
  by (simp add: clear_cancel_flag_def)

section \<open>Cancelling a job\<close>

definition job_cancelled :: "instant \<Rightarrow> job \<Rightarrow> job" where
  "job_cancelled now j = j\<lparr>job_status := JOB_CANCELLED, job_completed_at := Some now,
     job_updated_at := Some now\<rparr>"

text \<open>C16.
  A cancellation is accepted exactly for a job that is QUEUED or RUNNING, and then sets the
  cancel flag. A running job is otherwise left to its worker; a queued one is CANCELLED at
  once, together with its QUEUED profile run or validation run, and with nothing else: the
  run of a STAGING_BUILD or a PUBLISH job keeps its state. A refused cancellation changes
  nothing.\<close>

theorem cancel_spec:
  assumes wf: "jobs_wf d"
  shows "(succeeds (cancel i now d) \<longleftrightarrow> (\<exists>j. get_job d i = Some j \<and> job_in_flight (job_status j))) \<and>
    (\<not> succeeds (cancel i now d) \<longrightarrow> fst (cancel i now d) = d) \<and>
    (\<forall>j. get_job d i = Some j \<and> job_status j = JOB_RUNNING \<longrightarrow>
       cancel i now d = returns (set_cancel_flag i d) i) \<and>
    (\<forall>j. get_job d i = Some j \<and> job_status j = JOB_QUEUED \<longrightarrow>
       cancel i now d = returns ((set_cancel_flag i d)\<lparr>
         jobs := upd_row job_id i (job_cancelled now) (jobs d),
         profile_runs := (if job_type j = ''PROFILE_RUN''
           then map (cancel_profile_run i now) (profile_runs d) else profile_runs d),
         validation_runs := (if job_type j = ''VALIDATION_RUN''
           then map (cancel_validation_run i now) (validation_runs d) else validation_runs d)\<rparr>) i)"
proof (cases "get_job d i")
  case None
  then show ?thesis by (simp add: cancel_def jobs_get_def)
next
  case (Some j)
  have found: "get_job (set_cancel_flag i d) i = Some j"
    using Some by (simp add: set_cancel_flag_def)
  show ?thesis
  proof (cases "job_status j")
    case JOB_QUEUED
    let ?d2 = "upd_job i (job_cancelled now) (set_cancel_flag i d)"
    have "jobs_wf ?d2" using wf by (simp add: jobs_wf_upd_job job_cancelled_def)
    then have "cancel i now d = returns (?d2\<lparr>
         profile_runs := (if job_type j = ''PROFILE_RUN''
           then map (cancel_profile_run i now) (profile_runs d) else profile_runs d),
         validation_runs := (if job_type j = ''VALIDATION_RUN''
           then map (cancel_validation_run i now) (validation_runs d) else validation_runs d)\<rparr>) i"
      using Some JOB_QUEUED cancel_run_eq [of ?d2 "job_type j" i now]
      by (simp add: cancel_def jobs_get_def job_in_flight_def mark_cancelled_eq [OF found]
          job_cancelled_def [abs_def] Let_def) (simp add: upd_job_def set_cancel_flag_def)
    then show ?thesis
      using Some JOB_QUEUED by (simp add: job_in_flight_def) (simp add: upd_job_def set_cancel_flag_def)
  qed (use Some in \<open>simp_all add: cancel_def jobs_get_def job_in_flight_def\<close>)
qed

section \<open>The watchdog as one pass over the tables\<close>

definition swept_profile_run :: "int \<Rightarrow> instant \<Rightarrow> job list \<Rightarrow> profile_run \<Rightarrow> profile_run" where
  "swept_profile_run minutes now js r =
     (if run_in_flight (prun_status r) \<and>
         (\<exists>j \<in> set js. job_type j = ''PROFILE_RUN'' \<and> prun_job_id r = Some (job_id j))
      then r\<lparr>prun_status := RUN_FAILED, prun_completed_at := Some now,
             prun_error_message := Some (stale_message minutes)\<rparr> else r)"

definition swept_validation_run :: "int \<Rightarrow> instant \<Rightarrow> job list \<Rightarrow> validation_run \<Rightarrow> validation_run" where
  "swept_validation_run minutes now js r =
     (if run_in_flight (vr_status r) \<and>
         (\<exists>j \<in> set js. job_type j = ''VALIDATION_RUN'' \<and> vr_job_id r = Some (job_id j))
      then r\<lparr>vr_status := RUN_FAILED, vr_completed_at := Some now,
             vr_error_message := Some (stale_message minutes)\<rparr> else r)"

definition swept_events :: "int \<Rightarrow> instant \<Rightarrow> nat \<Rightarrow> job list \<Rightarrow> audit_event list" where
  "swept_events minutes now n js = map (\<lambda>(k, j).
     \<lparr>aud_id = k, aud_actor_id = None, aud_actor_type = ''SYSTEM'', aud_action = ''job.marked_stale'',
      aud_entity_type = ''JOB'', aud_entity_id = job_id j, aud_before_value = None,
      aud_after_value = None, aud_metadata = Some [(''threshold_minutes'', PyInt minutes)],
      aud_created_at = now\<rparr>) (enumerate n js)"

definition swept :: "int \<Rightarrow> instant \<Rightarrow> job list \<Rightarrow> db \<Rightarrow> db" where
  "swept minutes now js d = d\<lparr>
     jobs := map (\<lambda>j. if job_id j \<in> job_id ` set js then fail_stale_job minutes now j else j) (jobs d),
     profile_runs := map (swept_profile_run minutes now js) (profile_runs d),
     validation_runs := map (swept_validation_run minutes now js) (validation_runs d),
     audit_events := audit_events d @ swept_events minutes now (db_next d) js,
     db_next := db_next d + length js\<rparr>"

lemma fail_stale_run_eq:
  assumes wf: "jobs_wf d"
  shows "fail_stale_run minutes now j d = Inr (d\<lparr>
     profile_runs := map (swept_profile_run minutes now [j]) (profile_runs d),
     validation_runs := map (swept_validation_run minutes now [j]) (validation_runs d)\<rparr>)"
proof -
  have idle: "map (swept_profile_run minutes now [j]) (profile_runs d) = profile_runs d"
    if "job_type j \<noteq> ''PROFILE_RUN''" using that by (simp add: swept_profile_run_def map_idI)
  have idle': "map (swept_validation_run minutes now [j]) (validation_runs d) = validation_runs d"
    if "job_type j \<noteq> ''VALIDATION_RUN''" using that by (simp add: swept_validation_run_def map_idI)
  consider "job_type j = ''PROFILE_RUN''" | "job_type j = ''VALIDATION_RUN''"
    | "job_type j = ''PUBLISH''"
    | "job_type j \<noteq> ''PROFILE_RUN''" "job_type j \<noteq> ''VALIDATION_RUN''" "job_type j \<noteq> ''PUBLISH''"
    by blast
  then show ?thesis
  proof cases
    case 1
    then show ?thesis using profile_run_update [OF wf, where q = run_in_flight and i = "job_id j"]
      by (simp add: fail_stale_run_def swept_run_table_def idle' swept_profile_run_def [abs_def] conj_commute)
  next
    case 2
    then show ?thesis using validation_run_update [OF wf, where q = run_in_flight and i = "job_id j"]
      by (simp add: fail_stale_run_def swept_run_table_def idle swept_validation_run_def [abs_def] conj_commute)
  next
    case 3
    have "length (publish_runs_of (job_id j) d) \<le> 1" using wf by (simp add: jobs_wf_def)
    then have "\<exists>x. at_most_one MultipleResultsFound (publish_runs_of (job_id j) d) = Inr x"
      by (cases "publish_runs_of (job_id j) d" rule: scalar_one_or_none.cases) auto
    then show ?thesis using 3 by (auto simp: fail_stale_run_def swept_run_table_def idle idle')
  next
    case 4
    then show ?thesis by (simp add: fail_stale_run_def swept_run_table_def idle idle')
  qed
qed

lemma jobs_wf_swept: "jobs_wf d \<Longrightarrow> jobs_wf (swept minutes now js d)"
proof -
  have ids: "map job_id (jobs (swept minutes now js d)) = map job_id (jobs d)"
    "map prun_id (profile_runs (swept minutes now js d)) = map prun_id (profile_runs d)"
    "map vr_id (validation_runs (swept minutes now js d)) = map vr_id (validation_runs d)"
    by (simp_all add: swept_def fail_stale_job_def swept_profile_run_def swept_validation_run_def)
  have "length (profile_runs_of i (swept minutes now js d)) = length (profile_runs_of i d)"
    "length (validation_runs_of i (swept minutes now js d)) = length (validation_runs_of i d)"
    "publish_runs_of i (swept minutes now js d) = publish_runs_of i d" for i
    by (simp_all add: swept_def profile_runs_of_def validation_runs_of_def publish_runs_of_def filter_map
        comp_def swept_profile_run_def swept_validation_run_def if_distrib cong: if_cong)
  then show "jobs_wf d \<Longrightarrow> jobs_wf (swept minutes now js d)"
    using ids by (simp add: jobs_wf_def)
qed

lemma sweep_job_eq:
  assumes wf: "jobs_wf d"
  shows "sweep_job minutes now j d = Inr (swept minutes now [j] d)"
proof -
  let ?d1 = "upd_job (job_id j) (fail_stale_job minutes now) d"
  have "jobs_wf ?d1" using wf by (simp add: jobs_wf_upd_job fail_stale_job_def)
  from fail_stale_run_eq [OF this] show ?thesis
    by (simp add: sweep_job_def swept_def swept_events_def audit_record_def upd_job_def upd_row_def)
qed

lemma swept_Cons: "swept minutes now js (swept minutes now [j] d) = swept minutes now (j # js) d"
proof -
  have "fail_stale_job minutes now (fail_stale_job minutes now x) = fail_stale_job minutes now x"
    "job_id (fail_stale_job minutes now x) = job_id x" for x
    by (simp_all add: fail_stale_job_def)
  then have "map (\<lambda>x. if job_id x \<in> job_id ` set js then fail_stale_job minutes now x else x)
      (jobs (swept minutes now [j] d)) = jobs (swept minutes now (j # js) d)"
    by (auto simp: swept_def)
  moreover have "swept_profile_run minutes now js (swept_profile_run minutes now [j] r) =
      swept_profile_run minutes now (j # js) r" for r
    by (auto simp: swept_profile_run_def run_in_flight_def)
  moreover have "swept_validation_run minutes now js (swept_validation_run minutes now [j] r) =
      swept_validation_run minutes now (j # js) r" for r
    by (auto simp: swept_validation_run_def run_in_flight_def)
  ultimately show ?thesis by (simp add: swept_def swept_events_def comp_def)
qed

lemma fold_sweep: "jobs_wf d \<Longrightarrow> fold_ok (sweep_job minutes now) js d = Inr (swept minutes now js d)"
proof (induction js arbitrary: d)
  case Nil
  show ?case
    by (simp add: swept_def swept_events_def swept_profile_run_def [abs_def] swept_validation_run_def [abs_def])
next
  case (Cons j js)
  then show ?case by (simp add: sweep_job_eq jobs_wf_swept swept_Cons)
qed

text \<open>C17.
  The watchdog's loop is one pass over the tables: every RUNNING job whose heartbeat is older
  than the threshold becomes FAILED, the profile runs and validation runs in flight of those
  jobs become FAILED with the same message, and each such job gets one SYSTEM audit event.
  Nothing else is written; the runs of PUBLISH and STAGING_BUILD jobs keep their state.\<close>

theorem sweep_is_one_pass:
  assumes wf: "jobs_wf d"
  shows "sweep_stale_jobs minutes now d =
    (let stale = filter (is_stale minutes now) (jobs d) in
     returns (d\<lparr>
       jobs := map (\<lambda>j. if is_stale minutes now j then fail_stale_job minutes now j else j) (jobs d),
       profile_runs := map (swept_profile_run minutes now stale) (profile_runs d),
       validation_runs := map (swept_validation_run minutes now stale) (validation_runs d),
       audit_events := audit_events d @ swept_events minutes now (db_next d) stale,
       db_next := db_next d + length stale\<rparr>) (length stale))"
proof -
  let ?stale = "filter (is_stale minutes now) (jobs d)"
  have "job_id j \<in> job_id ` set ?stale \<longleftrightarrow> is_stale minutes now j" if "j \<in> set (jobs d)" for j
    using wf that by (auto simp: jobs_wf_def distinct_map dest: inj_onD)
  then have "map (\<lambda>j. if job_id j \<in> job_id ` set ?stale then fail_stale_job minutes now j else j) (jobs d) =
      map (\<lambda>j. if is_stale minutes now j then fail_stale_job minutes now j else j) (jobs d)"
    by simp
  then show ?thesis
    using fold_sweep [OF wf, of minutes now ?stale] by (simp add: sweep_stale_jobs_def Let_def swept_def)
qed

section \<open>Examples\<close>

text \<open>A queued validation job with its run, and a materialization job whose heartbeat stopped.\<close>

definition jobs_db :: db where
  "jobs_db = empty_db\<lparr>db_next := 20,
     jobs := [(new_job 1 ''STAGING_BUILD'' ''STAGING_RUN'' 5 9 0)\<lparr>job_status := JOB_RUNNING, job_updated_at := Some 0\<rparr>,
              new_job 2 ''VALIDATION_RUN'' ''VALIDATION_RUN'' 6 9 0],
     validation_runs := [\<lparr>vr_id = 6, vr_dataset_id = 1, vr_template_id = None, vr_job_id = Some 2,
       vr_status = RUN_QUEUED, vr_sample_size = None, vr_total_rows = 0, vr_passed_rows = 0,
       vr_warning_rows = 0, vr_failed_rows = 0, vr_quality_score = None, vr_rules_evaluated_count = 0,
       vr_no_applicable_rules = False, vr_error_message = None, vr_triggered_by = None,
       vr_started_at = None, vr_completed_at = None, vr_duration_ms = None, vr_created_at = 0,
       vr_updated_at = None\<rparr>]\<rparr>"

lemmas jobs_db_defs = jobs_db_def new_job_def empty_db_def

lemma jobs_wf_jobs_db: "jobs_wf jobs_db"
  by (simp add: jobs_wf_def jobs_db_defs profile_runs_of_def validation_runs_of_def publish_runs_of_def)

theorem cancel_spec_witness:
  "succeeds (cancel 2 7 jobs_db) \<and>
   map vr_status (validation_runs (fst (cancel 2 7 jobs_db))) = [RUN_CANCELLED] \<and>
   \<not> succeeds (cancel 3 7 jobs_db) \<and> fst (cancel 3 7 jobs_db) = jobs_db"
proof -
  have job: "get_job jobs_db 2 = Some (new_job 2 ''VALIDATION_RUN'' ''VALIDATION_RUN'' 6 9 0)" "get_job jobs_db 3 = None"
    by (simp_all add: jobs_db_defs find_row_def)
  note spec = cancel_spec [OF jobs_wf_jobs_db]
  have "succeeds (cancel 2 7 jobs_db)"
    using spec [of 2 7] job(1) by (simp add: new_job_def job_in_flight_def)
  moreover have "map vr_status (validation_runs (fst (cancel 2 7 jobs_db))) = [RUN_CANCELLED]"
    using spec [of 2 7] job(1) by (simp add: new_job_def set_cancel_flag_def) (simp add: jobs_db_defs cancel_validation_run_def)
  moreover have "\<not> succeeds (cancel 3 7 jobs_db) \<and> fst (cancel 3 7 jobs_db) = jobs_db"
    using spec [of 3 7] job(2) by simp
  ultimately show ?thesis by blast
qed

theorem sweep_is_one_pass_witness:
  "snd (sweep_stale_jobs 60 3600000001 jobs_db) = Inr 1 \<and>
   map job_status (jobs (fst (sweep_stale_jobs 60 3600000001 jobs_db))) = [JOB_FAILED, JOB_QUEUED]"
  by (simp add: sweep_is_one_pass [OF jobs_wf_jobs_db] Let_def)
    (simp add: jobs_db_defs is_stale_def stale_threshold_def fail_stale_job_def)

end
