(* ===== verification/Sources.thy ===== *)
theory Sources
  imports AuditLineage
begin

text \<open>
  What the services see of the world outside: the settings (\<open>app/core/config.py\<close>), the
  credential vault (\<open>app/modules/connections/credential_vault.py\<close>) and the source databases
  (\<open>app/source_adapters/factory.py\<close>, \<open>base.py\<close>, \<open>exceptions.py\<close>). The calls on a source are
  the fields of a \<open>provider\<close>, parameters that may return anything or raise anything; so are
  Redis and Fernet, which the vault uses, and the digests and parsers of the libraries.
\<close>

section \<open>Settings\<close>

text \<open>The settings the modelled code reads, with their defaults.\<close>

record settings =
  DISCOVERY_QUERY_TIMEOUT_SECONDS :: int
  STALE_JOB_THRESHOLD_MINUTES :: int
  PROFILING_QUERY_TIMEOUT_SECONDS :: int
  PROFILING_EXACT_STATS_TIMEOUT_SECONDS :: int
  PROFILING_EXACT_STATS_MAX_COLUMNS_PER_QUERY :: int
  PROFILING_DATASET_TIMEOUT_SECONDS :: int
  PROFILING_DEFAULT_SAMPLE_SIZE :: int
  PROFILING_MAX_SAMPLE_SIZE :: int
  PROFILING_MAX_FULL_SCAN_ROWS :: int
  VALIDATION_MAX_FAILURES :: int
  VALIDATION_DATASET_TIMEOUT_SECONDS :: int
  MAX_SYNCHRONOUS_STAGING_RECORDS :: int
  STAGING_QUERY_TIMEOUT_SECONDS :: int
  STAGING_MATERIALIZATION_BATCH_SIZE :: int
  STAGING_MATERIALIZATION_QUERY_TIMEOUT_SECONDS :: int
  PUBLISH_FILE_EXPORT_DIRECTORY :: string

definition default_settings :: settings where
  "default_settings = \<lparr>DISCOVERY_QUERY_TIMEOUT_SECONDS = 30, STALE_JOB_THRESHOLD_MINUTES = 60,
     PROFILING_QUERY_TIMEOUT_SECONDS = 30, PROFILING_EXACT_STATS_TIMEOUT_SECONDS = 60,
     PROFILING_EXACT_STATS_MAX_COLUMNS_PER_QUERY = 25, PROFILING_DATASET_TIMEOUT_SECONDS = 300,
     PROFILING_DEFAULT_SAMPLE_SIZE = 30000, PROFILING_MAX_SAMPLE_SIZE = 200000,
     PROFILING_MAX_FULL_SCAN_ROWS = 5000000, VALIDATION_MAX_FAILURES = 10000,
     VALIDATION_DATASET_TIMEOUT_SECONDS = 300, MAX_SYNCHRONOUS_STAGING_RECORDS = 50000,
     STAGING_QUERY_TIMEOUT_SECONDS = 30, STAGING_MATERIALIZATION_BATCH_SIZE = 2000,
     STAGING_MATERIALIZATION_QUERY_TIMEOUT_SECONDS = 60,
     PUBLISH_FILE_EXPORT_DIRECTORY = ''./data/publish_exports''\<rparr>"

section \<open>Sources\<close>

type_synonym row = "(string \<times> pyval) list"
type_synonym key_dict = "(string \<times> string option) list"

record column_exact_stats =
  ces_null_count :: int
  ces_distinct_count :: int
  ces_total_row_count :: int

record sample_result =
  smp_rows :: "row list"
  smp_is_full_scan :: bool

text \<open>
  The calls on a source that the modelled code makes. \<open>iter_rows\<close> is a generator: each of its
  steps yields a batch or raises.
\<close>

record provider =
  pv_get_row_count :: "string \<Rightarrow> string \<Rightarrow> exn + int option"
  pv_get_dataset_column_stats :: "string \<Rightarrow> string \<Rightarrow> string list \<Rightarrow> exn + (string \<times> column_exact_stats) list"
  pv_sample_rows :: "string \<Rightarrow> string \<Rightarrow> int \<Rightarrow> int option \<Rightarrow> exn + sample_result"
  pv_fetch_rows_by_keys :: "string \<Rightarrow> string \<Rightarrow> key_dict list \<Rightarrow> exn + row list"
  pv_count_rows :: "string \<Rightarrow> string \<Rightarrow> exn + int"
  pv_iter_rows :: "string \<Rightarrow> string \<Rightarrow> string list \<Rightarrow> int \<Rightarrow> string list option \<Rightarrow> (exn + row list) list"

text \<open>
  The environment of a call: Redis and Fernet behind the vault, the provider classes, the
  digest and the decoders, and PostgreSQL's treatment of values in a materialized table:
  \<open>env_pg_store\<close> converts a value to a column type, \<open>env_pg_key\<close> reads a key text as a value of
  a column type and says which cells equal it, \<open>env_pg_order\<close> is ORDER BY on columns.
\<close>

record env =
  env_vault_get :: "string \<Rightarrow> exn + string option"
  env_decrypt :: "string \<Rightarrow> (string \<times> string) list option"
  env_provider_class :: "string \<Rightarrow> string \<Rightarrow> int \<Rightarrow> string option \<Rightarrow> string \<Rightarrow> string \<Rightarrow> exn + provider"
  env_sha256 :: "string \<Rightarrow> string"
  env_utf8 :: "string \<Rightarrow> string"
  env_date_iso :: "string \<Rightarrow> (nat \<times> nat \<times> nat) option"
  env_datetime_iso :: "string \<Rightarrow> (nat \<times> nat \<times> nat \<times> nat \<times> nat \<times> nat \<times> nat) option"
  env_pg_store :: "string \<Rightarrow> pyval \<Rightarrow> exn + pyval"
  env_pg_key :: "string \<Rightarrow> string \<Rightarrow> exn + (pyval \<Rightarrow> bool)"
  env_pg_order :: "string list \<Rightarrow> row list \<Rightarrow> row list"

section \<open>The vault\<close>

definition VAULT_KEY_PREFIX :: string where
  "VAULT_KEY_PREFIX = ''vault:credential:''"

definition vault_resolve :: "env \<Rightarrow> string \<Rightarrow> exn + (string \<times> string) list" where
  "vault_resolve env ref =
     (case env_vault_get env (VAULT_KEY_PREFIX @ ref) of
        Inl _ \<Rightarrow> Inl (OtherApp CredentialVaultError)
      | Inr None \<Rightarrow> Inl (OtherApp CredentialVaultError)
      | Inr (Some encrypted) \<Rightarrow> or_raise (OtherApp CredentialVaultError) (env_decrypt env encrypted))"

section \<open>Providers\<close>

definition PROVIDERS_BY_CODE :: "string list" where
  "PROVIDERS_BY_CODE = [''POSTGRESQL'', ''SQL_SERVER'', ''MYSQL'', ''ORACLE'', ''SAP_HANA'']"

definition get_provider ::
  "env \<Rightarrow> string \<Rightarrow> string \<Rightarrow> int \<Rightarrow> string option \<Rightarrow> string \<Rightarrow> string \<Rightarrow> exn + provider" where
  "get_provider env code host port database username password =
     (if code \<notin> set PROVIDERS_BY_CODE then Inl (Conv ValueError)
      else env_provider_class env code host port database username password)"

text \<open>
  The lookups from a dataset to its connection, and opening the connection, as every worker
  does it. An attribute of a row that was not found raises.
\<close>

definition dataset_source :: "uuid \<Rightarrow> db \<Rightarrow> exn + dataset \<times> schema_row \<times> connection \<times> connection_type option" where
  "dataset_source dsid d = (case get_dataset d dsid of None \<Rightarrow> Inl AttributeError | Some ds \<Rightarrow>
     (case get_schema d (ds_schema_id ds) of None \<Rightarrow> Inl AttributeError | Some sch \<Rightarrow>
     (case get_connection d (sch_connection_id sch) of None \<Rightarrow> Inl AttributeError | Some conn \<Rightarrow>
        Inr (ds, sch, conn, get_connection_type d (conn_connection_type_id conn)))))"

definition open_source :: "env \<Rightarrow> connection \<Rightarrow> connection_type option \<Rightarrow> exn + provider" where
  "open_source env conn ct = (case vault_resolve env (conn_credential_ref conn) of
       Inl e \<Rightarrow> Inl e
     | Inr credential \<Rightarrow> (case ct of None \<Rightarrow> Inl AttributeError | Some t \<Rightarrow>
         get_provider env (ct_code t) (conn_host conn) (conn_port conn) (conn_database_name conn)
           (case map_of credential ''username'' of None \<Rightarrow> conn_username conn | Some u \<Rightarrow> u)
           (case map_of credential ''password'' of None \<Rightarrow> [] | Some p \<Rightarrow> p)))"

text \<open>The errors of a source that the workers turn into a failed run: \<open>_TERMINAL_ERRORS\<close>.\<close>

definition TERMINAL_ERRORS :: "exn list" where
  "TERMINAL_ERRORS = [Adapter SourceAuthenticationError, Adapter SourceTimeoutError,
     Adapter SourceUnreachableError, Adapter SourceSSLError, Adapter SourceQueryError,
     OtherApp CredentialVaultError]"

text \<open>
  \<open>type(exc).__name__\<close>: the errors of sources, of the vault and of the staging modules, and the
  exceptions of Python and SQLAlchemy that the workers meet; the application errors that
  only the services raise have no name here.
\<close>

fun error_name :: "exn \<Rightarrow> string" where
  "error_name (Adapter SourceAuthenticationError) = ''SourceAuthenticationError''"
| "error_name (Adapter SourceTimeoutError) = ''SourceTimeoutError''"
| "error_name (Adapter SourceUnreachableError) = ''SourceUnreachableError''"
| "error_name (Adapter SourceSSLError) = ''SourceSSLError''"
| "error_name (Adapter SourceQueryError) = ''SourceQueryError''"
| "error_name (OtherApp CredentialVaultError) = ''CredentialVaultError''"
| "error_name (Adapter SourceDriverNotInstalledError) = ''SourceDriverNotInstalledError''"
| "error_name (Adapter ExactStatsTimeoutError) = ''ExactStatsTimeoutError''"
| "error_name (Conv ValueError) = ''ValueError''"
| "error_name (Conv TypeError) = ''TypeError''"
| "error_name (Conv OverflowError) = ''OverflowError''"
| "error_name (Conv InvalidOperation) = ''InvalidOperation''"
| "error_name NotImplementedError = ''NotImplementedError''"
| "error_name KeyError = ''KeyError''"
| "error_name IndexError = ''IndexError''"
| "error_name AttributeError = ''AttributeError''"
| "error_name IntegrityError = ''IntegrityError''"
| "error_name DataError = ''DataError''"
| "error_name MultipleResultsFound = ''MultipleResultsFound''"
| "error_name StagingIntegrityViolationError = ''StagingIntegrityViolationError''"
| "error_name CorrectionCoercionError = ''CorrectionCoercionError''"
| "error_name RowCountMismatchError = ''RowCountMismatchError''"
| "error_name ProgrammingError = ''ProgrammingError''"
| "error_name StatementError = ''StatementError''"
| "error_name (OtherException s) = s"
| "error_name _ = []"

section \<open>Durations\<close>

text \<open>
  \<open>int((end - start).total_seconds() * 1000)\<close>: a difference of instants, in microseconds, is at
  most a \<open>timedelta\<close>, far below the largest float.
\<close>

definition trunc_rat :: "rat \<Rightarrow> int" where
  "trunc_rat x = (if x < 0 then - \<lfloor>- x\<rfloor> else \<lfloor>x\<rfloor>)"

definition duration_ms :: "instant \<Rightarrow> instant \<Rightarrow> int" where
  "duration_ms start stop =
     (case fl (of_int (stop - start) / 1000000) of
        Fin s \<Rightarrow> (case fl (s * 1000) of Fin ms \<Rightarrow> trunc_rat ms | _ \<Rightarrow> 0) | _ \<Rightarrow> 0)"

end
