(* ===== verification/RecordRefs.thy ===== *)
theory RecordRefs
  imports Sources "HOL-Library.List_Lexorder" "HOL-Library.Multiset"
begin

text \<open>
  Record references and the pure part of staging: \<open>app/modules/validation/record_ref.py\<close> and
  \<open>app/modules/staging/record_builder.py\<close>. A record reference names a source row by the text
  of its key columns; staging reads the key back out of it to fetch the row again, compares
  the corrected fields with the row as it is now, and overlays the approved values.

  A source row is a dictionary from column names to values. SHA-256 is the parameter
  \<open>sha256\<close>; decoding bytes as UTF-8 is the parameter \<open>utf8\<close>, since its replacement character
  is not one of the characters of a HOL string.
\<close>

section \<open>Generating a record reference\<close>

definition NULL_SENTINEL :: string where
  "NULL_SENTINEL = [char_of (0::nat)] @ ''NULL'' @ [char_of (0::nat)]"

definition UNIT_SEPARATOR :: char where
  "UNIT_SEPARATOR = char_of (31::nat)"

definition ref_part :: "row \<Rightarrow> string \<Rightarrow> string" where
  "ref_part row name = (if dict_get row name = PyNone then NULL_SENTINEL else py_str (dict_get row name))"

definition generate_record_ref :: "string \<Rightarrow> string list \<Rightarrow> row \<Rightarrow> int \<Rightarrow> exn + string" where
  "generate_record_ref strategy names row idx =
     (if strategy = ''SINGLE_COLUMN'' then
        (case names of [] \<Rightarrow> Inl IndexError | name # _ \<Rightarrow> Inr (ref_part row name))
      else if strategy = ''COMPOSITE'' then Inr (py_join [UNIT_SEPARATOR] (map (ref_part row) names))
      else Inr (''ROWIDX:'' @ show_int idx))"

definition compute_source_row_hash :: "(string \<Rightarrow> string) \<Rightarrow> row \<Rightarrow> string list \<Rightarrow> string" where
  "compute_source_row_hash sha256 row names =
     sha256 (py_join [UNIT_SEPARATOR] (map (ref_part row) names))"

section \<open>Reading a record reference\<close>

definition key_part :: "string \<Rightarrow> string option" where
  "key_part part = (if part = NULL_SENTINEL then None else Some part)"

definition parse_record_ref_to_key_dict ::
  "string \<Rightarrow> string \<Rightarrow> string list \<Rightarrow> key_dict option" where
  "parse_record_ref_to_key_dict ref strategy names =
     (if strategy = ''ROW_INDEX_FALLBACK'' \<or> names = [] then None
      else if strategy = ''SINGLE_COLUMN'' then Some [(hd names, key_part ref)]
      else Some (fold (\<lambda>(name, part) d. dict_set name (key_part part) d)
                   (zip names (py_split UNIT_SEPARATOR ref)) []))"

section \<open>Grouping approved issues by record\<close>

record scope_item =
  si_issue_id :: uuid
  si_column_id :: "uuid option"
  si_original_value :: "string option"
  si_correction_final_value :: "string option"

definition group_by_record_ref :: "(string \<times> scope_item) list \<Rightarrow> (string \<times> scope_item list) list" where
  "group_by_record_ref rows = fold (\<lambda>(ref, item) g. dict_append ref item g) rows []"

section \<open>JSON values and the row hash of staging\<close>

fun json_safe :: "(string \<Rightarrow> string) \<Rightarrow> pyval \<Rightarrow> pyval" where
  "json_safe utf8 (PyDec x) = PyFloat (dec_to_float x)"
| "json_safe utf8 (PyDate y m d) = PyStr (iso_date y m d)"
| "json_safe utf8 (PyDateTime y m d h mi s us) = PyStr (iso_datetime CHR ''T'' y m d h mi s us)"
| "json_safe utf8 (PyBytes b) = PyStr (utf8 b)"
| "json_safe utf8 v = v"

text \<open>
  \<open>json.dumps(v, sort_keys=True, default=str, separators=(sep, colon))\<close>. Strings are written in
  ASCII; a value JSON does not know is written as its \<open>str\<close>.
\<close>

definition json_char :: "char \<Rightarrow> string" where
  "json_char c = (let n = code_of c; b = char_of (92::nat) in
     if n = 34 then [b, c] else if n = 92 then [b, c]
     else if n = 10 then [b, CHR ''n''] else if n = 13 then [b, CHR ''r'']
     else if n = 9 then [b, CHR ''t''] else if n = 8 then [b, CHR ''b''] else if n = 12 then [b, CHR ''f'']
     else if 32 \<le> n \<and> n \<le> 126 then [c] else [b, CHR ''u''] @ hex_digits 4 n)"

definition json_string :: "string \<Rightarrow> string" where
  "json_string s = [char_of (34::nat)] @ concat (map json_char s) @ [char_of (34::nat)]"

definition json_float :: "pyfloat \<Rightarrow> string" where
  "json_float f = (case f of PosInf \<Rightarrow> ''Infinity'' | NegInf \<Rightarrow> ''-Infinity'' | NotANumber \<Rightarrow> ''NaN''
     | _ \<Rightarrow> repr_float f)"

text \<open>Python orders strings by their code points.\<close>

definition item_key :: "string \<times> 'v \<Rightarrow> nat list" where
  "item_key kv = map code_of (fst kv)"

definition sort_items :: "(string \<times> 'v) list \<Rightarrow> (string \<times> 'v) list" where
  "sort_items kvs = sort_key item_key kvs"

fun json_write :: "string \<Rightarrow> string \<Rightarrow> pyval \<Rightarrow> string" where
  "json_write sep colon PyNone = ''null''"
| "json_write sep colon (PyBool b) = (if b then ''true'' else ''false'')"
| "json_write sep colon (PyInt i) = show_int i"
| "json_write sep colon (PyFloat f) = json_float f"
| "json_write sep colon (PyStr s) = json_string s"
| "json_write sep colon (PyList vs) = ''['' @ py_join sep (map (json_write sep colon) vs) @ '']''"
| "json_write sep colon (PyDict kvs) = ''{'' @ py_join sep
     (map snd (sort_items (map (\<lambda>(k, v). (k, json_string k @ colon @ json_write sep colon v)) kvs))) @ ''}''"
| "json_write sep colon v = json_string (py_str v)"

definition json_dumps :: "pyval \<Rightarrow> string" where
  "json_dumps = json_write '','' '':''"

definition compute_staging_row_hash :: "(string \<Rightarrow> string) \<Rightarrow> (string \<Rightarrow> string) \<Rightarrow> row \<Rightarrow> string" where
  "compute_staging_row_hash sha256 utf8 row =
     sha256 (json_dumps (PyDict (map (\<lambda>(k, v). (k, json_safe utf8 v)) (sort_items row))))"

section \<open>Building a staging record\<close>

definition build_row_snapshot ::
  "(string \<Rightarrow> string) \<Rightarrow> row option \<Rightarrow> corrected_field list \<Rightarrow> (string option \<times> pyval) list" where
  "build_row_snapshot utf8 fetched fs =
     fold (\<lambda>f s. dict_set (cf_column_name f) (PyStr (cf_final_value f)) s) fs
       (case fetched of None \<Rightarrow> [] | Some row \<Rightarrow> map (\<lambda>(k, v). (Some k, json_safe utf8 v)) row)"

type_synonym field_builder = "corrected_field list \<times> (string \<times> string) list"

definition corrected_field_step ::
  "(uuid \<times> string) list \<Rightarrow> scope_item \<Rightarrow> field_builder \<Rightarrow> exn + field_builder" where
  "corrected_field_step names item = (\<lambda>(fs, finals).
     (case si_correction_final_value item of
        None \<Rightarrow> Inl StagingIntegrityViolationError
      | Some v \<Rightarrow>
          (let column = Option.bind (si_column_id item) (map_of names);
               field = \<lparr>cf_column_name = column, cf_original_value = si_original_value item,
                        cf_final_value = v, cf_issue_id = si_issue_id item\<rparr>
           in (case column of
                 None \<Rightarrow> Inr (fs @ [field], finals)
               | Some c \<Rightarrow>
                   if map_of finals c \<noteq> None \<and> map_of finals c \<noteq> Some v
                   then Inl StagingIntegrityViolationError
                   else Inr (fs @ [field], dict_set c v finals)))))"

definition build_corrected_fields ::
  "scope_item list \<Rightarrow> (uuid \<times> string) list \<Rightarrow> exn + corrected_field list" where
  "build_corrected_fields items names =
     (case fold_ok (corrected_field_step names) items ([], []) of
        Inl e \<Rightarrow> Inl e | Inr (fs, _) \<Rightarrow> Inr fs)"

text \<open>A row that was fetched is given as \<open>Some row\<close>; \<open>None\<close> is a row that was not found.\<close>

definition field_drifted :: "row \<Rightarrow> corrected_field \<Rightarrow> bool" where
  "field_drifted row f = (case cf_column_name f of None \<Rightarrow> False | Some c \<Rightarrow>
     (if dict_get row c = PyNone then None else Some (py_str (dict_get row c))) \<noteq> cf_original_value f)"

definition classify_drift :: "row option \<Rightarrow> corrected_field list \<Rightarrow> drift_status \<times> string list option" where
  "classify_drift fetched fs = (case fetched of
       None \<Rightarrow> (RECORD_NOT_FOUND, None)
     | Some row \<Rightarrow>
         (let drifted = map (the \<circ> cf_column_name) (filter (field_drifted row) fs)
          in if drifted \<noteq> [] then (VALUE_CHANGED, Some drifted) else (UNCHANGED, None)))"

section \<open>References and keys read each other back\<close>

text \<open>A dictionary built from pairs with distinct keys is the list of the pairs.\<close>

lemma dict_set_fresh: "k \<notin> fst ` set d \<Longrightarrow> dict_set k v d = d @ [(k, v)]"
  by (induction k v d rule: dict_set.induct) auto

lemma fold_dict_set:
  assumes "distinct (map fst xs)" and "fst ` set xs \<inter> fst ` set d = {}"
  shows "fold (\<lambda>(k, x) d. dict_set k (f x) d) xs d = d @ map (\<lambda>(k, x). (k, f x)) xs"
  using assms by (induction xs arbitrary: d) (auto simp: dict_set_fresh image_iff)

lemma parse_composite:
  assumes "names \<noteq> []" "distinct names" "strategy \<noteq> ''ROW_INDEX_FALLBACK''" "strategy \<noteq> ''SINGLE_COLUMN''"
  shows "parse_record_ref_to_key_dict ref strategy names =
    Some (map (\<lambda>(n, p). (n, key_part p)) (zip names (py_split UNIT_SEPARATOR ref)))"
proof -
  have "distinct (map fst (zip names (py_split UNIT_SEPARATOR ref)))"
    using assms(2) by (simp add: map_fst_zip_take)
  then have "fold (\<lambda>(n, p) d. dict_set n (key_part p) d) (zip names (py_split UNIT_SEPARATOR ref)) [] =
      map (\<lambda>(n, p). (n, key_part p)) (zip names (py_split UNIT_SEPARATOR ref))"
    by (subst fold_dict_set) auto
  then show ?thesis using assms by (simp add: parse_record_ref_to_key_dict_def)
qed

text \<open>The key value a reference stands for: the text of the column, or NULL.\<close>

definition key_value :: "row \<Rightarrow> string \<Rightarrow> string option" where
  "key_value row name = (if dict_get row name = PyNone then None else Some (py_str (dict_get row name)))"

definition plain_part :: "row \<Rightarrow> string \<Rightarrow> bool" where
  "plain_part row name = (case key_value row name of None \<Rightarrow> True
     | Some s \<Rightarrow> s \<noteq> NULL_SENTINEL \<and> UNIT_SEPARATOR \<notin> set s)"

lemma sentinel_no_separator [simp]: "UNIT_SEPARATOR \<notin> set NULL_SENTINEL"
  by code_simp

lemma key_part_ref_part: "plain_part row name \<Longrightarrow> key_part (ref_part row name) = key_value row name"
  by (cases "dict_get row name = PyNone") (auto simp: plain_part_def key_part_def ref_part_def key_value_def)

lemma ref_part_no_separator: "plain_part row name \<Longrightarrow> UNIT_SEPARATOR \<notin> set (ref_part row name)"
  by (cases "dict_get row name = PyNone") (auto simp: plain_part_def ref_part_def key_value_def)

lemma ref_part_key_part:
  "dict_get row name = (case key_part p of None \<Rightarrow> PyNone | Some s \<Rightarrow> PyStr s) \<Longrightarrow> ref_part row name = p"
  by (auto simp: ref_part_def key_part_def split: if_splits)

text \<open>C13.
  A record reference and the key read back from it are inverse. Reading the reference of a
  row whose key texts contain neither the separator nor the NULL marker gives the text of
  every key column, in order. Conversely, a row fetched by the key read from a reference
  (its key columns hold exactly these texts or NULL) has that reference again, for a
  composite key when the reference has as many parts as the key has columns. A dataset
  without a key has no key to read.\<close>

theorem record_ref_roundtrip:
  "(names \<noteq> [] \<and> distinct names \<and> strategy \<in> {''SINGLE_COLUMN'', ''COMPOSITE''} \<and>
      (\<forall>n \<in> set names. plain_part row n) \<longrightarrow>
    (\<exists>ref. generate_record_ref strategy names row idx = Inr ref \<and>
       parse_record_ref_to_key_dict ref strategy names = Some (map (\<lambda>n. (n, key_value row n))
         (if strategy = ''SINGLE_COLUMN'' then take 1 names else names)))) \<and>
   (parse_record_ref_to_key_dict ref strategy names = Some key \<and> distinct names \<and>
      strategy \<in> {''SINGLE_COLUMN'', ''COMPOSITE''} \<and>
      (strategy = ''COMPOSITE'' \<longrightarrow> length (py_split UNIT_SEPARATOR ref) = length names) \<and>
      (\<forall>(n, v) \<in> set key. dict_get row n = (case v of None \<Rightarrow> PyNone | Some s \<Rightarrow> PyStr s)) \<longrightarrow>
    generate_record_ref strategy names row idx = Inr ref) \<and>
   parse_record_ref_to_key_dict ref ''ROW_INDEX_FALLBACK'' names = None \<and>
   parse_record_ref_to_key_dict ref strategy [] = None"
proof (intro conjI impI; (elim conjE)?)
  assume names: "names \<noteq> []" "distinct names" and plain: "\<forall>n \<in> set names. plain_part row n"
    and strategy: "strategy \<in> {''SINGLE_COLUMN'', ''COMPOSITE''}"
  show "\<exists>ref. generate_record_ref strategy names row idx = Inr ref \<and>
       parse_record_ref_to_key_dict ref strategy names = Some (map (\<lambda>n. (n, key_value row n))
         (if strategy = ''SINGLE_COLUMN'' then take 1 names else names))"
  proof (cases "strategy = ''SINGLE_COLUMN''")
    case True
    with names plain show ?thesis
      by (cases names) (auto simp: generate_record_ref_def parse_record_ref_to_key_dict_def key_part_ref_part)
  next
    case False
    then have comp: "strategy = ''COMPOSITE''" using strategy by simp
    have split: "py_split UNIT_SEPARATOR (py_join [UNIT_SEPARATOR] (map (ref_part row) names)) = map (ref_part row) names"
      using names plain by (intro py_split_join) (auto simp: ref_part_no_separator)
    have "map (\<lambda>(n, p). (n, key_part p)) (zip names (map (ref_part row) names)) = map (\<lambda>n. (n, key_value row n)) names"
      using plain by (auto simp: zip_map2 zip_same_conv_map key_part_ref_part)
    then show ?thesis
      using comp names by (simp add: generate_record_ref_def parse_composite split)
  qed
next
  assume key: "parse_record_ref_to_key_dict ref strategy names = Some key"
    and names: "distinct names" and strategy: "strategy \<in> {''SINGLE_COLUMN'', ''COMPOSITE''}"
    and len: "strategy = ''COMPOSITE'' \<longrightarrow> length (py_split UNIT_SEPARATOR ref) = length names"
    and row: "\<forall>(n, v) \<in> set key. dict_get row n = (case v of None \<Rightarrow> PyNone | Some s \<Rightarrow> PyStr s)"
  have ne: "names \<noteq> []" using key by (auto simp: parse_record_ref_to_key_dict_def)
  show "generate_record_ref strategy names row idx = Inr ref"
  proof (cases "strategy = ''SINGLE_COLUMN''")
    case True
    with key row ne show ?thesis
      by (cases names) (auto simp: generate_record_ref_def parse_record_ref_to_key_dict_def ref_part_key_part)
  next
    case False
    then have comp: "strategy = ''COMPOSITE''" using strategy by simp
    let ?parts = "py_split UNIT_SEPARATOR ref"
    have "key = map (\<lambda>(n, p). (n, key_part p)) (zip names ?parts)"
      using key comp names ne by (simp add: parse_composite)
    then have "\<forall>(n, p) \<in> set (zip names ?parts). ref_part row n = p"
      using row by (force intro: ref_part_key_part)
    then have "map (ref_part row) names = ?parts"
      using len comp by (auto simp: list_eq_iff_nth_eq set_zip)
    then show ?thesis using comp by (simp add: generate_record_ref_def py_join_split)
  qed
qed (simp_all add: parse_record_ref_to_key_dict_def)

theorem record_ref_roundtrip_witness:
  "\<exists>ref. generate_record_ref ''COMPOSITE'' [''a'', ''b''] [(''a'', PyInt 1), (''b'', PyNone)] 0 = Inr ref \<and>
     parse_record_ref_to_key_dict ref ''COMPOSITE'' [''a'', ''b''] = Some [(''a'', Some ''1''), (''b'', None)]"
proof -
  have "\<forall>n \<in> set [''a'', ''b'']. plain_part [(''a'', PyInt 1), (''b'', PyNone)] n"
    by code_simp
  moreover have "map (\<lambda>n. (n, key_value [(''a'', PyInt 1), (''b'', PyNone)] n)) [''a'', ''b''] =
      [(''a'', Some ''1''), (''b'', None)]" by code_simp
  ultimately show ?thesis
    using record_ref_roundtrip [of "[''a'', ''b'']" "''COMPOSITE''" "[(''a'', PyInt 1), (''b'', PyNone)]" 0]
    by simp
qed

text \<open>
  Two different rows of a dataset with a composite key can have the same record reference:
  the separator may occur in a key text, and a text equal to the NULL marker reads as NULL.
  The key read back is then not the key of the row.\<close>

theorem record_refs_can_collide:
  "let u = [UNIT_SEPARATOR]; r1 = [(''a'', PyStr (''x'' @ u @ ''y'')), (''b'', PyStr ''z'')];
       r2 = [(''a'', PyStr ''x''), (''b'', PyStr (''y'' @ u @ ''z''))]
   in generate_record_ref ''COMPOSITE'' [''a'', ''b''] r1 0 = generate_record_ref ''COMPOSITE'' [''a'', ''b''] r2 0 \<and>
      Option.bind (case generate_record_ref ''COMPOSITE'' [''a'', ''b''] r1 0 of Inl _ \<Rightarrow> None | Inr ref \<Rightarrow> Some ref)
        (\<lambda>ref. parse_record_ref_to_key_dict ref ''COMPOSITE'' [''a'', ''b'']) =
      Some [(''a'', Some ''x''), (''b'', Some ''y'')]"
  by code_simp

section \<open>The groups\<close>

lemma group_by_record_ref_snoc:
  "group_by_record_ref (rows @ [(ref, item)]) = dict_append ref item (group_by_record_ref rows)"
  by (simp add: group_by_record_ref_def)

lemma group_by_record_ref_lookup:
  "map_of (group_by_record_ref rows) ref =
     (let items = map snd (filter (\<lambda>r. fst r = ref) rows) in if items = [] then None else Some items)"
proof (induction rows rule: rev_induct)
  case Nil
  then show ?case by (simp add: group_by_record_ref_def)
next
  case (snoc r rows)
  then show ?case by (cases r) (auto simp: group_by_record_ref_snoc Let_def split: if_splits)
qed

lemma distinct_groups: "distinct (map fst (group_by_record_ref rows))"
proof (induction rows rule: rev_induct)
  case (snoc r rows)
  then show ?case by (cases r) (simp add: group_by_record_ref_snoc distinct_dict_append)
qed (simp add: group_by_record_ref_def)

lemma groups_keys: "fst ` set (group_by_record_ref rows) = fst ` set rows"
proof (induction rows rule: rev_induct)
  case (snoc r rows)
  then show ?case by (cases r) (simp add: group_by_record_ref_snoc)
qed (simp add: group_by_record_ref_def)

lemma group_items:
  "(ref, items) \<in> set (group_by_record_ref rows) \<longleftrightarrow>
     items = map snd (filter (\<lambda>r. fst r = ref) rows) \<and> items \<noteq> []"
  using group_by_record_ref_lookup [of rows ref] map_of_eq_Some_iff [OF distinct_groups, of rows ref items]
  by (auto simp: Let_def split: if_splits)

section \<open>Corrected fields\<close>

text \<open>What an item contributes, and when two items contradict each other.\<close>

definition item_column :: "(uuid \<times> string) list \<Rightarrow> scope_item \<Rightarrow> string option" where
  "item_column names item = Option.bind (si_column_id item) (map_of names)"

definition item_field :: "(uuid \<times> string) list \<Rightarrow> scope_item \<Rightarrow> corrected_field" where
  "item_field names item =
     \<lparr>cf_column_name = item_column names item, cf_original_value = si_original_value item,
      cf_final_value = the (si_correction_final_value item), cf_issue_id = si_issue_id item\<rparr>"

definition agree :: "(uuid \<times> string) list \<Rightarrow> scope_item \<Rightarrow> scope_item \<Rightarrow> bool" where
  "agree names a b \<longleftrightarrow> (item_column names a \<noteq> None \<and> item_column names a = item_column names b \<longrightarrow>
     si_correction_final_value a = si_correction_final_value b)"

definition items_consistent :: "(uuid \<times> string) list \<Rightarrow> scope_item set \<Rightarrow> bool" where
  "items_consistent names items \<longleftrightarrow>
     (\<forall>a \<in> items. si_correction_final_value a \<noteq> None) \<and> (\<forall>a \<in> items. \<forall>b \<in> items. agree names a b)"

lemma agree_refl: "agree names a a"
  by (simp add: agree_def)

lemma agree_sym: "agree names a b \<Longrightarrow> agree names b a"
  unfolding agree_def by metis

text \<open>The dictionary of the loop holds the value of every column seen so far.\<close>

definition finals_of :: "(uuid \<times> string) list \<Rightarrow> scope_item list \<Rightarrow> (string \<times> string) list \<Rightarrow> bool" where
  "finals_of names items finals \<longleftrightarrow>
     (\<forall>c v. map_of finals c = Some v \<longleftrightarrow>
        (\<exists>a \<in> set items. item_column names a = Some c \<and> si_correction_final_value a = Some v))"

lemma corrected_field_step_eq:
  "corrected_field_step names item (fs, finals) =
     (case si_correction_final_value item of None \<Rightarrow> Inl StagingIntegrityViolationError
      | Some v \<Rightarrow> (case item_column names item of
          None \<Rightarrow> Inr (fs @ [item_field names item], finals)
        | Some c \<Rightarrow> if map_of finals c \<noteq> None \<and> map_of finals c \<noteq> Some v
            then Inl StagingIntegrityViolationError
            else Inr (fs @ [item_field names item], dict_set c v finals)))"
  by (simp add: corrected_field_step_def item_column_def item_field_def Let_def split: option.splits)

lemma items_consistent_insert:
  assumes "items_consistent names A"
  shows "items_consistent names (insert x A) \<longleftrightarrow>
    si_correction_final_value x \<noteq> None \<and> (\<forall>a \<in> A. agree names x a)"
  using assms agree_refl agree_sym unfolding items_consistent_def by blast

lemma corrected_fields_loop:
  "(items_consistent names (set items) \<longrightarrow>
      (\<exists>finals. fold_ok (corrected_field_step names) items ([], []) = Inr (map (item_field names) items, finals) \<and>
         finals_of names items finals)) \<and>
   (\<not> items_consistent names (set items) \<longrightarrow>
      fold_ok (corrected_field_step names) items ([], []) = Inl StagingIntegrityViolationError)"
proof (induction items rule: rev_induct)
  case Nil
  show ?case by (simp add: items_consistent_def finals_of_def)
next
  case (snoc x items)
  show ?case
  proof (cases "items_consistent names (set items)")
    case False
    then have "\<not> items_consistent names (set (items @ [x]))" unfolding items_consistent_def by auto
    then show ?thesis using False snoc by (simp add: fold_ok_append)
  next
    case True
    then obtain finals where loop: "fold_ok (corrected_field_step names) items ([], []) =
        Inr (map (item_field names) items, finals)" and finals: "finals_of names items finals"
      using snoc by blast
    have ins: "items_consistent names (set (items @ [x])) \<longleftrightarrow>
        si_correction_final_value x \<noteq> None \<and> (\<forall>a \<in> set items. agree names x a)"
      using items_consistent_insert [OF True] by simp
    have vals: "\<forall>a \<in> set items. si_correction_final_value a \<noteq> None"
      using True by (auto simp: items_consistent_def)
    show ?thesis
    proof (cases "si_correction_final_value x")
      case None
      then have "\<not> items_consistent names (set (items @ [x]))" using ins by simp
      then show ?thesis using None by (simp add: fold_ok_append loop corrected_field_step_eq)
    next
      case (Some v)
      show ?thesis
      proof (cases "item_column names x")
        case None
        then have "finals_of names (items @ [x]) finals" using finals by (auto simp: finals_of_def)
        moreover have "items_consistent names (set (items @ [x]))"
          using None Some ins by (simp add: agree_def)
        ultimately show ?thesis using Some None by (simp add: fold_ok_append loop corrected_field_step_eq)
      next
        case column: (Some c)
        have clash: "map_of finals c \<noteq> None \<and> map_of finals c \<noteq> Some v \<longleftrightarrow>
            (\<exists>a \<in> set items. item_column names a = Some c \<and> si_correction_final_value a \<noteq> Some v)"
        proof
          assume "map_of finals c \<noteq> None \<and> map_of finals c \<noteq> Some v"
          then obtain w where "map_of finals c = Some w" "w \<noteq> v" by auto
          then show "\<exists>a \<in> set items. item_column names a = Some c \<and> si_correction_final_value a \<noteq> Some v"
            using finals unfolding finals_of_def by force
        next
          assume "\<exists>a \<in> set items. item_column names a = Some c \<and> si_correction_final_value a \<noteq> Some v"
          then obtain a w where "a \<in> set items" "item_column names a = Some c"
            "si_correction_final_value a = Some w" "w \<noteq> v" using vals by force
          then have "map_of finals c = Some w" using finals unfolding finals_of_def by blast
          then show "map_of finals c \<noteq> None \<and> map_of finals c \<noteq> Some v" using \<open>w \<noteq> v\<close> by simp
        qed
        show ?thesis
        proof (cases "map_of finals c \<noteq> None \<and> map_of finals c \<noteq> Some v")
          case True
          then have "\<not> items_consistent names (set (items @ [x]))"
            using clash Some column ins by (force simp: agree_def)
          then show ?thesis using True Some column by (simp add: fold_ok_append loop corrected_field_step_eq)
        next
          case False
          then have "items_consistent names (set (items @ [x]))"
            using clash Some column ins by (force simp: agree_def)
          moreover have "finals_of names (items @ [x]) (dict_set c v finals)"
            using finals False clash Some column unfolding finals_of_def by auto
          ultimately show ?thesis
            using False Some column by (auto simp: fold_ok_append loop corrected_field_step_eq)
        qed
      qed
    qed
  qed
qed

lemma build_corrected_fields_eq:
  "build_corrected_fields items names =
     (if items_consistent names (set items) then Inr (map (item_field names) items)
      else Inl StagingIntegrityViolationError)"
  using corrected_fields_loop [of names items] by (auto simp: build_corrected_fields_def)

text \<open>C14.
  The corrected fields of a record are built exactly when every approved issue has a final
  value and no two issues give one column different values; they are then one field per
  issue, in the order of the issues, and every other case is an integrity violation. In
  particular whether a record can be built does not depend on the order of its issues.\<close>

theorem build_corrected_fields_spec:
  "build_corrected_fields items names =
     (if (\<forall>a \<in> set items. si_correction_final_value a \<noteq> None) \<and>
         (\<forall>a \<in> set items. \<forall>b \<in> set items.
            item_column names a \<noteq> None \<and> item_column names a = item_column names b \<longrightarrow>
            si_correction_final_value a = si_correction_final_value b)
      then Inr (map (item_field names) items) else Inl StagingIntegrityViolationError) \<and>
   (\<forall>items'. set items' = set items \<longrightarrow>
      (\<exists>fs. build_corrected_fields items' names = Inr fs) = (\<exists>fs. build_corrected_fields items names = Inr fs))"
proof (intro conjI allI impI)
  show "build_corrected_fields items names =
     (if (\<forall>a \<in> set items. si_correction_final_value a \<noteq> None) \<and>
         (\<forall>a \<in> set items. \<forall>b \<in> set items.
            item_column names a \<noteq> None \<and> item_column names a = item_column names b \<longrightarrow>
            si_correction_final_value a = si_correction_final_value b)
      then Inr (map (item_field names) items) else Inl StagingIntegrityViolationError)"
    unfolding build_corrected_fields_eq items_consistent_def agree_def by (rule refl)
qed (simp add: build_corrected_fields_eq)

theorem build_corrected_fields_spec_witness:
  "build_corrected_fields [\<lparr>si_issue_id = 1, si_column_id = Some 2, si_original_value = None,
       si_correction_final_value = Some ''x''\<rparr>,
     \<lparr>si_issue_id = 3, si_column_id = Some 2, si_original_value = None,
       si_correction_final_value = Some ''y''\<rparr>] [(2, ''c'')] = Inl StagingIntegrityViolationError"
  by (subst build_corrected_fields_spec [THEN conjunct1]) (simp add: item_column_def)

section \<open>Snapshot, drift and hash\<close>

lemma map_of_map_Some_key:
  "map_of (map (\<lambda>(k, v). (Some k, f v)) row) k = Option.bind k (\<lambda>c. map_option f (map_of row c))"
  by (induction row) (auto split: prod.split Option.bind_split)

lemma map_of_overlay:
  "map_of (fold (\<lambda>f s. dict_set (cf_column_name f) (PyStr (cf_final_value f)) s) fs s) k =
     (case find (\<lambda>f. cf_column_name f = k) (rev fs) of
        None \<Rightarrow> map_of s k | Some f \<Rightarrow> Some (PyStr (cf_final_value f)))"
  by (induction fs rule: rev_induct) auto

lemma find_agreeing:
  assumes "f \<in> set fs" "p f" "\<And>g. g \<in> set fs \<Longrightarrow> p g \<Longrightarrow> v g = v f"
  shows "\<exists>g. find p fs = Some g \<and> v g = v f"
proof -
  have "find p fs \<noteq> None" using assms(1,2) by (auto simp: find_None_iff)
  then obtain g where g: "find p fs = Some g" by auto
  then have "g \<in> set fs" "p g" by (auto simp: find_Some_iff)
  with g assms(3) show ?thesis by blast
qed


text \<open>The order of the columns of a row does not matter to the staging hash.\<close>

lemma code_of_inj: "code_of a = code_of b \<Longrightarrow> a = b"
  by (simp add: code_of_def)

lemma sort_items_content:
  assumes "map_of r = map_of s" "distinct (map fst r)" "distinct (map fst s)"
  shows "sort_items r = sort_items s"
proof -
  have "set r = set s" using assms map_of_inject_set by blast
  then have "mset r = mset s"
    using assms(2,3) by (metis distinct_map set_eq_iff_mset_eq_distinct)
  moreover have "inj_on item_key (set r)"
  proof (rule inj_onI)
    fix x y assume xy: "x \<in> set r" "y \<in> set r" "item_key x = item_key y"
    then have "fst x = fst y" by (simp add: item_key_def inj_map_eq_map [OF injI [OF code_of_inj]])
    then show "x = y" using assms(2) xy by (auto simp: distinct_map inj_on_def)
  qed
  ultimately show ?thesis
    unfolding sort_items_def by (intro sort_key_inj_key_eq) auto
qed

text \<open>The row hash of staging depends on the content of the row only: two rows with the same
  values in the same columns have the same hash, whatever the order of their columns. The
  hash taken at validation follows the order of the columns it is given.\<close>

theorem staging_hash_content:
  "map_of r = map_of s \<and> distinct (map fst r) \<and> distinct (map fst s) \<longrightarrow>
     compute_staging_row_hash sha256 utf8 r = compute_staging_row_hash sha256 utf8 s \<and>
     compute_source_row_hash sha256 r names = compute_source_row_hash sha256 s names"
proof (intro impI conjI; elim conjE)
  assume same: "map_of r = map_of s" and keys: "distinct (map fst r)" "distinct (map fst s)"
  show "compute_staging_row_hash sha256 utf8 r = compute_staging_row_hash sha256 utf8 s"
    by (simp add: compute_staging_row_hash_def sort_items_content [OF same keys])
  have "ref_part r = ref_part s" by (simp add: fun_eq_iff ref_part_def dict_get_def same)
  then show "compute_source_row_hash sha256 r names = compute_source_row_hash sha256 s names"
    by (simp add: compute_source_row_hash_def)
qed


theorem staging_hash_content_witness:
  "compute_staging_row_hash id id [(''a'', PyInt 1), (''b'', PyNone)] =
   compute_staging_row_hash id id [(''b'', PyNone), (''a'', PyInt 1)]"
  using staging_hash_content [of "[(''a'', PyInt 1), (''b'', PyNone)]" "[(''b'', PyNone), (''a'', PyInt 1)]" id id]
  by (auto simp: fun_eq_iff)

end
