(* ===== verification/Destination.thy ===== *)
theory Destination
  imports AuditLineage
begin

text \<open>
  The materialized staging table: \<open>app/modules/staging/destination_naming.py\<close> (its name and
  the quoting of identifiers), \<open>type_mapping.py\<close> (the types of its columns) and
  \<open>value_coercion.py\<close> (the corrected values written to them). The ISO date parsers of the
  standard library are the parameters \<open>date_iso\<close> and \<open>datetime_iso\<close>; a text they reject is
  \<open>None\<close>.
\<close>

section \<open>Names\<close>

definition STAGING_SCHEMA_NAME :: string where
  "STAGING_SCHEMA_NAME = ''staging_data''"

definition MAX_IDENTIFIER_LENGTH :: nat where
  "MAX_IDENTIFIER_LENGTH = 63"

definition RUN_SUFFIX_LENGTH :: nat where
  "RUN_SUFFIX_LENGTH = 12"

definition SEPARATOR :: string where
  "SEPARATOR = ''__''"

definition is_lower :: "char \<Rightarrow> bool" where
  "is_lower c = (97 \<le> code_of c \<and> code_of c \<le> 122)"

definition underscore :: "char \<Rightarrow> bool" where
  "underscore c = (c = CHR ''_'')"

definition ident_char :: "char \<Rightarrow> bool" where
  "ident_char c = (is_lower c \<or> is_digit c \<or> underscore c)"

text \<open>The two substitutions: a character outside \<open>[a-z0-9_]\<close>, a run of underscores.\<close>

definition replace_invalid :: "string \<Rightarrow> string" where
  "replace_invalid = map (\<lambda>c. if ident_char c then c else CHR ''_'')"

fun collapse_underscores :: "string \<Rightarrow> string" where
  "collapse_underscores (c # e # s) = (if underscore c \<and> underscore e then collapse_underscores (e # s)
     else c # collapse_underscores (e # s))"
| "collapse_underscores s = s"

definition sanitize_identifier_part :: "string \<Rightarrow> string" where
  "sanitize_identifier_part raw =
     (let lowered = py_lower (py_strip raw);
          cleaned = py_strip_by underscore (collapse_underscores (replace_invalid lowered));
          named = (if cleaned = [] then ''dataset'' else cleaned)
      in if is_digit (hd named) then ''t_'' @ named else named)"

definition build_destination_table_name :: "string \<Rightarrow> uuid \<Rightarrow> string" where
  "build_destination_table_name name run =
     (let suffix = take RUN_SUFFIX_LENGTH (uuid_hex run);
          sanitized = sanitize_identifier_part name;
          max_len = MAX_IDENTIFIER_LENGTH - length SEPARATOR - length suffix;
          cut = py_rstrip_by underscore (take max_len (py_rstrip_by underscore sanitized));
          part = (if max_len < length sanitized then (if cut = [] then ''dataset'' else cut) else sanitized)
      in part @ SEPARATOR @ suffix)"

definition DQUOTE :: char where
  "DQUOTE = char_of (34::nat)"

definition quote_pg_identifier :: "string \<Rightarrow> string" where
  "quote_pg_identifier name =
     [DQUOTE] @ concat (map (\<lambda>c. if c = DQUOTE then [DQUOTE, DQUOTE] else [c]) name) @ [DQUOTE]"

section \<open>Column types\<close>

definition MAX_NUMERIC_PRECISION :: int where
  "MAX_NUMERIC_PRECISION = 1000"

definition MAX_VARCHAR_LENGTH :: int where
  "MAX_VARCHAR_LENGTH = 10485760"

definition normalized_type_to_pg_ddl :: "string \<Rightarrow> int option \<Rightarrow> int option \<Rightarrow> int option \<Rightarrow> string" where
  "normalized_type_to_pg_ddl ty max_length precision scale =
     (if ty = ''INTEGER'' then ''BIGINT''
      else if ty = ''DECIMAL'' then
        (case (precision, scale) of
           (Some p, Some s) \<Rightarrow> if 1 \<le> p \<and> p \<le> MAX_NUMERIC_PRECISION \<and> 0 \<le> s \<and> s \<le> p
             then ''NUMERIC('' @ show_int p @ '','' @ show_int s @ '')'' else ''NUMERIC''
         | _ \<Rightarrow> ''NUMERIC'')
      else if ty = ''BOOLEAN'' then ''BOOLEAN''
      else if ty = ''DATE'' then ''DATE''
      else if ty = ''DATETIME'' then ''TIMESTAMP''
      else if ty = ''TEXT'' then ''TEXT''
      else if ty = ''STRING'' then
        (case max_length of
           Some n \<Rightarrow> if 1 \<le> n \<and> n \<le> MAX_VARCHAR_LENGTH then ''VARCHAR('' @ show_int n @ '')'' else ''TEXT''
         | None \<Rightarrow> ''TEXT'')
      else ''TEXT'')"

section \<open>Corrected values\<close>

type_synonym date_parser = "string \<Rightarrow> (nat \<times> nat \<times> nat) option"
type_synonym datetime_parser = "string \<Rightarrow> (nat \<times> nat \<times> nat \<times> nat \<times> nat \<times> nat \<times> nat) option"

definition TRUE_STRINGS :: "string list" where
  "TRUE_STRINGS = [''true'', ''t'', ''1'', ''yes'', ''y'']"

definition FALSE_STRINGS :: "string list" where
  "FALSE_STRINGS = [''false'', ''f'', ''0'', ''no'', ''n'']"

definition coerce_final_value ::
  "date_parser \<Rightarrow> datetime_parser \<Rightarrow> string option \<Rightarrow> string \<Rightarrow> exn + pyval" where
  "coerce_final_value date_iso datetime_iso raw ty = (case raw of
     None \<Rightarrow> Inr PyNone
   | Some s \<Rightarrow>
      if ty = ''INTEGER'' then
        (case py_int_of_str (py_strip s) of Inl _ \<Rightarrow> Inl CorrectionCoercionError | Inr i \<Rightarrow> Inr (PyInt i))
      else if ty = ''DECIMAL'' then
        (case py_decimal_of_str (py_strip s) of Inl _ \<Rightarrow> Inl CorrectionCoercionError | Inr x \<Rightarrow> Inr (PyDec x))
      else if ty = ''BOOLEAN'' then
        (let lowered = py_lower (py_strip s)
         in if lowered \<in> set TRUE_STRINGS then Inr (PyBool True)
            else if lowered \<in> set FALSE_STRINGS then Inr (PyBool False)
            else Inl CorrectionCoercionError)
      else if ty = ''DATE'' then
        (case date_iso (take 10 (py_strip s)) of
           None \<Rightarrow> Inl CorrectionCoercionError | Some (y, m, d) \<Rightarrow> Inr (PyDate y m d))
      else if ty = ''DATETIME'' then
        (case datetime_iso (py_strip s) of
           Some (y, m, d, h, mi, sec, us) \<Rightarrow> Inr (PyDateTime y m d h mi sec us)
         | None \<Rightarrow> (case date_iso (take 10 (py_strip s)) of
             None \<Rightarrow> Inl CorrectionCoercionError | Some (y, m, d) \<Rightarrow> Inr (PyDateTime y m d 0 0 0 0)))
      else Inr (PyStr s))"

section \<open>Table names\<close>

lemma collapse_subset: "set (collapse_underscores s) \<subseteq> set s"
  by (induction s rule: collapse_underscores.induct) auto

lemma py_strip_by_rstrip: "py_strip_by p s = py_rstrip_by p (dropWhile p s)"
  by (simp add: py_strip_by_def py_rstrip_by_def)

lemma set_py_strip_by: "set (py_strip_by p s) \<subseteq> set s"
  by (metis py_strip_by_rstrip set_dropWhileD set_py_rstrip_by subset_eq)

lemma hd_py_strip_by: "py_strip_by p s \<noteq> [] \<Longrightarrow> \<not> p (hd (py_strip_by p s))"
proof -
  assume ne: "py_strip_by p s \<noteq> []"
  then have "dropWhile p s \<noteq> []"
    unfolding py_strip_by_def by (metis dropWhile.simps(1) rev.simps(1))
  then have "\<not> p (hd (dropWhile p s))" by (rule hd_dropWhile)
  then show ?thesis using ne py_rstrip_by_hd by (metis py_strip_by_rstrip)
qed

definition good_ident :: "string \<Rightarrow> bool" where
  "good_ident s \<longleftrightarrow> s \<noteq> [] \<and> is_lower (hd s) \<and> list_all ident_char s"

lemma sanitize_good: "good_ident (sanitize_identifier_part raw)"
proof -
  let ?c = "py_strip_by underscore (collapse_underscores (replace_invalid (py_lower (py_strip raw))))"
  have "set ?c \<subseteq> set (replace_invalid (py_lower (py_strip raw)))"
    using set_py_strip_by collapse_subset by blast
  moreover have "\<forall>c \<in> set (replace_invalid t). ident_char c" for t
    by (auto simp: replace_invalid_def ident_char_def underscore_def)
  ultimately have chars: "\<forall>c \<in> set ?c. ident_char c" by blast
  show ?thesis
  proof (cases "?c = []")
    case True
    have "good_ident ''dataset'' \<and> \<not> is_digit (hd ''dataset'')" by code_simp
    then show ?thesis using True by (simp add: sanitize_identifier_part_def)
  next
    case False
    have "\<not> underscore (hd ?c)" using hd_py_strip_by [OF False] .
    moreover have "ident_char (hd ?c)" using chars False by simp
    ultimately have "is_lower (hd ?c) \<or> is_digit (hd ?c)" by (simp add: ident_char_def)
    moreover have "good_ident (''t_'' @ s) \<longleftrightarrow> list_all ident_char s" for s
      by (simp add: good_ident_def ident_char_def is_lower_def underscore_def code_of_def)
    ultimately show ?thesis
      using False chars by (auto simp: sanitize_identifier_part_def Let_def good_ident_def list_all_iff)
  qed
qed

lemma good_ident_rstrip:
  assumes "good_ident s" shows "good_ident (py_rstrip_by underscore s)"
proof -
  have "\<not> underscore (hd s)" using assms
    by (auto simp: good_ident_def underscore_def is_lower_def code_of_def)
  then have "\<exists>c \<in> set s. \<not> underscore c" using assms by (auto simp: good_ident_def intro: bexI [of _ "hd s"])
  then have "py_rstrip_by underscore s \<noteq> []" by (auto simp: py_rstrip_by_def dropWhile_eq_Nil_conv)
  then show ?thesis
    using assms py_rstrip_by_hd [of underscore s] set_py_rstrip_by [of underscore s]
    by (auto simp: good_ident_def list_all_iff)
qed

lemma good_ident_take: "good_ident s \<Longrightarrow> 0 < n \<Longrightarrow> good_ident (take n s)"
  by (auto simp: good_ident_def list_all_iff hd_take dest: in_set_takeD)

lemma hex_digits_ident: "list_all ident_char (hex_digits k n)"
proof (induction k arbitrary: n)
  case (Suc k)
  have "ident_char (hex_char (n mod 16))"
  proof -
    have "n mod 16 < 16" by simp
    then show ?thesis
      by (auto simp: hex_char_def ident_char_def is_lower_def is_digit_def code_of_def)
  qed
  with Suc show ?case by simp
qed simp

lemma take_hex_digits: "j \<le> k \<Longrightarrow> take j (hex_digits k n) = hex_digits j (n div 16 ^ (k - j))"
proof (induction k arbitrary: n)
  case (Suc k)
  show ?case
  proof (cases "j = Suc k")
    case False
    with Suc.prems have "j \<le> k" by simp
    then show ?thesis
      by (simp add: Suc.IH Suc_diff_le div_mult2_eq)
  qed simp
qed simp



section \<open>Quoting\<close>

text \<open>How PostgreSQL reads a quoted identifier: a doubled quote is a quote, a single one ends it.\<close>

fun read_quoted_body :: "string \<Rightarrow> (string \<times> string) option" where
  "read_quoted_body [] = None"
| "read_quoted_body [c] = (if c = DQUOTE then Some ([], []) else None)"
| "read_quoted_body (c # e # s) =
     (if c = DQUOTE then
        (if e = DQUOTE then map_option (\<lambda>(n, r). (DQUOTE # n, r)) (read_quoted_body s) else Some ([], e # s))
      else map_option (\<lambda>(n, r). (c # n, r)) (read_quoted_body (e # s)))"

definition read_quoted :: "string \<Rightarrow> (string \<times> string) option" where
  "read_quoted s = (case s of [] \<Rightarrow> None | c # t \<Rightarrow> if c = DQUOTE then read_quoted_body t else None)"

definition quote_body :: "string \<Rightarrow> string" where
  "quote_body name = concat (map (\<lambda>c. if c = DQUOTE then [DQUOTE, DQUOTE] else [c]) name)"

lemma read_quoted_body_quote:
  assumes "rest = [] \<or> hd rest \<noteq> DQUOTE"
  shows "read_quoted_body (quote_body name @ DQUOTE # rest) = Some (name, rest)"
proof (induction name)
  case Nil
  then show ?case using assms by (cases rest) (auto simp: quote_body_def)
next
  case (Cons c name)
  obtain e s where es: "quote_body name @ DQUOTE # rest = e # s"
    by (cases "quote_body name @ DQUOTE # rest") auto
  have "read_quoted_body (c # quote_body name @ DQUOTE # rest) =
      map_option (\<lambda>(n, r). (c # n, r)) (read_quoted_body (quote_body name @ DQUOTE # rest))" if "c \<noteq> DQUOTE"
    using that by (simp add: es)
  then show ?case using Cons by (auto simp: quote_body_def)
qed



section \<open>Types\<close>

text \<open>The values a column of a normalized type takes; other types hold text.\<close>

fun value_of_type :: "string \<Rightarrow> pyval \<Rightarrow> bool" where
  "value_of_type ty PyNone = True"
| "value_of_type ty (PyInt i) = (ty = ''INTEGER'')"
| "value_of_type ty (PyDec x) = (ty = ''DECIMAL'')"
| "value_of_type ty (PyBool b) = (ty = ''BOOLEAN'')"
| "value_of_type ty (PyDate y m d) = (ty = ''DATE'')"
| "value_of_type ty (PyDateTime y m d h mi s us) = (ty = ''DATETIME'')"
| "value_of_type ty (PyStr s) = (ty \<notin> {''INTEGER'', ''DECIMAL'', ''BOOLEAN'', ''DATE'', ''DATETIME''})"
| "value_of_type ty _ = False"

text \<open>C20.
  Coercion never puts a value of another type into a typed column: its result is NULL for
  NULL and otherwise a value of the column's type; text columns keep the text unchanged. The
  only error it raises is the coercion error, and only for a typed column.\<close>

theorem coerced_value_has_type:
  "(coerce_final_value date_iso datetime_iso raw ty = Inr v \<longrightarrow>
      value_of_type ty v \<and> (v = PyNone \<longleftrightarrow> raw = None)) \<and>
   (coerce_final_value date_iso datetime_iso raw ty = Inl e \<longrightarrow>
      e = CorrectionCoercionError \<and> ty \<in> {''INTEGER'', ''DECIMAL'', ''BOOLEAN'', ''DATE'', ''DATETIME''}) \<and>
   (ty \<notin> {''INTEGER'', ''DECIMAL'', ''BOOLEAN'', ''DATE'', ''DATETIME''} \<longrightarrow>
      coerce_final_value date_iso datetime_iso (Some s) ty = Inr (PyStr s))"
proof -
  note splits = option.splits if_splits sum.splits prod.splits
  have "value_of_type ty v \<and> (v = PyNone \<longleftrightarrow> raw = None)"
    if "coerce_final_value date_iso datetime_iso raw ty = Inr v"
    using that by (auto simp: coerce_final_value_def Let_def split: splits)
  moreover have "e = CorrectionCoercionError \<and> ty \<in> {''INTEGER'', ''DECIMAL'', ''BOOLEAN'', ''DATE'', ''DATETIME''}"
    if "coerce_final_value date_iso datetime_iso raw ty = Inl e"
    using that by (auto simp: coerce_final_value_def Let_def split: splits)
  moreover have "coerce_final_value date_iso datetime_iso (Some s) ty = Inr (PyStr s)"
    if "ty \<notin> {''INTEGER'', ''DECIMAL'', ''BOOLEAN'', ''DATE'', ''DATETIME''}"
    using that by (simp add: coerce_final_value_def)
  ultimately show ?thesis by blast
qed

theorem coerced_value_has_type_witness:
  "coerce_final_value (\<lambda>_. None) (\<lambda>_. None) (Some ''maybe'') ''BOOLEAN'' = Inl CorrectionCoercionError \<and>
   value_of_type ''BOOLEAN'' (PyBool True)"
proof -
  have "coerce_final_value (\<lambda>_. None) (\<lambda>_. None) (Some '' YES '') ''BOOLEAN'' = Inr (PyBool True)" by code_simp
  then have "value_of_type ''BOOLEAN'' (PyBool True)"
    using coerced_value_has_type [of "\<lambda>_. None" "\<lambda>_. None" "Some '' YES ''" "''BOOLEAN''" "PyBool True"] by blast
  moreover have "coerce_final_value (\<lambda>_. None) (\<lambda>_. None) (Some ''maybe'') ''BOOLEAN'' = Inl CorrectionCoercionError"
    by code_simp
  ultimately show ?thesis by blast
qed

text \<open>
  Coercion does not know the width of the column: the correction 2^63 for an INTEGER column
  becomes an integer that the BIGINT column made for it cannot hold, and \<open>Infinity\<close> is a
  decimal.\<close>

theorem coercion_ignores_column_width:
  "coerce_final_value date_iso datetime_iso (Some ''9223372036854775808'') ''INTEGER'' = Inr (PyInt (2 ^ 63)) \<and>
   normalized_type_to_pg_ddl ''INTEGER'' max_length precision scale = ''BIGINT'' \<and>
   coerce_final_value date_iso datetime_iso (Some ''Infinity'') ''DECIMAL'' = Inr (PyDec (DInf False))"
proof -
  have "read_sign (py_strip (py_strip ''9223372036854775808'')) = (False, ''9223372036854775808'')"
    "read_digits ''9223372036854775808'' = (''9223372036854775808'', [])" by code_simp+
  moreover have "digits_value ''9223372036854775808'' = 2 ^ 63"
    by (simp add: digits_value_def digit_value_def code_of_def)
  ultimately have "py_int_of_str (py_strip ''9223372036854775808'') = Inr (2 ^ 63)"
    by (simp add: py_int_of_str_def)
  moreover have "py_decimal_of_str (py_strip ''Infinity'') = Inr (DInf False)" by code_simp
  ultimately show ?thesis by (simp add: coerce_final_value_def normalized_type_to_pg_ddl_def)
qed

end
