(* ===== verification/Staging.thy ===== *)
theory Staging
  imports Approval Sample Jobs RecordRefs Destination
begin

text \<open>
  Staging: \<open>app/modules/staging/service.py\<close>. A staging run is triggered for a review run with
  an approved request: the source rows of the approved issues are fetched in one query, one
  staging record per row is committed after the other, and a run that was built is handed to
  the materialization job. Retries are new attempts; only the latest attempt is current.
\<close>

section \<open>Queries\<close>

definition staging_get :: "uuid \<Rightarrow> db \<Rightarrow> exn + staging_run" where
  "staging_get i d = or_raise (NotFound StagingRunNotFoundError) (get_staging_run d i)"

definition records_of :: "uuid \<Rightarrow> db \<Rightarrow> staging_record list" where
  "records_of run d = filter (\<lambda>r. srec_staging_run_id r = run) (staging_records d)"

definition list_records :: "uuid \<Rightarrow> bool \<Rightarrow> db \<Rightarrow> exn + staging_record list" where
  "list_records run drift_only d = (case staging_get run d of Inl e \<Rightarrow> Inl e | Inr _ \<Rightarrow>
     Inr (sort_key srec_created_at
       (filter (\<lambda>r. drift_only \<longrightarrow> srec_source_drift_status r \<noteq> UNCHANGED) (records_of run d))))"

record key_context =
  kc_active_columns :: "column list"
  kc_key_column_names :: "string list"
  kc_effective_key_strategy :: string

definition kc_columns_by_id :: "key_context \<Rightarrow> (uuid \<times> string) list" where
  "kc_columns_by_id kc = map (\<lambda>c. (col_id c, col_name c)) (kc_active_columns kc)"

definition active_columns :: "uuid \<Rightarrow> db \<Rightarrow> column list" where
  "active_columns dsid d = sort_key col_ordinal_position
     (filter (\<lambda>c. col_dataset_id c = dsid \<and> col_is_active c) (columns d))"

definition key_columns :: "uuid \<Rightarrow> db \<Rightarrow> dataset_key_column list" where
  "key_columns dsid d = sort_key dkc_ordinal
     (filter (\<lambda>k. dkc_dataset_id k = dsid) (dataset_key_columns d))"

definition resolve_key_context :: "dataset \<Rightarrow> db \<Rightarrow> key_context" where
  "resolve_key_context ds d =
     (let active = active_columns (ds_id ds) d;
          names = List.map_filter (\<lambda>k. map_option col_name (find_row col_id active (dkc_column_id k)))
                    (key_columns (ds_id ds) d)
      in \<lparr>kc_active_columns = active, kc_key_column_names = names,
          kc_effective_key_strategy = (if names \<noteq> [] then ds_key_strategy ds else ''ROW_INDEX_FALLBACK'')\<rparr>)"

text \<open>The issues of an approval request with their corrections, an issue without one included.\<close>

definition issue_corrections :: "issue \<Rightarrow> db \<Rightarrow> correction option list" where
  "issue_corrections x d =
     (let cs = filter (\<lambda>c. cor_issue_id c = iss_id x) (corrections d)
      in if cs = [] then [None] else map Some cs)"

definition scope_row :: "issue \<times> correction option \<Rightarrow> string \<times> scope_item" where
  "scope_row = (\<lambda>(x, c). (iss_record_ref x,
     \<lparr>si_issue_id = iss_id x, si_column_id = iss_column_id x, si_original_value = iss_original_value x,
      si_correction_final_value = Option.bind c cor_final_value\<rparr>))"

definition approved_rows :: "uuid \<Rightarrow> db \<Rightarrow> (issue \<times> correction option) list" where
  "approved_rows req d =
     [(x, c). x \<leftarrow> issues d, adi \<leftarrow> approval_decision_issues d, adi_issue_id adi = iss_id x,
              ad \<leftarrow> approval_decisions d, ad_id ad = adi_approval_decision_id adi,
              ad_approval_request_id ad = req, c \<leftarrow> issue_corrections x d]"

definition resolve_approved_scope :: "uuid \<Rightarrow> db \<Rightarrow> (string \<times> scope_item list) list" where
  "resolve_approved_scope req d = group_by_record_ref (map scope_row (approved_rows req d))"

section \<open>Building the records\<close>

definition fetchable_keys :: "key_context \<Rightarrow> string list \<Rightarrow> key_dict list" where
  "fetchable_keys kc refs = List.map_filter
     (\<lambda>ref. parse_record_ref_to_key_dict ref (kc_effective_key_strategy kc) (kc_key_column_names kc)) refs"

definition fetched_by_record_ref :: "key_context \<Rightarrow> row list \<Rightarrow> exn + (string \<times> row) list" where
  "fetched_by_record_ref kc rows = fold_ok (\<lambda>r m.
     case generate_record_ref (kc_effective_key_strategy kc) (kc_key_column_names kc) r 0 of
       Inl e \<Rightarrow> Inl e | Inr ref \<Rightarrow> Inr (dict_set ref r m)) rows []"

definition issue_result :: "uuid \<Rightarrow> db \<Rightarrow> validation_result option" where
  "issue_result i d = Option.bind (get_issue d i) (\<lambda>x.
     Option.bind (get_validation_failure d (iss_validation_failure_id x)) (\<lambda>vf.
     get_validation_result d (vf_validation_result_id vf)))"

definition add_staging_record :: "staging_record \<Rightarrow> db \<Rightarrow> db" where
  "add_staging_record r d = d\<lparr>staging_records := staging_records d @ [r\<lparr>srec_id := db_next d\<rparr>],
     db_next := Suc (db_next d)\<rparr>"

definition make_staging_record ::
  "env \<Rightarrow> uuid \<Rightarrow> (string \<times> row) list \<Rightarrow> instant \<Rightarrow> string \<Rightarrow> corrected_field list \<Rightarrow> validation_result \<Rightarrow> staging_record" where
  "make_staging_record env run fetched now ref fs vres =
     (let row = map_of fetched ref; (st, drifted) = classify_drift row fs in
      \<lparr>srec_id = 0, srec_staging_run_id = run, srec_record_ref = ref,
       srec_row_snapshot = build_row_snapshot (env_utf8 env) row fs, srec_corrected_fields = fs,
       srec_source_row_hash_at_validation = vres_source_row_hash vres,
       srec_source_row_hash_at_staging =
         map_option (compute_staging_row_hash (env_sha256 env) (env_utf8 env)) row,
       srec_source_drift_status = st, srec_source_drift_fields = drifted, srec_created_at = now\<rparr>)"

definition stage_record ::
  "env \<Rightarrow> uuid \<Rightarrow> key_context \<Rightarrow> (string \<times> row) list \<Rightarrow> instant \<Rightarrow>
   string \<times> scope_item list \<Rightarrow> (db, unit) op" where
  "stage_record env run kc fetched now = (\<lambda>(ref, items) d.
     attempt d (build_corrected_fields items (kc_columns_by_id kc)) (\<lambda>fs.
     attempt d (or_raise AttributeError (issue_result (si_issue_id (hd items)) d)) (\<lambda>vres.
       returns (add_staging_record (make_staging_record env run fetched now ref fs vres) d) ())))"

definition build_records ::
  "env \<Rightarrow> uuid \<Rightarrow> uuid \<Rightarrow> (string \<times> scope_item list) list \<Rightarrow> instant \<Rightarrow> (db, unit) op" where
  "build_records env run dsid groups now d =
     attempt d (dataset_source dsid d) (\<lambda>(ds, sch, conn, ct).
     attempt d (open_source env conn ct) (\<lambda>prov.
       (let kc = resolve_key_context ds d in
        attempt d (pv_fetch_rows_by_keys prov (sch_name sch) (ds_name ds)
                     (fetchable_keys kc (map fst groups))) (\<lambda>rows.
        attempt d (fetched_by_record_ref kc rows) (\<lambda>fetched.
          each_op (stage_record env run kc fetched now) groups d)))))"

section \<open>Triggering a run\<close>

definition BUILD_FAILURE_ERRORS :: "exn list" where
  "BUILD_FAILURE_ERRORS = TERMINAL_ERRORS @ [StagingIntegrityViolationError]"

definition latest_approved_request :: "uuid \<Rightarrow> db \<Rightarrow> approval_request option" where
  "latest_approved_request rr d =
     (case sort_key (\<lambda>a. - ar_created_at a)
        (filter (\<lambda>a. ar_review_run_id a = rr \<and> ar_status a = AR_APPROVED) (approval_requests d)) of
      [] \<Rightarrow> None | a # _ \<Rightarrow> Some a)"

definition staging_runs_of :: "uuid \<Rightarrow> db \<Rightarrow> staging_run list" where
  "staging_runs_of rr d = filter (\<lambda>s. sr_review_run_id s = rr) (staging_runs d)"

definition next_attempt :: "uuid \<Rightarrow> db \<Rightarrow> int" where
  "next_attempt rr d = foldr max (map sr_attempt_number (staging_runs_of rr d)) 0 + 1"

definition new_staging_run :: "uuid \<Rightarrow> uuid \<Rightarrow> uuid \<Rightarrow> int \<Rightarrow> uuid \<Rightarrow> instant \<Rightarrow> staging_run" where
  "new_staging_run i rr dsid attempt_no actor now =
     \<lparr>sr_id = i, sr_review_run_id = rr, sr_dataset_id = dsid, sr_job_id = None,
      sr_attempt_number = attempt_no, sr_is_current = True, sr_status = SR_BUILDING,
      sr_record_count = 0, sr_field_count = 0, sr_has_source_drift = False, sr_error_message = None,
      sr_created_by = Some actor, sr_started_at = Some now, sr_completed_at = None,
      sr_created_at = now, sr_updated_at = None, sr_destination_schema = None,
      sr_destination_table = None, sr_source_row_count = None, sr_materialized_row_count = None,
      sr_copied_row_count = 0, sr_materialization_phase = None, sr_progress_percentage = None,
      sr_materialization_error = None\<rparr>"

definition upd_staging_run :: "uuid \<Rightarrow> (staging_run \<Rightarrow> staging_run) \<Rightarrow> db \<Rightarrow> db" where
  "upd_staging_run i f d = d\<lparr>staging_runs := upd_row sr_id i f (staging_runs d)\<rparr>"

lemma upd_staging_run_next [simp]: "db_next (upd_staging_run i f d) = db_next d"
  by (simp add: upd_staging_run_def)

definition start_staging_run ::
  "review_run \<Rightarrow> approval_request \<Rightarrow> uuid \<Rightarrow> staging_run option \<Rightarrow> uuid \<Rightarrow> instant \<Rightarrow> db \<Rightarrow> db" where
  "start_staging_run rr req dsid prev actor now d =
     (let n = next_attempt (rr_id rr) d; run = db_next d;
          d1 = (case prev of None \<Rightarrow> d
                | Some p \<Rightarrow> upd_staging_run (sr_id p) (\<lambda>s. s\<lparr>sr_is_current := False\<rparr>) d);
          d2 = d1\<lparr>staging_runs := staging_runs d1 @ [new_staging_run run (rr_id rr) dsid n actor now],
                  db_next := Suc (db_next d1)\<rparr>;
          d3 = record_edge now (''APPROVAL_REQUEST'', ar_id req, ''STAGING_RUN'', run, ''STAGED_INTO'') d2
      in audit_by actor ''staging_run.created'' ''STAGING_RUN'' run
           (Some [(''review_run_id'', PyStr (uuid_str (rr_id rr))),
                  (''approval_request_id'', PyStr (uuid_str (ar_id req))),
                  (''attempt_number'', PyInt n)]) now d3)"

definition fail_build :: "uuid \<Rightarrow> uuid \<Rightarrow> int \<Rightarrow> exn \<Rightarrow> uuid \<Rightarrow> instant \<Rightarrow> db \<Rightarrow> db" where
  "fail_build run rr n e actor now d =
     audit_by actor ''staging_run.failed'' ''STAGING_RUN'' run
       (Some [(''review_run_id'', PyStr (uuid_str rr)), (''attempt_number'', PyInt n),
              (''error_type'', PyStr (error_name e))]) now
       (upd_staging_run run (\<lambda>s. s\<lparr>sr_status := SR_FAILED, sr_error_message := Some (TextOf e),
          sr_completed_at := Some now, sr_updated_at := Some now\<rparr>) d)"

definition finish_build :: "uuid \<Rightarrow> uuid \<Rightarrow> int \<Rightarrow> uuid \<Rightarrow> instant \<Rightarrow> db \<Rightarrow> db" where
  "finish_build run rr n actor now d =
     (let rs = records_of run d;
          field_count = sum_list (map (\<lambda>r. int (length (srec_corrected_fields r))) rs);
          drift = (\<exists>r \<in> set rs. srec_source_drift_status r \<noteq> UNCHANGED);
          d1 = upd_staging_run run (\<lambda>s. s\<lparr>sr_status := SR_READY, sr_record_count := int (length rs),
                 sr_field_count := field_count, sr_has_source_drift := drift,
                 sr_completed_at := Some now, sr_updated_at := Some now\<rparr>) d;
          d2 = audit_by actor ''staging_run.completed'' ''STAGING_RUN'' run
                 (Some [(''review_run_id'', PyStr (uuid_str rr)), (''attempt_number'', PyInt n),
                        (''record_count'', PyInt (int (length rs))), (''field_count'', PyInt field_count),
                        (''has_source_drift'', PyBool drift)]) now d1;
          job = db_next d2;
          d3 = add_job ''STAGING_BUILD'' ''STAGING_RUN'' run actor now d2
      in upd_staging_run run
           (\<lambda>s. s\<lparr>sr_job_id := Some job, sr_materialization_phase := Some PH_QUEUED\<rparr>) d3)"

definition staging_trigger :: "env \<Rightarrow> settings \<Rightarrow> uuid \<Rightarrow> uuid \<Rightarrow> instant \<Rightarrow> (db, uuid) op" where
  "staging_trigger env cfg rrid actor now d =
     attempt d (or_raise (NotFound ReviewRunNotFoundError) (get_review_run d rrid)) (\<lambda>rr.
     checked d (raise_if (rr_status rr = RR_ARCHIVED) (Conflict ReviewRunArchivedError)) (
     attempt d (or_raise (Conflict ApprovalNotApprovedError) (latest_approved_request rrid d)) (\<lambda>req.
       (let groups = resolve_approved_scope (ar_id req) d in
        checked d (raise_if (groups = []) (Conflict NoEligibleIssuesError)) (
        checked d (raise_if (MAX_SYNCHRONOUS_STAGING_RECORDS cfg < int (length groups))
                     (Unprocessable StagingRecordCountExceedsLimitError)) (
        attempt d (at_most_one MultipleResultsFound
                     (filter (\<lambda>s. sr_status s = SR_BUILDING) (staging_runs_of rrid d))) (\<lambda>building.
        checked d (raise_if (building \<noteq> None) (Conflict StagingAlreadyInProgressError)) (
        attempt d (or_raise (OtherException ''NoResultFound'')
                     (get_validation_run d (rr_validation_run_id rr))) (\<lambda>vr.
        attempt d (at_most_one MultipleResultsFound (filter sr_is_current (staging_runs_of rrid d))) (\<lambda>prev.
          (let n = next_attempt rrid d; run = db_next d;
               d1 = start_staging_run rr req (vr_dataset_id vr) prev actor now d
           in (case build_records env run (vr_dataset_id vr) groups now d1 of
                 (d2, Inl e) \<Rightarrow>
                   if e \<in> set BUILD_FAILURE_ERRORS then returns (fail_build run rrid n e actor now d2) run
                   else raises d2 e
               | (d2, Inr _) \<Rightarrow> returns (finish_build run rrid n actor now d2) run))))))))))))"

lemmas staging_op_defs [op_defs] =
  staging_trigger_def build_records_def start_staging_run_def fail_build_def finish_build_def

section \<open>The loop over the records\<close>

text \<open>The record a group was turned into.\<close>

definition staged_as ::
  "env \<Rightarrow> uuid \<Rightarrow> key_context \<Rightarrow> (string \<times> row) list \<Rightarrow> string \<times> scope_item list \<Rightarrow> staging_record \<Rightarrow> bool" where
  "staged_as env run kc fetched = (\<lambda>(ref, items) r.
     srec_staging_run_id r = run \<and> srec_record_ref r = ref \<and>
     build_corrected_fields items (kc_columns_by_id kc) = Inr (srec_corrected_fields r) \<and>
     srec_row_snapshot r = build_row_snapshot (env_utf8 env) (map_of fetched ref) (srec_corrected_fields r) \<and>
     (srec_source_drift_status r, srec_source_drift_fields r) =
        classify_drift (map_of fetched ref) (srec_corrected_fields r))"

lemma staged_as_make:
  "build_corrected_fields items (kc_columns_by_id kc) = Inr fs \<Longrightarrow>
   staged_as env run kc fetched (ref, items) ((make_staging_record env run fetched now ref fs vres)\<lparr>srec_id := k\<rparr>)"
  by (simp add: staged_as_def make_staging_record_def Let_def split: prod.split)

lemma stage_record_cases:
  obtains e where "stage_record env run kc fetched now g d = (d, Inl e)"
  | r where "stage_record env run kc fetched now g d = (add_staging_record r d, Inr ())"
      and "\<And>k. staged_as env run kc fetched g (r\<lparr>srec_id := k\<rparr>)"
proof (cases g)
  case (Pair ref items)
  show thesis
  proof (cases "build_corrected_fields items (kc_columns_by_id kc)")
    case (Inl e)
    show thesis by (rule that(1) [of e]) (simp add: stage_record_def Pair Inl raises_def)
  next
    case (Inr fs)
    show thesis
    proof (cases "issue_result (si_issue_id (hd items)) d")
      case None
      show thesis by (rule that(1) [of AttributeError]) (simp add: stage_record_def Pair Inr None raises_def)
    next
      case (Some vres)
      show thesis
      proof (rule that(2))
        show "stage_record env run kc fetched now g d =
            (add_staging_record (make_staging_record env run fetched now ref fs vres) d, Inr ())"
          by (simp add: stage_record_def Pair Inr Some returns_def)
        show "\<And>k. staged_as env run kc fetched g ((make_staging_record env run fetched now ref fs vres)\<lparr>srec_id := k\<rparr>)"
          unfolding Pair by (rule staged_as_make [OF Inr])
      qed
    qed
  qed
qed

text \<open>
  The loop appends one record per group, in order, and stops at the first group that raises;
  the other tables are not touched.
\<close>

lemma stage_records_loop:
  "\<exists>new. fst (each_op (stage_record env run kc fetched now) groups d) =
      d\<lparr>staging_records := staging_records d @ new, db_next := db_next d + length new\<rparr> \<and>
    length new \<le> length groups \<and>
    list_all2 (staged_as env run kc fetched) (take (length new) groups) new \<and>
    (succeeds (each_op (stage_record env run kc fetched now) groups d) \<longleftrightarrow> length new = length groups)"
proof (induction groups arbitrary: d)
  case Nil
  show ?case by (intro exI [of _ "[]"]) simp
next
  case (Cons g groups)
  show ?case
  proof (rule stage_record_cases [of env run kc fetched now g d])
    fix e assume "stage_record env run kc fetched now g d = (d, Inl e)"
    then show ?thesis by (intro exI [of _ "[]"]) simp
  next
    fix r assume step: "stage_record env run kc fetched now g d = (add_staging_record r d, Inr ())"
      and staged: "\<And>k. staged_as env run kc fetched g (r\<lparr>srec_id := k\<rparr>)"
    from Cons.IH [of "add_staging_record r d"] obtain new where new:
      "fst (each_op (stage_record env run kc fetched now) groups (add_staging_record r d)) =
        (add_staging_record r d)\<lparr>staging_records := staging_records (add_staging_record r d) @ new,
          db_next := db_next (add_staging_record r d) + length new\<rparr>"
      "length new \<le> length groups"
      "list_all2 (staged_as env run kc fetched) (take (length new) groups) new"
      "succeeds (each_op (stage_record env run kc fetched now) groups (add_staging_record r d)) \<longleftrightarrow>
         length new = length groups" by blast
    show ?thesis
      by (intro exI [of _ "r\<lparr>srec_id := db_next d\<rparr> # new"])
        (use new staged step in \<open>simp add: add_staging_record_def\<close>)
  qed
qed

lemma staged_as_runs:
  "list_all2 (staged_as env run kc fetched) gs new \<Longrightarrow> \<forall>r \<in> set new. srec_staging_run_id r = run"
  by (induction rule: list_all2_induct) (auto simp: staged_as_def)

lemma staged_as_refs:
  "list_all2 (staged_as env run kc fetched) gs new \<Longrightarrow> map srec_record_ref new = map fst gs"
  by (induction rule: list_all2_induct) (auto simp: staged_as_def)

text \<open>What a build leaves behind, and what a successful one has read.\<close>

definition build_inputs ::
  "env \<Rightarrow> uuid \<Rightarrow> string list \<Rightarrow> db \<Rightarrow> key_context \<Rightarrow> (string \<times> row) list \<Rightarrow> bool" where
  "build_inputs env dsid refs d kc fetched \<longleftrightarrow>
     (\<exists>ds sch conn ct prov rows. dataset_source dsid d = Inr (ds, sch, conn, ct) \<and>
        open_source env conn ct = Inr prov \<and> kc = resolve_key_context ds d \<and>
        pv_fetch_rows_by_keys prov (sch_name sch) (ds_name ds) (fetchable_keys kc refs) = Inr rows \<and>
        fetched_by_record_ref kc rows = Inr fetched)"

lemma build_records_effect:
  "\<exists>new. fst (build_records env run dsid groups now d) =
      d\<lparr>staging_records := staging_records d @ new, db_next := db_next d + length new\<rparr> \<and>
    (\<forall>r \<in> set new. srec_staging_run_id r = run) \<and>
    (succeeds (build_records env run dsid groups now d) \<longrightarrow>
       (\<exists>kc fetched. build_inputs env dsid (map fst groups) d kc fetched \<and>
          list_all2 (staged_as env run kc fetched) groups new))"
proof -
  have unchanged: "d = d\<lparr>staging_records := staging_records d @ [], db_next := db_next d + length []\<rparr>" for d :: db
    by simp
  show ?thesis
  proof (cases "dataset_source dsid d")
    case (Inl e)
    then show ?thesis by (intro exI [of _ "[]"]) (simp add: build_records_def)
  next
    case (Inr src)
    obtain ds sch conn ct where src: "src = (ds, sch, conn, ct)" by (cases src)
    let ?kc = "resolve_key_context ds d"
    let ?fetch = "\<lambda>prov. pv_fetch_rows_by_keys prov (sch_name sch) (ds_name ds) (fetchable_keys ?kc (map fst groups))"
    show ?thesis
    proof (cases "\<exists>prov rows fetched. open_source env conn ct = Inr prov \<and> ?fetch prov = Inr rows \<and>
        fetched_by_record_ref ?kc rows = Inr fetched")
      case True
      then obtain prov rows fetched where read: "open_source env conn ct = Inr prov"
        "?fetch prov = Inr rows" "fetched_by_record_ref ?kc rows = Inr fetched" by blast
      have eq: "build_records env run dsid groups now d =
          each_op (stage_record env run ?kc fetched now) groups d"
        by (simp add: build_records_def Inr src read Let_def)
      have inputs: "build_inputs env dsid (map fst groups) d ?kc fetched"
        using Inr src read unfolding build_inputs_def by blast
      from stage_records_loop [of env run ?kc fetched now groups d] obtain new where new:
        "fst (each_op (stage_record env run ?kc fetched now) groups d) =
          d\<lparr>staging_records := staging_records d @ new, db_next := db_next d + length new\<rparr>"
        "list_all2 (staged_as env run ?kc fetched) (take (length new) groups) new"
        "succeeds (each_op (stage_record env run ?kc fetched now) groups d) \<longleftrightarrow> length new = length groups"
        by blast
      have "\<forall>r \<in> set new. srec_staging_run_id r = run" by (rule staged_as_runs [OF new(2)])
      moreover have "\<exists>kc fetched. build_inputs env dsid (map fst groups) d kc fetched \<and>
          list_all2 (staged_as env run kc fetched) groups new"
        if "succeeds (build_records env run dsid groups now d)"
      proof -
        have "length new = length groups" using that new(3) by (simp add: eq)
        then have "list_all2 (staged_as env run ?kc fetched) groups new" using new(2) by simp
        then show ?thesis using inputs by blast
      qed
      ultimately show ?thesis using new(1) unfolding eq by blast
    next
      case False
      then have "\<exists>e. build_records env run dsid groups now d = raises d e"
        by (auto simp: build_records_def Inr src attempt_def Let_def split: sum.splits)
      then show ?thesis using unchanged by (intro exI [of _ "[]"]) auto
    qed
  qed
qed

section \<open>Attempts\<close>

text \<open>
  The attempts of a review run are numbered 1, 2, 3 in the order they were made, the last
  one and no other is current, and only the last one can be under construction.
\<close>

definition attempts_ok :: "staging_run list \<Rightarrow> bool" where
  "attempts_ok rs \<longleftrightarrow>
     map sr_attempt_number rs = map int [1..<Suc (length rs)] \<and>
     (rs \<noteq> [] \<longrightarrow> map sr_is_current rs = replicate (length rs - 1) False @ [True]) \<and>
     (\<forall>s \<in> set (butlast rs). sr_status s \<noteq> SR_BUILDING)"

definition staging_inv :: "db \<Rightarrow> bool" where
  "staging_inv d \<longleftrightarrow> keys_ok sr_id (db_next d) (staging_runs d) \<and> (\<forall>rr. attempts_ok (staging_runs_of rr d))"

lemma staging_runs_of_upd:
  "(\<And>s. sr_review_run_id (f s) = sr_review_run_id s) \<Longrightarrow>
   staging_runs_of rr (upd_staging_run i f d) = upd_row sr_id i f (staging_runs_of rr d)"
  by (simp add: staging_runs_of_def upd_staging_run_def filter_upd_row)

lemma map_upd_row: "(\<And>r. g (f r) = g r) \<Longrightarrow> map g (upd_row idf i f rs) = map g rs"
  by (simp add: upd_row_def)

lemma attempts_ok_upd:
  assumes "attempts_ok rs"
    and "\<And>s. sr_attempt_number (f s) = sr_attempt_number s" "\<And>s. sr_is_current (f s) = sr_is_current s"
    and "\<And>s. sr_status (f s) = SR_BUILDING \<Longrightarrow> sr_status s = SR_BUILDING"
  shows "attempts_ok (upd_row sr_id i f rs)"
proof -
  have "butlast (upd_row sr_id i f rs) = upd_row sr_id i f (butlast rs)"
    by (simp add: upd_row_def map_butlast)
  then have "\<forall>s \<in> set (butlast (upd_row sr_id i f rs)). sr_status s \<noteq> SR_BUILDING"
    using assms(1,4) by (auto simp: attempts_ok_def set_upd_row)
  moreover have "upd_row sr_id i f rs = [] \<longleftrightarrow> rs = []" by (simp add: upd_row_def)
  ultimately show ?thesis
    using assms(1) by (simp add: attempts_ok_def map_upd_row assms(2,3))
qed

lemma staging_inv_upd:
  assumes "staging_inv d"
    and "\<And>s. sr_id (f s) = sr_id s" "\<And>s. sr_review_run_id (f s) = sr_review_run_id s"
    and "\<And>s. sr_attempt_number (f s) = sr_attempt_number s" "\<And>s. sr_is_current (f s) = sr_is_current s"
    and "\<And>s. sr_status (f s) = SR_BUILDING \<Longrightarrow> sr_status s = SR_BUILDING"
  shows "staging_inv (upd_staging_run i f d)"
proof -
  have "keys_ok sr_id (db_next d) (upd_row sr_id i f (staging_runs d))"
    by (rule staging_run_table.keys_ok_upd) (use assms(1,2) in \<open>auto simp: staging_inv_def\<close>)
  moreover have "attempts_ok (staging_runs_of rr (upd_staging_run i f d))" for rr
    unfolding staging_runs_of_upd [of f, OF assms(3)]
    by (rule attempts_ok_upd) (use assms in \<open>auto simp: staging_inv_def\<close>)
  ultimately show ?thesis by (simp add: staging_inv_def upd_staging_run_def)
qed

lemma staging_inv_cong:
  assumes "staging_inv d" "staging_runs e = staging_runs d" "db_next d \<le> db_next e"
  shows "staging_inv e"
  using assms keys_ok_mono unfolding staging_inv_def staging_runs_of_def by metis

text \<open>Starting an attempt: the previous current run of the review run gives way to the new one.\<close>

lemma start_staging_runs:
  "staging_runs (start_staging_run rr req dsid prev actor now d) =
     (case prev of None \<Rightarrow> staging_runs d
      | Some p \<Rightarrow> upd_row sr_id (sr_id p) (\<lambda>s. s\<lparr>sr_is_current := False\<rparr>) (staging_runs d)) @
     [new_staging_run (db_next d) (rr_id rr) dsid (next_attempt (rr_id rr) d) actor now]"
  by (simp add: start_staging_run_def Let_def upd_staging_run_def split: option.split)

lemma start_staging_next: "db_next d < db_next (start_staging_run rr req dsid prev actor now d)"
  unfolding start_staging_run_def Let_def audit_next
  by (rule le_imp_less_Suc, rule order_trans [OF _ record_edge_next]) (simp split: option.split)

lemma next_attempt_eq:
  assumes "attempts_ok (staging_runs_of rr d)"
  shows "next_attempt rr d = int (length (staging_runs_of rr d)) + 1"
proof -
  have "foldr max (map int [1..<Suc n]) 0 = int n" for n
  proof -
    have "foldr max (map int [1..<Suc n]) k = max k (int n)" if "0 \<le> k" for k
      using that by (induction n arbitrary: k) (auto simp: max_def)
    then show ?thesis by simp
  qed
  then show ?thesis using assms by (simp only: next_attempt_def attempts_ok_def)
qed

lemma only_last_current:
  assumes "attempts_ok rs" and "filter sr_is_current rs = [p] \<or> filter sr_is_current rs = []"
  shows "filter sr_is_current rs = [] \<longleftrightarrow> rs = []"
    and "filter sr_is_current rs = [p] \<Longrightarrow> rs \<noteq> [] \<and> p = last rs"
proof -
  have current: "map sr_is_current (butlast rs) = replicate (length rs - 1) False" "sr_is_current (last rs)"
    if "rs \<noteq> []"
  proof -
    have *: "map sr_is_current rs = replicate (length rs - 1) False @ [True]"
      using assms(1) that by (simp add: attempts_ok_def)
    then show "map sr_is_current (butlast rs) = replicate (length rs - 1) False"
      by (metis butlast_snoc map_butlast)
    show "sr_is_current (last rs)" using * that by (metis last_map last_snoc)
  qed
  have split: "filter sr_is_current rs = [last rs]" if "rs \<noteq> []"
  proof -
    have "filter sr_is_current (butlast rs) = []"
      using current(1) [OF that] by (metis (full_types) filter_False in_set_conv_nth length_map nth_map nth_replicate length_replicate)
    moreover have "rs = butlast rs @ [last rs]" using that by simp
    ultimately show ?thesis using current(2) [OF that] by (metis append_Nil filter.simps filter_append)
  qed
  show "filter sr_is_current rs = [] \<longleftrightarrow> rs = []" using split by (cases "rs = []") auto
  show "filter sr_is_current rs = [p] \<Longrightarrow> rs \<noteq> [] \<and> p = last rs" using split by (cases "rs = []") auto
qed

lemma attempts_ok_append:
  assumes ok: "attempts_ok rs"
    and idle: "\<forall>s \<in> set rs. sr_status s \<noteq> SR_BUILDING"
    and upd: "map sr_attempt_number rs' = map sr_attempt_number rs" "map sr_status rs' = map sr_status rs"
    and off: "\<forall>s \<in> set rs'. \<not> sr_is_current s"
    and new: "sr_attempt_number x = int (length rs) + 1" "sr_is_current x"
  shows "attempts_ok (rs' @ [x])"
proof -
  have len: "length rs' = length rs" using upd(1) by (metis length_map)
  have "sr_status ` set rs' = sr_status ` set rs" using upd(2) by (metis set_map)
  then have "\<forall>s \<in> set rs'. sr_status s \<noteq> SR_BUILDING" using idle by (metis (no_types, lifting) imageE imageI)
  moreover have "map sr_is_current rs' = replicate (length rs) False"
    using off len by (auto simp: list_eq_iff_nth_eq)
  ultimately show ?thesis using ok upd(1) new len by (simp add: attempts_ok_def)
qed

lemma start_staging_inv:
  assumes inv: "staging_inv d"
    and idle: "filter (\<lambda>s. sr_status s = SR_BUILDING) (staging_runs_of (rr_id rr) d) = []"
    and prev: "at_most_one MultipleResultsFound (filter sr_is_current (staging_runs_of (rr_id rr) d)) = Inr prev"
  shows "staging_inv (start_staging_run rr req dsid prev actor now d)"
proof -
  let ?rs = "staging_runs_of (rr_id rr) d" and ?e = "start_staging_run rr req dsid prev actor now d"
  let ?off = "\<lambda>s. s\<lparr>sr_is_current := False\<rparr>"
  let ?upd = "\<lambda>rs. case prev of None \<Rightarrow> rs | Some p \<Rightarrow> upd_row sr_id (sr_id p) ?off rs"
  let ?new = "new_staging_run (db_next d) (rr_id rr) dsid (next_attempt (rr_id rr) d) actor now"
  have ok: "attempts_ok (staging_runs_of r d)" for r using inv by (simp add: staging_inv_def)
  have keys: "keys_ok sr_id (db_next d) (staging_runs d)" using inv by (simp add: staging_inv_def)
  have last: "?rs \<noteq> [] \<and> p = last ?rs" if "prev = Some p" for p
    using only_last_current(2) [OF ok] prev that by simp
  have none: "?rs = []" if "prev = None"
    using only_last_current(1) [OF ok] prev that by simp
  have runs: "staging_runs_of r ?e = (if r = rr_id rr then ?upd ?rs @ [?new] else staging_runs_of r d)" for r
  proof (cases prev)
    case None
    then show ?thesis by (auto simp: staging_runs_of_def start_staging_runs new_staging_run_def)
  next
    case (Some p)
    have p: "p \<in> set (staging_runs d)" "sr_review_run_id p = rr_id rr"
      using last [OF Some] by (auto simp: staging_runs_of_def dest: last_in_set)
    have "sr_id s \<noteq> sr_id p" if "s \<in> set (staging_runs d)" "sr_review_run_id s \<noteq> rr_id rr" for s
      using keys p that by (auto simp: keys_ok_def distinct_map inj_on_def)
    then have "upd_row sr_id (sr_id p) ?off (staging_runs_of r d) = staging_runs_of r d" if "r \<noteq> rr_id rr"
      using that by (auto simp: upd_row_def staging_runs_of_def intro!: map_idI)
    then show ?thesis
      by (auto simp: staging_runs_of_def start_staging_runs Some filter_upd_row new_staging_run_def)
  qed
  have "attempts_ok (?upd ?rs @ [?new])"
  proof (rule attempts_ok_append [OF ok])
    show "\<forall>s \<in> set ?rs. sr_status s \<noteq> SR_BUILDING" using idle by (auto simp: filter_empty_conv)
    show "map sr_attempt_number (?upd ?rs) = map sr_attempt_number ?rs"
      "map sr_status (?upd ?rs) = map sr_status ?rs"
      by (simp_all add: map_upd_row split: option.split)
    show "\<forall>s \<in> set (?upd ?rs). \<not> sr_is_current s"
    proof (cases prev)
      case None
      then show ?thesis using none by simp
    next
      case (Some p)
      have "filter sr_is_current ?rs = [p]" using prev Some by simp
      then have "set (filter sr_is_current ?rs) = {p}" by simp
      then have "s = p" if "s \<in> set ?rs" "sr_is_current s" for s using that by auto
      then have "\<not> sr_is_current s" if "s \<in> set ?rs" "sr_id s \<noteq> sr_id p" for s
        using that by auto
      then show ?thesis using Some by (auto simp: upd_row_def)
    qed
    show "sr_attempt_number ?new = int (length ?rs) + 1" "sr_is_current ?new"
      by (simp_all add: new_staging_run_def next_attempt_eq [OF ok])
  qed
  then have "attempts_ok (staging_runs_of r ?e)" for r using runs ok by simp
  moreover have "keys_ok sr_id (db_next ?e) (staging_runs ?e)"
  proof -
    have "keys_ok sr_id (db_next d) (?upd (staging_runs d))"
      using keys by (auto intro: staging_run_table.keys_ok_upd split: option.split)
    then have "keys_ok sr_id (Suc (db_next d)) (staging_runs ?e)"
      unfolding start_staging_runs by (rule staging_run_table.keys_ok_insert) (simp add: new_staging_run_def)
    then show ?thesis by (rule keys_ok_mono) (simp add: Suc_leI start_staging_next)
  qed
  ultimately show ?thesis by (simp add: staging_inv_def)
qed

lemma fail_build_inv: "staging_inv d \<Longrightarrow> staging_inv (fail_build run rr n e actor now d)"
  unfolding fail_build_def by (rule staging_inv_cong [OF staging_inv_upd]) (auto intro: le_SucI order_refl)

lemma finish_build_inv: "staging_inv d \<Longrightarrow> staging_inv (finish_build run rr n actor now d)"
  unfolding finish_build_def Let_def add_job_def
  by (rule staging_inv_upd, rule staging_inv_cong [OF staging_inv_upd]) (auto intro: le_SucI order_refl)

lemma staging_trigger_inv: "staging_inv d \<Longrightarrow> ends_in staging_inv (staging_trigger env cfg rrid actor now d)"
  unfolding staging_trigger_def
proof (intro ends; assumption?)
  fix rr req building vr prev d2 r
  let ?d1 = "start_staging_run rr req (vr_dataset_id vr) prev actor now d"
  let ?b = "build_records env (db_next d) (vr_dataset_id vr) (resolve_approved_scope (ar_id req) d) now ?d1"
  assume inv: "staging_inv d" and rr: "or_raise (NotFound ReviewRunNotFoundError) (get_review_run d rrid) = Inr rr"
    and building: "at_most_one MultipleResultsFound
        (filter (\<lambda>s. sr_status s = SR_BUILDING) (staging_runs_of rrid d)) = Inr building"
      "raise_if (building \<noteq> None) (Conflict StagingAlreadyInProgressError) = None"
    and prev: "at_most_one MultipleResultsFound (filter sr_is_current (staging_runs_of rrid d)) = Inr prev"
    and built: "?b = (d2, r)"
  have id: "rr_id rr = rrid" using rr by (auto dest: review_run_table.get_SomeD)
  have "staging_inv ?d1"
    by (rule start_staging_inv [OF inv]) (use building prev id in auto)
  moreover from build_records_effect [of env "db_next d" "vr_dataset_id vr"
      "resolve_approved_scope (ar_id req) d" now ?d1]
  obtain new where "fst ?b = ?d1\<lparr>staging_records := staging_records ?d1 @ new,
      db_next := db_next ?d1 + length new\<rparr>" by blast
  ultimately have "staging_inv d2" using built by (simp add: staging_inv_cong)
  then show "ends_in staging_inv (case r of
      Inl e \<Rightarrow> if e \<in> set BUILD_FAILURE_ERRORS
        then returns (fail_build (db_next d) rrid (next_attempt rrid d) e actor now d2) (db_next d)
        else raises d2 e
    | Inr _ \<Rightarrow> returns (finish_build (db_next d) rrid (next_attempt rrid d) actor now d2) (db_next d))"
    by (auto simp: ends_in_def fail_build_inv finish_build_inv split: sum.split)
qed

section \<open>What a trigger achieves\<close>

text \<open>The identifiers that rows refer to were handed out before.\<close>

definition staging_keys :: "db \<Rightarrow> bool" where
  "staging_keys d \<longleftrightarrow> keys_ok job_id (db_next d) (jobs d) \<and>
     (\<forall>r \<in> set (staging_records d). srec_staging_run_id r < db_next d)"

text \<open>A successful trigger went through its guards and through one of two ends.\<close>

lemma staging_trigger_returns:
  assumes "staging_trigger env cfg rrid actor now d = (d', Inr run)"
  obtains rr req vr prev d2 where
    "get_review_run d rrid = Some rr" "rr_status rr \<noteq> RR_ARCHIVED"
    "latest_approved_request rrid d = Some req"
    "resolve_approved_scope (ar_id req) d \<noteq> []"
    "int (length (resolve_approved_scope (ar_id req) d)) \<le> MAX_SYNCHRONOUS_STAGING_RECORDS cfg"
    "filter (\<lambda>s. sr_status s = SR_BUILDING) (staging_runs_of rrid d) = []"
    "at_most_one MultipleResultsFound (filter sr_is_current (staging_runs_of rrid d)) = Inr prev"
    "get_validation_run d (rr_validation_run_id rr) = Some vr" "run = db_next d"
    "(\<exists>e. build_records env run (vr_dataset_id vr) (resolve_approved_scope (ar_id req) d) now
        (start_staging_run rr req (vr_dataset_id vr) prev actor now d) = (d2, Inl e) \<and>
        d' = fail_build run rrid (next_attempt rrid d) e actor now d2) \<or>
     build_records env run (vr_dataset_id vr) (resolve_approved_scope (ar_id req) d) now
        (start_staging_run rr req (vr_dataset_id vr) prev actor now d) = (d2, Inr ()) \<and>
        d' = finish_build run rrid (next_attempt rrid d) actor now d2"
proof -
  from assms obtain rr req vr prev where guards:
    "get_review_run d rrid = Some rr" "rr_status rr \<noteq> RR_ARCHIVED"
    "latest_approved_request rrid d = Some req"
    "resolve_approved_scope (ar_id req) d \<noteq> []"
    "int (length (resolve_approved_scope (ar_id req) d)) \<le> MAX_SYNCHRONOUS_STAGING_RECORDS cfg"
    "filter (\<lambda>s. sr_status s = SR_BUILDING) (staging_runs_of rrid d) = []"
    "at_most_one MultipleResultsFound (filter sr_is_current (staging_runs_of rrid d)) = Inr prev"
    "get_validation_run d (rr_validation_run_id rr) = Some vr"
    and built: "(case build_records env (db_next d) (vr_dataset_id vr) (resolve_approved_scope (ar_id req) d) now
        (start_staging_run rr req (vr_dataset_id vr) prev actor now d) of
        (d2, Inl e) \<Rightarrow> if e \<in> set BUILD_FAILURE_ERRORS
          then returns (fail_build (db_next d) rrid (next_attempt rrid d) e actor now d2) (db_next d)
          else raises d2 e
      | (d2, Inr _) \<Rightarrow> returns (finish_build (db_next d) rrid (next_attempt rrid d) actor now d2) (db_next d)) =
      (d', Inr run)"
    unfolding staging_trigger_def attempt_returns checked_returns Let_def by auto
  obtain d2 r where br: "build_records env (db_next d) (vr_dataset_id vr) (resolve_approved_scope (ar_id req) d) now
      (start_staging_run rr req (vr_dataset_id vr) prev actor now d) = (d2, r)"
    by (cases "build_records env (db_next d) (vr_dataset_id vr) (resolve_approved_scope (ar_id req) d) now
      (start_staging_run rr req (vr_dataset_id vr) prev actor now d)")
  show thesis
    by (rule that [OF guards]) (use built br in \<open>auto split: sum.splits if_splits\<close>)
qed

lemma get_fresh_staging_run:
  assumes "staging_inv d"
  shows "get_staging_run (start_staging_run rr req dsid prev actor now d) (db_next d) =
    Some (new_staging_run (db_next d) (rr_id rr) dsid (next_attempt (rr_id rr) d) actor now)"
proof -
  have "keys_ok sr_id (db_next d) (case prev of None \<Rightarrow> staging_runs d
      | Some p \<Rightarrow> upd_row sr_id (sr_id p) (\<lambda>s. s\<lparr>sr_is_current := False\<rparr>) (staging_runs d))"
    using assms by (auto simp: staging_inv_def intro: staging_run_table.keys_ok_upd split: option.split)
  then show ?thesis
    by (simp add: start_staging_runs staging_run_table.get_insert new_staging_run_def)
qed

lemma get_upd_staging_run:
  assumes "\<And>s. sr_id (f s) = sr_id s"
  shows "get_staging_run (upd_staging_run i f d) j =
    (if i = j then map_option f (get_staging_run d j) else get_staging_run d j)"
  using assms by (simp add: upd_staging_run_def staging_run_table.get_upd)

lemma build_corrected_fields_length:
  "build_corrected_fields items names = Inr fs \<Longrightarrow> length fs = length items"
  by (auto simp: build_corrected_fields_eq split: if_splits)

lemma staged_as_field_count:
  "list_all2 (staged_as env run kc fetched) gs new \<Longrightarrow>
   map (\<lambda>r. length (srec_corrected_fields r)) new = map (length \<circ> snd) gs"
  by (induction rule: list_all2_induct) (auto simp: staged_as_def build_corrected_fields_length)

lemma start_staging_records [simp]:
  "staging_records (start_staging_run rr req dsid prev actor now d) = staging_records d"
  "jobs (start_staging_run rr req dsid prev actor now d) = jobs d"
  by (simp_all add: start_staging_run_def Let_def upd_staging_run_def split: option.split)

lemma upd_staging_run_frame [simp]:
  "staging_records (upd_staging_run i f d) = staging_records d" "jobs (upd_staging_run i f d) = jobs d"
  "records_of run (upd_staging_run i f d) = records_of run d"
  by (simp_all add: upd_staging_run_def records_of_def)

lemma add_job_frame [simp]:
  "staging_records (add_job ty et i a now d) = staging_records d" "staging_runs (add_job ty et i a now d) = staging_runs d"
  by (simp_all add: add_job_def)


section \<open>What a trigger leaves alone, and what it cannot undo\<close>

text \<open>The data of the review, approval and validation phases.\<close>

definition same_review_data :: "db \<Rightarrow> db \<Rightarrow> bool" where
  "same_review_data d e \<longleftrightarrow>
     validation_runs e = validation_runs d \<and> validation_results e = validation_results d \<and>
     validation_failures e = validation_failures d \<and> review_runs e = review_runs d \<and>
     issues e = issues d \<and> correction_suggestions e = correction_suggestions d \<and>
     corrections e = corrections d \<and> approval_requests e = approval_requests d \<and>
     approval_decisions e = approval_decisions d \<and>
     approval_decision_issues e = approval_decision_issues d"

lemma same_review_data_refl [simp]: "same_review_data d d"
  by (simp add: same_review_data_def)

lemma same_review_data_start: "same_review_data d (start_staging_run rr req dsid prev actor now d)"
  by (simp add: same_review_data_def start_staging_run_def Let_def upd_staging_run_def split: option.split)

lemma same_review_data_finish:
  "same_review_data d e \<Longrightarrow> same_review_data d (fail_build run rr n x actor now e)"
  "same_review_data d e \<Longrightarrow> same_review_data d (finish_build run rr n actor now e)"
  by (simp_all add: same_review_data_def fail_build_def finish_build_def Let_def upd_staging_run_def add_job_def)

text \<open>Staging only reads the review: whatever a trigger does and however it ends, the validation
  results, issues, suggestions, corrections, review runs, approval requests, decisions and
  ballots are what they were.\<close>

theorem staging_reads_review_data:
  "same_review_data d (fst (staging_trigger env cfg rrid actor now d))"
proof -
  have "ends_in (same_review_data d) (staging_trigger env cfg rrid actor now d)"
    unfolding staging_trigger_def
  proof (intro ends; (rule same_review_data_refl)?)
    fix rr req building vr prev d2 r
    assume "build_records env (db_next d) (vr_dataset_id vr) (resolve_approved_scope (ar_id req) d) now
        (start_staging_run rr req (vr_dataset_id vr) prev actor now d) = (d2, r)"
    then have "same_review_data d d2"
      using build_records_effect [of env "db_next d" "vr_dataset_id vr" "resolve_approved_scope (ar_id req) d" now
          "start_staging_run rr req (vr_dataset_id vr) prev actor now d"]
        same_review_data_start [of d rr req "vr_dataset_id vr" prev actor now]
      by (auto simp: same_review_data_def)
    then show "ends_in (same_review_data d) (case r of
        Inl e \<Rightarrow> if e \<in> set BUILD_FAILURE_ERRORS
          then returns (fail_build (db_next d) rrid (next_attempt rrid d) e actor now d2) (db_next d)
          else raises d2 e
      | Inr _ \<Rightarrow> returns (finish_build (db_next d) rrid (next_attempt rrid d) actor now d2) (db_next d))"
      by (auto simp: ends_in_def same_review_data_finish split: sum.split)
  qed
  then show ?thesis by (simp add: ends_in_def)
qed

lemma building_blocks:
  assumes "s \<in> set (staging_runs_of rrid d)" "sr_status s = SR_BUILDING"
  shows "\<not> succeeds (staging_trigger env cfg rrid actor now d) \<and> fst (staging_trigger env cfg rrid actor now d) = d"
proof -
  have "filter (\<lambda>s. sr_status s = SR_BUILDING) (staging_runs_of rrid d) \<noteq> []"
    using assms by (auto simp: filter_empty_conv)
  then have "\<nexists>p. at_most_one MultipleResultsFound
      (filter (\<lambda>s. sr_status s = SR_BUILDING) (staging_runs_of rrid d)) = Inr p \<and> p = None" by simp
  then show ?thesis
    unfolding staging_trigger_def Let_def
    by (auto simp: succeeds_attempt succeeds_checked attempt_def checked_def raise_if_def split: sum.split option.split)
qed


section \<open>Examples\<close>

text \<open>
  The sample database with a source behind it: the dataset has the key column \<open>k\<close> beside the
  corrected column \<open>c\<close>, the request 30 for the review run 12 is APPROVED and its decision 31
  approves the issue 13.
\<close>

definition sample_schema :: schema_row where
  "sample_schema = \<lparr>sch_id = 100, sch_connection_id = 101, sch_name = ''public'', sch_is_active = True,
     sch_discovered_at = 0, sch_created_at = 0, sch_updated_at = None\<rparr>"

definition sample_connection :: connection where
  "sample_connection = \<lparr>conn_id = 101, conn_data_source_id = 103, conn_connection_type_id = 102,
     conn_name = ''src'', conn_environment = ''UNKNOWN'', conn_host = ''h'', conn_port = 1,
     conn_database_name = None, conn_service_name = None, conn_username = ''u'', conn_credential_ref = ''r'',
     conn_config = [], conn_status = ''UNKNOWN'', conn_last_tested_at = None,
     conn_last_test_latency_ms = None, conn_is_active = True, conn_deactivated_at = None,
     conn_created_by = None, conn_created_at = 0, conn_updated_at = None\<rparr>"

definition sample_connection_type :: "string \<Rightarrow> connection_type" where
  "sample_connection_type code = \<lparr>ct_id = 102, ct_code = code, ct_display_name = code,
     ct_driver_module = None, ct_is_active = True, ct_created_at = 0\<rparr>"

definition approved_db :: "string \<Rightarrow> db" where
  "approved_db code = (decided_db RR_READY_FOR_APPROVAL)\<lparr>
     connection_types := [sample_connection_type code], connections := [sample_connection],
     schemas := [sample_schema], columns := [sample_column 3 ''k'' ''STRING'' 1, sample_column 2 ''c'' ''STRING'' 2],
     dataset_key_columns := [\<lparr>dkc_dataset_id = 1, dkc_column_id = 3, dkc_ordinal = 1, dkc_created_at = 0\<rparr>],
     approval_requests := [(new_request 30 12 1 1 1 2)\<lparr>ar_status := AR_APPROVED\<rparr>],
     approval_decisions := [\<lparr>ad_id = 31, ad_approval_request_id = 30, ad_decision = APPROVE,
       ad_comment = None, ad_decided_by = 2, ad_decided_at = 3, ad_created_at = 3\<rparr>],
     approval_decision_issues := [\<lparr>adi_approval_decision_id = 31, adi_issue_id = 13\<rparr>]\<rparr>"

text \<open>A source table with one row, and the providers of PostgreSQL and of MySQL on it.\<close>

definition sample_provider :: "row list \<Rightarrow> provider" where
  "sample_provider rows = \<lparr>pv_get_row_count = \<lambda>_ _. Inr None,
     pv_get_dataset_column_stats = \<lambda>_ _ _. Inr [], pv_sample_rows = \<lambda>_ _ _ _. Inr \<lparr>smp_rows = rows, smp_is_full_scan = True\<rparr>,
     pv_fetch_rows_by_keys = \<lambda>_ _ _. Inr rows, pv_count_rows = \<lambda>_ _. Inr (int (length rows)),
     pv_iter_rows = \<lambda>_ _ _ _ _. [Inr rows]\<rparr>"

definition sample_env :: "row list \<Rightarrow> env" where
  "sample_env rows = \<lparr>env_vault_get = \<lambda>_. Inr (Some []), env_decrypt = \<lambda>_. Some [],
     env_provider_class = \<lambda>code _ _ _ _ _. if code = ''POSTGRESQL'' then Inr (sample_provider rows)
       else Inr ((sample_provider rows)\<lparr>pv_fetch_rows_by_keys := \<lambda>_ _ _. Inl NotImplementedError\<rparr>),
     env_sha256 = id, env_utf8 = id, env_date_iso = \<lambda>_. None, env_datetime_iso = \<lambda>_. None,
     env_pg_store = \<lambda>_ v. Inr v, env_pg_key = \<lambda>_ s. Inr (\<lambda>v. v = PyStr s), env_pg_order = \<lambda>_ rows. rows\<rparr>"

abbreviation sample_rows :: "row list" where
  "sample_rows \<equiv> [[(''k'', PyStr ''A''), (''c'', PyNone)], [(''k'', PyStr ''B''), (''c'', PyNone)]]"

lemma approved_db_ok: "staging_inv (approved_db code) \<and> staging_keys (approved_db code)"
  by (simp add: staging_inv_def staging_keys_def keys_ok_def attempts_ok_def staging_runs_of_def
      approved_db_def sample_defs)

abbreviation approved_sample_request :: approval_request where
  "approved_sample_request \<equiv> (new_request 30 12 1 1 1 2)\<lparr>ar_status := AR_APPROVED\<rparr>"

abbreviation approved_sample_scope :: "(string \<times> scope_item list) list" where
  "approved_sample_scope \<equiv> [(''A'', [\<lparr>si_issue_id = 13, si_column_id = Some 2, si_original_value = None,
     si_correction_final_value = Some ''x''\<rparr>])]"

lemma approved_db_scope: "resolve_approved_scope 30 (approved_db code) = approved_sample_scope"
  by code_simp

lemma approved_db_guards:
  "get_review_run (approved_db code) 12 = Some (sample_review_run 12 RR_READY_FOR_APPROVAL)"
  "latest_approved_request 12 (approved_db code) = Some approved_sample_request"
  "staging_runs_of 12 (approved_db code) = []" "db_next (approved_db code) = 40"
  "get_validation_run (approved_db code) 6 = Some sample_validation_run"
  by (simp_all add: approved_db_def sample_defs find_row_def latest_approved_request_def staging_runs_of_def
      new_request_def)

abbreviation started_sample :: "string \<Rightarrow> db" where
  "started_sample code \<equiv> start_staging_run (sample_review_run 12 RR_READY_FOR_APPROVAL) approved_sample_request
     1 None 1 5 (approved_db code)"

lemma approved_db_trigger:
  "staging_trigger (sample_env sample_rows) default_settings 12 1 5 (approved_db code) =
     (case build_records (sample_env sample_rows) 40 1 approved_sample_scope 5 (started_sample code) of
        (d2, Inl e) \<Rightarrow> if e \<in> set BUILD_FAILURE_ERRORS
          then returns (fail_build 40 12 1 e 1 5 d2) 40 else raises d2 e
      | (d2, Inr _) \<Rightarrow> returns (finish_build 40 12 1 1 5 d2) 40)"
proof -
  have "next_attempt 12 (approved_db code) = 1" by (simp add: next_attempt_def approved_db_guards)
  moreover have "rr_status (sample_review_run 12 RR_READY_FOR_APPROVAL) = RR_READY_FOR_APPROVAL"
    "rr_validation_run_id (sample_review_run 12 RR_READY_FOR_APPROVAL) = 6"
    "vr_dataset_id sample_validation_run = 1" "ar_id approved_sample_request = 30"
    by (simp_all add: sample_review_run_def sample_validation_run_def new_request_def del: One_nat_def)
  ultimately show ?thesis
    by (simp add: staging_trigger_def approved_db_guards approved_db_scope default_settings_def del: One_nat_def)
qed

lemma approved_builds:
  "snd (build_records (sample_env sample_rows) 40 1 approved_sample_scope 5 (started_sample ''POSTGRESQL'')) = Inr ()"
  "snd (build_records (sample_env sample_rows) 40 1 approved_sample_scope 5 (started_sample ''MYSQL'')) =
     Inl NotImplementedError"
  by code_simp+



end
