(* ===== verification/Materialization.thy ===== *)
theory Materialization
  imports Staging
begin

text \<open>
  The materialized staging table: the background job of \<open>app/modules/staging/tasks.py\<close> that
  copies the whole source table batch by batch and applies the approved corrections to the
  copy, and the reads of it in \<open>app/modules/staging/service.py\<close>. Every commit of the task is
  a state of its own; what a failing step had not committed is lost. The parameter \<open>polls\<close>
  says at which batch a cancellation that was requested meanwhile is seen.
\<close>

section \<open>Physical tables\<close>

definition qualified_table :: "string \<Rightarrow> string \<Rightarrow> string" where
  "qualified_table schema table = quote_pg_identifier schema @ ''.'' @ quote_pg_identifier table"

definition get_table :: "string \<Rightarrow> db \<Rightarrow> staging_table option" where
  "get_table q d = map_of (staging_tables d) q"

definition drop_table :: "string \<Rightarrow> db \<Rightarrow> db" where
  "drop_table q d = d\<lparr>staging_tables := filter (\<lambda>t. fst t \<noteq> q) (staging_tables d)\<rparr>"

definition create_table :: "string \<Rightarrow> (string \<times> string) list \<Rightarrow> db \<Rightarrow> db" where
  "create_table q cols d =
     d\<lparr>staging_tables := (q, \<lparr>stab_columns = cols, stab_rows = []\<rparr>) # staging_tables d\<rparr>"

definition set_rows :: "string \<Rightarrow> row list \<Rightarrow> db \<Rightarrow> db" where
  "set_rows q rows d = d\<lparr>staging_tables :=
     map (\<lambda>(n, t). (n, if n = q then t\<lparr>stab_rows := rows\<rparr> else t)) (staging_tables d)\<rparr>"

definition column_ddl :: "column \<Rightarrow> string \<times> string" where
  "column_ddl c = (col_name c, normalized_type_to_pg_ddl (col_normalized_data_type c)
     (col_max_length c) (col_numeric_precision c) (col_numeric_scale c))"

text \<open>A row of a batch as it is stored: the listed columns, converted to their types.\<close>

definition store_row :: "env \<Rightarrow> (string \<times> string) list \<Rightarrow> row \<Rightarrow> exn + row" where
  "store_row env cols r = map_ok (\<lambda>(n, ty). case env_pg_store env ty (dict_get r n) of
     Inl e \<Rightarrow> Inl e | Inr v \<Rightarrow> Inr (n, v)) cols"

definition insert_batch :: "env \<Rightarrow> string \<Rightarrow> row list \<Rightarrow> db \<Rightarrow> exn + db" where
  "insert_batch env q batch d = (case get_table q d of None \<Rightarrow> Inl ProgrammingError | Some t \<Rightarrow>
     if batch = [] then Inl StatementError
     else if stab_columns t = [] then Inl ProgrammingError
     else (case map_ok (store_row env (stab_columns t)) batch of Inl e \<Rightarrow> Inl e
           | Inr rows \<Rightarrow> Inr (set_rows q (stab_rows t @ rows) d)))"

text \<open>SQL conditions are true, false or unknown; \<open>None\<close> is unknown.\<close>

type_synonym tv = "bool option"

definition tv_and :: "tv \<Rightarrow> tv \<Rightarrow> tv" where
  "tv_and a b = (if a = Some False \<or> b = Some False then Some False
     else if a = None \<or> b = None then None else Some True)"

definition tv_or :: "tv \<Rightarrow> tv \<Rightarrow> tv" where
  "tv_or a b = (if a = Some True \<or> b = Some True then Some True
     else if a = None \<or> b = None then None else Some False)"

text \<open>\<open>column = :value\<close>, for a value that PostgreSQL reads as one of the column's type.\<close>

definition equals_key :: "env \<Rightarrow> (string \<times> string) list \<Rightarrow> string \<Rightarrow> string option \<Rightarrow> exn + (row \<Rightarrow> tv)" where
  "equals_key env cols c v = (case map_of cols c of None \<Rightarrow> Inl ProgrammingError | Some ty \<Rightarrow>
     (case v of None \<Rightarrow> Inr (\<lambda>_. None) | Some s \<Rightarrow>
       (case env_pg_key env ty s of Inl e \<Rightarrow> Inl e
        | Inr p \<Rightarrow> Inr (\<lambda>r. if dict_get r c = PyNone then None else Some (p (dict_get r c))))))"

section \<open>Applying the corrections\<close>

text \<open>\<open>column = :value\<close>, or \<open>column IS NULL\<close> for a key that is NULL.\<close>

definition where_part :: "env \<Rightarrow> (string \<times> string) list \<Rightarrow> key_dict \<Rightarrow> string \<Rightarrow> exn + (row \<Rightarrow> tv)" where
  "where_part env cols key c = (case Option.bind (map_of key c) id of
     None \<Rightarrow> if map_of cols c = None then Inl ProgrammingError else Inr (\<lambda>r. Some (dict_get r c = PyNone))
   | Some s \<Rightarrow> equals_key env cols c (Some s))"

text \<open>
  One UPDATE: PostgreSQL rejects a column that is assigned twice or that the table lacks. The
  rows for which the condition is true get the new values.
\<close>

definition updated_rows ::
  "env \<Rightarrow> (string \<times> string) list \<Rightarrow> (string \<times> pyval) list \<Rightarrow> key_dict \<Rightarrow> string list \<Rightarrow> row list \<Rightarrow>
   exn + row list" where
  "updated_rows env cols sets key key_names rows =
     (if \<not> distinct (map fst sets) \<or> \<not> set (map fst sets) \<subseteq> set (map fst cols) then Inl ProgrammingError
      else (case map_ok (where_part env cols key) key_names of Inl e \<Rightarrow> Inl e | Inr conds \<Rightarrow>
        (case map_ok (\<lambda>(c, v). case env_pg_store env (the (map_of cols c)) v of
                Inl e \<Rightarrow> Inl e | Inr w \<Rightarrow> Inr (c, w)) sets of Inl e \<Rightarrow> Inl e | Inr stored \<Rightarrow>
         Inr (map (\<lambda>r. if foldr tv_and (map (\<lambda>p. p r) conds) (Some True) = Some True
                then fold (\<lambda>(c, w) r. dict_set c w r) stored r else r) rows))))"

definition update_rows ::
  "env \<Rightarrow> string \<Rightarrow> (string \<times> pyval) list \<Rightarrow> key_dict \<Rightarrow> string list \<Rightarrow> db \<Rightarrow> exn + db" where
  "update_rows env q sets key key_names d = (case get_table q d of None \<Rightarrow> Inl ProgrammingError | Some t \<Rightarrow>
     (case updated_rows env (stab_columns t) sets key key_names (stab_rows t) of Inl e \<Rightarrow> Inl e
      | Inr rows \<Rightarrow> Inr (set_rows q rows d)))"

definition set_parts :: "env \<Rightarrow> key_context \<Rightarrow> corrected_field list \<Rightarrow> exn + (string \<times> pyval) list" where
  "set_parts env kc fs = map_ok (\<lambda>f. let c = the (cf_column_name f);
       ty = (case find (\<lambda>col. col_name col = c) (rev (kc_active_columns kc)) of
               None \<Rightarrow> ''STRING'' | Some col \<Rightarrow> col_normalized_data_type col)
     in (case coerce_final_value (env_date_iso env) (env_datetime_iso env) (Some (cf_final_value f)) ty of
           Inl e \<Rightarrow> Inl e | Inr v \<Rightarrow> Inr (c, v))) (filter (\<lambda>f. cf_column_name f \<noteq> None) fs)"

definition apply_record :: "env \<Rightarrow> key_context \<Rightarrow> string \<Rightarrow> staging_record \<Rightarrow> db \<Rightarrow> exn + db" where
  "apply_record env kc q r d =
     (case parse_record_ref_to_key_dict (srec_record_ref r) (kc_effective_key_strategy kc) (kc_key_column_names kc) of
        None \<Rightarrow> Inr d
      | Some key \<Rightarrow> (case set_parts env kc (srec_corrected_fields r) of
            Inl e \<Rightarrow> Inl e
          | Inr sets \<Rightarrow> if sets = [] then Inr d
              else update_rows env q sets key (kc_key_column_names kc) d))"

section \<open>Copying the source\<close>

definition progress_of :: "int \<Rightarrow> int \<Rightarrow> exn + int" where
  "progress_of copied n_rows = (case fl (of_int (copied * 100) / of_int n_rows) of
     Fin x \<Rightarrow> Inr (min 99 (trunc_rat x))
   | _ \<Rightarrow> Inl (Conv OverflowError))"

definition note_copied :: "uuid \<Rightarrow> int \<Rightarrow> int option \<Rightarrow> instant \<Rightarrow> db \<Rightarrow> db" where
  "note_copied run copied progress now = upd_staging_run run (\<lambda>s. s\<lparr>sr_copied_row_count := copied,
     sr_progress_percentage := (case progress of None \<Rightarrow> sr_progress_percentage s | p \<Rightarrow> p),
     sr_updated_at := Some now\<rparr>)"

fun copy_batches ::
  "env \<Rightarrow> uuid \<Rightarrow> uuid \<Rightarrow> string \<Rightarrow> int \<Rightarrow> (nat \<Rightarrow> bool) \<Rightarrow> instant \<Rightarrow> nat \<Rightarrow> int \<Rightarrow>
   (exn + row list) list \<Rightarrow> db \<Rightarrow> (db, exn, int) outcome" where
  "copy_batches env job run q n_rows polls now i copied [] d = returns d copied"
| "copy_batches env job run q n_rows polls now i copied (Inl e # bs) d = raises d e"
| "copy_batches env job run q n_rows polls now i copied (Inr b # bs) d =
     (if polls i \<or> is_cancel_requested job d then raises d MaterializationCancelled
      else attempt d (insert_batch env q b d) (\<lambda>d1.
        let copied1 = copied + int (length b) in
        attempt d (if n_rows = 0 then Inr None else map_sum id Some (progress_of copied1 n_rows)) (\<lambda>p.
          copy_batches env job run q n_rows polls now (Suc i) copied1 bs (note_copied run copied1 p now d1))))"

definition set_phase :: "uuid \<Rightarrow> materialization_phase \<Rightarrow> instant \<Rightarrow> db \<Rightarrow> db" where
  "set_phase run ph now = upd_staging_run run
     (\<lambda>s. s\<lparr>sr_materialization_phase := Some ph, sr_updated_at := Some now\<rparr>)"

definition name_destination :: "uuid \<Rightarrow> string \<Rightarrow> instant \<Rightarrow> db \<Rightarrow> db" where
  "name_destination run table now = upd_staging_run run
     (\<lambda>s. s\<lparr>sr_materialization_phase := Some PH_CREATING_TABLE,
            sr_destination_schema := Some STAGING_SCHEMA_NAME, sr_destination_table := Some table,
            sr_updated_at := Some now\<rparr>)"

text \<open>The body of the task between opening and closing the source.\<close>

definition fill_table ::
  "env \<Rightarrow> settings \<Rightarrow> dataset \<Rightarrow> schema_row \<Rightarrow> provider \<Rightarrow> uuid \<Rightarrow> uuid \<Rightarrow> (nat \<Rightarrow> bool) \<Rightarrow> instant \<Rightarrow>
   (db, unit) op" where
  "fill_table env cfg ds sch prov job run polls now d =
     (let kc = resolve_key_context ds d;
          names = map col_name (kc_active_columns kc);
          table = build_destination_table_name (ds_name ds) run;
          q = qualified_table STAGING_SCHEMA_NAME table;
          d1 = name_destination run table now d;
          d2 = create_table q (map column_ddl (kc_active_columns kc)) (drop_table q d1);
          d3 = set_phase run PH_COPYING_SOURCE now d2
      in attempt d3 (pv_count_rows prov (sch_name sch) (ds_name ds)) (\<lambda>n_rows.
         let d4 = upd_staging_run run (\<lambda>s. s\<lparr>sr_source_row_count := Some n_rows\<rparr>) d3;
             keys = kc_key_column_names kc
         in (case copy_batches env job run q n_rows polls now 0 0
                    (pv_iter_rows prov (sch_name sch) (ds_name ds) names
                       (STAGING_MATERIALIZATION_BATCH_SIZE cfg) (if keys = [] then None else Some keys)) d4 of
               (d5, Inl e) \<Rightarrow> raises d5 e
             | (d5, Inr copied) \<Rightarrow>
                 let d6 = upd_staging_run run (\<lambda>s. s\<lparr>sr_materialized_row_count := Some copied\<rparr>) d5
                 in checked d6 (raise_if (copied \<noteq> n_rows) RowCountMismatchError)
                   (let d7 = set_phase run PH_APPLYING_CORRECTIONS now d6
                    in attempt d7 (fold_ok (apply_record env kc q) (records_of run d7) d7) (\<lambda>d8.
                       returns (set_phase run PH_VALIDATING now d8) ())))))"

section \<open>The task\<close>

datatype materialization_result = MatStatus job_status | MatReady "int option" | MatFailed exn | MatCancelled

definition job_terminal :: "job_status \<Rightarrow> bool" where
  "job_terminal st = (st \<in> {JOB_CANCELLED, JOB_COMPLETED, JOB_FAILED})"

definition phase_terminal :: "materialization_phase option \<Rightarrow> bool" where
  "phase_terminal ph = (ph \<in> {Some PH_READY, Some PH_FAILED, Some PH_CANCELLED})"

definition cleanup_destination_table :: "uuid \<Rightarrow> db \<Rightarrow> db" where
  "cleanup_destination_table run d = (case get_staging_run d run of None \<Rightarrow> d | Some s \<Rightarrow>
     (case (sr_destination_schema s, sr_destination_table s) of
        (Some schema, Some table) \<Rightarrow> drop_table (qualified_table schema table) d
      | _ \<Rightarrow> d))"

definition mat_fail :: "job \<Rightarrow> uuid \<Rightarrow> exn \<Rightarrow> instant \<Rightarrow> db \<Rightarrow> db" where
  "mat_fail j run e now d =
     (let d1 = fst (mark_failed (job_id j) (TextOf e) now d);
          d2 = upd_staging_run run (\<lambda>s. s\<lparr>sr_materialization_phase := Some PH_FAILED,
                 sr_materialization_error := Some (TextOf e), sr_updated_at := Some now\<rparr>) d1
      in audit_record (job_actor j d) ''USER'' ''staging_run.materialization_failed'' ''STAGING_RUN'' run
           None None (Some [(''error'', PyStr (error_name e))]) now d2)"

definition mat_cancel :: "job \<Rightarrow> uuid \<Rightarrow> instant \<Rightarrow> db \<Rightarrow> db" where
  "mat_cancel j run now d =
     (let d1 = clear_cancel_flag (job_id j) (fst (mark_cancelled (job_id j) now d));
          d2 = set_phase run PH_CANCELLED now d1
      in audit_record (job_actor j d) ''USER'' ''staging_run.materialization_cancelled'' ''STAGING_RUN'' run
           None None None now d2)"

definition mat_finish :: "job \<Rightarrow> uuid \<Rightarrow> instant \<Rightarrow> db \<Rightarrow> db" where
  "mat_finish j run now d =
     (let d1 = set_phase run PH_FINALIZING now d;
          d2 = upd_staging_run run (\<lambda>s. s\<lparr>sr_materialization_phase := Some PH_READY,
                 sr_progress_percentage := Some 100, sr_updated_at := Some now\<rparr>) d1;
          d3 = fst (mark_completed (job_id j) None None now d2)
      in audit_record (job_actor j d) ''USER'' ''staging_run.materialization_completed'' ''STAGING_RUN'' run
           None None (Some
             [(''destination_schema'', case Option.bind (get_staging_run d run) sr_destination_schema of
                 None \<Rightarrow> PyNone | Some x \<Rightarrow> PyStr x),
              (''destination_table'', case Option.bind (get_staging_run d run) sr_destination_table of
                 None \<Rightarrow> PyNone | Some x \<Rightarrow> PyStr x),
              (''materialized_row_count'', case Option.bind (get_staging_run d run) sr_materialized_row_count of
                 None \<Rightarrow> PyNone | Some n \<Rightarrow> PyInt n)]) now d3)"

definition mat_start :: "job \<Rightarrow> uuid \<Rightarrow> instant \<Rightarrow> db \<Rightarrow> db" where
  "mat_start j run now d =
     audit_record (job_actor j d) ''USER'' ''staging_run.materialization_started'' ''STAGING_RUN'' run
       None None None now (set_phase run PH_PREPARING_SCHEMA now (fst (mark_running (job_id j) now d)))"

definition execute_materialization ::
  "env \<Rightarrow> settings \<Rightarrow> job \<Rightarrow> staging_run \<Rightarrow> (nat \<Rightarrow> bool) \<Rightarrow> instant \<Rightarrow>
   (db, materialization_result) op" where
  "execute_materialization env cfg j s polls now d =
     (let run = sr_id s; d1 = mat_start j run now d in
      attempt d1 (dataset_source (sr_dataset_id s) d1) (\<lambda>(ds, sch, conn, ct).
        (case open_source env conn ct of
           Inl e \<Rightarrow> if e \<in> set TERMINAL_ERRORS then returns (mat_fail j run e now d1) (MatFailed e) else raises d1 e
         | Inr prov \<Rightarrow> (case fill_table env cfg ds sch prov (job_id j) run polls now d1 of
             (d2, Inr _) \<Rightarrow> returns (mat_finish j run now d2)
                 (MatReady (Option.bind (get_staging_run d2 run) sr_materialized_row_count))
           | (d2, Inl e) \<Rightarrow>
               if e = MaterializationCancelled
               then returns (mat_cancel j run now (cleanup_destination_table run d2)) MatCancelled
               else if e \<in> set (TERMINAL_ERRORS @ [RowCountMismatchError, CorrectionCoercionError])
               then returns (mat_fail j run e now (cleanup_destination_table run d2)) (MatFailed e)
               else raises d2 e))))"

definition run_staging_materialization ::
  "env \<Rightarrow> settings \<Rightarrow> uuid \<Rightarrow> uuid \<Rightarrow> (nat \<Rightarrow> bool) \<Rightarrow> instant \<Rightarrow> (db, materialization_result) op" where
  "run_staging_materialization env cfg jobid runid polls now d =
     attempt d (jobs_get jobid d) (\<lambda>j.
       (case get_staging_run d runid of
          None \<Rightarrow> returns d (MatStatus (job_status j))
        | Some s \<Rightarrow>
            if job_terminal (job_status j) \<or> phase_terminal (sr_materialization_phase s)
            then returns d (MatStatus (job_status j))
            else (case execute_materialization env cfg j s polls now d of
                    (d1, Inr r) \<Rightarrow> returns d1 r
                  | (d1, Inl e) \<Rightarrow>
                      returns (mat_fail j runid e now (cleanup_destination_table runid d1)) (MatFailed e))))"

section \<open>Reading the materialized table\<close>

definition get_materialized :: "uuid \<Rightarrow> db \<Rightarrow> exn + staging_run" where
  "get_materialized i d = (case staging_get i d of Inl e \<Rightarrow> Inl e | Inr s \<Rightarrow>
     if sr_destination_table s = None then Inl (Conflict StagingRunNotMaterializedError) else Inr s)"

record destination_column_info =
  dci_name :: string
  dci_normalized_data_type :: string
  dci_staging_data_type :: string

record destination_metadata =
  dm_staging_run :: staging_run
  dm_columns :: "destination_column_info list"
  dm_approved_correction_count :: int
  dm_affected_row_count :: int

definition destination_column :: "column \<Rightarrow> destination_column_info" where
  "destination_column c = \<lparr>dci_name = col_name c, dci_normalized_data_type = col_normalized_data_type c,
     dci_staging_data_type = snd (column_ddl c)\<rparr>"

definition get_destination_metadata :: "uuid \<Rightarrow> db \<Rightarrow> exn + destination_metadata" where
  "get_destination_metadata i d = (case get_materialized i d of Inl e \<Rightarrow> Inl e | Inr s \<Rightarrow>
     (case get_dataset d (sr_dataset_id s) of None \<Rightarrow> Inl AttributeError | Some ds \<Rightarrow>
        Inr \<lparr>dm_staging_run = s,
             dm_columns = map destination_column (kc_active_columns (resolve_key_context ds d)),
             dm_approved_correction_count = sr_field_count s, dm_affected_row_count = sr_record_count s\<rparr>))"

record materialized_preview =
  mp_columns :: "string list"
  mp_rows :: "row list"
  mp_total_rows :: int
  mp_limit :: int
  mp_offset :: int
  mp_has_more :: bool
  mp_corrected_fields_by_record_ref :: "(string \<times> corrected_field list) list"
  mp_key_strategy :: string
  mp_key_column_names :: "string list"

definition corrected_fields_by_record_ref :: "staging_record list \<Rightarrow> (string \<times> corrected_field list) list" where
  "corrected_fields_by_record_ref rs = fold (\<lambda>r. dict_set (srec_record_ref r) (srec_corrected_fields r)) rs []"

definition changed_key_dicts :: "key_context \<Rightarrow> (string \<times> corrected_field list) list \<Rightarrow> key_dict list" where
  "changed_key_dicts kc by_ref = List.map_filter (\<lambda>(ref, _). parse_record_ref_to_key_dict ref
     (kc_effective_key_strategy kc) (kc_key_column_names kc)) by_ref"

text \<open>\<open>(k1, k2) IN ((:a1, :a2), (:b1, :b2))\<close>.\<close>

definition in_keys ::
  "env \<Rightarrow> (string \<times> string) list \<Rightarrow> string list \<Rightarrow> string option list list \<Rightarrow> exn + (row \<Rightarrow> tv)" where
  "in_keys env cols names tuples =
     (case map_ok (\<lambda>vs. map_ok (\<lambda>(c, v). equals_key env cols c v) (zip names vs)) tuples of
        Inl e \<Rightarrow> Inl e
      | Inr conds \<Rightarrow> Inr (\<lambda>r. foldr tv_or
          (map (\<lambda>cs. foldr tv_and (map (\<lambda>p. p r) cs) (Some True)) conds) (Some False)))"

definition preview_where ::
  "env \<Rightarrow> (string \<times> string) list \<Rightarrow> string list \<Rightarrow> key_dict list \<Rightarrow> string \<Rightarrow> exn + (row \<Rightarrow> tv)" where
  "preview_where env cols names keys row_filter =
     (if row_filter \<in> {''CHANGED'', ''UNCHANGED''} \<and> names \<noteq> [] \<and> keys \<noteq> [] then
        (case map_ok (\<lambda>key. map_ok (\<lambda>c. or_raise KeyError (map_of key c)) names) keys of
           Inl e \<Rightarrow> Inl e
         | Inr tuples \<Rightarrow> (case in_keys env cols names tuples of Inl e \<Rightarrow> Inl e
             | Inr p \<Rightarrow> Inr (if row_filter = ''CHANGED'' then p else (\<lambda>r. map_option Not (p r)))))
      else Inr (\<lambda>_. Some (row_filter \<noteq> ''CHANGED'')))"

text \<open>
  ORDER BY needs a column, and columns of the table; LIMIT and OFFSET must not be negative.
\<close>

definition preview_materialized ::
  "env \<Rightarrow> uuid \<Rightarrow> string \<Rightarrow> int \<Rightarrow> int \<Rightarrow> db \<Rightarrow> exn + materialized_preview" where
  "preview_materialized env i row_filter limit offset d =
     (case get_materialized i d of Inl e \<Rightarrow> Inl e | Inr s \<Rightarrow>
     (case get_dataset d (sr_dataset_id s) of None \<Rightarrow> Inl AttributeError | Some ds \<Rightarrow>
     (case sr_destination_schema s of None \<Rightarrow> Inl AttributeError | Some schema \<Rightarrow>
      let kc = resolve_key_context ds d;
          names = kc_key_column_names kc;
          table = get_table (qualified_table schema (the (sr_destination_table s))) d;
          cols = (case table of None \<Rightarrow> [] | Some t \<Rightarrow> stab_columns t);
          by_ref = corrected_fields_by_record_ref (records_of i d);
          order = (if names = [] then map fst cols else names)
      in (case preview_where env cols names (changed_key_dicts kc by_ref) row_filter of Inl e \<Rightarrow> Inl e | Inr cond \<Rightarrow>
         (case table of None \<Rightarrow> Inl ProgrammingError | Some t \<Rightarrow>
           if order = [] \<or> \<not> set order \<subseteq> set (map fst cols) then Inl ProgrammingError
           else if limit < 0 \<or> offset < 0 then Inl DataError
           else let rows = filter (\<lambda>r. cond r = Some True) (stab_rows t);
                    page = take (nat limit) (drop (nat offset) (env_pg_order env order rows))
                in Inr \<lparr>mp_columns = map fst cols, mp_rows = page, mp_total_rows = int (length rows),
                       mp_limit = limit, mp_offset = offset,
                       mp_has_more = offset + int (length page) < int (length rows),
                       mp_corrected_fields_by_record_ref = by_ref,
                       mp_key_strategy = kc_effective_key_strategy kc, mp_key_column_names = names\<rparr>)))))"

lemmas materialization_op_defs [op_defs] =
  run_staging_materialization_def execute_materialization_def fill_table_def mat_fail_def
  mat_cancel_def mat_finish_def mat_start_def

end
