(* ===== verification/MaterializedTable.thy ===== *)
theory MaterializedTable
  imports Materialization
begin

text \<open>
  What the materialization job does to the database: it always ends, it touches one table and
  one run, and a table it declares READY is the source with the corrections laid over it.
\<close>

section \<open>Frames\<close>

lemma table_op_frame [simp]:
  "staging_runs (drop_table q d) = staging_runs d" "staging_runs (create_table q cols d) = staging_runs d"
  "staging_runs (set_rows q rows d) = staging_runs d"
  "jobs (drop_table q d) = jobs d" "jobs (create_table q cols d) = jobs d" "jobs (set_rows q rows d) = jobs d"
  "staging_records (drop_table q d) = staging_records d"
  "staging_records (create_table q cols d) = staging_records d"
  "staging_records (set_rows q rows d) = staging_records d"
  by (simp_all add: drop_table_def create_table_def set_rows_def)

lemma get_table_cong: "staging_tables d = staging_tables e \<Longrightarrow> get_table q d = get_table q e"
  by (simp add: get_table_def)

lemma get_table_drop [simp]: "get_table p (drop_table q d) = (if p = q then None else get_table p d)"
proof -
  have "map_of (filter (\<lambda>t. fst t \<noteq> q) ts) p = (if p = q then None else map_of ts p)"
    for ts :: "(string \<times> staging_table) list"
    by (induction ts) auto
  then show ?thesis by (simp add: get_table_def drop_table_def)
qed

lemma get_table_create [simp]:
  "get_table p (create_table q cols d) =
     (if p = q then Some \<lparr>stab_columns = cols, stab_rows = []\<rparr> else get_table p d)"
  by (simp add: get_table_def create_table_def)

lemma get_table_set_rows [simp]:
  "get_table p (set_rows q rows d) =
     (if p = q then map_option (\<lambda>t. t\<lparr>stab_rows := rows\<rparr>) (get_table q d) else get_table p d)"
proof -
  have "map_of (map (\<lambda>(n, t). (n, if n = q then t\<lparr>stab_rows := rows\<rparr> else t)) ts) p =
      (if p = q then map_option (\<lambda>t. t\<lparr>stab_rows := rows\<rparr>) (map_of ts q) else map_of ts p)"
    for ts :: "(string \<times> staging_table) list"
    by (induction ts) auto
  then show ?thesis by (simp add: get_table_def set_rows_def)
qed

lemma get_table_frame [simp]:
  "get_table q (upd_staging_run i f d) = get_table q d" "get_table q (upd_job j g d) = get_table q d"
  "get_table q (clear_cancel_flag j d) = get_table q d"
  "get_table q (audit_record a t ac et ei b af m now d) = get_table q d"
  by (simp_all add: get_table_def upd_staging_run_def upd_job_def clear_cancel_flag_def)

lemma job_op_frame [simp]:
  "staging_runs (upd_job j g d) = staging_runs d" "staging_runs (clear_cancel_flag j d) = staging_runs d"
  "jobs (clear_cancel_flag j d) = jobs d" "staging_records (upd_job j g d) = staging_records d"
  "staging_records (clear_cancel_flag j d) = staging_records d"
  by (simp_all add: upd_job_def clear_cancel_flag_def)

lemma records_of_cong: "staging_records d = staging_records e \<Longrightarrow> records_of run d = records_of run e"
  by (simp add: records_of_def)

text \<open>A state that differs from another in one table and one staging run only.\<close>

definition confined :: "string \<Rightarrow> uuid \<Rightarrow> db \<Rightarrow> db \<Rightarrow> bool" where
  "confined q run d e \<longleftrightarrow> (\<forall>p. p \<noteq> q \<longrightarrow> get_table p e = get_table p d) \<and>
     jobs e = jobs d \<and> staging_records e = staging_records d \<and>
     (\<forall>i. i \<noteq> run \<longrightarrow> get_staging_run e i = get_staging_run d i)"

lemma confined_refl: "confined q run d d"
  by (simp add: confined_def)

lemma confined_trans: "confined q run d e \<Longrightarrow> confined q run e f \<Longrightarrow> confined q run d f"
  by (simp add: confined_def)

lemma confined_upd:
  assumes "\<And>s. sr_id (f s) = sr_id s"
  shows "confined q run d (upd_staging_run run f e) \<longleftrightarrow> confined q run d e"
  using assms by (simp add: confined_def get_upd_staging_run)

lemma confined_tables:
  "confined q run d (drop_table q e) \<longleftrightarrow> confined q run d e"
  "confined q run d (create_table q cols e) \<longleftrightarrow> confined q run d e"
  "confined q run d (set_rows q rows e) \<longleftrightarrow> confined q run d e"
  by (auto simp: confined_def)

text \<open>The run has its destination.\<close>

definition destined :: "uuid \<Rightarrow> string \<Rightarrow> db \<Rightarrow> bool" where
  "destined run table d \<longleftrightarrow> (\<exists>s. get_staging_run d run = Some s \<and>
     sr_destination_schema s = Some STAGING_SCHEMA_NAME \<and> sr_destination_table s = Some table)"

lemma destined_upd:
  assumes "\<And>s. sr_id (f s) = sr_id s" "\<And>s. sr_destination_schema (f s) = sr_destination_schema s"
    "\<And>s. sr_destination_table (f s) = sr_destination_table s"
  shows "destined run table (upd_staging_run run f e) \<longleftrightarrow> destined run table e"
  using assms by (auto simp: destined_def get_upd_staging_run)

lemma destined_cong: "staging_runs d = staging_runs e \<Longrightarrow> destined run table d = destined run table e"
  by (simp add: destined_def)

definition kept :: "string \<Rightarrow> uuid \<Rightarrow> string \<Rightarrow> db \<Rightarrow> db \<Rightarrow> bool" where
  "kept q run table d e \<longleftrightarrow> confined q run d e \<and> destined run table e"

lemma kept_upd:
  assumes "\<And>s. sr_id (f s) = sr_id s" "\<And>s. sr_destination_schema (f s) = sr_destination_schema s"
    "\<And>s. sr_destination_table (f s) = sr_destination_table s"
  shows "kept q run table d (upd_staging_run run f e) \<longleftrightarrow> kept q run table d e"
  using assms by (simp add: kept_def confined_upd destined_upd)

lemma kept_tables [simp]:
  "kept q run table d (drop_table q e) \<longleftrightarrow> kept q run table d e"
  "kept q run table d (create_table q cols e) \<longleftrightarrow> kept q run table d e"
  "kept q run table d (set_rows q rows e) \<longleftrightarrow> kept q run table d e"
  by (simp_all add: kept_def confined_tables destined_cong [of "set_rows q rows e" e]
      destined_cong [of "drop_table q e" e] destined_cong [of "create_table q cols e" e])

lemma kept_phase [simp]: "kept q run table d (set_phase run ph now e) \<longleftrightarrow> kept q run table d e"
  by (simp add: set_phase_def kept_upd)

lemma kept_note [simp]: "kept q run table d (note_copied run c p now e) \<longleftrightarrow> kept q run table d e"
  by (simp add: note_copied_def kept_upd)

lemma kept_insert: "insert_batch env q b e = Inr e' \<Longrightarrow> kept q run table d e \<Longrightarrow> kept q run table d e'"
  by (auto simp: insert_batch_def split: option.splits if_splits sum.splits)

lemma kept_apply: "apply_record env kc q r e = Inr e' \<Longrightarrow> kept q run table d e \<Longrightarrow> kept q run table d e'"
  by (auto simp: apply_record_def update_rows_def split: option.splits if_splits sum.splits)

lemma kept_copy:
  "kept q run table d e \<Longrightarrow>
   ends_in (kept q run table d) (copy_batches env job run q n polls now i copied bs e)"
proof (induction env job run q n polls now i copied bs e rule: copy_batches.induct)
  case (3 env job run q n polls now i copied b bs e)
  show ?case
    unfolding copy_batches.simps Let_def
    by (intro ends) (use 3 in \<open>auto intro: kept_insert\<close>)
qed (auto intro: ends)

lemma kept_named:
  "get_staging_run d run = Some s \<Longrightarrow> kept q run table d (name_destination run table now d)"
  by (simp add: kept_def confined_upd confined_refl destined_def name_destination_def get_upd_staging_run)

lemma kept_fill:
  assumes "get_staging_run d run = Some s"
  defines "table ds \<equiv> build_destination_table_name (ds_name ds) run"
  shows "ends_in (kept (qualified_table STAGING_SCHEMA_NAME (table ds)) run (table ds) d)
    (fill_table env cfg ds sch prov job run polls now d)"
proof -
  let ?q = "qualified_table STAGING_SCHEMA_NAME (table ds)"
  let ?P = "kept ?q run (table ds) d"
  have start: "?P (name_destination run (table ds) now d)"
    by (rule kept_named [OF assms(1)])
  show ?thesis
    unfolding fill_table_def Let_def table_def [symmetric]
    apply (rule ends_in_attempt)
     apply (simp add: start)
    apply (rule ends_in_case)
      apply (rule kept_copy)
      apply (simp add: start kept_upd)
     apply (simp add: ends_in_raises)
    apply (intro ends)
      apply (simp_all add: kept_upd)
    apply (rule fold_ok_invariant [where P = ?P], assumption)
     apply (simp add: kept_upd)
    apply (erule (1) kept_apply)
    done
qed

section \<open>The copy and the overlay\<close>

lemma insert_batch_table:
  assumes "insert_batch env q b d = Inr d'" and "get_table q d = Some t"
  obtains rows where "map_ok (store_row env (stab_columns t)) b = Inr rows"
    and "get_table q d' = Some (t\<lparr>stab_rows := stab_rows t @ rows\<rparr>)"
  using assms by (auto simp: insert_batch_def split: if_splits sum.splits)

lemma copy_batches_table:
  assumes "copy_batches env job run q n polls now i copied bs d = (d', Inr c)" and "get_table q d = Some t"
  shows "\<exists>batches rows. bs = map Inr batches \<and>
    map_ok (store_row env (stab_columns t)) (concat batches) = Inr rows \<and>
    get_table q d' = Some (t\<lparr>stab_rows := stab_rows t @ rows\<rparr>) \<and> c = copied + int (length (concat batches))"
  using assms
proof (induction env job run q n polls now i copied bs d arbitrary: t rule: copy_batches.induct)
  case (1 env job run q n polls now i copied d)
  then show ?case by (intro exI [of _ "[]"]) simp
next
  case (3 env job run q n polls now i copied b bs d)
  let ?c = "copied + int (length b)"
  from "3.prems"(1) obtain d1 p where go: "\<not> (polls i \<or> is_cancel_requested job d)"
    "insert_batch env q b d = Inr d1"
    "(if n = 0 then Inr None else map_sum id Some (progress_of ?c n)) = Inr p"
    "copy_batches env job run q n polls now (Suc i) ?c bs (note_copied run ?c p now d1) = (d', Inr c)"
    by (auto simp: attempt_returns Let_def split: if_splits)
  obtain rows where rows: "map_ok (store_row env (stab_columns t)) b = Inr rows"
    "get_table q d1 = Some (t\<lparr>stab_rows := stab_rows t @ rows\<rparr>)"
    using insert_batch_table [OF go(2) "3.prems"(2)] .
  obtain batches more where rest: "bs = map Inr batches"
      "map_ok (store_row env (stab_columns t)) (concat batches) = Inr more"
      "get_table q d' = Some (t\<lparr>stab_rows := stab_rows t @ rows @ more\<rparr>)"
      "c = ?c + int (length (concat batches))"
    using "3.IH" [OF go(1) refl go(4)] rows(2) by (auto simp: note_copied_def)
  have "map_ok (store_row env (stab_columns t)) (b @ concat batches) = Inr (rows @ more)"
    by (simp add: map_ok_append rows(1) rest(2))
  then show ?case using rest by (intro exI [of _ "b # batches"] exI [of _ "rows @ more"]) simp
qed simp

text \<open>The overlay as a function of the rows alone, and the job's updates as a refinement of it.\<close>

definition overlay_record ::
  "env \<Rightarrow> key_context \<Rightarrow> (string \<times> string) list \<Rightarrow> staging_record \<Rightarrow> row list \<Rightarrow> exn + row list" where
  "overlay_record env kc cols r rows =
     (case parse_record_ref_to_key_dict (srec_record_ref r) (kc_effective_key_strategy kc) (kc_key_column_names kc) of
        None \<Rightarrow> Inr rows
      | Some key \<Rightarrow> (case set_parts env kc (srec_corrected_fields r) of Inl e \<Rightarrow> Inl e
          | Inr sets \<Rightarrow> if sets = [] then Inr rows
              else updated_rows env cols sets key (kc_key_column_names kc) rows))"

lemma apply_record_overlay:
  assumes "get_table q d = Some t"
  shows "(\<forall>d'. apply_record env kc q r d = Inr d' \<longrightarrow>
      (\<exists>rows. overlay_record env kc (stab_columns t) r (stab_rows t) = Inr rows \<and>
        get_table q d' = Some (t\<lparr>stab_rows := rows\<rparr>)))"
    and "apply_record env kc q r d = Inl e \<longleftrightarrow> overlay_record env kc (stab_columns t) r (stab_rows t) = Inl e"
  using assms by (auto simp: apply_record_def overlay_record_def update_rows_def split: option.splits sum.splits)

lemma apply_records_overlay:
  assumes "fold_ok (apply_record env kc q) rs d = Inr d'" and "get_table q d = Some t"
  shows "\<exists>rows. fold_ok (overlay_record env kc (stab_columns t)) rs (stab_rows t) = Inr rows \<and>
    get_table q d' = Some (t\<lparr>stab_rows := rows\<rparr>)"
  using assms
proof (induction rs arbitrary: d t)
  case (Cons r rs)
  from Cons.prems(1) obtain d1 where d1: "apply_record env kc q r d = Inr d1"
    "fold_ok (apply_record env kc q) rs d1 = Inr d'"
    by (auto split: sum.splits)
  obtain rows where rows: "overlay_record env kc (stab_columns t) r (stab_rows t) = Inr rows"
    "get_table q d1 = Some (t\<lparr>stab_rows := rows\<rparr>)"
    using apply_record_overlay(1) [OF Cons.prems(2)] d1(1) by blast
  show ?case using Cons.IH [OF d1(2) rows(2)] rows(1) by simp
qed simp

lemma overlay_length: "overlay_record env kc cols r rows = Inr rows' \<Longrightarrow> length rows' = length rows"
  by (auto simp: overlay_record_def updated_rows_def split: option.splits sum.splits if_splits)

lemma overlays_length:
  "fold_ok (overlay_record env kc cols) rs rows = Inr rows' \<Longrightarrow> length rows' = length rows"
  by (erule fold_ok_invariant [where P = "\<lambda>xs. length xs = length rows"]) (auto dest: overlay_length)

lemma set_phase_frame [simp]:
  "get_table q (set_phase run ph now d) = get_table q d"
  "staging_records (set_phase run ph now d) = staging_records d" "jobs (set_phase run ph now d) = jobs d"
  "get_staging_run (set_phase run ph now d) i = (if run = i then map_option (\<lambda>s. s\<lparr>
     sr_materialization_phase := Some ph, sr_updated_at := Some now\<rparr>) (get_staging_run d i) else get_staging_run d i)"
  by (simp_all add: set_phase_def get_upd_staging_run)

lemma get_materialized_count_apply:
  "fold_ok (apply_record env kc q) rs d = Inr d' \<Longrightarrow> staging_runs d' = staging_runs d"
  by (erule fold_ok_invariant [where P = "\<lambda>e. staging_runs e = staging_runs d"])
     (auto simp: apply_record_def update_rows_def split: option.splits if_splits sum.splits)

lemma fill_table_returns:
  assumes fill: "fill_table env cfg ds sch prov job run polls now d = (d', Inr u)"
    and run: "get_staging_run d run = Some s"
  defines "kc \<equiv> resolve_key_context ds d"
  defines "q \<equiv> qualified_table STAGING_SCHEMA_NAME (build_destination_table_name (ds_name ds) run)"
  defines "cols \<equiv> map column_ddl (kc_active_columns kc)"
  shows "\<exists>batches rows final.
    pv_iter_rows prov (sch_name sch) (ds_name ds) (map col_name (kc_active_columns kc))
      (STAGING_MATERIALIZATION_BATCH_SIZE cfg)
      (if kc_key_column_names kc = [] then None else Some (kc_key_column_names kc)) = map Inr batches \<and>
    pv_count_rows prov (sch_name sch) (ds_name ds) = Inr (int (length (concat batches))) \<and>
    map_ok (store_row env cols) (concat batches) = Inr rows \<and>
    fold_ok (overlay_record env kc cols) (records_of run d) rows = Inr final \<and>
    get_table q d' = Some \<lparr>stab_columns = cols, stab_rows = final\<rparr> \<and>
    Option.bind (get_staging_run d' run) sr_materialized_row_count = Some (int (length (concat batches)))"
proof -
  let ?names = "map col_name (kc_active_columns kc)" and ?keys = "kc_key_column_names kc"
  let ?iter = "pv_iter_rows prov (sch_name sch) (ds_name ds) ?names (STAGING_MATERIALIZATION_BATCH_SIZE cfg)
    (if ?keys = [] then None else Some ?keys)"
  let ?table = "build_destination_table_name (ds_name ds) run"
  let ?d3 = "set_phase run PH_COPYING_SOURCE now (create_table q cols (drop_table q (name_destination run ?table now d)))"
  from fill obtain n d5 c d8 where steps:
    "pv_count_rows prov (sch_name sch) (ds_name ds) = Inr n"
    "copy_batches env job run q n polls now 0 0 ?iter (upd_staging_run run (\<lambda>s. s\<lparr>sr_source_row_count := Some n\<rparr>) ?d3) =
       (d5, Inr c)"
    "c = n"
    "fold_ok (apply_record env kc q) (records_of run (set_phase run PH_APPLYING_CORRECTIONS now
       (upd_staging_run run (\<lambda>s. s\<lparr>sr_materialized_row_count := Some c\<rparr>) d5)))
       (set_phase run PH_APPLYING_CORRECTIONS now
       (upd_staging_run run (\<lambda>s. s\<lparr>sr_materialized_row_count := Some c\<rparr>) d5)) = Inr d8"
    "d' = set_phase run PH_VALIDATING now d8"
    unfolding fill_table_def Let_def kc_def [symmetric] q_def [symmetric] cols_def [symmetric]
    unfolding attempt_returns case_returns checked_returns by auto
  obtain batches rows where copied: "?iter = map Inr batches"
    "map_ok (store_row env cols) (concat batches) = Inr rows"
    "get_table q d5 = Some \<lparr>stab_columns = cols, stab_rows = rows\<rparr>" "c = int (length (concat batches))"
    using copy_batches_table [OF steps(2)] by fastforce
  have kept_start: "kept q run ?table d (upd_staging_run run (\<lambda>s. s\<lparr>sr_source_row_count := Some n\<rparr>) ?d3)"
    by (simp add: kept_upd kept_named [OF run])
  have kept: "kept q run ?table d d5"
    using kept_copy [of q run ?table d, OF kept_start, unfolded ends_in_def, of env job n polls now 0 0 ?iter] steps(2)
    by simp
  have recs: "records_of run (set_phase run PH_APPLYING_CORRECTIONS now
       (upd_staging_run run (\<lambda>s. s\<lparr>sr_materialized_row_count := Some c\<rparr>) d5)) = records_of run d"
    using kept by (intro records_of_cong) (simp add: kept_def confined_def)
  obtain final where final: "fold_ok (overlay_record env kc cols) (records_of run d) rows = Inr final"
    "get_table q d8 = Some \<lparr>stab_columns = cols, stab_rows = final\<rparr>"
    using apply_records_overlay [OF steps(4), of "\<lparr>stab_columns = cols, stab_rows = rows\<rparr>"] copied(3) recs by auto
  have "Option.bind (get_staging_run d' run) sr_materialized_row_count = Some c"
    using kept steps(5) get_materialized_count_apply [OF steps(4)]
    by (auto simp: kept_def destined_def set_phase_def get_upd_staging_run)
  then show ?thesis
    using copied steps(1,3,5) final by (intro exI [of _ batches] exI [of _ rows] exI [of _ final]) simp
qed

section \<open>The steps of the job\<close>

lemma write_job_tables [simp]:
  "get_table q (fst (write_job i f d)) = get_table q d" "records_of run (fst (write_job i f d)) = records_of run d"
  by (cases "get_job d i"; simp add: write_job_def jobs_get_def upd_job_def get_table_def records_of_def)+

lemma upd_staging_run_cancel [simp]: "cancel_flags (upd_staging_run i f d) = cancel_flags d"
  by (simp add: upd_staging_run_def)

lemma sr_id_of: "get_staging_run d i = Some s \<Longrightarrow> sr_id s = i"
  by (drule find_row_SomeD) simp

lemma mat_start_effect:
  assumes "get_job d jid = Some j" and "get_staging_run d run = Some s"
  shows "staging_records (mat_start j run now d) = staging_records d"
    and "get_table q (mat_start j run now d) = get_table q d"
    and "get_staging_run (mat_start j run now d) i = (if i = run then Some (s\<lparr>
      sr_materialization_phase := Some PH_PREPARING_SCHEMA, sr_updated_at := Some now\<rparr>) else get_staging_run d i)"
    and "get_job (mat_start j run now d) k = (if k = jid then Some (j\<lparr>job_status := JOB_RUNNING,
      job_started_at := Some now, job_updated_at := Some now\<rparr>) else get_job d k)"
  using assms by (auto simp: mat_start_def mark_defs job_id_of get_job_marked)

lemma mat_fail_effect:
  assumes "get_job d jid = Some j'" and "get_staging_run d run = Some s" and "job_id j = jid"
  shows "staging_records (mat_fail j run e now d) = staging_records d"
    and "get_table q (mat_fail j run e now d) = get_table q d"
    and "get_staging_run (mat_fail j run e now d) i = (if i = run then Some (s\<lparr>
      sr_materialization_phase := Some PH_FAILED, sr_materialization_error := Some (TextOf e),
      sr_updated_at := Some now\<rparr>) else get_staging_run d i)"
    and "get_job (mat_fail j run e now d) k = (if k = jid then Some (j'\<lparr>job_status := JOB_FAILED,
      job_completed_at := Some now, job_updated_at := Some now, job_error_message := Some (TextOf e)\<rparr>)
      else get_job d k)"
  using assms by (auto simp: mat_fail_def mark_defs get_job_marked Let_def get_upd_staging_run)

lemma mat_cancel_effect:
  assumes "get_job d jid = Some j'" and "get_staging_run d run = Some s" and "job_id j = jid"
  shows "staging_records (mat_cancel j run now d) = staging_records d"
    and "get_table q (mat_cancel j run now d) = get_table q d"
    and "get_staging_run (mat_cancel j run now d) i = (if i = run then Some (s\<lparr>
      sr_materialization_phase := Some PH_CANCELLED, sr_updated_at := Some now\<rparr>) else get_staging_run d i)"
    and "get_job (mat_cancel j run now d) k = (if k = jid then Some (j'\<lparr>job_status := JOB_CANCELLED,
      job_completed_at := Some now, job_updated_at := Some now\<rparr>) else get_job d k)"
    and "\<not> is_cancel_requested jid (mat_cancel j run now d)"
  using assms by (auto simp: mat_cancel_def mark_defs get_job_marked Let_def set_phase_def get_upd_staging_run
      is_cancel_requested_def cleared_flag)

lemma mat_finish_effect:
  assumes "get_job d jid = Some j'" and "get_staging_run d run = Some s" and "job_id j = jid"
  shows "staging_records (mat_finish j run now d) = staging_records d"
    and "get_table q (mat_finish j run now d) = get_table q d"
    and "get_staging_run (mat_finish j run now d) i = (if i = run then Some (s\<lparr>
      sr_materialization_phase := Some PH_READY, sr_progress_percentage := Some 100,
      sr_updated_at := Some now\<rparr>) else get_staging_run d i)"
    and "get_job (mat_finish j run now d) k = (if k = jid then Some (j'\<lparr>job_status := JOB_COMPLETED,
      job_completed_at := Some now, job_updated_at := Some now, job_error_message := None\<rparr>)
      else get_job d k)"
  using assms by (auto simp: mat_finish_def mark_defs get_job_marked Let_def get_upd_staging_run)

lemma cleanup_effect:
  "staging_records (cleanup_destination_table run d) = staging_records d"
  "staging_runs (cleanup_destination_table run d) = staging_runs d"
  "jobs (cleanup_destination_table run d) = jobs d"
  by (auto simp: cleanup_destination_table_def split: option.split)

lemma cleanup_table:
  "get_staging_run d run = Some s \<Longrightarrow> sr_destination_table s = None \<Longrightarrow> cleanup_destination_table run d = d"
  "destined run table d \<Longrightarrow>
     cleanup_destination_table run d = drop_table (qualified_table STAGING_SCHEMA_NAME table) d"
  by (auto simp: cleanup_destination_table_def destined_def split: option.split)

lemma dataset_source_cong:
  "datasets d = datasets e \<Longrightarrow> schemas d = schemas e \<Longrightarrow> connections d = connections e \<Longrightarrow>
   connection_types d = connection_types e \<Longrightarrow> dataset_source i d = dataset_source i e"
  by (simp add: dataset_source_def cong: option.case_cong)

lemma mat_start_source:
  assumes "get_job d jid = Some j"
  shows "dataset_source i (mat_start j run now d) = dataset_source i d"
    and "resolve_key_context ds (mat_start j run now d) = resolve_key_context ds d"
  using assms
  by (auto intro!: dataset_source_cong simp: mat_start_def mark_defs job_id_of write_job_eq set_phase_def
      upd_staging_run_def upd_job_def resolve_key_context_def active_columns_def key_columns_def)

section \<open>Every materialization ends\<close>

definition in_flight :: "uuid \<Rightarrow> uuid \<Rightarrow> job \<Rightarrow> staging_run \<Rightarrow> db \<Rightarrow> bool" where
  "in_flight jid run j s d \<longleftrightarrow> get_job d jid = Some j \<and> get_staging_run d run = Some s \<and>
     \<not> job_terminal (job_status j) \<and> \<not> phase_terminal (sr_materialization_phase s)"

text \<open>
  The ways of the task: it fails before the source is open, with or without the clean-up, or it
  fills the table and finishes, cancels or fails.
\<close>

lemma run_cases:
  fixes env :: env and now :: instant
  assumes "in_flight jid run j s d"
  defines "d1 \<equiv> mat_start j run now d"
  obtains (early) e d2 where "d2 = d1 \<or> d2 = cleanup_destination_table run d1"
      "run_staging_materialization env cfg jid run polls now d = (mat_fail j run e now d2, Inr (MatFailed e))"
  | (filled) ds sch conn ct prov d2 where "dataset_source (sr_dataset_id s) d = Inr (ds, sch, conn, ct)"
      "open_source env conn ct = Inr prov" "fill_table env cfg ds sch prov jid run polls now d1 = (d2, Inr ())"
      "run_staging_materialization env cfg jid run polls now d =
        (mat_finish j run now d2, Inr (MatReady (Option.bind (get_staging_run d2 run) sr_materialized_row_count)))"
  | (stopped) ds sch conn ct prov d2 where "dataset_source (sr_dataset_id s) d = Inr (ds, sch, conn, ct)"
      "open_source env conn ct = Inr prov"
      "fill_table env cfg ds sch prov jid run polls now d1 = (d2, Inl MaterializationCancelled)"
      "run_staging_materialization env cfg jid run polls now d =
        (mat_cancel j run now (cleanup_destination_table run d2), Inr MatCancelled)"
  | (failed) e ds sch conn ct prov d2 where "dataset_source (sr_dataset_id s) d = Inr (ds, sch, conn, ct)"
      "open_source env conn ct = Inr prov"
      "fill_table env cfg ds sch prov jid run polls now d1 = (d2, Inl e)" "e \<noteq> MaterializationCancelled"
      "run_staging_materialization env cfg jid run polls now d =
        (mat_fail j run e now (cleanup_destination_table run d2), Inr (MatFailed e))"
proof -
  have ids: "sr_id s = run" "job_id j = jid"
    using assms(1) by (auto simp: in_flight_def job_id_of sr_id_of)
  have run: "run_staging_materialization env cfg jid run polls now d =
      (case execute_materialization env cfg j s polls now d of
         (d1, Inr r) \<Rightarrow> returns d1 r
       | (d1, Inl e) \<Rightarrow> returns (mat_fail j run e now (cleanup_destination_table run d1)) (MatFailed e))"
    using assms(1) by (simp add: in_flight_def run_staging_materialization_def jobs_get_def)
  have src: "dataset_source (sr_dataset_id s) d1 = dataset_source (sr_dataset_id s) d"
    using assms(1) unfolding d1_def by (intro mat_start_source) (auto simp: in_flight_def)
  note exec = execute_materialization_def [of env cfg j s polls now d, unfolded ids Let_def d1_def [symmetric] src]
  show thesis
  proof (cases "dataset_source (sr_dataset_id s) d")
    case (Inl e)
    then show thesis by (intro early [of "cleanup_destination_table run d1" e]) (simp_all add: run exec raises_def returns_def)
  next
    case (Inr r)
    obtain ds sch conn ct where r: "r = (ds, sch, conn, ct)" by (cases r)
    show thesis
    proof (cases "open_source env conn ct")
      case (Inl e)
      then show thesis
        using Inr r by (cases "e \<in> set TERMINAL_ERRORS")
          (auto intro: early [of d1 e] early [of "cleanup_destination_table run d1" e]
              simp: run exec returns_def raises_def)
    next
      case (Inr prov)
      note known = \<open>dataset_source (sr_dataset_id s) d = Inr r\<close> r Inr
      obtain d2 out where fill: "fill_table env cfg ds sch prov jid run polls now d1 = (d2, out)"
        by (cases "fill_table env cfg ds sch prov jid run polls now d1")
      show thesis
      proof (cases out)
        case (Inr u)
        then show thesis using known fill by (intro filled) (simp_all add: run exec returns_def)
      next
        case (Inl e)
        show thesis
        proof (cases "e = MaterializationCancelled")
          case True
          then show thesis using known fill Inl by (intro stopped) (simp_all add: run exec returns_def)
        next
          case False
          then show thesis using known fill Inl
            by (intro failed [of ds sch conn ct prov d2 e]) (simp_all add: run exec returns_def raises_def)
        qed
      qed
    qed
  qed
qed

lemma started:
  assumes "in_flight jid run j s d"
  shows "get_job (mat_start j run now d) jid = Some (j\<lparr>job_status := JOB_RUNNING,
      job_started_at := Some now, job_updated_at := Some now\<rparr>)"
    and "get_staging_run (mat_start j run now d) run = Some (s\<lparr>
      sr_materialization_phase := Some PH_PREPARING_SCHEMA, sr_updated_at := Some now\<rparr>)"
    and "job_id j = jid"
  using assms by (auto simp: in_flight_def mat_start_effect job_id_of)

lemma filled_state:
  assumes "in_flight jid run j s d"
    and "fill_table env cfg ds sch prov jid run polls now (mat_start j run now d) = (d2, out)"
  defines "table \<equiv> build_destination_table_name (ds_name ds) run"
  obtains s2 where "get_staging_run d2 run = Some s2" and "get_job d2 jid = get_job (mat_start j run now d) jid"
    and "kept (qualified_table STAGING_SCHEMA_NAME table) run table (mat_start j run now d) d2"
    and "cleanup_destination_table run d2 = drop_table (qualified_table STAGING_SCHEMA_NAME table) d2"
proof -
  have kept: "kept (qualified_table STAGING_SCHEMA_NAME table) run table (mat_start j run now d) d2"
    using kept_fill [where env = env and cfg = cfg and ds = ds and sch = sch
        and prov = prov and job = jid and polls = polls and now = now, OF started(2) [OF assms(1)]] assms(2)
    unfolding ends_in_def table_def by (metis fst_conv)
  then obtain s2 where "get_staging_run d2 run = Some s2" by (auto simp: kept_def destined_def)
  moreover have "jobs d2 = jobs (mat_start j run now d)" using kept by (simp add: kept_def confined_def)
  ultimately show thesis using kept cleanup_table(2) by (intro that) (auto simp: kept_def)
qed

text \<open>C22.
  The materialization of a run that is in flight always ends, whatever the source, the database
  and the user do: the task returns with the job and the run in matching final states, with the
  error on both when it failed, and with the cancel flag lowered when it was cancelled.\<close>

theorem materialization_resolves:
  assumes "in_flight jid run j s d"
  shows "\<exists>d' r j' s'. run_staging_materialization env cfg jid run polls now d = (d', Inr r) \<and>
    get_job d' jid = Some j' \<and> get_staging_run d' run = Some s' \<and>
    (case r of
       MatReady n \<Rightarrow> job_status j' = JOB_COMPLETED \<and> sr_materialization_phase s' = Some PH_READY \<and>
         sr_materialized_row_count s' = n \<and> sr_progress_percentage s' = Some 100
     | MatFailed e \<Rightarrow> job_status j' = JOB_FAILED \<and> sr_materialization_phase s' = Some PH_FAILED \<and>
         job_error_message j' = Some (TextOf e) \<and> sr_materialization_error s' = Some (TextOf e)
     | MatCancelled \<Rightarrow> job_status j' = JOB_CANCELLED \<and> sr_materialization_phase s' = Some PH_CANCELLED \<and>
         \<not> is_cancel_requested jid d'
     | MatStatus _ \<Rightarrow> False)"
proof -
  note start = started(1,2) [where now = now, OF assms] started(3) [OF assms]
  show ?thesis
  proof (rule run_cases [OF assms, of now env cfg polls], goal_cases)
    case (1 e d2)
    have "get_job d2 jid = get_job (mat_start j run now d) jid"
      "get_staging_run d2 run = get_staging_run (mat_start j run now d) run"
      using 1(1) by (auto simp: cleanup_effect)
    with start show ?case by (simp add: 1(2) mat_fail_effect)
  next
    case (2 ds sch conn ct prov d2)
    obtain s2 where "get_staging_run d2 run = Some s2" "get_job d2 jid = get_job (mat_start j run now d) jid"
      using filled_state [OF assms 2(3)] by metis
    with start show ?case by (simp add: 2(4) mat_finish_effect)
  next
    case (3 ds sch conn ct prov d2)
    obtain s2 where "get_staging_run d2 run = Some s2" "get_job d2 jid = get_job (mat_start j run now d) jid"
      using filled_state [OF assms 3(3)] by metis
    with start show ?case by (simp add: 3(4) mat_cancel_effect cleanup_effect)
  next
    case (4 e ds sch conn ct prov d2)
    obtain s2 where "get_staging_run d2 run = Some s2" "get_job d2 jid = get_job (mat_start j run now d) jid"
      using filled_state [OF assms 4(3)] by metis
    with start show ?case by (simp add: 4(5) mat_fail_effect cleanup_effect)
  qed
qed

text \<open>C23.
  A run that becomes READY is the source with the approved corrections laid over it: the table
  has the dataset's active columns, the rows that were copied are all the rows of the source
  in its order, as many as were counted before, and the final rows are the overlay of the
  staging records of the run on them, with no row lost or added.\<close>

theorem materialized_table_is_overlay:
  assumes flight: "in_flight jid run j s d"
    and ready: "run_staging_materialization env cfg jid run polls now d = (d', Inr (MatReady n))"
  shows "\<exists>ds sch conn ct prov batches rows final.
    dataset_source (sr_dataset_id s) d = Inr (ds, sch, conn, ct) \<and> open_source env conn ct = Inr prov \<and>
    (let kc = resolve_key_context ds d; cols = map column_ddl (kc_active_columns kc) in
      pv_iter_rows prov (sch_name sch) (ds_name ds) (map col_name (kc_active_columns kc))
        (STAGING_MATERIALIZATION_BATCH_SIZE cfg)
        (if kc_key_column_names kc = [] then None else Some (kc_key_column_names kc)) = map Inr batches \<and>
      pv_count_rows prov (sch_name sch) (ds_name ds) = Inr (int (length (concat batches))) \<and>
      map_ok (store_row env cols) (concat batches) = Inr rows \<and>
      fold_ok (overlay_record env kc cols) (records_of run d) rows = Inr final \<and>
      get_table (qualified_table STAGING_SCHEMA_NAME (build_destination_table_name (ds_name ds) run)) d' =
        Some \<lparr>stab_columns = cols, stab_rows = final\<rparr> \<and>
      n = Some (int (length (concat batches))) \<and> length final = length (concat batches))"
proof (rule run_cases [OF flight, of now env cfg polls], goal_cases)
  case (2 ds sch conn ct prov d2)
  note start = started(1,2) [where now = now, OF flight] started(3) [OF flight]
  have same: "resolve_key_context ds (mat_start j run now d) = resolve_key_context ds d"
    "records_of run (mat_start j run now d) = records_of run d"
    using flight by (auto simp: in_flight_def mat_start_source intro!: records_of_cong mat_start_effect)
  obtain s2 where s2: "get_staging_run d2 run = Some s2" "get_job d2 jid = get_job (mat_start j run now d) jid"
    using filled_state [OF flight 2(3)] by metis
  obtain batches rows final where table: "pv_iter_rows prov (sch_name sch) (ds_name ds)
      (map col_name (kc_active_columns (resolve_key_context ds d))) (STAGING_MATERIALIZATION_BATCH_SIZE cfg)
      (if kc_key_column_names (resolve_key_context ds d) = [] then None
       else Some (kc_key_column_names (resolve_key_context ds d))) = map Inr batches"
    "pv_count_rows prov (sch_name sch) (ds_name ds) = Inr (int (length (concat batches)))"
    "map_ok (store_row env (map column_ddl (kc_active_columns (resolve_key_context ds d)))) (concat batches) = Inr rows"
    "fold_ok (overlay_record env (resolve_key_context ds d) (map column_ddl (kc_active_columns (resolve_key_context ds d))))
      (records_of run d) rows = Inr final"
    "get_table (qualified_table STAGING_SCHEMA_NAME (build_destination_table_name (ds_name ds) run)) d2 =
      Some \<lparr>stab_columns = map column_ddl (kc_active_columns (resolve_key_context ds d)), stab_rows = final\<rparr>"
    "Option.bind (get_staging_run d2 run) sr_materialized_row_count = Some (int (length (concat batches)))"
    using fill_table_returns [OF 2(3) start(2)] unfolding same by blast
  have "length rows = length (concat batches)"
    using table(3) by (simp add: map_ok_Inr list_all2_lengthD)
  with overlays_length [OF table(4)] have len: "length final = length (concat batches)" by simp
  have n: "n = Some (int (length (concat batches)))" and d': "d' = mat_finish j run now d2"
    using ready 2(4) table(6) by auto
  show ?case
    using 2(1,2) table s2 start
    unfolding n d' Let_def
    by (intro exI [of _ ds] exI [of _ sch] exI [of _ conn] exI [of _ ct] exI [of _ prov] exI [of _ batches]
        exI [of _ rows] exI [of _ final]) (simp add: mat_finish_effect len)
qed (use ready in auto)


section \<open>What keeps a run from being materialized\<close>

lemma ready_overlays:
  assumes flight: "in_flight jid run j s d"
    and ready: "run_staging_materialization env cfg jid run polls now d = (d', Inr (MatReady n))"
  obtains ds cols rows final where "get_dataset d (sr_dataset_id s) = Some ds"
    and "fold_ok (overlay_record env (resolve_key_context ds d) cols) (records_of run d) rows = Inr final"
proof (rule run_cases [OF flight, of now env cfg polls], goal_cases)
  case (2 ds sch conn ct prov d2)
  have same: "resolve_key_context ds (mat_start j run now d) = resolve_key_context ds d"
    "records_of run (mat_start j run now d) = records_of run d"
    using flight by (auto simp: in_flight_def mat_start_source intro!: records_of_cong mat_start_effect)
  have "get_dataset d (sr_dataset_id s) = Some ds"
    using 2(2) by (auto simp: dataset_source_def split: option.splits)
  then show thesis
    using fill_table_returns [OF 2(4) started(2) [OF flight]] 2(1) unfolding same by blast
qed (use ready in auto)

lemma set_parts_columns:
  "set_parts env kc fs = Inr sets \<Longrightarrow> map fst sets = List.map_filter cf_column_name fs"
proof (induction fs arbitrary: sets)
  case (Cons f fs)
  then show ?case
    by (cases "cf_column_name f")
       (auto simp: set_parts_def Let_def List.map_filter_simps split: sum.splits)
qed (simp add: set_parts_def List.map_filter_simps)

lemma overlay_double:
  assumes "parse_record_ref_to_key_dict (srec_record_ref r) (kc_effective_key_strategy kc)
      (kc_key_column_names kc) \<noteq> None"
    and "\<not> distinct (List.map_filter cf_column_name (srec_corrected_fields r))"
  shows "overlay_record env kc cols r rows \<noteq> Inr rows'"
  using assms by (auto simp: overlay_record_def updated_rows_def split: option.splits sum.splits
      if_splits dest!: set_parts_columns)


text \<open>Cancelling a queued build cancels the job only: the staging run keeps its phase, and the task
  that is still queued does nothing when it is delivered, so the phase stays QUEUED for good.\<close>

theorem cancelled_queued_build_stays_queued:
  assumes "get_job d i = Some j" and "job_status j = JOB_QUEUED" and "job_type j = ''STAGING_BUILD''"
    and "cancel i now d = (d1, Inr u)"
  shows "staging_runs d1 = staging_runs d \<and> get_job d1 i \<noteq> None \<and>
    run_staging_materialization env cfg i run polls now' d1 = (d1, Inr (MatStatus JOB_CANCELLED))"
proof -
  have flag: "get_job (set_cancel_flag i d) i = Some j" "staging_runs (set_cancel_flag i d) = staging_runs d"
    using assms(1) by (simp_all add: set_cancel_flag_def)
  have "d1 = upd_job i (job_cancelled now) (set_cancel_flag i d)"
    using assms flag by (auto simp: cancel_def jobs_get_def job_in_flight_def cancel_run_def cancellable_run_table_def
        mark_cancelled_eq returns_def raises_def job_cancelled_def [abs_def] Let_def)
  then have d1: "get_job d1 i = Some (job_cancelled now j)" "staging_runs d1 = staging_runs d"
    using flag by (simp_all add: get_job_upd_job job_cancelled_def)
  then show ?thesis
    by (auto simp: run_staging_materialization_def jobs_get_def job_terminal_def job_cancelled_def returns_def
        split: option.split)
qed

section \<open>The preview of a NULL key\<close>

lemma foldr_tv_or_unknown: "None \<in> set xs \<Longrightarrow> foldr tv_or xs a \<noteq> Some False"
  by (induction xs) (auto simp: tv_or_def)

lemma corrected_fields_keys: "fst ` set (corrected_fields_by_record_ref rs) = srec_record_ref ` set rs"
proof -
  have "fst ` set (fold (\<lambda>r. dict_set (srec_record_ref r) (srec_corrected_fields r)) rs m) =
      fst ` set m \<union> srec_record_ref ` set rs" for m :: "(string \<times> corrected_field list) list"
    by (induction rs arbitrary: m) auto
  from this [of "[]"] show ?thesis by (simp add: corrected_fields_by_record_ref_def)
qed

lemma changed_key_dicts_set:
  "set (changed_key_dicts kc (corrected_fields_by_record_ref rs)) =
   {key. \<exists>r \<in> set rs. parse_record_ref_to_key_dict (srec_record_ref r) (kc_effective_key_strategy kc)
      (kc_key_column_names kc) = Some key}"
proof -
  have dicts: "set (changed_key_dicts kc m) = {key. \<exists>ref \<in> fst ` set m. parse_record_ref_to_key_dict ref
      (kc_effective_key_strategy kc) (kc_key_column_names kc) = Some key}" for m
    by (force simp: changed_key_dicts_def List.map_filter_def image_iff)
  show ?thesis unfolding dicts corrected_fields_keys by auto
qed

lemma unknown_key_condition:
  assumes "preview_where env cols [k] keys ''UNCHANGED'' = Inr cond" and "[(k, None)] \<in> set keys"
  shows "cond r \<noteq> Some True"
proof -
  have "keys \<noteq> []" using assms(2) by auto
  let ?tuples = "map_ok (\<lambda>key. map_ok (\<lambda>c. or_raise KeyError (map_of key c)) [k]) keys"
  have where_eq: "preview_where env cols [k] keys ''UNCHANGED'' = (case ?tuples of Inl e \<Rightarrow> Inl e
      | Inr tuples \<Rightarrow> (case in_keys env cols [k] tuples of Inl e \<Rightarrow> Inl e | Inr p \<Rightarrow> Inr (\<lambda>r. map_option Not (p r))))"
    using \<open>keys \<noteq> []\<close> by (simp add: preview_where_def del: map_ok.simps split: sum.split)
  obtain tuples where tuples: "?tuples = Inr tuples"
    using assms(1) unfolding where_eq by (cases ?tuples) (simp_all del: map_ok.simps)
  obtain p where p: "in_keys env cols [k] tuples = Inr p"
    using assms(1) unfolding where_eq tuples by (cases "in_keys env cols [k] tuples") simp_all
  have cond: "cond = (\<lambda>r. map_option Not (p r))"
    using assms(1) unfolding where_eq tuples by (simp add: p)
  from tuples obtain tuple where "tuple \<in> set tuples"
      "map_ok (\<lambda>c. or_raise KeyError (map_of [(k, None)] c)) [k] = Inr tuple"
    using list_all2_member [OF _ assms(2)] unfolding map_ok_Inr by meson
  then have "[None] \<in> set tuples" by auto
  let ?row = "\<lambda>vs. map_ok (\<lambda>(c, v). equals_key env cols c v) (zip [k] vs)"
  obtain conds where conds: "map_ok ?row tuples = Inr conds"
    using p unfolding in_keys_def by (cases "map_ok ?row tuples") simp_all
  have p_eq: "p = (\<lambda>r. foldr tv_or (map (\<lambda>cs. foldr tv_and (map (\<lambda>p. p r) cs) (Some True)) conds) (Some False))"
    using p by (simp add: in_keys_def conds)
  from conds \<open>[None] \<in> set tuples\<close> obtain cs where "cs \<in> set conds" "?row [None] = Inr cs"
    using list_all2_member unfolding map_ok_Inr by meson
  then have "(\<lambda>_. None) = hd cs \<and> length cs = 1" "cs \<in> set conds"
    by (auto simp: equals_key_def split: option.splits)
  then have "foldr tv_and (map (\<lambda>p. p r) cs) (Some True) = None" for r
    by (cases cs) (auto simp: tv_and_def)
  then have "None \<in> set (map (\<lambda>cs. foldr tv_and (map (\<lambda>p. p r) cs) (Some True)) conds)" for r
    using \<open>cs \<in> set conds\<close> unfolding set_map by (metis image_eqI)
  then have "p r \<noteq> Some False" for r unfolding p_eq by (rule foldr_tv_or_unknown)
  then show ?thesis by (auto simp: cond) (metis (full_types))
qed

text \<open>One corrected row whose key is NULL empties the UNCHANGED preview of a table with a single
  key column: the condition compares with NULL, so no row at all is reported as unchanged.\<close>

theorem null_key_empties_unchanged_preview:
  assumes "preview_materialized env run ''UNCHANGED'' limit offset d = Inr p"
    and "get_staging_run d run = Some s" and "get_dataset d (sr_dataset_id s) = Some ds"
    and "kc_key_column_names (resolve_key_context ds d) = [k]"
    and "r \<in> set (records_of run d)"
    and "parse_record_ref_to_key_dict (srec_record_ref r) (kc_effective_key_strategy (resolve_key_context ds d)) [k] =
      Some [(k, None)]"
  shows "mp_total_rows p = 0 \<and> \<not> mp_has_more p"
proof -
  let ?keys = "changed_key_dicts (resolve_key_context ds d) (corrected_fields_by_record_ref (records_of run d))"
  from assms(1-4) obtain cols cond and t :: staging_table where
    cond: "preview_where env cols [k] ?keys ''UNCHANGED'' = Inr cond" and "0 \<le> offset"
    and p: "mp_total_rows p = int (length (filter (\<lambda>r. cond r = Some True) (stab_rows t)))"
      "mp_has_more p = (offset + int (length (mp_rows p)) < mp_total_rows p)"
    by (auto simp: preview_materialized_def get_materialized_def staging_get_def Let_def
        split: sum.splits option.splits if_splits)
  have "[(k, None)] \<in> set ?keys" using assms(4-6) by (auto simp: changed_key_dicts_set)
  with unknown_key_condition [OF cond] have "filter (\<lambda>r. cond r = Some True) (stab_rows t) = []" by simp
  with p \<open>0 \<le> offset\<close> show ?thesis by simp
qed

section \<open>Examples\<close>

text \<open>
  The sample dataset with a queued build: the record of the row with the key \<open>ref\<close> carries the
  corrected fields \<open>fs\<close>.
\<close>

definition queued_run :: staging_run where
  "queued_run = (new_staging_run 40 12 1 1 1 5)\<lparr>sr_status := SR_READY, sr_record_count := 1,
     sr_materialization_phase := Some PH_QUEUED\<rparr>"

definition correction_of :: "string \<Rightarrow> string \<Rightarrow> corrected_field" where
  "correction_of c v = \<lparr>cf_column_name = Some c, cf_original_value = None, cf_final_value = v, cf_issue_id = 13\<rparr>"

definition queued_record :: "string \<Rightarrow> corrected_field list \<Rightarrow> staging_record" where
  "queued_record ref fs = \<lparr>srec_id = 41, srec_staging_run_id = 40, srec_record_ref = ref, srec_row_snapshot = [],
     srec_corrected_fields = fs, srec_source_row_hash_at_validation = ''h'',
     srec_source_row_hash_at_staging = None, srec_source_drift_status = UNCHANGED,
     srec_source_drift_fields = None, srec_created_at = 5\<rparr>"

definition queued_job :: job where
  "queued_job = new_job 42 ''STAGING_BUILD'' ''STAGING_RUN'' 40 1 5"

definition queued_db :: "string \<Rightarrow> corrected_field list \<Rightarrow> db" where
  "queued_db ref fs = empty_db\<lparr>db_next := 43, connection_types := [sample_connection_type ''POSTGRESQL''],
     connections := [sample_connection], schemas := [sample_schema], datasets := [sample_dataset],
     columns := [sample_column 3 ''k'' ''STRING'' 1, sample_column 2 ''c'' ''STRING'' 2],
     dataset_key_columns := [\<lparr>dkc_dataset_id = 1, dkc_column_id = 3, dkc_ordinal = 1, dkc_created_at = 0\<rparr>],
     staging_runs := [queued_run], staging_records := [queued_record ref fs], jobs := [queued_job]\<rparr>"

lemma queued_in_flight: "in_flight 42 40 queued_job queued_run (queued_db ref fs)"
  by code_simp

lemma queued_ready_result:
  "snd (run_staging_materialization (sample_env sample_rows) default_settings 42 40 (\<lambda>_. False) 6
     (queued_db ''A'' [correction_of ''c'' ''x''])) = Inr (MatReady (Some 2))"
  by code_simp

lemma queued_ready:
  "run_staging_materialization (sample_env sample_rows) default_settings 42 40 (\<lambda>_. False) 6
     (queued_db ''A'' [correction_of ''c'' ''x'']) =
   (fst (run_staging_materialization (sample_env sample_rows) default_settings 42 40 (\<lambda>_. False) 6
     (queued_db ''A'' [correction_of ''c'' ''x''])), Inr (MatReady (Some 2)))"
  by (metis prod.collapse queued_ready_result)

theorem materialization_resolves_witness:
  "\<exists>d' r. run_staging_materialization (sample_env sample_rows) default_settings 42 40 (\<lambda>_. False) 6
     (queued_db ''A'' []) = (d', Inr r)"
  using materialization_resolves [OF queued_in_flight] by blast

theorem materialized_table_is_overlay_witness:
  "\<exists>final t. get_table t (fst (run_staging_materialization (sample_env sample_rows) default_settings 42 40 (\<lambda>_. False) 6
     (queued_db ''A'' [correction_of ''c'' ''x'']))) = Some final \<and> length (stab_rows final) = 2"
  using materialized_table_is_overlay [OF queued_in_flight queued_ready]
  by (auto simp: Let_def)



theorem cancelled_queued_build_stays_queued_witness:
  "\<exists>d1. cancel 42 6 (queued_db ''A'' []) = (d1, Inr 42) \<and> staging_runs d1 = [queued_run] \<and>
     run_staging_materialization (sample_env sample_rows) default_settings 42 40 (\<lambda>_. False) 7 d1 =
       (d1, Inr (MatStatus JOB_CANCELLED))"
proof -
  have "get_job (queued_db ''A'' []) 42 = Some queued_job" "job_status queued_job = JOB_QUEUED"
    "job_type queued_job = ''STAGING_BUILD''" "snd (cancel 42 6 (queued_db ''A'' [])) = Inr 42"
    "staging_runs (queued_db ''A'' []) = [queued_run]"
    by code_simp+
  then show ?thesis
    using cancelled_queued_build_stays_queued by (metis prod.collapse)
qed

text \<open>The same with a NULL key, read after the build.\<close>

definition built_db :: db where
  "built_db = (queued_db NULL_SENTINEL [])\<lparr>
     staging_runs := [queued_run\<lparr>sr_destination_schema := Some ''s'', sr_destination_table := Some ''t''\<rparr>],
     staging_tables := [(qualified_table ''s'' ''t'', \<lparr>stab_columns = [(''k'', ''TEXT''), (''c'', ''TEXT'')],
       stab_rows = [[(''k'', PyStr ''A''), (''c'', PyNone)]]\<rparr>)]\<rparr>"

theorem null_key_empties_unchanged_preview_witness:
  "\<exists>p. preview_materialized (sample_env []) 40 ''UNCHANGED'' 10 0 built_db = Inr p \<and> mp_total_rows p = 0"
proof -
  let ?r = "queued_record NULL_SENTINEL []"
  have "get_staging_run built_db 40 = Some (queued_run\<lparr>sr_destination_schema := Some ''s'',
      sr_destination_table := Some ''t''\<rparr>)" by code_simp
  moreover have "get_dataset built_db (sr_dataset_id (queued_run\<lparr>sr_destination_schema := Some ''s'',
      sr_destination_table := Some ''t''\<rparr>)) = Some sample_dataset" by code_simp
  moreover have "kc_key_column_names (resolve_key_context sample_dataset built_db) = [''k'']" by code_simp
  moreover have "?r \<in> set (records_of 40 built_db)"
    by (simp add: records_of_def built_db_def queued_db_def queued_record_def)
  moreover have "parse_record_ref_to_key_dict (srec_record_ref ?r)
      (kc_effective_key_strategy (resolve_key_context sample_dataset built_db)) [''k''] = Some [(''k'', None)]"
    by code_simp
  moreover obtain p where "preview_materialized (sample_env []) 40 ''UNCHANGED'' 10 0 built_db = Inr p"
  proof -
    have "\<not> isl (preview_materialized (sample_env []) 40 ''UNCHANGED'' 10 0 built_db)" by code_simp
    then show ?thesis using that by (cases "preview_materialized (sample_env []) 40 ''UNCHANGED'' 10 0 built_db") auto
  qed
  ultimately show ?thesis using null_key_empties_unchanged_preview by blast
qed

end
