(* ===== verification/Publishing.thy ===== *)
theory Publishing
  imports Staging "HOL-Library.Sublist"
begin

text \<open>
  Publishing: \<open>app/modules/publishing/service.py\<close>, \<open>tasks.py\<close>, \<open>run_options.py\<close> and
  \<open>file_export.py\<close>. A publish run of a staging run is queued PENDING, waits there while source
  drift is not acknowledged, and writes the staged rows to a file of the export directory, one
  JSON object per line. The overwrite option is a Redis flag (without its time to live); files
  and flags outlive a rollback. The file system is a parameter.
\<close>

section \<open>Run options\<close>

definition set_overwrite :: "uuid \<Rightarrow> bool \<Rightarrow> db \<Rightarrow> db" where
  "set_overwrite i b d = d\<lparr>overwrite_flags := dict_set i b (overwrite_flags d)\<rparr>"

definition get_overwrite :: "uuid \<Rightarrow> db \<Rightarrow> bool" where
  "get_overwrite i d = (case map_of (overwrite_flags d) i of None \<Rightarrow> False | Some b \<Rightarrow> b)"

definition clear_overwrite :: "uuid \<Rightarrow> db \<Rightarrow> db" where
  "clear_overwrite i d = d\<lparr>overwrite_flags := filter (\<lambda>f. fst f \<noteq> i) (overwrite_flags d)\<rparr>"

section \<open>The service\<close>

definition SUPPORTED_TARGET_TYPES :: "string list" where
  "SUPPORTED_TARGET_TYPES = [''FILE_EXPORT'']"

definition NON_FAILED_STATUSES :: "publish_status list" where
  "NON_FAILED_STATUSES = [PUB_PENDING, PUB_PUBLISHING, PUB_PUBLISHED]"

definition publishing_get :: "uuid \<Rightarrow> db \<Rightarrow> exn + publish_run" where
  "publishing_get i d = or_raise (NotFound PublishRunNotFoundError) (get_publish_run d i)"

definition upd_publish_run :: "uuid \<Rightarrow> (publish_run \<Rightarrow> publish_run) \<Rightarrow> db \<Rightarrow> db" where
  "upd_publish_run i f d = d\<lparr>publish_runs := upd_row pr_id i f (publish_runs d)\<rparr>"

definition live_publish_runs :: "uuid \<Rightarrow> db \<Rightarrow> publish_run list" where
  "live_publish_runs sr d =
     filter (\<lambda>p. pr_staging_run_id p = sr \<and> pr_status p \<in> set NON_FAILED_STATUSES) (publish_runs d)"

definition new_publish_run :: "uuid \<Rightarrow> uuid \<Rightarrow> uuid \<Rightarrow> string \<Rightarrow> string \<Rightarrow> uuid \<Rightarrow> instant \<Rightarrow> publish_run" where
  "new_publish_run i sr job ty ref actor now =
     \<lparr>pr_id = i, pr_staging_run_id = sr, pr_job_id = Some job, pr_status = PUB_PENDING, pr_target_type = ty,
      pr_target_reference = Some ref, pr_published_record_count = None, pr_drift_acknowledged = False,
      pr_drift_acknowledged_by = None, pr_drift_acknowledged_at = None, pr_error_message = None,
      pr_published_by = Some actor, pr_started_at = None, pr_completed_at = None,
      pr_created_at = now, pr_updated_at = None\<rparr>"

text \<open>
  The row of the publish run takes the next key and its job the one after it; the lineage edge
  is written between them.
\<close>

definition start_publish_run :: "uuid \<Rightarrow> string \<Rightarrow> string \<Rightarrow> uuid \<Rightarrow> instant \<Rightarrow> db \<Rightarrow> db" where
  "start_publish_run sr ty ref actor now d =
     (let i = db_next d;
          d1 = record_edge now (''STAGING_RUN'', sr, ''PUBLISH_RUN'', i, ''PUBLISHED_TO'') (d\<lparr>db_next := Suc i\<rparr>);
          d2 = add_job ''PUBLISH'' ''STAGING_RUN'' sr actor now d1;
          d3 = d2\<lparr>publish_runs := publish_runs d2 @ [new_publish_run i sr (db_next d1) ty ref actor now]\<rparr>
      in audit_by actor ''publish_run.created'' ''PUBLISH_RUN'' i
           (Some [(''staging_run_id'', PyStr (uuid_str sr)), (''target_type'', PyStr ty)]) now d3)"

definition publish_trigger ::
  "uuid \<Rightarrow> string \<Rightarrow> string \<Rightarrow> bool \<Rightarrow> uuid \<Rightarrow> instant \<Rightarrow> (db, uuid) op" where
  "publish_trigger sr ty ref overwrite actor now d =
     attempt d (or_raise (NotFound StagingRunNotFoundError) (get_staging_run d sr)) (\<lambda>s.
     checked d (raise_if (sr_status s \<noteq> SR_READY \<or> \<not> sr_is_current s) (Conflict StagingRunNotEligibleError))
     (checked d (raise_if (ty \<notin> set SUPPORTED_TARGET_TYPES) (Unprocessable TargetTypeNotSupportedError))
     (attempt d (at_most_one MultipleResultsFound (live_publish_runs sr d)) (\<lambda>existing.
      checked d (raise_if (existing \<noteq> None) (Conflict PublishAlreadyInProgressError))
       (returns (set_overwrite (db_next d) overwrite (start_publish_run sr ty ref actor now d)) (db_next d))))))"

definition acknowledge_drift :: "uuid \<Rightarrow> string option \<Rightarrow> uuid \<Rightarrow> instant \<Rightarrow> (db, uuid) op" where
  "acknowledge_drift i comment actor now d =
     attempt d (publishing_get i d) (\<lambda>p.
     attempt d (or_raise AttributeError (get_staging_run d (pr_staging_run_id p))) (\<lambda>s.
     checked d (raise_if (\<not> sr_has_source_drift s) (Conflict NoDriftToAcknowledgeError))
      (let d1 = upd_publish_run i (\<lambda>p. p\<lparr>pr_drift_acknowledged := True, pr_drift_acknowledged_by := Some actor,
                  pr_drift_acknowledged_at := Some now, pr_updated_at := Some now\<rparr>) d;
           note = (case comment of None \<Rightarrow> [] | Some [] \<Rightarrow> [] | Some c \<Rightarrow> [(''comment'', PyStr c)])
       in returns (audit_by actor ''publish_run.drift_acknowledged'' ''PUBLISH_RUN'' i
            (Some ((''staging_run_id'', PyStr (uuid_str (sr_id s))) # note)) now d1) i)))"

section \<open>File export\<close>

type_synonym path = "string list"

text \<open>
  The file system: the working directory, \<open>Path.resolve\<close> (which follows links), what exists
  besides the exported files, creating directories, and writing a text to a file: what is in
  the file afterwards (nothing, when it could not be opened) and the error, if any.
\<close>

record file_system =
  fs_cwd :: path
  fs_resolve :: "path \<Rightarrow> exn + path"
  fs_exists :: "path \<Rightarrow> bool"
  fs_mkdir :: "path \<Rightarrow> exn option"
  fs_write :: "path \<Rightarrow> string \<Rightarrow> string option \<times> exn option"
  fs_read_error :: "path \<Rightarrow> exn option"

text \<open>\<open>Path(s)\<close>: empty parts and \<open>.\<close> are dropped; a leading slash makes it absolute.\<close>

definition path_parts :: "string \<Rightarrow> path" where
  "path_parts s = filter (\<lambda>p. p \<noteq> [] \<and> p \<noteq> ''.'') (py_split CHR ''/'' s)"

definition is_absolute :: "string \<Rightarrow> bool" where
  "is_absolute s = (take 1 s = ''/'')"

definition export_base :: "file_system \<Rightarrow> string \<Rightarrow> exn + path" where
  "export_base fs dir = fs_resolve fs (if is_absolute dir then path_parts dir else fs_cwd fs @ path_parts dir)"

definition resolve_target_path :: "file_system \<Rightarrow> string option \<Rightarrow> string \<Rightarrow> exn + path" where
  "resolve_target_path fs target dir =
     (if target = None \<or> py_strip (the target) = [] then Inl (Unprocessable InvalidTargetPathError)
      else if is_absolute (the target) then Inl (Unprocessable InvalidTargetPathError)
      else (case export_base fs dir of Inl e \<Rightarrow> Inl e | Inr base \<Rightarrow>
        (case fs_mkdir fs base of Some e \<Rightarrow> Inl e | None \<Rightarrow>
        (case fs_resolve fs (base @ path_parts (the target)) of Inl e \<Rightarrow> Inl e | Inr candidate \<Rightarrow>
           if prefix base candidate then Inr candidate else Inl (Unprocessable InvalidTargetPathError)))))"

definition file_at :: "path \<Rightarrow> db \<Rightarrow> string option" where
  "file_at p d = map_of (exported_files d) p"

definition set_file :: "path \<Rightarrow> string \<Rightarrow> db \<Rightarrow> db" where
  "set_file p text d = d\<lparr>exported_files := dict_set p text (exported_files d)\<rparr>"

definition path_exists :: "file_system \<Rightarrow> path \<Rightarrow> db \<Rightarrow> bool" where
  "path_exists fs p d \<longleftrightarrow> file_at p d \<noteq> None \<or> fs_exists fs p"

definition check_overwrite_allowed :: "file_system \<Rightarrow> path \<Rightarrow> bool \<Rightarrow> db \<Rightarrow> exn option" where
  "check_overwrite_allowed fs p overwrite d =
     raise_if (path_exists fs p d \<and> \<not> overwrite) (Conflict TargetAlreadyExistsError)"

text \<open>
  A \<open>row_snapshot\<close> as it comes back from its JSONB column: the key \<open>None\<close> has become \<open>null\<close>, and
  of equal keys the last one is kept. \<open>json.dumps(row, sort_keys=True)\<close> raises for a value JSON
  does not have.
\<close>

definition jsonb_object :: "(string option \<times> pyval) list \<Rightarrow> row" where
  "jsonb_object kvs = fold (\<lambda>(k, v). dict_set (case k of None \<Rightarrow> ''null'' | Some n \<Rightarrow> n) v) kvs []"

fun json_value :: "pyval \<Rightarrow> bool" where
  "json_value (PyDec _) = False"
| "json_value (PyDate _ _ _) = False"
| "json_value (PyDateTime _ _ _ _ _ _ _) = False"
| "json_value (PyBytes _) = False"
| "json_value (PyList vs) = list_all json_value vs"
| "json_value (PyDict kvs) = list_all (\<lambda>(k, v). json_value v) kvs"
| "json_value _ = True"

definition snapshot_line :: "staging_record \<Rightarrow> string" where
  "snapshot_line r = json_write '', '' '': '' (PyDict (jsonb_object (srec_row_snapshot r))) @ [char_of (10::nat)]"

definition writable_snapshot :: "staging_record \<Rightarrow> bool" where
  "writable_snapshot r = json_value (PyDict (jsonb_object (srec_row_snapshot r)))"

text \<open>Reading in text mode: \<open>\\n\<close>, \<open>\\r\<close> and \<open>\\r\\n\<close> end a line; the number of lines.\<close>

fun universal_newlines :: "string \<Rightarrow> string" where
  "universal_newlines [] = []"
| "universal_newlines (c # cs) =
     (if code_of c = 13 then char_of (10::nat) #
        (case cs of [] \<Rightarrow> [] | x # xs \<Rightarrow> if code_of x = 10 then universal_newlines xs else universal_newlines cs)
      else c # universal_newlines cs)"

definition line_count :: "string \<Rightarrow> nat" where
  "line_count s = (let t = universal_newlines s; n = length (filter (\<lambda>c. code_of c = 10) t)
     in if t = [] \<or> code_of (last t) = 10 then n else Suc n)"

definition write_row_snapshots :: "file_system \<Rightarrow> path \<Rightarrow> staging_record list \<Rightarrow> (db, nat) op" where
  "write_row_snapshots fs p rs d =
     checked d (fs_mkdir fs (butlast p))
      (let ok = takeWhile writable_snapshot rs in
       (case fs_write fs p (concat (map snapshot_line ok)) of (landed, err) \<Rightarrow>
          let d1 = (case landed of None \<Rightarrow> d | Some text \<Rightarrow> set_file p text d) in
          checked d1 err
          (checked d1 (raise_if (ok \<noteq> rs) (Conv TypeError))
          (checked d1 (fs_read_error fs p)
            (returns d1 (line_count (case landed of None \<Rightarrow> [] | Some text \<Rightarrow> text)))))))"

section \<open>The task\<close>

definition OSError :: exn where
  "OSError = OtherException ''OSError''"

definition WRITE_FAILURE_ERRORS :: "exn list" where
  "WRITE_FAILURE_ERRORS = [Unprocessable InvalidTargetPathError, Conflict TargetAlreadyExistsError, OSError]"

datatype publish_result = PubStatus job_status | PubDriftNotAcknowledged | PubFailed exn | PubPublished nat

definition publish_resolved :: "job_status \<Rightarrow> publish_status \<Rightarrow> bool" where
  "publish_resolved js ps \<longleftrightarrow>
     js \<in> {JOB_CANCELLED, JOB_COMPLETED, JOB_FAILED} \<or> ps \<in> {PUB_PUBLISHED, PUB_FAILED}"

definition start_publishing :: "job \<Rightarrow> publish_run \<Rightarrow> instant \<Rightarrow> db \<Rightarrow> db" where
  "start_publishing j p now d = upd_publish_run (pr_id p)
     (\<lambda>p. p\<lparr>pr_status := PUB_PUBLISHING, pr_started_at := Some now, pr_updated_at := Some now\<rparr>)
     (fst (mark_running (job_id j) now d))"

definition publish_fail :: "job \<Rightarrow> publish_run \<Rightarrow> exn \<Rightarrow> instant \<Rightarrow> db \<Rightarrow> db" where
  "publish_fail j p e now d =
     (let d1 = fst (mark_failed (job_id j) (TextOf e) now d);
          d2 = upd_publish_run (pr_id p) (\<lambda>p. p\<lparr>pr_status := PUB_FAILED, pr_error_message := Some (TextOf e),
                 pr_completed_at := Some now, pr_updated_at := Some now\<rparr>) d1
      in audit_record (job_actor j d) ''USER'' ''publish_run.failed'' ''PUBLISH_RUN'' (pr_id p) None None
           (Some [(''staging_run_id'', PyStr (uuid_str (pr_staging_run_id p))),
                  (''target_type'', PyStr (pr_target_type p))]) now d2)"

definition publish_finish :: "job \<Rightarrow> publish_run \<Rightarrow> nat \<Rightarrow> instant \<Rightarrow> instant \<Rightarrow> db \<Rightarrow> db" where
  "publish_finish j p n started now d =
     (let d1 = upd_publish_run (pr_id p) (\<lambda>p. p\<lparr>pr_status := PUB_PUBLISHED,
                 pr_published_record_count := Some (int n), pr_completed_at := Some now, pr_updated_at := Some now\<rparr>) d;
          d2 = fst (mark_completed (job_id j) None None now d1)
      in audit_record (job_actor j d) ''USER'' ''publish_run.completed'' ''PUBLISH_RUN'' (pr_id p) None None
           (Some [(''staging_run_id'', PyStr (uuid_str (pr_staging_run_id p))),
                  (''target_type'', PyStr (pr_target_type p)), (''published_record_count'', PyInt (int n)),
                  (''duration'', PyInt (duration_ms started now))]) now d2)"

definition write_export :: "file_system \<Rightarrow> settings \<Rightarrow> publish_run \<Rightarrow> (db, nat) op" where
  "write_export fs cfg p d =
     attempt d (resolve_target_path fs (pr_target_reference p) (PUBLISH_FILE_EXPORT_DIRECTORY cfg)) (\<lambda>path.
     checked d (check_overwrite_allowed fs path (get_overwrite (pr_id p) d) d)
       (write_row_snapshots fs path (records_of (pr_staging_run_id p) d) d))"

definition run_publish ::
  "file_system \<Rightarrow> settings \<Rightarrow> uuid \<Rightarrow> uuid \<Rightarrow> instant \<Rightarrow> instant \<Rightarrow> (db, publish_result) op" where
  "run_publish fs cfg jobid prid now stop d =
     attempt d (jobs_get jobid d) (\<lambda>j.
     (case get_publish_run d prid of
        None \<Rightarrow> returns d (PubStatus (job_status j))
      | Some p \<Rightarrow>
          if publish_resolved (job_status j) (pr_status p)
          then returns (clear_overwrite prid d) (PubStatus (job_status j))
          else attempt d (or_raise AttributeError (get_staging_run d (pr_staging_run_id p))) (\<lambda>s.
            if sr_has_source_drift s \<and> \<not> pr_drift_acknowledged p then returns d PubDriftNotAcknowledged
            else let d1 = start_publishing j p now d in
              (case write_export fs cfg p d1 of
                 (d2, Inr n) \<Rightarrow>
                   returns (clear_overwrite prid (publish_finish j p n now stop d2)) (PubPublished n)
               | (d2, Inl e) \<Rightarrow>
                   if e \<in> set WRITE_FAILURE_ERRORS
                   then returns (clear_overwrite prid (publish_fail j p e stop d2)) (PubFailed e)
                   else raises d2 e))))"

lemmas publishing_op_defs [op_defs] = publish_trigger_def acknowledge_drift_def run_publish_def

end
