(* ===== verification/PublishedFiles.thy ===== *)
theory PublishedFiles
  imports Publishing
begin

text \<open>
  What publishing promises: who may publish, where it writes, what the file holds, and when a
  staging run can no longer be published.
\<close>

section \<open>Lines of text\<close>

definition one_line :: "string \<Rightarrow> bool" where
  "one_line s \<longleftrightarrow> (\<forall>c \<in> set s. code_of c \<noteq> 10 \<and> code_of c \<noteq> 13)"

lemma one_line_append [simp]: "one_line (s @ t) \<longleftrightarrow> one_line s \<and> one_line t"
  by (auto simp: one_line_def)

lemma one_line_Nil [simp]: "one_line []"
  by (simp add: one_line_def)

lemma one_line_subset: "set s \<subseteq> set t \<Longrightarrow> one_line t \<Longrightarrow> one_line s"
  by (auto simp: one_line_def)

lemma one_line_take [simp]: "one_line t \<Longrightarrow> one_line (take n t)"
  by (erule one_line_subset [rotated]) (rule set_take_subset)

lemma one_line_drop [simp]: "one_line t \<Longrightarrow> one_line (drop n t)"
  by (erule one_line_subset [rotated]) (rule set_drop_subset)

lemma one_line_Cons: "one_line (c # s) \<longleftrightarrow> code_of c \<noteq> 10 \<and> code_of c \<noteq> 13 \<and> one_line s"
  by (auto simp: one_line_def)

lemma one_line_replicate [simp]: "one_line (replicate n c) \<longleftrightarrow> n = 0 \<or> one_line [c]"
  by (auto simp: one_line_def)

lemma code_of_char_of [simp]: "code_of (char_of n) = n mod 256"
  by (simp add: code_of_def)

lemma one_line_show_nat [simp]: "one_line (show_nat n)"
proof (induction n rule: show_nat.induct)
  case (1 n)
  have "one_line [digit_char k]" if "k < 10" for k
    using that by (simp add: one_line_def digit_char_def)
  with 1 show ?case by (subst show_nat.simps) simp
qed

lemma one_line_show_int [simp]: "one_line (show_int i)"
  by (auto simp: show_int_def one_line_Cons code_of_def)

lemma one_line_hex [simp]: "one_line (hex_digits k n)"
proof (induction k arbitrary: n)
  case (Suc k)
  have "one_line [hex_char m]" if "m < 16" for m using that by (auto simp: one_line_def hex_char_def)
  then have "one_line [hex_char (n mod 16)]" by simp
  with Suc show ?case by simp
qed simp

lemma one_line_strip_zeros [simp]: "one_line s \<Longrightarrow> one_line (strip_zeros s)"
  unfolding strip_zeros_def by (erule one_line_subset [rotated]) (rule set_py_rstrip_by)

lemma one_line_repr_pos: "one_line (repr_pos_float x)"
  by (auto simp: repr_pos_float_def pad_left_def one_line_Cons code_of_def Let_def split: prod.split)

lemma one_line_repr_float [simp]: "one_line (repr_float f)"
  by (cases f) (auto simp: one_line_repr_pos one_line_Cons code_of_def)

lemma one_line_json_float [simp]: "one_line (json_float f)"
  by (cases f) (auto simp: json_float_def one_line_Cons code_of_def simp del: repr_float.simps)

lemma one_line_json_char: "one_line (json_char c)"
  by (auto simp: json_char_def Let_def one_line_Cons code_of_def)

lemma one_line_json_string [simp]: "one_line (json_string s)"
proof -
  have "one_line (concat (map json_char s))"
    using one_line_json_char by (induction s) auto
  then show ?thesis by (simp add: json_string_def one_line_Cons code_of_def)
qed

lemma one_line_join: "one_line sep \<Longrightarrow> (\<And>x. x \<in> set xs \<Longrightarrow> one_line x) \<Longrightarrow> one_line (py_join sep xs)"
  by (induction sep xs rule: py_join.induct) auto

lemma one_line_json:
  assumes "one_line sep" "one_line colon" shows "one_line (json_write sep colon v)"
  using assms
proof (induction sep colon v rule: json_write.induct)
  case (6 sep colon vs)
  then have "one_line (py_join sep (map (json_write sep colon) vs))" by (intro one_line_join) auto
  then show ?case by (simp add: one_line_Cons code_of_def)
next
  case (7 sep colon kvs)
  have "one_line x" if "x \<in> snd ` set (sort_items (map (\<lambda>(k, v). (k, json_string k @ colon @ json_write sep colon v)) kvs))" for x
    using that 7 by (auto simp: sort_items_def)
  then have "one_line (py_join sep (map snd (sort_items (map (\<lambda>(k, v).
      (k, json_string k @ colon @ json_write sep colon v)) kvs))))"
    using 7 by (intro one_line_join) auto
  then show ?case by (simp add: one_line_Cons code_of_def)
qed (simp_all add: one_line_Cons code_of_def)

lemma universal_one_line: "one_line s \<Longrightarrow> universal_newlines (s @ char_of (10::nat) # t) =
    s @ char_of (10::nat) # universal_newlines t"
  by (induction s) (auto simp: one_line_Cons)

lemma line_count_lines:
  assumes "\<And>x. x \<in> set xs \<Longrightarrow> one_line x"
  shows "line_count (concat (map (\<lambda>x. x @ [char_of (10::nat)]) xs)) = length xs"
proof -
  let ?nl = "char_of (10::nat)"
  have same: "universal_newlines (concat (map (\<lambda>x. x @ [?nl]) xs)) = concat (map (\<lambda>x. x @ [?nl]) xs)"
    using assms by (induction xs) (auto simp: universal_one_line)
  have "length (filter (\<lambda>c. code_of c = 10) (concat (map (\<lambda>x. x @ [?nl]) xs))) = length xs"
    using assms
  proof (induction xs)
    case (Cons x xs)
    then have "filter (\<lambda>c. code_of c = 10) x = []" by (auto simp: filter_empty_conv one_line_def)
    with Cons show ?case by simp
  qed simp
  moreover have "code_of (last (concat (map (\<lambda>x. x @ [?nl]) xs))) = 10" if "xs \<noteq> []"
    using that by (induction xs) (auto simp: last_append)
  ultimately show ?thesis unfolding line_count_def same Let_def by (cases "xs = []") auto
qed

lemma line_count_snapshots: "line_count (concat (map snapshot_line rs)) = length rs"
proof -
  have "one_line (json_write '', '' '': '' v)" for v by (rule one_line_json) (simp_all add: one_line_def code_of_def)
  then have "line_count (concat (map (\<lambda>x. x @ [char_of (10::nat)]) (map (\<lambda>r.
      json_write '', '' '': '' (PyDict (jsonb_object (srec_row_snapshot r)))) rs))) = length rs"
    by (subst line_count_lines) (auto simp del: json_write.simps)
  then show ?thesis by (simp add: snapshot_line_def [abs_def] comp_def del: json_write.simps)
qed

section \<open>Triggering\<close>

lemma upd_publish_run_frame [simp]:
  "staging_runs (upd_publish_run i f d) = staging_runs d" "staging_records (upd_publish_run i f d) = staging_records d"
  "jobs (upd_publish_run i f d) = jobs d" "exported_files (upd_publish_run i f d) = exported_files d"
  "overwrite_flags (upd_publish_run i f d) = overwrite_flags d"
  by (simp_all add: upd_publish_run_def)

lemma get_upd_publish_run:
  assumes "\<And>p. pr_id (f p) = pr_id p"
  shows "get_publish_run (upd_publish_run i f d) k =
    (if i = k then map_option f (get_publish_run d k) else get_publish_run d k)"
  using assms by (simp add: upd_publish_run_def find_row_upd_row)

lemma start_publish_frame [simp]:
  "staging_runs (start_publish_run sr ty ref actor now d) = staging_runs d"
  "staging_records (start_publish_run sr ty ref actor now d) = staging_records d"
  "exported_files (start_publish_run sr ty ref actor now d) = exported_files d"
  "overwrite_flags (start_publish_run sr ty ref actor now d) = overwrite_flags d"
  by (simp_all add: start_publish_run_def Let_def add_job_def)

lemma start_publish_rows:
  obtains k where "db_next d < k"
    "publish_runs (start_publish_run sr ty ref actor now d) =
      publish_runs d @ [new_publish_run (db_next d) sr k ty ref actor now]"
    "jobs (start_publish_run sr ty ref actor now d) =
      jobs d @ [new_job k ''PUBLISH'' ''STAGING_RUN'' sr actor now]"
proof -
  let ?d1 = "record_edge now (''STAGING_RUN'', sr, ''PUBLISH_RUN'', db_next d, ''PUBLISHED_TO'')
    (d\<lparr>db_next := Suc (db_next d)\<rparr>)"
  have "db_next d < db_next ?d1" using record_edge_next [of "d\<lparr>db_next := Suc (db_next d)\<rparr>"] by (simp add: Suc_le_eq)
  then show thesis by (rule that) (simp_all add: start_publish_run_def Let_def add_job_def)
qed

lemma live_publish_runs_append:
  "publish_runs e = publish_runs d @ [p] \<Longrightarrow> live_publish_runs sr e =
     live_publish_runs sr d @ (if pr_staging_run_id p = sr \<and> pr_status p \<in> set NON_FAILED_STATUSES then [p] else [])"
  by (simp add: live_publish_runs_def)

lemma set_overwrite_frame [simp]:
  "staging_runs (set_overwrite i b d) = staging_runs d" "staging_records (set_overwrite i b d) = staging_records d"
  "publish_runs (set_overwrite i b d) = publish_runs d" "jobs (set_overwrite i b d) = jobs d"
  "exported_files (set_overwrite i b d) = exported_files d"
  "live_publish_runs sr (set_overwrite i b d) = live_publish_runs sr d"
  by (simp_all add: set_overwrite_def live_publish_runs_def)

text \<open>C26.
  A publish is accepted exactly for the current READY attempt, a supported target type and no
  other publish run that did not fail; it then queues one PENDING run with its job, which
  becomes the only live one, and remembers the overwrite option. A refused publish changes
  nothing, and an accepted one leaves the staging run and its records alone.\<close>

theorem publish_trigger_spec:
  assumes keys: "keys_ok pr_id (db_next d) (publish_runs d)"
  shows "(succeeds (publish_trigger sr ty ref overwrite actor now d) \<longleftrightarrow>
      (\<exists>s. get_staging_run d sr = Some s \<and> sr_status s = SR_READY \<and> sr_is_current s) \<and>
      ty = ''FILE_EXPORT'' \<and> live_publish_runs sr d = []) \<and>
    (\<not> succeeds (publish_trigger sr ty ref overwrite actor now d) \<longrightarrow>
      fst (publish_trigger sr ty ref overwrite actor now d) = d) \<and>
    (\<forall>d' i. publish_trigger sr ty ref overwrite actor now d = (d', Inr i) \<longrightarrow>
      (\<exists>p j. get_publish_run d' i = Some p \<and> live_publish_runs sr d' = [p] \<and> pr_status p = PUB_PENDING \<and>
        pr_target_reference p = Some ref \<and> \<not> pr_drift_acknowledged p \<and> pr_job_id p = Some (job_id j) \<and>
        jobs d' = jobs d @ [j] \<and> job_status j = JOB_QUEUED \<and> job_type j = ''PUBLISH'' \<and> job_entity_id j = sr) \<and>
      get_overwrite i d' = overwrite \<and> staging_runs d' = staging_runs d \<and>
      staging_records d' = staging_records d \<and> exported_files d' = exported_files d)"
proof -
  let ?r = "publish_trigger sr ty ref overwrite actor now d"
  have ok: "succeeds ?r \<longleftrightarrow> (\<exists>s. get_staging_run d sr = Some s \<and> sr_status s = SR_READY \<and> sr_is_current s) \<and>
      ty = ''FILE_EXPORT'' \<and> live_publish_runs sr d = []"
    by (auto simp: publish_trigger_def succeeds_attempt succeeds_checked SUPPORTED_TARGET_TYPES_def
        split: option.splits)
  have atomic: "\<not> succeeds ?r \<longrightarrow> fst ?r = d"
    by (intro impI atomicD [of d]) (simp_all add: publish_trigger_def atomic)
  have effect: "(\<exists>p j. get_publish_run d' i = Some p \<and> live_publish_runs sr d' = [p] \<and> pr_status p = PUB_PENDING \<and>
        pr_target_reference p = Some ref \<and> \<not> pr_drift_acknowledged p \<and> pr_job_id p = Some (job_id j) \<and>
        jobs d' = jobs d @ [j] \<and> job_status j = JOB_QUEUED \<and> job_type j = ''PUBLISH'' \<and> job_entity_id j = sr) \<and>
      get_overwrite i d' = overwrite \<and> staging_runs d' = staging_runs d \<and>
      staging_records d' = staging_records d \<and> exported_files d' = exported_files d"
    if "?r = (d', Inr i)" for d' i
  proof -
    let ?s = "start_publish_run sr ty ref actor now d"
    have d': "d' = set_overwrite (db_next d) overwrite ?s" and i: "i = db_next d"
      and free: "live_publish_runs sr d = []"
      using that by (auto simp: publish_trigger_def attempt_returns checked_returns)
    obtain k where rows: "publish_runs ?s = publish_runs d @ [new_publish_run (db_next d) sr k ty ref actor now]"
      "jobs ?s = jobs d @ [new_job k ''PUBLISH'' ''STAGING_RUN'' sr actor now]"
      using start_publish_rows .
    let ?p = "new_publish_run (db_next d) sr k ty ref actor now"
    have p: "pr_id ?p = db_next d" "pr_staging_run_id ?p = sr" "pr_status ?p = PUB_PENDING"
      by (simp_all add: new_publish_run_def)
    have "find_row pr_id (publish_runs d) (db_next d) = None"
      using keys by (auto simp: find_row_None keys_ok_def)
    then have "get_publish_run d' i = Some ?p"
      using rows p by (simp add: d' i find_row_append) (simp add: find_row_def)
    moreover have "live_publish_runs sr d' = [?p]"
      using live_publish_runs_append [OF rows(1)] free p by (simp add: d' NON_FAILED_STATUSES_def)
    moreover have "get_overwrite i d' = overwrite" by (simp add: d' i get_overwrite_def set_overwrite_def)
    ultimately show ?thesis
      using rows(2) p
      by (intro conjI exI [of _ ?p] exI [of _ "new_job k ''PUBLISH'' ''STAGING_RUN'' sr actor now"])
         (simp_all add: d' new_publish_run_def new_job_def)
  qed
  from ok atomic effect show ?thesis by blast
qed

section \<open>The task\<close>

lemma file_at_frame [simp]:
  "file_at q (start_publishing j p now d) = file_at q d"
  "file_at q (publish_fail j p e now d) = file_at q d"
  "file_at q (publish_finish j p n started now d) = file_at q d"
  "file_at q (clear_overwrite i d) = file_at q d"
  by (simp_all add: file_at_def start_publishing_def publish_fail_def publish_finish_def clear_overwrite_def
      mark_defs Let_def)

lemma start_publishing_frame [simp]:
  "staging_records (start_publishing j p now d) = staging_records d"
  "staging_runs (start_publishing j p now d) = staging_runs d"
  "get_overwrite i (start_publishing j p now d) = get_overwrite i d"
  "records_of run (start_publishing j p now d) = records_of run d"
  by (simp_all add: start_publishing_def mark_defs get_overwrite_def records_of_def)

lemma file_at_set_file [simp]: "file_at q (set_file p text d) = (if q = p then Some text else file_at q d)"
  by (simp add: file_at_def set_file_def)

lemma file_op_frame [simp]:
  "publish_runs (set_file p text d) = publish_runs d" "jobs (set_file p text d) = jobs d"
  "staging_runs (set_file p text d) = staging_runs d" "staging_records (set_file p text d) = staging_records d"
  "publish_runs (clear_overwrite i d) = publish_runs d" "jobs (clear_overwrite i d) = jobs d"
  "staging_runs (clear_overwrite i d) = staging_runs d" "staging_records (clear_overwrite i d) = staging_records d"
  by (simp_all add: set_file_def clear_overwrite_def)

lemma publish_finish_effect:
  assumes "get_job d (job_id j) = Some j0" and "get_publish_run d (pr_id p) = Some p0"
  shows "get_publish_run (publish_finish j p n started now d) (pr_id p) = Some (p0\<lparr>pr_status := PUB_PUBLISHED,
      pr_published_record_count := Some (int n), pr_completed_at := Some now, pr_updated_at := Some now\<rparr>)"
    and "get_job (publish_finish j p n started now d) (job_id j) = Some (j0\<lparr>job_status := JOB_COMPLETED,
      job_completed_at := Some now, job_updated_at := Some now, job_error_message := None\<rparr>)"
proof -
  have "get_job (upd_publish_run (pr_id p) f d) (job_id j) = Some j0" for f using assms(1) by simp
  with assms(2) show "get_publish_run (publish_finish j p n started now d) (pr_id p) = Some (p0\<lparr>pr_status := PUB_PUBLISHED,
      pr_published_record_count := Some (int n), pr_completed_at := Some now, pr_updated_at := Some now\<rparr>)"
    "get_job (publish_finish j p n started now d) (job_id j) = Some (j0\<lparr>job_status := JOB_COMPLETED,
      job_completed_at := Some now, job_updated_at := Some now, job_error_message := None\<rparr>)"
    by (simp_all add: publish_finish_def mark_defs Let_def get_upd_publish_run get_job_marked)
qed

text \<open>Writing changes at most the file it is given.\<close>

lemma write_row_snapshots_other:
  "q \<noteq> p \<Longrightarrow> file_at q (fst (write_row_snapshots fs p rs d)) = file_at q d"
  by (auto simp: write_row_snapshots_def Let_def checked_def split: option.split prod.split)

lemma write_row_snapshots_returns:
  assumes "write_row_snapshots fs p rs d = (d', Inr n)"
    and law: "\<forall>p text landed. fs_write fs p text = (landed, None) \<longrightarrow> landed = Some text"
  shows "d' = set_file p (concat (map snapshot_line rs)) d \<and> n = length rs"
proof -
  let ?ok = "takeWhile writable_snapshot rs"
  obtain landed err where w: "fs_write fs p (concat (map snapshot_line ?ok)) = (landed, err)"
    by (cases "fs_write fs p (concat (map snapshot_line ?ok))")
  have ok: "err = None" "?ok = rs" and d': "d' = (case landed of None \<Rightarrow> d | Some text \<Rightarrow> set_file p text d)"
    "n = line_count (case landed of None \<Rightarrow> [] | Some text \<Rightarrow> text)"
    using assms(1) unfolding write_row_snapshots_def Let_def w checked_returns prod.case by simp_all
  from law w ok have "landed = Some (concat (map snapshot_line rs))" by metis
  with d' show ?thesis by (simp add: line_count_snapshots)
qed

lemma write_export_cases:
  assumes "write_export fs cfg p d = (d', r)"
  obtains e where "d' = d" "r = Inl e" | path where "resolve_target_path fs (pr_target_reference p) (PUBLISH_FILE_EXPORT_DIRECTORY cfg) = Inr path"
    "path_exists fs path d \<longrightarrow> get_overwrite (pr_id p) d"
    "write_row_snapshots fs path (records_of (pr_staging_run_id p) d) d = (d', r)"
  using assms
  by (auto simp: write_export_def check_overwrite_allowed_def attempt_def checked_def raise_if_def raises_def
      split: sum.splits if_splits)

lemma resolve_target_path_inside:
  "resolve_target_path fs target dir = Inr path \<Longrightarrow> \<exists>base. export_base fs dir = Inr base \<and> prefix base path"
  by (auto simp: resolve_target_path_def split: if_splits sum.splits option.splits)

lemma run_publish_writes:
  assumes "run_publish fs cfg jid prid now stop d = (d', r)"
  obtains (same) "\<And>q. file_at q d' = file_at q d" "\<And>n. r \<noteq> Inr (PubPublished n)"
  | (wrote) j p s d2 out where "get_job d jid = Some j" "get_publish_run d prid = Some p"
    "get_staging_run d (pr_staging_run_id p) = Some s" "\<not> publish_resolved (job_status j) (pr_status p)"
    "sr_has_source_drift s \<longrightarrow> pr_drift_acknowledged p"
    "write_export fs cfg p (start_publishing j p now d) = (d2, out)" "\<And>q. file_at q d' = file_at q d2"
    "\<And>n. r = Inr (PubPublished n) \<longleftrightarrow> out = Inr n"
    "\<And>n. out = Inr n \<Longrightarrow> d' = clear_overwrite prid (publish_finish j p n now stop d2)"
proof (cases "get_job d jid")
  case None
  then show thesis using assms by (intro same) (auto simp: run_publish_def jobs_get_def raises_def returns_def)
next
  case (Some j)
  note j = Some
  show thesis
  proof (cases "get_publish_run d prid")
    case None
    then show thesis using assms j by (intro same) (auto simp: run_publish_def jobs_get_def raises_def returns_def)
  next
    case (Some p)
    show thesis
    proof (cases "publish_resolved (job_status j) (pr_status p)")
      case True
      then show thesis using assms j Some by (intro same) (auto simp: run_publish_def jobs_get_def raises_def returns_def)
    next
      case False
      note known = j Some False
      show thesis
      proof (cases "get_staging_run d (pr_staging_run_id p)")
        case None
        then show thesis using assms known by (intro same) (auto simp: run_publish_def jobs_get_def raises_def returns_def)
      next
        case (Some s)
        show thesis
        proof (cases "sr_has_source_drift s \<and> \<not> pr_drift_acknowledged p")
          case True
          then show thesis using assms known Some by (intro same) (auto simp: run_publish_def jobs_get_def raises_def returns_def)
        next
          case False
          obtain d2 out where out: "write_export fs cfg p (start_publishing j p now d) = (d2, out)"
            by (cases "write_export fs cfg p (start_publishing j p now d)")
          show thesis
            by (rule wrote [of j p s d2 out])
               (use assms known Some False out in \<open>auto simp: run_publish_def jobs_get_def Let_def raises_def returns_def
                  split: sum.splits if_splits\<close>)
        qed
      qed
    qed
  qed
qed

text \<open>C27.
  Publishing writes one file, and only through all its gates: a file that differs afterwards is
  the resolved target of the run, inside the resolved export directory; the job and the run
  were not resolved, drift was absent or acknowledged, and a file or anything else that was
  there before had been released with the overwrite option.\<close>

theorem publish_is_contained:
  assumes run: "run_publish fs cfg jid prid now stop d = (d', r)" and touched: "file_at q d' \<noteq> file_at q d"
  shows "\<exists>j p s base. get_job d jid = Some j \<and> get_publish_run d prid = Some p \<and>
    get_staging_run d (pr_staging_run_id p) = Some s \<and> \<not> publish_resolved (job_status j) (pr_status p) \<and>
    (sr_has_source_drift s \<longrightarrow> pr_drift_acknowledged p) \<and>
    export_base fs (PUBLISH_FILE_EXPORT_DIRECTORY cfg) = Inr base \<and> prefix base q \<and>
    resolve_target_path fs (pr_target_reference p) (PUBLISH_FILE_EXPORT_DIRECTORY cfg) = Inr q \<and>
    (path_exists fs q d \<longrightarrow> get_overwrite prid d)"
proof (rule run_publish_writes [OF run], goal_cases)
  case 1
  then show ?case using touched by simp
next
  case (2 j p s d2 out)
  have id: "pr_id p = prid" using 2(2) by (auto dest: find_row_SomeD)
  show ?case
  proof (rule write_export_cases [OF 2(6)], goal_cases)
    case 1
    then show ?case using touched 2(7) by simp
  next
    case (2 path)
    have "q = path"
    proof (rule ccontr)
      assume "q \<noteq> path"
      then have "file_at q d2 = file_at q d"
        using write_row_snapshots_other [of q path fs "records_of (pr_staging_run_id p) (start_publishing j p now d)"
            "start_publishing j p now d"] 2(3) by simp
      then show False using touched \<open>\<And>q. file_at q d' = file_at q d2\<close> by simp
    qed
    moreover obtain base where "export_base fs (PUBLISH_FILE_EXPORT_DIRECTORY cfg) = Inr base" "prefix base path"
      using resolve_target_path_inside [OF 2(1)] by blast
    moreover have "path_exists fs path d \<longrightarrow> get_overwrite prid d"
      using 2(2) by (simp add: path_exists_def id)
    ultimately show ?case using \<open>get_job d jid = Some j\<close> \<open>get_publish_run d prid = Some p\<close>
        \<open>get_staging_run d (pr_staging_run_id p) = Some s\<close> \<open>\<not> publish_resolved (job_status j) (pr_status p)\<close>
        \<open>sr_has_source_drift s \<longrightarrow> pr_drift_acknowledged p\<close> 2(1) by blast
  qed
qed

text \<open>C28.
  A run that is PUBLISHED has put every staging record of its staging run into the file, one
  JSON object per line and in the order of the records, and the count it reports, read back
  from the file, is their number. (The disk is assumed to hold what was written when writing
  raised nothing.)\<close>

theorem published_file_content:
  assumes run: "run_publish fs cfg jid prid now stop d = (d', Inr (PubPublished n))"
    and law: "\<forall>p text landed. fs_write fs p text = (landed, None) \<longrightarrow> landed = Some text"
  shows "\<exists>p path p' j'. get_publish_run d prid = Some p \<and>
    resolve_target_path fs (pr_target_reference p) (PUBLISH_FILE_EXPORT_DIRECTORY cfg) = Inr path \<and>
    file_at path d' = Some (concat (map snapshot_line (records_of (pr_staging_run_id p) d))) \<and>
    n = length (records_of (pr_staging_run_id p) d) \<and>
    get_publish_run d' prid = Some p' \<and> pr_status p' = PUB_PUBLISHED \<and> pr_published_record_count p' = Some (int n) \<and>
    get_job d' jid = Some j' \<and> job_status j' = JOB_COMPLETED"
proof (rule run_publish_writes [OF run], goal_cases)
  case 1
  then show ?case by blast
next
  case (2 j p s d2 out)
  have id: "pr_id p = prid" "job_id j = jid" using 2(1,2) by (auto dest: find_row_SomeD)
  note end_state = 2(9)
  have out: "out = Inr n" using 2(8) [of n] by simp
  have started: "get_job (start_publishing j p now d) jid \<noteq> None" "get_publish_run (start_publishing j p now d) prid \<noteq> None"
    using 2(1,2) id by (auto simp: start_publishing_def mark_defs get_job_marked get_upd_publish_run)
  show ?case
  proof (rule write_export_cases [OF 2(6) [unfolded out]], goal_cases)
    case (1 e)
    then show ?case by simp
  next
    case (2 path)
    have d2: "d2 = set_file path (concat (map snapshot_line (records_of (pr_staging_run_id p) d)))
        (start_publishing j p now d)" "n = length (records_of (pr_staging_run_id p) d)"
      using write_row_snapshots_returns [OF 2(3) law] by simp_all
    have "d' = clear_overwrite prid (publish_finish j p n now stop d2)" 
      by (rule end_state [OF out])
    moreover obtain j0 p0 where "get_job d2 (job_id j) = Some j0" "get_publish_run d2 (pr_id p) = Some p0"
      using started by (auto simp: d2 id)
    note publish_finish_effect [OF this, of n now stop]
    ultimately show ?case
      using \<open>get_publish_run d prid = Some p\<close> 2(1) d2(2)
      by (auto simp: d2(1) [symmetric] id) (simp add: d2(1))
  qed
qed

section \<open>A cancelled publish\<close>

lemma cancel_queued_other:
  assumes "get_job d i = Some j" and "job_status j = JOB_QUEUED" and "cancellable_run_table (job_type j) = None"
  shows "cancel i now d = (upd_job i (job_cancelled now) (set_cancel_flag i d), Inr i)"
proof -
  have "get_job (set_cancel_flag i d) i = Some j" using assms(1) by (simp add: set_cancel_flag_def)
  then show ?thesis
    using assms by (simp add: cancel_def jobs_get_def job_in_flight_def cancel_run_def mark_cancelled_eq returns_def
        job_cancelled_def [abs_def] Let_def)
qed

text \<open>Cancelling a queued publish job blocks its staging run: the publish run stays PENDING, the
  task does nothing any more, and as long as the run stays so every new publish of the staging
  run is refused.\<close>

theorem cancelled_publish_blocks_staging_run:
  assumes "get_job d i = Some j" and "job_status j = JOB_QUEUED" and "job_type j = ''PUBLISH''"
    and "get_publish_run d pid = Some p" and "pr_status p = PUB_PENDING"
    and "cancel i now d = (d1, r)"
  shows "r = Inr i \<and> publish_runs d1 = publish_runs d \<and>
    run_publish fs cfg i pid now' stop d1 = (clear_overwrite pid d1, Inr (PubStatus JOB_CANCELLED)) \<and>
    (\<forall>e. get_publish_run e pid = Some p \<longrightarrow>
      \<not> succeeds (publish_trigger (pr_staging_run_id p) ty ref overwrite actor now'' e))"
proof -
  have cancelled: "d1 = upd_job i (job_cancelled now) (set_cancel_flag i d)" "r = Inr i"
    using cancel_queued_other [OF assms(1,2)] assms(3,6) by (simp_all add: cancellable_run_table_def)
  have d1: "publish_runs d1 = publish_runs d" "get_job d1 i = Some (job_cancelled now j)"
    using assms(1) by (simp_all add: cancelled set_cancel_flag_def get_job_upd_job job_cancelled_def)
  have "p \<in> set (live_publish_runs (pr_staging_run_id p) e)" if "get_publish_run e pid = Some p" for e
    using that assms(5) by (auto simp: live_publish_runs_def NON_FAILED_STATUSES_def dest: find_row_SomeD)
  then have "\<not> succeeds (publish_trigger (pr_staging_run_id p) ty ref overwrite actor now'' e)"
    if "get_publish_run e pid = Some p" for e
    using that by (fastforce simp: publish_trigger_def succeeds_attempt succeeds_checked)
  moreover have "run_publish fs cfg i pid now' stop d1 = (clear_overwrite pid d1, Inr (PubStatus JOB_CANCELLED))"
    using d1 assms(4) by (simp add: run_publish_def jobs_get_def publish_resolved_def job_cancelled_def returns_def)
  ultimately show ?thesis using d1(1) cancelled(2) by blast
qed

section \<open>Examples\<close>

definition sample_files :: file_system where
  "sample_files = \<lparr>fs_cwd = [''srv''], fs_resolve = Inr, fs_exists = \<lambda>_. False, fs_mkdir = \<lambda>_. None,
     fs_write = \<lambda>_ text. (Some text, None), fs_read_error = \<lambda>_. None\<rparr>"

definition staged_run :: staging_run where
  "staged_run = (new_staging_run 40 12 1 1 1 5)\<lparr>sr_status := SR_READY, sr_record_count := 1\<rparr>"

definition staged_record :: staging_record where
  "staged_record = \<lparr>srec_id = 41, srec_staging_run_id = 40, srec_record_ref = ''A'',
     srec_row_snapshot = [(Some ''k'', PyStr ''A''), (Some ''c'', PyInt 1)],
     srec_corrected_fields = [], srec_source_row_hash_at_validation = ''h'',
     srec_source_row_hash_at_staging = None, srec_source_drift_status = UNCHANGED,
     srec_source_drift_fields = None, srec_created_at = 5\<rparr>"

definition staged_db :: db where
  "staged_db = empty_db\<lparr>db_next := 42, staging_runs := [staged_run], staging_records := [staged_record]\<rparr>"

definition pending_run :: publish_run where
  "pending_run = new_publish_run 42 40 43 ''FILE_EXPORT'' ''out.jsonl'' 1 6"

definition pending_db :: db where
  "pending_db = staged_db\<lparr>db_next := 44, publish_runs := [pending_run],
     jobs := [new_job 43 ''PUBLISH'' ''STAGING_RUN'' 40 1 6]\<rparr>"

lemma pending_published:
  "run_publish sample_files default_settings 43 42 7 7 pending_db =
   (fst (run_publish sample_files default_settings 43 42 7 7 pending_db), Inr (PubPublished 1))"
proof -
  have "snd (run_publish sample_files default_settings 43 42 7 7 pending_db) = Inr (PubPublished 1)" by code_simp
  then show ?thesis by (metis prod.collapse)
qed

theorem publish_trigger_spec_witness:
  "succeeds (publish_trigger 40 ''FILE_EXPORT'' ''out.jsonl'' False 1 6 staged_db)"
proof -
  have "keys_ok pr_id (db_next staged_db) (publish_runs staged_db)"
    by (simp add: staged_db_def empty_db_def keys_ok_def)
  moreover have "get_staging_run staged_db 40 = Some staged_run" "live_publish_runs 40 staged_db = []"
    "sr_status staged_run = SR_READY" "sr_is_current staged_run"
    by code_simp+
  ultimately show ?thesis using publish_trigger_spec by blast
qed

theorem publish_is_contained_witness:
  "\<exists>q. prefix [''srv'', ''data'', ''publish_exports''] q \<and>
     file_at q (fst (run_publish sample_files default_settings 43 42 7 7 pending_db)) \<noteq> file_at q pending_db"
proof -
  let ?q = "[''srv'', ''data'', ''publish_exports'', ''out.jsonl'']"
  have touched: "file_at ?q (fst (run_publish sample_files default_settings 43 42 7 7 pending_db)) \<noteq>
      file_at ?q pending_db"
    by code_simp
  have "export_base sample_files (PUBLISH_FILE_EXPORT_DIRECTORY default_settings) =
      Inr [''srv'', ''data'', ''publish_exports'']"
    by code_simp
  then have "prefix [''srv'', ''data'', ''publish_exports''] ?q"
    using publish_is_contained [OF pending_published touched] by auto
  with touched show ?thesis by blast
qed

theorem published_file_content_witness:
  "\<exists>path. file_at path (fst (run_publish sample_files default_settings 43 42 7 7 pending_db)) =
     Some (concat (map snapshot_line [staged_record]))"
proof -
  have law: "\<forall>p text landed. fs_write sample_files p text = (landed, None) \<longrightarrow> landed = Some text"
    by (simp add: sample_files_def)
  have "get_publish_run pending_db 42 = Some pending_run" "pr_staging_run_id pending_run = 40"
    "records_of 40 pending_db = [staged_record]"
    by code_simp+
  with published_file_content [OF pending_published law] show ?thesis by auto
qed

theorem cancelled_publish_blocks_staging_run_witness:
  "snd (run_publish sample_files default_settings 43 42 8 9 (fst (cancel 43 7 pending_db))) =
     Inr (PubStatus JOB_CANCELLED)"
proof -
  have "get_job pending_db 43 = Some (new_job 43 ''PUBLISH'' ''STAGING_RUN'' 40 1 6)"
    "job_status (new_job 43 ''PUBLISH'' ''STAGING_RUN'' 40 1 6) = JOB_QUEUED"
    "job_type (new_job 43 ''PUBLISH'' ''STAGING_RUN'' 40 1 6) = ''PUBLISH''"
    "get_publish_run pending_db 42 = Some pending_run" "pr_status pending_run = PUB_PENDING"
    by code_simp+
  from cancelled_publish_blocks_staging_run [OF this, of 7 "fst (cancel 43 7 pending_db)" "snd (cancel 43 7 pending_db)"
      sample_files default_settings 8 9]
  show ?thesis by simp
qed

end
