(* ===== verification/ValidationEngine.thy ===== *)
theory ValidationEngine
  imports RecordRefs Generators
begin

text \<open>
  The validation engine (\<open>app/modules/validation/engine.py\<close>) and the revalidation of one staged
  row with it (\<open>staged_revalidation.py\<close>). An evaluator takes the pulled rows and returns the
  failures by row index. Python's dictionaries are association lists; rule definitions are JSON
  objects; the regular expression engine is the parameter of the generators.
\<close>

section \<open>Equality and grouping\<close>

text \<open>
  \<open>_hashable\<close>, and equality of dictionary keys: numbers are equal across types, and a NaN is
  equal to no other value.
\<close>

definition hashable :: "pyval \<Rightarrow> pyval" where
  "hashable v = (case v of PyList _ \<Rightarrow> PyStr (py_str v) | PyDict _ \<Rightarrow> PyStr (py_str v) | _ \<Rightarrow> v)"

definition is_nan :: "pyval \<Rightarrow> bool" where
  "is_nan v = (v = PyFloat NotANumber \<or> v = PyDec DNaN)"

definition key_eq :: "pyval \<Rightarrow> pyval \<Rightarrow> bool" where
  "key_eq a b \<longleftrightarrow> \<not> is_nan a \<and> \<not> is_nan b \<and> py_key a = py_key b"

text \<open>\<open>seen.setdefault(key, []).append(i)\<close>.\<close>

fun add_index :: "('k \<Rightarrow> 'k \<Rightarrow> bool) \<Rightarrow> 'k \<Rightarrow> nat \<Rightarrow> ('k \<times> nat list) list \<Rightarrow> ('k \<times> nat list) list" where
  "add_index eq k i [] = [(k, [i])]"
| "add_index eq k i ((l, js) # seen) =
     (if eq l k then (l, js @ [i]) # seen else (l, js) # add_index eq k i seen)"

definition group_indices :: "('k \<Rightarrow> 'k \<Rightarrow> bool) \<Rightarrow> (nat \<times> 'k) list \<Rightarrow> ('k \<times> nat list) list" where
  "group_indices eq xs = fold (\<lambda>(i, k). add_index eq k i) xs []"

text \<open>\<open>row.get(column_name)\<close>; a row has no key \<open>None\<close>.\<close>

definition cell :: "row \<Rightarrow> string option \<Rightarrow> pyval" where
  "cell row c = (case c of None \<Rightarrow> PyNone | Some n \<Rightarrow> dict_get row n)"

definition name_text :: "string option \<Rightarrow> string" where
  "name_text c = (case c of None \<Rightarrow> ''None'' | Some n \<Rightarrow> n)"

section \<open>The evaluators\<close>

record row_failure =
  rf_reason :: string
  rf_failed_value :: "string option"
  rf_expected_value :: "string option"

type_synonym failures = "(nat \<times> row_failure) list"

definition definition_get :: "json \<Rightarrow> string \<Rightarrow> pyval \<Rightarrow> pyval" where
  "definition_get defn k dflt = (case map_of defn k of None \<Rightarrow> dflt | Some v \<Rightarrow> v)"

definition float_or_raise :: "pyval \<Rightarrow> exn + pyfloat" where
  "float_or_raise v = map_sum Conv id (py_float v)"

text \<open>\<open>100.0 * n / t\<close> for integers, \<open>t\<close> not zero.\<close>

definition percentage :: "int \<Rightarrow> int \<Rightarrow> exn + pyfloat" where
  "percentage n t = (case float_or_raise (PyInt n) of Inl e \<Rightarrow> Inl e | Inr a \<Rightarrow>
     (case float_or_raise (PyInt t) of Inl e \<Rightarrow> Inl e | Inr b \<Rightarrow>
       pf_div_pos (case a of Fin x \<Rightarrow> fl (100 * x) | _ \<Rightarrow> a) b))"

text \<open>Whether exact statistics already show that the limit is kept.\<close>

definition within_limit :: "int \<Rightarrow> column_exact_stats option \<Rightarrow> pyfloat \<Rightarrow> exn + bool" where
  "within_limit n stats limit = (case stats of None \<Rightarrow> Inr False | Some s \<Rightarrow>
     if ces_total_row_count s = 0 then Inr False
     else map_sum id (\<lambda>p. pf_le p limit) (percentage n (ces_total_row_count s)))"

definition evaluate_completeness ::
  "row list \<Rightarrow> string option \<Rightarrow> json \<Rightarrow> column_exact_stats option \<Rightarrow> exn + failures" where
  "evaluate_completeness rows c defn stats =
     (case float_or_raise (definition_get defn ''max_null_percentage'' (PyFloat (Fin 0))) of Inl e \<Rightarrow> Inl e
      | Inr limit \<Rightarrow>
        (case within_limit (case stats of None \<Rightarrow> 0 | Some s \<Rightarrow> ces_null_count s) stats limit of Inl e \<Rightarrow> Inl e
         | Inr ok \<Rightarrow> Inr (if ok then [] else
             map (\<lambda>(i, r). (i, \<lparr>rf_reason = ''Column '' @ [char_of (39::nat)] @ name_text c @ [char_of (39::nat)] @
                   '' is null (max_null_percentage='' @ repr_float limit @ '')'',
                 rf_failed_value = None, rf_expected_value = Some ''NOT NULL''\<rparr>))
               (filter (\<lambda>(i, r). cell r c = PyNone) (List.enumerate 0 rows)))))"

text \<open>The failures of the groups with more than one member.\<close>

definition group_failures :: "('k \<times> nat list) list \<Rightarrow> ('k \<Rightarrow> row_failure) \<Rightarrow> failures" where
  "group_failures seen f = concat (map (\<lambda>(k, is). if 1 < length is then map (\<lambda>i. (i, f k)) is else []) seen)"

definition evaluate_uniqueness ::
  "row list \<Rightarrow> string option \<Rightarrow> json \<Rightarrow> column_exact_stats option \<Rightarrow> exn + failures" where
  "evaluate_uniqueness rows c defn stats =
     (case float_or_raise (definition_get defn ''max_duplicate_percentage'' (PyFloat (Fin 0))) of Inl e \<Rightarrow> Inl e
      | Inr limit \<Rightarrow>
        (case within_limit (case stats of None \<Rightarrow> 0 | Some s \<Rightarrow>
             max 0 (ces_total_row_count s - ces_null_count s - ces_distinct_count s)) stats limit of Inl e \<Rightarrow> Inl e
         | Inr ok \<Rightarrow> Inr (if ok then [] else
             group_failures (group_indices key_eq (map (\<lambda>(i, r). (i, hashable (cell r c)))
               (filter (\<lambda>(i, r). cell r c \<noteq> PyNone) (List.enumerate 0 rows))))
             (\<lambda>v. \<lparr>rf_reason = ''Duplicate value in column '' @ [char_of (39::nat)] @ name_text c @ [char_of (39::nat)],
               rf_failed_value = Some (py_str v), rf_expected_value = Some ''UNIQUE''\<rparr>))))"

text \<open>
  The key of a whole row: its items sorted by column name, which are distinct, so that values
  are never compared by order.
\<close>

definition row_key :: "row \<Rightarrow> (string \<times> pyval) list" where
  "row_key r = sort_items (map (\<lambda>(k, v). (k, hashable v)) r)"

definition row_eq :: "(string \<times> pyval) list \<Rightarrow> (string \<times> pyval) list \<Rightarrow> bool" where
  "row_eq r s = list_all2 (\<lambda>(k, v) (l, w). k = l \<and> key_eq v w) r s"

definition evaluate_duplicate :: "row list \<Rightarrow> failures" where
  "evaluate_duplicate rows =
     group_failures (group_indices row_eq (map (\<lambda>(i, r). (i, row_key r)) (List.enumerate 0 rows)))
       (\<lambda>_. \<lparr>rf_reason = ''Full-row duplicate'', rf_failed_value = None, rf_expected_value = Some ''UNIQUE row''\<rparr>)"

text \<open>A loop over the rows in which a row may fail, or its evaluation may raise.\<close>

definition row_loop :: "(row \<Rightarrow> exn + row_failure option) \<Rightarrow> row list \<Rightarrow> exn + failures" where
  "row_loop f rows = map_sum id (List.map_filter (\<lambda>(i, x). map_option (Pair i) x))
     (map_ok (\<lambda>(i, r). map_sum id (Pair i) (f r)) (List.enumerate 0 rows))"

definition range_row :: "string option \<Rightarrow> json \<Rightarrow> row \<Rightarrow> exn + row_failure option" where
  "range_row c defn r = (let lo = dict_get defn ''min''; hi = dict_get defn ''max''; v = cell r c in
     if v = PyNone then Inr None else
     (case py_float v of
        Inl e \<Rightarrow> if e \<in> {TypeError, ValueError} then Inr None else Inl (Conv e)
      | Inr x \<Rightarrow>
        (case (if lo = PyNone then Inr False else map_sum id (pf_lt x) (float_or_raise lo)) of Inl e \<Rightarrow> Inl e
         | Inr below \<Rightarrow>
           (case (if below then Inr True else if hi = PyNone then Inr False
                  else map_sum id (\<lambda>b. pf_lt b x) (float_or_raise hi)) of Inl e \<Rightarrow> Inl e
            | Inr out \<Rightarrow> Inr (if out then Some \<lparr>
                rf_reason = ''Value outside range ['' @ py_str lo @ '', '' @ py_str hi @ '']'',
                rf_failed_value = Some (py_str v),
                rf_expected_value = Some (''['' @ py_str lo @ '', '' @ py_str hi @ '']'')\<rparr> else None)))))"

definition evaluate_range :: "row list \<Rightarrow> string option \<Rightarrow> json \<Rightarrow> exn + failures" where
  "evaluate_range rows c defn = row_loop (range_row c defn) rows"

definition pattern_row :: "string option \<Rightarrow> string \<Rightarrow> (string \<Rightarrow> bool) \<Rightarrow> row \<Rightarrow> row_failure option" where
  "pattern_row c pat compiled r = (let v = cell r c in
     if v = PyNone \<or> compiled (py_str v) then None
     else Some \<lparr>rf_reason = ''Value does not match pattern '' @ [char_of (39::nat)] @ pat @ [char_of (39::nat)],
       rf_failed_value = Some (py_str v), rf_expected_value = Some pat\<rparr>)"

text \<open>A pattern that is not a text does not compile either.\<close>

definition evaluate_pattern :: "regex_engine \<Rightarrow> row list \<Rightarrow> string option \<Rightarrow> json \<Rightarrow> exn + failures" where
  "evaluate_pattern regex rows c defn = (let pat = dict_get defn ''regex'' in
     if \<not> py_truthy pat then Inr []
     else (case pat of
        PyStr p \<Rightarrow> (case regex p of None \<Rightarrow> Inl (OtherException ''error'')
          | Some compiled \<Rightarrow> row_loop (Inr \<circ> pattern_row c p compiled) rows)
      | _ \<Rightarrow> Inl (Conv TypeError)))"

definition cross_row :: "string list \<Rightarrow> row \<Rightarrow> row_failure option" where
  "cross_row names r = (let vals = map (dict_get r) names in
     if 1 < length (group_indices key_eq (List.enumerate 0 (map hashable vals)))
     then Some \<lparr>rf_reason = ''Columns '' @ py_str (PyList (map PyStr names)) @ '' are not all equal'',
       rf_failed_value = Some (py_str (PyList vals)), rf_expected_value = Some ''all equal''\<rparr>
     else None)"

definition evaluate_cross_column :: "row list \<Rightarrow> string list \<Rightarrow> json \<Rightarrow> exn + failures" where
  "evaluate_cross_column rows names defn =
     (if definition_get defn ''check'' (PyStr ''all_equal'') = PyStr ''all_equal''
      then row_loop (Inr \<circ> cross_row names) rows else Inr [])"

section \<open>Dispatch\<close>

definition SUPPORTED_RULE_TYPES :: "string list" where
  "SUPPORTED_RULE_TYPES = [''COMPLETENESS'', ''UNIQUENESS'', ''DUPLICATE'', ''RANGE'', ''PATTERN'', ''CROSS_COLUMN'']"

definition is_supported_rule_type :: "string \<Rightarrow> bool" where
  "is_supported_rule_type ty = (ty \<in> set SUPPORTED_RULE_TYPES)"

text \<open>
  \<open>get_evaluator(rule_type)\<close> with the arguments its callers give it: the column, the columns of
  a cross-column rule, and the exact statistics of the column.
\<close>

definition evaluate_rule ::
  "regex_engine \<Rightarrow> string \<Rightarrow> row list \<Rightarrow> string option \<Rightarrow> string list \<Rightarrow> json \<Rightarrow> column_exact_stats option \<Rightarrow>
   exn + failures" where
  "evaluate_rule regex ty rows c names defn stats =
     (if ty = ''COMPLETENESS'' then evaluate_completeness rows c defn stats
      else if ty = ''UNIQUENESS'' then evaluate_uniqueness rows c defn stats
      else if ty = ''DUPLICATE'' then Inr (evaluate_duplicate rows)
      else if ty = ''RANGE'' then evaluate_range rows c defn
      else if ty = ''PATTERN'' then evaluate_pattern regex rows c defn
      else if ty = ''CROSS_COLUMN'' then evaluate_cross_column rows names defn
      else Inl KeyError)"

section \<open>One staged row\<close>

definition ROW_LOCAL_RULE_TYPES :: "string list" where
  "ROW_LOCAL_RULE_TYPES = [''COMPLETENESS'', ''RANGE'', ''PATTERN'', ''CROSS_COLUMN'']"

definition CROSS_ROW_RULE_TYPES :: "string list" where
  "CROSS_ROW_RULE_TYPES = [''UNIQUENESS'', ''DUPLICATE'']"

datatype revalidation_status = REVALIDATED_PASS | REVALIDATED_FAIL | REQUIRES_DATASET_REVALIDATION

record staged_rule_revalidation =
  srr_rule_type :: string
  srr_column_name :: "string option"
  srr_status :: revalidation_status
  srr_reason :: "string option"
  srr_checked_value :: pyval

text \<open>\<open>row_snapshot.get(column_name) if column_name else None\<close>.\<close>

definition checked_cell :: "row \<Rightarrow> string option \<Rightarrow> pyval" where
  "checked_cell r c = (if c = Some [] then PyNone else cell r c)"

text \<open>The message, its dash in ASCII.\<close>

definition cross_row_reason :: "string \<Rightarrow> string" where
  "cross_row_reason ty = ty @ '' cannot be safely proven from a single staged row '' @ ''-'' @
     '' it depends on the dataset'' @ [char_of (39::nat)] @
     ''s other rows, which staged revalidation deliberately never queries''"

definition revalidate_row_against_rule ::
  "regex_engine \<Rightarrow> row \<Rightarrow> string \<Rightarrow> json \<Rightarrow> string option \<Rightarrow> string list \<Rightarrow> exn + staged_rule_revalidation" where
  "revalidate_row_against_rule regex r ty defn c names =
     (if ty \<in> set CROSS_ROW_RULE_TYPES then
        Inr \<lparr>srr_rule_type = ty, srr_column_name = c, srr_status = REQUIRES_DATASET_REVALIDATION,
          srr_reason = Some (cross_row_reason ty), srr_checked_value = checked_cell r c\<rparr>
      else if ty \<notin> set ROW_LOCAL_RULE_TYPES \<or> \<not> is_supported_rule_type ty then
        Inr \<lparr>srr_rule_type = ty, srr_column_name = c, srr_status = REQUIRES_DATASET_REVALIDATION,
          srr_reason = Some (''rule type '' @ repr_str ty @ '' is not supported for row-local staged revalidation''),
          srr_checked_value = PyNone\<rparr>
      else (case evaluate_rule regex ty [r] c names defn None of Inl e \<Rightarrow> Inl e
        | Inr fs \<Rightarrow> Inr (case map_of fs 0 of
            None \<Rightarrow> \<lparr>srr_rule_type = ty, srr_column_name = c, srr_status = REVALIDATED_PASS, srr_reason = None,
              srr_checked_value = checked_cell r c\<rparr>
          | Some f \<Rightarrow> \<lparr>srr_rule_type = ty, srr_column_name = c, srr_status = REVALIDATED_FAIL,
              srr_reason = Some (rf_reason f),
              srr_checked_value = (case rf_failed_value f of None \<Rightarrow> PyNone | Some s \<Rightarrow> PyStr s)\<rparr>)))"

section \<open>Duplicates\<close>

text \<open>The first key collects every index whose key equals it; the others are grouped among themselves.\<close>

lemma fold_add_index:
  "fold (\<lambda>(i, k). add_index eq k i) xs ((k, is) # seen) =
     (k, is @ map fst (filter (\<lambda>x. eq k (snd x)) xs)) #
     fold (\<lambda>(i, k). add_index eq k i) (filter (\<lambda>x. \<not> eq k (snd x)) xs) seen"
  by (induction xs arbitrary: "is" seen) auto

lemma group_indices_Cons:
  "group_indices eq ((i, k) # xs) =
     (k, i # map fst (filter (\<lambda>x. eq k (snd x)) xs)) # group_indices eq (filter (\<lambda>x. \<not> eq k (snd x)) xs)"
  by (simp add: group_indices_def fold_add_index)

lemma group_failures_indices:
  "map fst (group_failures seen f) = concat (map (\<lambda>g. if 1 < length (snd g) then snd g else []) seen)"
  by (induction seen) (auto simp: group_failures_def comp_def)

lemma group_failures_Cons:
  "fst ` set (group_failures ((k, is) # seen) f) =
     (if 1 < length is then set is else {}) \<union> fst ` set (group_failures seen f)"
proof -
  have fst_set: "fst ` set (group_failures s f) = set (map fst (group_failures s f))" for s by simp
  show ?thesis unfolding fst_set group_failures_indices by simp
qed

lemma indices_of_groups: "\<Union> (set ` snd ` set (group_indices eq xs)) = fst ` set xs"
proof (induction "length xs" arbitrary: xs rule: less_induct)
  case less
  show ?case
  proof (cases xs)
    case Nil
    then show ?thesis by (simp add: group_indices_def)
  next
    case (Cons x ys)
    obtain i k where x: "x = (i, k)" by (cases x)
    have "length (filter (\<lambda>x. \<not> eq k (snd x)) ys) < length xs"
      using Cons by (simp add: le_imp_less_Suc)
    from less [OF this] show ?thesis by (auto simp: Cons x group_indices_Cons)
  qed
qed

lemma group_failures_iff:
  assumes "symp eq" "transp eq" and "distinct (map fst xs)"
  shows "i \<in> fst ` set (group_failures (group_indices eq xs) f) \<longleftrightarrow>
    (\<exists>k j l. (i, k) \<in> set xs \<and> (j, l) \<in> set xs \<and> j \<noteq> i \<and> eq k l)"
  using assms(3)
proof (induction "length xs" arbitrary: xs rule: less_induct)
  case less
  note sym = sympD [OF assms(1)] and trans = transpD [OF assms(2)]
  show ?case
  proof (cases xs)
    case Nil
    then show ?thesis by (simp add: group_indices_def group_failures_def)
  next
    case (Cons x ys)
    obtain i0 k0 where x: "x = (i0, k0)" by (cases x)
    let ?same = "filter (\<lambda>x. eq k0 (snd x)) ys" and ?rest = "filter (\<lambda>x. \<not> eq k0 (snd x)) ys"
    have fresh: "i0 \<notin> fst ` set ys" and dist: "distinct (map fst ys)" using less.prems Cons x by auto
    have "length ?rest < length xs" "distinct (map fst ?rest)"
      using Cons dist by (simp_all add: le_imp_less_Suc distinct_map_filter)
    note IH = less.hyps [OF this]
    have split: "i \<in> fst ` set (group_failures (group_indices eq xs) f) \<longleftrightarrow>
        (?same \<noteq> [] \<and> (i = i0 \<or> i \<in> fst ` set ?same)) \<or>
        (\<exists>k j l. (i, k) \<in> set ?rest \<and> (j, l) \<in> set ?rest \<and> j \<noteq> i \<and> eq k l)"
      by (cases ?same) (auto simp: Cons x group_indices_Cons group_failures_Cons IH)
    show ?thesis
    proof
      assume "i \<in> fst ` set (group_failures (group_indices eq xs) f)"
      then consider (head) "?same \<noteq> []" "i = i0" | (same) "i \<in> fst ` set ?same"
        | (rest) k j l where "(i, k) \<in> set ?rest" "(j, l) \<in> set ?rest" "j \<noteq> i" "eq k l"
        using split by blast
      then show "\<exists>k j l. (i, k) \<in> set xs \<and> (j, l) \<in> set xs \<and> j \<noteq> i \<and> eq k l"
      proof cases
        case head
        then obtain j l where "(j, l) \<in> set ys" "eq k0 l" by (force simp: filter_empty_conv)
        then show ?thesis using fresh head(2) by (force simp: Cons x)
      next
        case same
        then obtain k where "(i, k) \<in> set ys" "eq k0 k" by auto
        then show ?thesis using fresh sym by (force simp: Cons x)
      next
        case rest
        then show ?thesis by (auto simp: Cons)
      qed
    next
      assume "\<exists>k j l. (i, k) \<in> set xs \<and> (j, l) \<in> set xs \<and> j \<noteq> i \<and> eq k l"
      then obtain k j l where w: "(i, k) \<in> set xs" "(j, l) \<in> set xs" "j \<noteq> i" "eq k l" by blast
      consider (head) "(i, k) = (i0, k0)" "(j, l) \<in> set ys" | (other) "(j, l) = (i0, k0)" "(i, k) \<in> set ys"
        | (both) "(i, k) \<in> set ys" "(j, l) \<in> set ys"
        using w by (auto simp: Cons x)
      then show "i \<in> fst ` set (group_failures (group_indices eq xs) f)"
      proof cases
        case head
        then have "(j, l) \<in> set ?same" using w(4) by auto
        then have "?same \<noteq> []" by force
        then show ?thesis using split head by blast
      next
        case other
        then have "(i, k) \<in> set ?same" using w(4) sym by auto
        then have "i \<in> fst ` set ?same" "?same \<noteq> []" by force+
        then show ?thesis using split by blast
      next
        case both
        show ?thesis
        proof (cases "eq k0 k")
          case True
          then have "(i, k) \<in> set ?same" using both by auto
          then have "i \<in> fst ` set ?same" "?same \<noteq> []" by force+
          then show ?thesis using split by blast
        next
          case False
          then have "\<not> eq k0 l" using w(4) sym trans by blast
          then have "(i, k) \<in> set ?rest" "(j, l) \<in> set ?rest" using both False by auto
          then show ?thesis using split w(3,4) by blast
        qed
      qed
    qed
  qed
qed

lemma key_eq_per: "symp key_eq" "transp key_eq"
  by (auto simp: symp_def transp_def key_eq_def)

lemma row_eq_per: "symp row_eq" "transp row_eq"
proof -
  have "row_eq s r" if "row_eq r s" for r s
  proof -
    have "list_all2 (\<lambda>b a. (\<lambda>(k, v) (l, w). k = l \<and> key_eq v w) a b) s r"
      using that list_all2_conv_all_nth by (fastforce simp: row_eq_def list_all2_conv_all_nth)
    then show ?thesis unfolding row_eq_def
      by (rule list_all2_mono) (auto simp: key_eq_def)
  qed
  then show "symp row_eq" by (auto simp: symp_def)
  have "row_eq r t" if "row_eq r s" "row_eq s t" for r s t
    using list_all2_trans [OF _ that [unfolded row_eq_def], of "\<lambda>(k, v) (l, w). k = l \<and> key_eq v w"]
    by (auto simp: row_eq_def key_eq_def)
  then show "transp row_eq" by (auto simp: transp_def)
qed

lemma enumerate_pairs: "(i, r) \<in> set (List.enumerate 0 rows) \<longleftrightarrow> i < length rows \<and> r = rows ! i"
  by (auto simp: in_set_enumerate_eq)

lemma distinct_enumerated:
  "distinct (map fst (map (\<lambda>(i, r). (i, f r)) (filter P (List.enumerate 0 rows))))"
proof -
  have keys: "map fst (map (\<lambda>(i, r). (i, f r)) (filter P (List.enumerate 0 rows))) =
      map fst (filter P (List.enumerate 0 rows))"
    by (simp add: comp_def split_def)
  show ?thesis unfolding keys by (simp add: distinct_map_filter)
qed


section \<open>Row by row\<close>

lemma map_of_enumerate_filter:
  "map_of (List.map_filter (\<lambda>(i, x). map_option (Pair i) x) (List.enumerate n xs)) i =
     (if n \<le> i \<and> i < n + length xs then xs ! (i - n) else None)"
proof (induction xs arbitrary: n)
  case Nil
  then show ?case by (auto simp: List.map_filter_simps)
next
  case (Cons x xs)
  show ?case
    by (cases x) (auto simp: List.map_filter_simps Cons.IH nth_Cons split: nat.split dest!: Suc_diff_le [symmetric])
qed

lemma row_loop_results:
  assumes "row_loop f rows = Inr fs"
  obtains xs where "length xs = length rows" "\<And>i. i < length rows \<Longrightarrow> f (rows ! i) = Inr (xs ! i)"
    and "fs = List.map_filter (\<lambda>(i, x). map_option (Pair i) x) (List.enumerate 0 xs)"
proof -
  obtain ps where ps: "map_ok (\<lambda>(i, r). map_sum id (Pair i) (f r)) (List.enumerate 0 rows) = Inr ps"
    and fs: "fs = List.map_filter (\<lambda>(i, x). map_option (Pair i) x) ps"
    using assms by (auto simp: row_loop_def map_sum_Inr_iff)
  let ?xs = "map snd ps"
  have all: "list_all2 (\<lambda>p q. (case p of (i, r) \<Rightarrow> map_sum id (Pair i) (f r)) = Inr q) (List.enumerate 0 rows) ps"
    using ps by (simp add: map_ok_Inr)
  then have len: "length ps = length rows" by (simp add: list_all2_lengthD [symmetric])
  have at: "map_sum id (Pair i) (f (rows ! i)) = Inr (ps ! i)" if "i < length rows" for i
    using list_all2_nthD [OF all, of i] that by (simp add: nth_enumerate_eq)
  have row: "f (rows ! i) = Inr (?xs ! i) \<and> fst (ps ! i) = i" if lt: "i < length rows" for i
  proof -
    obtain b where "f (rows ! i) = Inr b" "ps ! i = (i, b)"
      using at [OF lt] by (cases "f (rows ! i)") auto
    then show ?thesis using lt len by simp
  qed
  then have "ps = List.enumerate 0 ?xs"
    using len by (intro nth_equalityI) (auto simp: nth_enumerate_eq prod_eq_iff)
  then show thesis using len row fs by (intro that [of ?xs]) auto
qed

text \<open>The result for one row does not depend on the others.\<close>

lemma row_loop_local:
  assumes "row_loop f rows = Inr fs" and "i < length rows"
  shows "row_loop f [rows ! i] = Inr (case map_of fs i of None \<Rightarrow> [] | Some x \<Rightarrow> [(0, x)])"
proof -
  obtain xs where xs: "length xs = length rows" "f (rows ! i) = Inr (xs ! i)"
    "fs = List.map_filter (\<lambda>(i, x). map_option (Pair i) x) (List.enumerate 0 xs)"
    using row_loop_results [OF assms(1)] assms(2) by metis
  have "map_of fs i = xs ! i" unfolding xs(3) map_of_enumerate_filter using assms(2) xs(1) by simp
  then show ?thesis
    using xs(2) by (cases "xs ! i") (simp_all add: row_loop_def List.map_filter_simps)
qed

lemma evaluate_rule_local:
  assumes "ty \<in> {''RANGE'', ''PATTERN'', ''CROSS_COLUMN''}"
    and "evaluate_rule regex ty rows c names defn stats = Inr fs" and "i < length rows"
  shows "evaluate_rule regex ty [rows ! i] c names defn None =
    Inr (case map_of fs i of None \<Rightarrow> [] | Some x \<Rightarrow> [(0, x)])"
proof -
  consider "ty = ''RANGE''" | "ty = ''PATTERN''" | "ty = ''CROSS_COLUMN''" using assms(1) by blast
  then show ?thesis
  proof cases
    case 1
    then show ?thesis using assms(2) row_loop_local [OF _ assms(3), of "range_row c defn" fs]
      by (simp add: evaluate_rule_def evaluate_range_def)
  next
    case 2
    then have eval: "evaluate_pattern regex rows c defn = Inr fs"
      "evaluate_rule regex ty [rows ! i] c names defn None = evaluate_pattern regex [rows ! i] c defn"
      using assms(2) by (simp_all add: evaluate_rule_def)
    show ?thesis
    proof (cases "py_truthy (dict_get defn ''regex'')")
      case False
      then show ?thesis using eval by (simp add: evaluate_pattern_def)
    next
      case True
      obtain p compiled where "dict_get defn ''regex'' = PyStr p" "regex p = Some compiled"
        "row_loop (Inr \<circ> pattern_row c p compiled) rows = Inr fs"
        using eval(1) True by (auto simp: evaluate_pattern_def Let_def split: pyval.splits option.splits)
      then show ?thesis using row_loop_local [OF _ assms(3), of "Inr \<circ> pattern_row c p compiled" fs] True
        by (simp add: eval(2) evaluate_pattern_def)
    qed
  next
    case 3
    then show ?thesis using assms(2) row_loop_local [OF _ assms(3), of "Inr \<circ> cross_row names" fs]
      by (auto simp: evaluate_rule_def evaluate_cross_column_def split: if_splits)
  qed
qed


text \<open>Two staged rows that revalidation fails although the validation of the same data passes: a
  NULL that the completeness limit of the rule tolerates, and a timestamp whose staged form
  no longer has the text (with a blank between date and time) that the pattern was checked on.\<close>

theorem revalidation_can_contradict_validation:
  "(let defn = [(''max_null_percentage'', PyInt 50)] in
     evaluate_rule regex ''COMPLETENESS'' [[(''c'', PyNone)], [(''c'', PyInt 1)]] (Some ''c'') [] defn
       (Some \<lparr>ces_null_count = 1, ces_distinct_count = 1, ces_total_row_count = 2\<rparr>) = Inr [] \<and>
     (\<exists>v. revalidate_row_against_rule regex [(''c'', PyNone)] ''COMPLETENESS'' defn (Some ''c'') [] = Inr v \<and>
        srr_status v = REVALIDATED_FAIL)) \<and>
   (let engine = \<lambda>_. Some (\<lambda>s. CHR '' '' \<in> set s); defn = [(''regex'', PyStr ''.* .*'')];
        v = PyDateTime 2024 1 31 0 0 0 0 in
     evaluate_rule engine ''PATTERN'' [[(''c'', v)]] (Some ''c'') [] defn None = Inr [] \<and>
     (\<exists>w. revalidate_row_against_rule engine [(''c'', json_safe id v)] ''PATTERN'' defn (Some ''c'') [] = Inr w \<and>
        srr_status w = REVALIDATED_FAIL))"
proof -
  have ints: "fl 1 = Fin 1" "fl 2 = Fin 2" "fl 50 = Fin 50" "fl 100 = Fin 100"
    using fl_of_int [of 1] fl_of_int [of 2] fl_of_int [of 50] fl_of_int [of 100] by simp_all
  have "evaluate_rule regex ''COMPLETENESS'' [[(''c'', PyNone)], [(''c'', PyInt 1)]] (Some ''c'') []
      [(''max_null_percentage'', PyInt 50)]
      (Some \<lparr>ces_null_count = 1, ces_distinct_count = 1, ces_total_row_count = 2\<rparr>) = Inr []"
    by (simp add: evaluate_rule_def evaluate_completeness_def float_or_raise_def definition_get_def float_of_int_def
        within_limit_def percentage_def ints pf_le_def pf_eq_def)
  moreover have "\<exists>v. revalidate_row_against_rule regex [(''c'', PyNone)] ''COMPLETENESS''
      [(''max_null_percentage'', PyInt 50)] (Some ''c'') [] = Inr v \<and> srr_status v = REVALIDATED_FAIL"
    by (simp add: revalidate_row_against_rule_def evaluate_rule_def evaluate_completeness_def float_or_raise_def
        definition_get_def float_of_int_def within_limit_def ints cell_def dict_get_def CROSS_ROW_RULE_TYPES_def
        ROW_LOCAL_RULE_TYPES_def is_supported_rule_type_def SUPPORTED_RULE_TYPES_def)
  moreover have "evaluate_rule (\<lambda>_. Some (\<lambda>s. CHR '' '' \<in> set s)) ''PATTERN''
      [[(''c'', PyDateTime 2024 1 31 0 0 0 0)]] (Some ''c'') [] [(''regex'', PyStr ''.* .*'')] None = Inr []"
    by code_simp
  moreover have "map_sum id srr_status (revalidate_row_against_rule (\<lambda>_. Some (\<lambda>s. CHR '' '' \<in> set s))
      [(''c'', json_safe id (PyDateTime 2024 1 31 0 0 0 0))] ''PATTERN'' [(''regex'', PyStr ''.* .*'')] (Some ''c'') []) =
      Inr REVALIDATED_FAIL"
    by code_simp
  ultimately show ?thesis by (auto simp: Let_def map_sum_Inr_iff)
qed

section \<open>Examples\<close>



end
