(* ===== verification/ValidationRuns.thy ===== *)
theory ValidationRuns
  imports ValidationEngine Jobs
begin

text \<open>
  Validation runs: \<open>app/modules/validation/service.py\<close> and \<open>tasks.py\<close>. The worker commits when it
  starts and then once at the end; until then its rows are pending in the session. An error it
  did not expect rolls them back, an expected one commits what is pending together with the
  failure. The parameter \<open>polls\<close> says which look at the cancel flag sees a request made
  meanwhile, and \<open>timer\<close> at which assignment the time limit of the evaluation strikes (the
  thread that goes on after it is not modelled).
\<close>

section \<open>The service\<close>

definition get_validation_run_or_raise :: "uuid \<Rightarrow> db \<Rightarrow> exn + validation_run" where
  "get_validation_run_or_raise i d = or_raise (NotFound ValidationRunNotFoundError) (get_validation_run d i)"

definition list_validation_runs :: "uuid option \<Rightarrow> run_status option \<Rightarrow> db \<Rightarrow> validation_run list" where
  "list_validation_runs ds st d = sort_key (\<lambda>r. - vr_created_at r)
     (filter (\<lambda>r. (case ds of None \<Rightarrow> True | Some i \<Rightarrow> vr_dataset_id r = i) \<and>
        (case st of None \<Rightarrow> True | Some s \<Rightarrow> vr_status r = s)) (validation_runs d))"

definition get_latest_completed_run :: "uuid \<Rightarrow> db \<Rightarrow> validation_run option" where
  "get_latest_completed_run ds d =
     (case list_validation_runs (Some ds) (Some RUN_COMPLETED) d of [] \<Rightarrow> None | r # _ \<Rightarrow> Some r)"

record failure_item =
  fi_failure :: validation_failure
  fi_record_ref :: string
  fi_row_index :: int
  fi_rule_id :: uuid
  fi_rule_name :: string
  fi_rule_type :: string
  fi_rule_origin :: string
  fi_assignment_scope :: string
  fi_column_name :: "string option"

text \<open>The assignment, the version and the rule behind an assignment key: inner joins.\<close>

definition assignment_chain :: "uuid \<Rightarrow> db \<Rightarrow> (rule_assignment \<times> rule_version \<times> rule) option" where
  "assignment_chain i d = Option.bind (get_rule_assignment d i) (\<lambda>a.
     Option.bind (get_rule_version d (ra_rule_version_id a)) (\<lambda>v.
     map_option (\<lambda>r. (a, v, r)) (get_rule d (rv_rule_id v))))"

definition column_name_of :: "uuid option \<Rightarrow> db \<Rightarrow> string option" where
  "column_name_of c d = map_option col_name (Option.bind c (get_column d))"

definition failure_item_of :: "db \<Rightarrow> validation_failure \<Rightarrow> failure_item option" where
  "failure_item_of d f = Option.bind (get_validation_result d (vf_validation_result_id f)) (\<lambda>res.
     map_option (\<lambda>(a, v, r). \<lparr>fi_failure = f, fi_record_ref = vres_record_ref res, fi_row_index = vres_row_index res,
         fi_rule_id = rule_id r, fi_rule_name = rule_name r, fi_rule_type = rule_type r, fi_rule_origin = rule_origin r,
         fi_assignment_scope = ra_assignment_scope a, fi_column_name = column_name_of (vf_column_id f) d\<rparr>)
       (assignment_chain (vf_rule_assignment_id f) d))"

definition list_failures ::
  "uuid \<Rightarrow> string option \<Rightarrow> uuid option \<Rightarrow> uuid option \<Rightarrow> int \<Rightarrow> int \<Rightarrow> db \<Rightarrow> exn + failure_item list \<times> nat" where
  "list_failures run severity col asg page page_size d =
     (case get_validation_run_or_raise run d of Inl e \<Rightarrow> Inl e | Inr _ \<Rightarrow>
      let hits = filter (\<lambda>f. vf_validation_run_id f = run \<and>
            (case severity of None \<Rightarrow> True | Some s \<Rightarrow> vf_severity f = s) \<and>
            (case col of None \<Rightarrow> True | Some c \<Rightarrow> vf_column_id f = Some c) \<and>
            (case asg of None \<Rightarrow> True | Some a \<Rightarrow> vf_rule_assignment_id f = a)) (validation_failures d);
          items = List.map_filter (failure_item_of d) (sort_key vf_created_at hits);
          offset = (page - 1) * page_size
      in if offset < 0 \<or> page_size < 0 then Inl DataError
         else Inr (take (nat page_size) (drop (nat offset) items), length hits))"

record evaluated_rule =
  er_rule_assignment_id :: uuid
  er_rule_id :: uuid
  er_rule_name :: string
  er_rule_type :: string
  er_rule_origin :: string
  er_assignment_scope :: string
  er_column_id :: "uuid option"
  er_column_name :: "string option"
  er_severity :: string

text \<open>
  The metric rows hold the text of the assignment's key; names are ordered by code points.
\<close>

definition list_evaluated_rules :: "uuid \<Rightarrow> db \<Rightarrow> exn + evaluated_rule list" where
  "list_evaluated_rules run d =
     (case get_validation_run_or_raise run d of Inl e \<Rightarrow> Inl e | Inr _ \<Rightarrow>
      let ms = filter (\<lambda>m. vm_validation_run_id m = run \<and> vm_metric_name m = ''rule_evaluated'') (validation_metrics d);
          chains = concat (map (\<lambda>m. List.map_filter (\<lambda>a. assignment_chain (ra_id a) d)
            (filter (\<lambda>a. vm_metric_group m = Some (uuid_str (ra_id a))) (rule_assignments d))) ms)
      in Inr (sort_key (\<lambda>e. map code_of (er_rule_name e)) (map (\<lambda>(a, v, r).
           \<lparr>er_rule_assignment_id = ra_id a, er_rule_id = rule_id r, er_rule_name = rule_name r,
            er_rule_type = rule_type r, er_rule_origin = rule_origin r,
            er_assignment_scope = ra_assignment_scope a, er_column_id = ra_column_id a,
            er_column_name = column_name_of (ra_column_id a) d, er_severity = rv_severity v\<rparr>) chains)))"

definition get_active_dataset :: "uuid \<Rightarrow> db \<Rightarrow> exn + dataset" where
  "get_active_dataset i d = (case get_dataset d i of None \<Rightarrow> Inl (NotFound DatasetNotFoundError) | Some ds \<Rightarrow>
     if ds_is_active ds then Inr ds else Inl (Conflict DatasetNotActiveError))"

definition new_validation_run :: "uuid \<Rightarrow> uuid \<Rightarrow> uuid option \<Rightarrow> uuid \<Rightarrow> uuid \<Rightarrow> instant \<Rightarrow> validation_run" where
  "new_validation_run i ds template job actor now =
     \<lparr>vr_id = i, vr_dataset_id = ds, vr_template_id = template, vr_job_id = Some job, vr_status = RUN_QUEUED,
      vr_sample_size = None, vr_total_rows = 0, vr_passed_rows = 0, vr_warning_rows = 0, vr_failed_rows = 0,
      vr_quality_score = None, vr_rules_evaluated_count = 0, vr_no_applicable_rules = False,
      vr_error_message = None, vr_triggered_by = Some actor, vr_started_at = None, vr_completed_at = None,
      vr_duration_ms = None, vr_created_at = now, vr_updated_at = Some now\<rparr>"

text \<open>The run is CREATED, gets its job and becomes QUEUED, all in one transaction.\<close>

definition start_validation :: "uuid \<Rightarrow> uuid option \<Rightarrow> uuid \<Rightarrow> instant \<Rightarrow> (db, uuid \<times> uuid) op" where
  "start_validation dsid template actor now d =
     attempt d (get_active_dataset dsid d) (\<lambda>ds.
     checked d (raise_if (find_in_flight ''VALIDATION_RUN'' ''DATASET'' dsid d \<noteq> None)
         (Conflict ValidationAlreadyRunningError))
      (let run = db_next d;
           d1 = add_job ''VALIDATION_RUN'' ''DATASET'' (ds_id ds) actor now (d\<lparr>db_next := Suc run\<rparr>);
           d2 = d1\<lparr>validation_runs := validation_runs d1 @
                  [new_validation_run run (ds_id ds) template (Suc run) actor now]\<rparr>;
           d3 = record_edge now (''DATASET'', ds_id ds, ''VALIDATION_RUN'', run, ''VALIDATED_BY'') d2
       in returns d3 (run, Suc run)))"

section \<open>Resolving the assignments\<close>

type_synonym assignment = "rule_assignment \<times> rule_version \<times> rule"

definition resolve_assignments :: "uuid \<Rightarrow> db \<Rightarrow> exn + assignment list" where
  "resolve_assignments dsid d = map_ok (\<lambda>a. or_raise AttributeError (assignment_chain (ra_id a) d))
     (filter (\<lambda>a. ra_dataset_id a = dsid \<and> ra_is_enabled a) (rule_assignments d))"

definition dataset_columns :: "uuid \<Rightarrow> db \<Rightarrow> column list" where
  "dataset_columns dsid d = filter (\<lambda>c. col_dataset_id c = dsid \<and> col_is_active c) (columns d)"

definition column_of :: "column list \<Rightarrow> uuid option \<Rightarrow> column option" where
  "column_of cols c = Option.bind c (find_row col_id cols)"

text \<open>The column names of a list of keys, keys of other columns left out.\<close>

definition names_of :: "column list \<Rightarrow> uuid list \<Rightarrow> string list" where
  "names_of cols ids = List.map_filter (\<lambda>i. map_option col_name (find_row col_id cols i)) ids"

definition key_names :: "uuid \<Rightarrow> column list \<Rightarrow> db \<Rightarrow> string list" where
  "key_names dsid cols d = names_of cols (map dkc_column_id
     (sort_key dkc_ordinal (filter (\<lambda>k. dkc_dataset_id k = dsid) (dataset_key_columns d))))"

definition cross_names :: "uuid \<Rightarrow> column list \<Rightarrow> db \<Rightarrow> string list" where
  "cross_names asg cols d = names_of cols (map rac_column_id
     (sort_key rac_ordinal (filter (\<lambda>c. rac_rule_assignment_id c = asg) (rule_assignment_columns d))))"

definition EXACT_EVALUATION_RULE_TYPES :: "string list" where
  "EXACT_EVALUATION_RULE_TYPES = [''COMPLETENESS'', ''UNIQUENESS'', ''DUPLICATE'', ''CROSS_COLUMN'']"

definition TIMEOUT_BOUNDED_RULE_TYPES :: "string list" where
  "TIMEOUT_BOUNDED_RULE_TYPES = [''CROSS_COLUMN'', ''DUPLICATE'']"

definition requested_sample_size :: "settings \<Rightarrow> dataset \<Rightarrow> assignment list \<Rightarrow> int" where
  "requested_sample_size cfg ds info =
     (if \<exists>(_, _, r) \<in> set info. rule_type r \<in> set EXACT_EVALUATION_RULE_TYPES
      then (case ds_row_count_estimate ds of None \<Rightarrow> PROFILING_MAX_FULL_SCAN_ROWS cfg
            | Some n \<Rightarrow> if n = 0 then PROFILING_MAX_FULL_SCAN_ROWS cfg else n)
      else PROFILING_DEFAULT_SAMPLE_SIZE cfg)"

text \<open>A set of names, passed on as a list.\<close>

definition pushdown_column_names :: "column list \<Rightarrow> assignment list \<Rightarrow> string list" where
  "pushdown_column_names cols info = remdups (map col_name (List.map_filter (\<lambda>(a, _, r).
     if rule_type r \<in> {''COMPLETENESS'', ''UNIQUENESS''} then column_of cols (ra_column_id a) else None) info))"

text \<open>The rows and the exact statistics; a provider without them, or a timeout, gives none.\<close>

definition pull_rows ::
  "provider \<Rightarrow> settings \<Rightarrow> string \<Rightarrow> dataset \<Rightarrow> column list \<Rightarrow> assignment list \<Rightarrow>
   exn + row list \<times> (string \<times> column_exact_stats) list" where
  "pull_rows prov cfg schema ds cols info =
     (case pv_sample_rows prov schema (ds_name ds) (requested_sample_size cfg ds info) (ds_row_count_estimate ds) of
        Inl e \<Rightarrow> Inl e
      | Inr sample \<Rightarrow> let names = pushdown_column_names cols info in
          if names = [] then Inr (smp_rows sample, [])
          else (case pv_get_dataset_column_stats prov schema (ds_name ds) names of
             Inl e \<Rightarrow> if e \<in> {Adapter ExactStatsTimeoutError, NotImplementedError} then Inr (smp_rows sample, [])
                     else Inl e
           | Inr stats \<Rightarrow> Inr (smp_rows sample, stats)))"

section \<open>Evaluation\<close>

definition add_metric :: "uuid \<Rightarrow> string \<Rightarrow> string option \<Rightarrow> int \<Rightarrow> instant \<Rightarrow> db \<Rightarrow> db" where
  "add_metric run name grp v now d = d\<lparr>validation_metrics := validation_metrics d @
     [\<lparr>vm_id = db_next d, vm_validation_run_id = run, vm_metric_name = name, vm_metric_group = grp,
       vm_metric_value = of_int v, vm_created_at = now\<rparr>], db_next := Suc (db_next d)\<rparr>"

text \<open>
  One entry per row index, assignment and failure, in the order \<open>failures_by_row\<close> collects
  them; the entries of a row are those with its index.
\<close>

type_synonym failure_entry = "nat \<times> assignment \<times> row_failure"

definition entries_of :: "failure_entry list \<Rightarrow> nat \<Rightarrow> (assignment \<times> row_failure) list" where
  "entries_of es i = map snd (filter (\<lambda>e. fst e = i) es)"

definition evaluate_assignment ::
  "regex_engine \<Rightarrow> column list \<Rightarrow> row list \<Rightarrow> (string \<times> column_exact_stats) list \<Rightarrow> db \<Rightarrow> assignment \<Rightarrow>
   exn + failures" where
  "evaluate_assignment regex cols rows stats d = (\<lambda>(a, v, r).
     let ty = rule_type r; defn = rv_definition v; col = column_of cols (ra_column_id a) in
     if ty \<in> {''COMPLETENESS'', ''UNIQUENESS'', ''RANGE'', ''PATTERN''} then
       (case col of None \<Rightarrow> Inr []
        | Some c \<Rightarrow> evaluate_rule regex ty rows (Some (col_name c)) [] defn (map_of stats (col_name c)))
     else evaluate_rule regex ty rows None (cross_names (ra_id a) cols d) defn None)"

definition count_unsupported :: "string \<Rightarrow> (string \<times> int) list \<Rightarrow> (string \<times> int) list" where
  "count_unsupported ty m = dict_set ty ((case map_of m ty of None \<Rightarrow> 0 | Some n \<Rightarrow> n) + 1) m"

fun do_evaluation ::
  "regex_engine \<Rightarrow> column list \<Rightarrow> row list \<Rightarrow> (string \<times> column_exact_stats) list \<Rightarrow> uuid \<Rightarrow> uuid \<Rightarrow>
   (nat \<Rightarrow> bool) \<Rightarrow> nat option \<Rightarrow> instant \<Rightarrow> nat \<Rightarrow> assignment list \<Rightarrow> failure_entry list \<Rightarrow> (string \<times> int) list \<Rightarrow>
   (db, failure_entry list \<times> (string \<times> int) list) op" where
  "do_evaluation regex cols rows stats job run polls timer now n [] es un d = returns d (es, un)"
| "do_evaluation regex cols rows stats job run polls timer now n ((a, v, r) # info) es un d =
     (if timer = Some n then raises d (Adapter SourceTimeoutError)
      else if polls n \<or> is_cancel_requested job d then raises d ValidationCancelled
      else if \<not> is_supported_rule_type (rule_type r) then
        do_evaluation regex cols rows stats job run polls timer now (Suc n) info es
          (count_unsupported (rule_type r) un) d
      else (let d1 = add_metric run ''rule_evaluated'' (Some (uuid_str (ra_id a))) 1 now d in
        attempt d1 (evaluate_assignment regex cols rows stats d1 (a, v, r)) (\<lambda>fs.
          do_evaluation regex cols rows stats job run polls timer now (Suc n) info
            (es @ map (\<lambda>(i, f). (i, (a, v, r), f)) fs) un d1)))"

section \<open>Results\<close>

definition SEVERITY_FAIL :: "string list" where
  "SEVERITY_FAIL = [''CRITICAL'', ''HIGH'']"

datatype row_verdict = ROW_PASSED | ROW_WARNING | ROW_FAILED

definition row_verdict_of :: "(assignment \<times> row_failure) list \<Rightarrow> row_verdict" where
  "row_verdict_of es = (if es = [] then ROW_PASSED
     else if \<exists>((_, v, _), _) \<in> set es. rv_severity v \<in> set SEVERITY_FAIL then ROW_FAILED else ROW_WARNING)"

primrec verdict_text :: "row_verdict \<Rightarrow> string" where
  "verdict_text ROW_PASSED = ''PASSED''"
| "verdict_text ROW_WARNING = ''WARNING''"
| "verdict_text ROW_FAILED = ''FAILED''"

definition add_result :: "uuid \<Rightarrow> string \<Rightarrow> nat \<Rightarrow> string \<Rightarrow> nat \<Rightarrow> string \<Rightarrow> instant \<Rightarrow> db \<Rightarrow> db" where
  "add_result run ref i st n h now d = d\<lparr>validation_results := validation_results d @
     [\<lparr>vres_id = db_next d, vres_validation_run_id = run, vres_record_ref = ref, vres_row_index = int i,
       vres_status = st, vres_failure_count = int n, vres_source_row_hash = h, vres_created_at = now\<rparr>],
     db_next := Suc (db_next d)\<rparr>"

definition add_failure :: "uuid \<Rightarrow> uuid \<Rightarrow> instant \<Rightarrow> assignment \<times> row_failure \<Rightarrow> db \<Rightarrow> db" where
  "add_failure run res now = (\<lambda>((a, v, r), f) d. d\<lparr>validation_failures := validation_failures d @
     [\<lparr>vf_id = db_next d, vf_validation_result_id = res, vf_validation_run_id = run,
       vf_rule_assignment_id = ra_id a, vf_column_id = ra_column_id a, vf_severity = rv_severity v,
       vf_failed_value = rf_failed_value f, vf_expected_value = rf_expected_value f,
       vf_reason = Some (rf_reason f), vf_created_at = now\<rparr>], db_next := Suc (db_next d)\<rparr>)"

text \<open>Failures beyond the cap are counted but not stored.\<close>

fun add_failures ::
  "int \<Rightarrow> uuid \<Rightarrow> uuid \<Rightarrow> instant \<Rightarrow> (assignment \<times> row_failure) list \<Rightarrow> db \<times> int \<Rightarrow> db \<times> int" where
  "add_failures cap run res now [] s = s"
| "add_failures cap run res now (e # es) (d, stored) =
     (if cap \<le> stored then add_failures cap run res now es (d, stored)
      else add_failures cap run res now es (add_failure run res now e d, stored + 1))"

record tally =
  tl_verdicts :: "row_verdict list"
  tl_stored :: int

definition store_row ::
  "env \<Rightarrow> settings \<Rightarrow> string list \<Rightarrow> uuid \<Rightarrow> instant \<Rightarrow> (assignment \<times> row_failure) list \<Rightarrow> string \<Rightarrow> nat \<Rightarrow> row \<Rightarrow>
   tally \<Rightarrow> db \<Rightarrow> db \<times> tally" where
  "store_row env cfg names run now fs ref i r t d =
     (let verdict = row_verdict_of fs;
          d1 = add_result run ref i (verdict_text verdict) (length fs)
                 (compute_source_row_hash (env_sha256 env) r names) now d;
          s = add_failures (VALIDATION_MAX_FAILURES cfg) run (db_next d) now fs (d1, tl_stored t)
      in (fst s, \<lparr>tl_verdicts = tl_verdicts t @ [verdict], tl_stored = snd s\<rparr>))"

fun store_rows ::
  "env \<Rightarrow> settings \<Rightarrow> string \<Rightarrow> string list \<Rightarrow> string list \<Rightarrow> uuid \<Rightarrow> uuid \<Rightarrow> (nat \<Rightarrow> bool) \<Rightarrow> instant \<Rightarrow>
   failure_entry list \<Rightarrow> nat \<Rightarrow> row list \<Rightarrow> tally \<Rightarrow> (db, tally) op" where
  "store_rows env cfg strategy keys names job run polls now es i [] t d = returns d t"
| "store_rows env cfg strategy keys names job run polls now es i (r # rows) t d =
     (if i mod 500 = 0 \<and> (polls i \<or> is_cancel_requested job d) then raises d ValidationCancelled
      else attempt d (generate_record_ref strategy keys r (int i)) (\<lambda>ref.
        let s = store_row env cfg names run now (entries_of es i) ref i r t d in
        store_rows env cfg strategy keys names job run polls now es (Suc i) rows (snd s) (fst s)))"

definition verdict_count :: "row_verdict \<Rightarrow> tally \<Rightarrow> int" where
  "verdict_count v t = int (length (filter (\<lambda>w. w = v) (tl_verdicts t)))"

text \<open>
  \<open>Decimal(str(round(100.0 * passed / total, 2)))\<close>: a float rounded to two places and printed
  in its shortest form has the hundredths as its digits.
\<close>

definition hundredths :: "int \<Rightarrow> dec" where
  "hundredths k = (if k mod 10 = 0 then DFin False (nat (k div 10)) (- 1) else DFin False (nat k) (- 2))"

definition round_score :: "int \<Rightarrow> int \<Rightarrow> exn + dec option" where
  "round_score passed n = (if n = 0 then Inr None else
     (case percentage passed n of Inl e \<Rightarrow> Inl e
      | Inr (Fin x) \<Rightarrow> Inr (Some (hundredths (round_half_even (100 * x))))
      | Inr _ \<Rightarrow> Inl (Conv ValueError)))"

fun dec_rat :: "dec \<Rightarrow> rat" where
  "dec_rat (DFin neg c e) = dec_value neg c e"
| "dec_rat _ = 0"

section \<open>The worker\<close>

datatype validation_outcome =
    ValStatus job_status
  | ValFailed errmsg
  | ValCancelled
  | ValCompleted int int int int

definition validation_resolved :: "job_status \<Rightarrow> run_status \<Rightarrow> bool" where
  "validation_resolved js rs \<longleftrightarrow> js \<in> {JOB_CANCELLED, JOB_COMPLETED, JOB_FAILED} \<or>
     rs \<in> {RUN_CANCELLED, RUN_COMPLETED, RUN_FAILED}"

definition VALIDATION_TERMINAL_ERRORS :: "exn list" where
  "VALIDATION_TERMINAL_ERRORS = [Adapter SourceAuthenticationError, Adapter SourceTimeoutError,
     Adapter SourceUnreachableError, Adapter SourceSSLError, OtherApp CredentialVaultError]"

definition validation_start :: "job \<Rightarrow> uuid \<Rightarrow> instant \<Rightarrow> db \<Rightarrow> db" where
  "validation_start j run now d = set_validation_run run
     (\<lambda>r. r\<lparr>vr_status := RUN_RUNNING, vr_started_at := Some now\<rparr>) (fst (mark_running (job_id j) now d))"

definition validation_fail :: "job \<Rightarrow> uuid \<Rightarrow> uuid \<Rightarrow> errmsg \<Rightarrow> pyval \<Rightarrow> instant \<Rightarrow> db \<Rightarrow> db" where
  "validation_fail j run dsid msg text now d =
     audit_record (job_actor j d) ''USER'' ''validation.failed'' ''DATASET'' dsid None None
       (Some [(''error'', text)]) now
       (set_validation_run run (\<lambda>r. r\<lparr>vr_status := RUN_FAILED, vr_error_message := Some msg,
          vr_completed_at := Some now\<rparr>) (fst (mark_failed (job_id j) msg now d)))"

definition validation_cancel :: "job \<Rightarrow> uuid \<Rightarrow> uuid \<Rightarrow> instant \<Rightarrow> db \<Rightarrow> db" where
  "validation_cancel j run dsid now d =
     audit_record (job_actor j d) ''USER'' ''validation.cancelled'' ''DATASET'' dsid None None None now
       (set_validation_run run (\<lambda>r. r\<lparr>vr_status := RUN_CANCELLED, vr_completed_at := Some now\<rparr>)
         (clear_cancel_flag (job_id j) (fst (mark_cancelled (job_id j) now d))))"

definition timeout_message :: "int \<Rightarrow> errmsg" where
  "timeout_message secs = Literal (''Validation timed out after '' @ show_int secs @ ''s'')"

definition upd_dataset :: "uuid \<Rightarrow> (dataset \<Rightarrow> dataset) \<Rightarrow> db \<Rightarrow> db" where
  "upd_dataset i f d = d\<lparr>datasets := upd_row ds_id i f (datasets d)\<rparr>"

definition complete_run ::
  "uuid \<Rightarrow> int \<Rightarrow> int \<Rightarrow> int \<Rightarrow> int \<Rightarrow> rat option \<Rightarrow> instant \<Rightarrow> instant \<Rightarrow> db \<Rightarrow> db" where
  "complete_run run n passed warning failed score started now = set_validation_run run
     (\<lambda>r. r\<lparr>vr_status := RUN_COMPLETED, vr_completed_at := Some now, vr_total_rows := n,
            vr_passed_rows := passed, vr_warning_rows := warning, vr_failed_rows := failed,
            vr_quality_score := score, vr_duration_ms := Some (duration_ms started now)\<rparr>)"

definition finish_empty :: "job \<Rightarrow> uuid \<Rightarrow> uuid \<Rightarrow> instant \<Rightarrow> instant \<Rightarrow> db \<Rightarrow> db" where
  "finish_empty j run dsid started now d =
     audit_record (job_actor j d) ''USER'' ''validation.completed'' ''DATASET'' dsid None None
       (Some [(''total_rows'', PyInt 0)]) now
       (upd_dataset dsid (\<lambda>s. s\<lparr>ds_last_validated_at := Some now\<rparr>)
       (add_metric run ''failure_storage_truncated'' None 0 now
       (add_metric run ''total_rows'' None 0 now
       (fst (mark_completed (job_id j) None None now
         (set_validation_run run (\<lambda>r. r\<lparr>vr_status := RUN_COMPLETED, vr_completed_at := Some now,
            vr_total_rows := 0, vr_quality_score := None,
            vr_duration_ms := Some (duration_ms started now)\<rparr>) d))))))"

definition score_text :: "dec option \<Rightarrow> pyval" where
  "score_text s = (case s of None \<Rightarrow> PyNone | Some x \<Rightarrow> PyStr (str_dec x))"

definition finish_run ::
  "settings \<Rightarrow> job \<Rightarrow> validation_run \<Rightarrow> uuid \<Rightarrow> tally \<Rightarrow> (string \<times> int) list \<Rightarrow> dec option \<Rightarrow> instant \<Rightarrow> instant \<Rightarrow> db \<Rightarrow> db" where
  "finish_run cfg j r dsid t un score started now d =
     (let run = vr_id r; n = int (length (tl_verdicts t)); q = map_option dec_rat score;
          passed = verdict_count ROW_PASSED t; warning = verdict_count ROW_WARNING t; failed = verdict_count ROW_FAILED t;
          truncated = (VALIDATION_MAX_FAILURES cfg \<le> tl_stored t);
          d1 = add_metric run ''failure_storage_truncated'' None (if truncated then 1 else 0) now d;
          d2 = add_metric run ''total_rows'' None n now d1;
          d3 = fold (\<lambda>(ty, k). add_metric run ''unsupported_rule_type_skipped'' (Some ty) k now) un d2;
          d4 = complete_run run n passed warning failed q started now d3;
          d5 = upd_dataset dsid (\<lambda>s. s\<lparr>ds_last_validated_at := Some now, ds_last_quality_score := q\<rparr>) d4;
          d6 = (case Option.bind (vr_template_id r) (get_validation_template d5) of None \<Rightarrow> d5
                | Some vt \<Rightarrow> d5\<lparr>validation_templates := upd_row vt_id (vt_id vt)
                    (\<lambda>vt. vt\<lparr>vt_last_quality_score := q, vt_last_run_id := Some run\<rparr>) (validation_templates d5)\<rparr>);
          d7 = fst (mark_completed (job_id j) None None now d6)
      in audit_record (job_actor j d) ''USER'' ''validation.completed'' ''DATASET'' dsid None None
           (Some [(''total_rows'', PyInt n), (''passed_rows'', PyInt passed), (''warning_rows'', PyInt warning),
                  (''failed_rows'', PyInt failed), (''quality_score'', score_text score),
                  (''failure_storage_truncated'', PyBool truncated)]) now d7)"

text \<open>From the pulled rows to the end; \<open>base\<close> is the last committed state.\<close>

definition validate_rows ::
  "env \<Rightarrow> regex_engine \<Rightarrow> settings \<Rightarrow> job \<Rightarrow> validation_run \<Rightarrow> dataset \<Rightarrow> assignment list \<Rightarrow> column list \<Rightarrow>
   row list \<Rightarrow> (string \<times> column_exact_stats) list \<Rightarrow> (nat \<Rightarrow> bool) \<Rightarrow> (nat \<Rightarrow> bool) \<Rightarrow> nat option \<Rightarrow>
   instant \<Rightarrow> instant \<Rightarrow> db \<Rightarrow> (db, validation_outcome) op" where
  "validate_rows env regex cfg j r ds info cols rows stats polls polls2 timer started now base d =
     (let run = vr_id r; dsid = ds_id ds; keys = key_names dsid cols base;
          strategy = (if keys \<noteq> [] then ds_key_strategy ds else ''ROW_INDEX_FALLBACK'');
          bounded = (\<exists>(_, _, x) \<in> set info. rule_type x \<in> set TIMEOUT_BOUNDED_RULE_TYPES)
      in case do_evaluation regex cols rows stats (job_id j) run polls (if bounded then timer else None) now 0
                info [] [] d of
           (d1, Inl e) \<Rightarrow>
             if e = Adapter SourceTimeoutError then
               returns (audit_record (job_actor j d1) ''USER'' ''validation.failed'' ''DATASET'' dsid None None
                   (Some [(''reason'', PyStr ''timeout''),
                          (''timeout_seconds'', PyInt (VALIDATION_DATASET_TIMEOUT_SECONDS cfg))]) now
                   (validation_fail j run dsid (timeout_message (VALIDATION_DATASET_TIMEOUT_SECONDS cfg))
                     (PyStr (error_name e)) now d1))
                 (ValFailed (timeout_message (VALIDATION_DATASET_TIMEOUT_SECONDS cfg)))
             else if e = ValidationCancelled then returns (validation_cancel j run dsid now d1) ValCancelled
             else raises base e
         | (d1, Inr (es, un)) \<Rightarrow>
             (case store_rows env cfg strategy keys (map col_name cols) (job_id j) run polls2 now es 0 rows
                     \<lparr>tl_verdicts = [], tl_stored = 0\<rparr> d1 of
                (d2, Inl e) \<Rightarrow> if e = ValidationCancelled then returns (validation_cancel j run dsid now base) ValCancelled
                  else raises base e
              | (d2, Inr t) \<Rightarrow>
                  attempt base (round_score (verdict_count ROW_PASSED t) (int (length rows))) (\<lambda>score.
                    returns (finish_run cfg j r dsid t un score started now d2)
                      (ValCompleted (int (length rows)) (verdict_count ROW_PASSED t)
                        (verdict_count ROW_WARNING t) (verdict_count ROW_FAILED t)))))"

definition execute_validation ::
  "env \<Rightarrow> regex_engine \<Rightarrow> settings \<Rightarrow> job \<Rightarrow> validation_run \<Rightarrow> (nat \<Rightarrow> bool) \<Rightarrow> (nat \<Rightarrow> bool) \<Rightarrow> nat option \<Rightarrow>
   instant \<Rightarrow> instant \<Rightarrow> (db, validation_outcome) op" where
  "execute_validation env regex cfg j r polls polls2 timer started now d =
     (let run = vr_id r; d1 = validation_start j run started d in
      attempt d1 (or_raise AttributeError (get_dataset d (job_entity_id j))) (\<lambda>ds.
      let dsid = ds_id ds;
          d2 = audit_record (job_actor j d1) ''USER'' ''validation.started'' ''DATASET'' dsid None None None started d1;
          failed = (\<lambda>e w. returns (validation_fail j run dsid (TextOf e) (PyStr (error_name e)) now w) (ValFailed (TextOf e)))
      in attempt d2 (dataset_source dsid d2) (\<lambda>(_, sch, conn, ct).
         (case open_source env conn ct of
            Inl e \<Rightarrow> if e \<in> set VALIDATION_TERMINAL_ERRORS then failed e d2 else raises d2 e
          | Inr prov \<Rightarrow> attempt d2 (resolve_assignments dsid d2) (\<lambda>info.
              let d3 = set_validation_run run (\<lambda>x. x\<lparr>vr_rules_evaluated_count := int (length info),
                         vr_no_applicable_rules := (info = [])\<rparr>) d2;
                  cols = dataset_columns dsid d2
              in (case pull_rows prov cfg (sch_name sch) ds cols info of
                    Inl e \<Rightarrow> if e \<in> {Adapter SourceTimeoutError, Adapter SourceQueryError} then failed e d3 else raises d2 e
                  | Inr (rows, stats) \<Rightarrow>
                      let d4 = set_validation_run run (\<lambda>x. x\<lparr>vr_sample_size := Some (int (length rows))\<rparr>) d3 in
                      if is_cancel_requested (job_id j) d4 then returns (validation_cancel j run dsid now d4) ValCancelled
                      else if rows = [] then returns (finish_empty j run dsid started now d4) (ValCompleted 0 0 0 0)
                      else validate_rows env regex cfg j r ds info cols rows stats polls polls2 timer started now d2 d4))))))"

definition run_validation ::
  "env \<Rightarrow> regex_engine \<Rightarrow> settings \<Rightarrow> uuid \<Rightarrow> uuid \<Rightarrow> (nat \<Rightarrow> bool) \<Rightarrow> (nat \<Rightarrow> bool) \<Rightarrow> nat option \<Rightarrow>
   instant \<Rightarrow> instant \<Rightarrow> (db, validation_outcome) op" where
  "run_validation env regex cfg jobid runid polls polls2 timer started now d =
     attempt d (jobs_get jobid d) (\<lambda>j.
     (case get_validation_run d runid of None \<Rightarrow> returns d (ValStatus (job_status j))
      | Some r \<Rightarrow>
          if validation_resolved (job_status j) (vr_status r) then returns d (ValStatus (job_status j))
          else (case execute_validation env regex cfg j r polls polls2 timer started now d of
                  (d1, Inr x) \<Rightarrow> returns d1 x
                | (d1, Inl e) \<Rightarrow> (case get_dataset d (job_entity_id j) of
                      None \<Rightarrow> raises (fst (mark_failed (job_id j) (TextOf e) now d1)) AttributeError
                    | Some ds \<Rightarrow> returns (validation_fail j runid (ds_id ds) (TextOf e) (PyStr (error_name e)) now d1)
                        (ValFailed (TextOf e))))))"

end
