(* ===== verification/ValidatedRows.thy ===== *)
theory ValidatedRows
  imports ValidationRuns Staging
begin

text \<open>
  What a validation run leaves behind: it always ends, with its job and its run in matching final
  states, and a completed run has one result per pulled row, whose verdict is read off the
  failures that the enabled assignments report for that row.
\<close>

section \<open>Frames\<close>

lemma row_op_frame [simp]:
  "jobs (add_metric run nm g v now d) = jobs d" "jobs (add_result run ref i st n h now d) = jobs d"
  "jobs (add_failure run res now x d) = jobs d"
  "validation_runs (add_metric run nm g v now d) = validation_runs d"
  "validation_runs (add_result run ref i st n h now d) = validation_runs d"
  "validation_runs (add_failure run res now x d) = validation_runs d"
  "cancel_flags (add_metric run nm g v now d) = cancel_flags d"
  "cancel_flags (add_result run ref i st n h now d) = cancel_flags d"
  "cancel_flags (add_failure run res now x d) = cancel_flags d"
  "rule_assignment_columns (add_metric run nm g v now d) = rule_assignment_columns d"
  "validation_results (add_metric run nm g v now d) = validation_results d"
  "validation_results (add_failure run res now x d) = validation_results d"
  "validation_failures (add_metric run nm g v now d) = validation_failures d"
  "validation_failures (add_result run ref i st n h now d) = validation_failures d"
  by (simp_all add: add_metric_def add_result_def add_failure_def split_def)

lemma upd_dataset_frame [simp]:
  "jobs (upd_dataset i f d) = jobs d" "validation_runs (upd_dataset i f d) = validation_runs d"
  "cancel_flags (upd_dataset i f d) = cancel_flags d"
  "validation_results (upd_dataset i f d) = validation_results d"
  "validation_failures (upd_dataset i f d) = validation_failures d"
  by (simp_all add: upd_dataset_def)

lemma set_validation_run_frame [simp]:
  "jobs (set_validation_run i f d) = jobs d" "cancel_flags (set_validation_run i f d) = cancel_flags d"
  "datasets (set_validation_run i f d) = datasets d"
  "rule_assignment_columns (set_validation_run i f d) = rule_assignment_columns d"
  "validation_results (set_validation_run i f d) = validation_results d"
  "validation_failures (set_validation_run i f d) = validation_failures d"
  by (simp_all add: set_validation_run_def)

lemma get_validation_run_set [simp]:
  assumes "\<And>r. vr_id (f r) = vr_id r"
  shows "get_validation_run (set_validation_run i f d) k =
    (if i = k then map_option f (get_validation_run d k) else get_validation_run d k)"
  using assms by (simp add: set_validation_run_def find_row_upd_row)

text \<open>The job and the run of a validation are in the tables.\<close>

definition tracked :: "uuid \<Rightarrow> uuid \<Rightarrow> db \<Rightarrow> bool" where
  "tracked jid run d \<longleftrightarrow> get_job d jid \<noteq> None \<and> get_validation_run d run \<noteq> None"

lemma tracked_cong:
  "jobs d = jobs e \<Longrightarrow> validation_runs d = validation_runs e \<Longrightarrow> tracked jid run d = tracked jid run e"
  by (simp add: tracked_def)

lemma tracked_simps [simp]:
  "tracked jid run (add_metric v nm g x now d) = tracked jid run d"
  "tracked jid run (add_result v ref i st n h now d) = tracked jid run d"
  "tracked jid run (add_failure v res now y d) = tracked jid run d"
  "tracked jid run (upd_dataset ds f d) = tracked jid run d"
  "tracked jid run (audit_record a ty ac et ei b af m now d) = tracked jid run d"
  by (simp_all add: tracked_def)

lemma tracked_set [simp]:
  assumes "\<And>r. vr_id (f r) = vr_id r"
  shows "tracked jid run (set_validation_run i f d) = tracked jid run d"
  using assms by (simp add: tracked_def)

section \<open>Every validation ends\<close>

definition resolved_as :: "uuid \<Rightarrow> uuid \<Rightarrow> validation_outcome \<Rightarrow> db \<Rightarrow> bool" where
  "resolved_as jid run out d \<longleftrightarrow> (\<exists>j r. get_job d jid = Some j \<and> get_validation_run d run = Some r \<and>
     (case out of
        ValStatus _ \<Rightarrow> False
      | ValFailed m \<Rightarrow> job_status j = JOB_FAILED \<and> vr_status r = RUN_FAILED \<and>
          job_error_message j = Some m \<and> vr_error_message r = Some m
      | ValCancelled \<Rightarrow> job_status j = JOB_CANCELLED \<and> vr_status r = RUN_CANCELLED \<and> \<not> is_cancel_requested jid d
      | ValCompleted n p w f \<Rightarrow> job_status j = JOB_COMPLETED \<and> vr_status r = RUN_COMPLETED \<and>
          vr_total_rows r = n \<and> n = p + w + f \<and>
          (0 < n \<longrightarrow> vr_passed_rows r = p \<and> vr_warning_rows r = w \<and> vr_failed_rows r = f)))"

lemma resolved_audit [simp]:
  "resolved_as jid run out (audit_record a ty ac et ei b af m now d) = resolved_as jid run out d"
  by (cases out) (simp_all add: resolved_as_def is_cancel_requested_def)

lemma trackedE:
  assumes "tracked jid run d"
  obtains j r where "get_job d jid = Some j" and "get_validation_run d run = Some r"
  using assms by (auto simp: tracked_def)

lemma tracked_start: "tracked jid run d \<Longrightarrow> tracked jid run (validation_start j v now d)"
  by (auto simp: validation_start_def mark_defs tracked_def write_job_eq get_job_upd_job write_job_def jobs_get_def
      or_raise_def split: option.splits)

lemma resolved_fail:
  assumes "tracked jid run d" and "job_id j = jid"
  shows "resolved_as jid run (ValFailed m) (validation_fail j run dsid m x now d)"
  using assms by (auto elim!: trackedE simp: validation_fail_def resolved_as_def mark_defs get_job_marked)

lemma resolved_cancel:
  assumes "tracked jid run d" and "job_id j = jid"
  shows "resolved_as jid run ValCancelled (validation_cancel j run dsid now d)"
  using assms by (auto elim!: trackedE simp: validation_cancel_def resolved_as_def mark_defs get_job_marked
      is_cancel_requested_def cleared_flag clear_cancel_flag_def)

lemma resolved_empty:
  assumes "tracked jid run d" and "job_id j = jid"
  shows "resolved_as jid run (ValCompleted 0 0 0 0) (finish_empty j run dsid started now d)"
  using assms by (auto elim!: trackedE simp: finish_empty_def resolved_as_def mark_defs get_job_marked)

text \<open>The three verdicts partition the rows.\<close>

lemma verdicts_partition:
  "int (length (tl_verdicts t)) = verdict_count ROW_PASSED t + verdict_count ROW_WARNING t + verdict_count ROW_FAILED t"
proof -
  have "length vs = length (filter (\<lambda>w. w = ROW_PASSED) vs) + length (filter (\<lambda>w. w = ROW_WARNING) vs) +
      length (filter (\<lambda>w. w = ROW_FAILED) vs)" for vs
  proof (induction vs)
    case (Cons v vs)
    then show ?case by (cases v) auto
  qed simp
  then show ?thesis unfolding verdict_count_def by (metis of_nat_add)
qed

lemma fold_metrics_frame [simp]:
  "jobs (fold (\<lambda>(ty, k). add_metric run nm (Some ty) k now) un d) = jobs d"
  "validation_runs (fold (\<lambda>(ty, k). add_metric run nm (Some ty) k now) un d) = validation_runs d"
  "validation_results (fold (\<lambda>(ty, k). add_metric run nm (Some ty) k now) un d) = validation_results d"
  "validation_failures (fold (\<lambda>(ty, k). add_metric run nm (Some ty) k now) un d) = validation_failures d"
  by (induction un arbitrary: d) auto

lemma resolved_finish:
  assumes "tracked jid run d" and "job_id j = jid" and "vr_id r = run"
    and "length (tl_verdicts t) = n"
  shows "resolved_as jid run
    (ValCompleted (int n) (verdict_count ROW_PASSED t) (verdict_count ROW_WARNING t) (verdict_count ROW_FAILED t))
    (finish_run cfg j r dsid t un score started now d)"
  using assms verdicts_partition [of t]
  by (auto elim!: trackedE simp: finish_run_def Let_def resolved_as_def mark_defs get_job_marked complete_run_def
      split: option.split)

text \<open>An outcome that is either resolved, or an error after which the job and the run are still there.\<close>

definition fine :: "uuid \<Rightarrow> uuid \<Rightarrow> (db, exn, validation_outcome) outcome \<Rightarrow> bool" where
  "fine jid run out \<longleftrightarrow> (case out of (d, Inr x) \<Rightarrow> resolved_as jid run x d | (d, Inl e) \<Rightarrow> tracked jid run d)"

lemma fine_simps [simp]:
  "fine jid run (returns d x) = resolved_as jid run x d"
  "fine jid run (raises d e) = tracked jid run d"
  by (simp_all add: fine_def returns_def raises_def)

lemma fine_attempt:
  "tracked jid run d \<Longrightarrow> (\<And>x. r = Inr x \<Longrightarrow> fine jid run (k x)) \<Longrightarrow> fine jid run (attempt d r k)"
  by (cases r) simp_all

lemma tracked_evaluation:
  "tracked jid run d \<Longrightarrow>
   ends_in (tracked jid run) (do_evaluation regex cols rows stats job v polls timer now n info es un d)"
proof (induction regex cols rows stats job v polls timer now n info es un d rule: do_evaluation.induct)
  case (2 regex cols rows stats job v polls timer now n a v' r info es un d)
  then show ?case
    unfolding do_evaluation.simps by (intro ends) (auto simp: Let_def)
qed (auto intro: ends)

lemma tracked_add_failures [simp]:
  "tracked jid run (fst (add_failures cap v res now es s)) = tracked jid run (fst s)"
  by (induction cap v res now es s rule: add_failures.induct) auto

lemma tracked_store_row [simp]:
  "tracked jid run (fst (store_row env cfg names v now fs ref i r t d)) = tracked jid run d"
  by (simp add: store_row_def Let_def)

lemma tracked_store:
  "tracked jid run d \<Longrightarrow>
   ends_in (tracked jid run) (store_rows env cfg strategy keys names job v polls now es i rows t d)"
proof (induction rows arbitrary: i t d)
  case (Cons r rows)
  show ?case unfolding store_rows.simps Let_def by (intro ends Cons.IH) (simp_all add: Cons.prems)
qed (simp add: ends_in_returns)

lemma store_rows_length:
  "store_rows env cfg strategy keys names job v polls now es i rows t d = (d', Inr t') \<Longrightarrow>
   length (tl_verdicts t') = length (tl_verdicts t) + length rows"
proof (induction rows arbitrary: i t d)
  case (Cons r rows)
  then obtain ref where "store_rows env cfg strategy keys names job v polls now es (Suc i) rows
      (snd (store_row env cfg names v now (entries_of es i) ref i r t d))
      (fst (store_row env cfg names v now (entries_of es i) ref i r t d)) = (d', Inr t')"
    by (auto simp: attempt_returns Let_def split: if_splits)
  from Cons.IH [OF this] show ?case by (simp add: store_row_def Let_def)
qed simp

lemma fine_case:
  assumes "ends_in (tracked jid run) out"
    and "\<And>d e. tracked jid run d \<Longrightarrow> fine jid run (f d e)"
    and "\<And>d x. out = (d, Inr x) \<Longrightarrow> tracked jid run d \<Longrightarrow> fine jid run (g d x)"
  shows "fine jid run (case out of (d, Inl e) \<Rightarrow> f d e | (d, Inr x) \<Rightarrow> g d x)"
  using assms by (cases out) (auto simp: ends_in_def split: sum.split)

lemma fine_prod: "(\<And>x y. p = (x, y) \<Longrightarrow> fine jid run (f x y)) \<Longrightarrow> fine jid run (case p of (x, y) \<Rightarrow> f x y)"
  by (cases p) simp

lemma fine_validate_rows:
  assumes "tracked jid run base" and "tracked jid run d" and "job_id j = jid" and "vr_id r = run"
  shows "fine jid run
    (validate_rows env regex cfg j r ds info cols rows stats polls polls2 timer started now base d)"
  unfolding validate_rows_def Let_def assms(3,4)
proof (rule fine_case [OF tracked_evaluation [OF assms(2)]], goal_cases)
  case (1 d1 e)
  with assms show ?case by (simp add: resolved_fail resolved_cancel)
next
  case (2 d1 p)
  obtain es un where p: "p = (es, un)" by (cases p)
  show ?case unfolding p prod.case
  proof (rule fine_case [OF tracked_store [OF 2(2)]], goal_cases)
    case (1 d2 e)
    with assms show ?case by (simp add: resolved_cancel)
  next
    case (2 d2 t)
    then have "length (tl_verdicts t) = length rows" using store_rows_length by fastforce
    from resolved_finish [OF 2(2) assms(3,4) this] show ?case
      by (intro fine_attempt assms) simp
  qed
qed

lemma dataset_source_start [simp]:
  "get_dataset (validation_start j v now d) i = get_dataset d i"
  "dataset_source i (validation_start j v now d) = dataset_source i d"
  by (simp_all add: validation_start_def dataset_source_def mark_defs write_job_def jobs_get_def upd_job_def
      set_validation_run_def or_raise_def split: option.split cong: option.case_cong)

lemma fine_execute:
  assumes "tracked jid run d" and "job_id j = jid" and "vr_id r = run"
  shows "fine jid run (execute_validation env regex cfg j r polls polls2 timer started now d)"
proof -
  have d1: "tracked jid run (validation_start j run started d)" by (rule tracked_start) (rule assms(1))
  show ?thesis
    unfolding execute_validation_def Let_def assms(3)
    apply (rule fine_attempt, rule d1)
    apply (rule fine_attempt, simp add: d1)
    apply (clarsimp split: sum.split)
    apply (intro conjI allI impI)
      apply (simp_all add: d1 assms resolved_fail)
    apply (rule fine_attempt, simp add: d1)
    apply (auto simp: d1 assms resolved_fail resolved_cancel resolved_empty fine_validate_rows split: sum.split)
    done
qed

definition validating :: "uuid \<Rightarrow> uuid \<Rightarrow> job \<Rightarrow> validation_run \<Rightarrow> dataset \<Rightarrow> db \<Rightarrow> bool" where
  "validating jid run j r ds d \<longleftrightarrow> get_job d jid = Some j \<and> get_validation_run d run = Some r \<and>
     get_dataset d (job_entity_id j) = Some ds \<and> \<not> validation_resolved (job_status j) (vr_status r)"

lemma validating_ids:
  assumes "validating jid run j r ds d"
  shows "job_id j = jid" "vr_id r = run" "tracked jid run d" "ds_id ds = job_entity_id j"
  using assms by (auto simp: validating_def job_id_of tracked_def dest: find_row_SomeD)

lemma run_validation_unfold:
  assumes "validating jid run j r ds d"
  shows "run_validation env regex cfg jid run polls polls2 timer started now d =
    (case execute_validation env regex cfg j r polls polls2 timer started now d of
       (d1, Inr x) \<Rightarrow> returns d1 x
     | (d1, Inl e) \<Rightarrow> returns (validation_fail j run (ds_id ds) (TextOf e) (PyStr (error_name e)) now d1) (ValFailed (TextOf e)))"
  using assms by (simp add: run_validation_def validating_def jobs_get_def)

text \<open>C29.
  The task of a validation run that is not resolved yet always returns, whatever the source, the
  rules and the user do: the job and the run end in matching final states, with the same error
  on both when it failed, the cancel flag lowered when it was cancelled, and counts that add up
  to the number of rows when it completed.\<close>

theorem validation_resolves:
  assumes "validating jid run j r ds d"
  shows "\<exists>d' x. run_validation env regex cfg jid run polls polls2 timer started now d = (d', Inr x) \<and>
    resolved_as jid run x d'"
proof -
  note ids = validating_ids [OF assms]
  obtain d1 out where exec: "execute_validation env regex cfg j r polls polls2 timer started now d = (d1, out)"
    by fastforce
  have "fine jid run (d1, out)"
    unfolding exec [symmetric] by (rule fine_execute) (rule ids)+
  then show ?thesis
    unfolding run_validation_unfold [OF assms] exec
    by (cases out) (auto simp: fine_def returns_def intro: resolved_fail ids)
qed

section \<open>The results of a completed run\<close>

definition supported_assignments :: "assignment list \<Rightarrow> assignment list" where
  "supported_assignments info = filter (\<lambda>(_, _, r). is_supported_rule_type (rule_type r)) info"

definition tagged :: "assignment \<Rightarrow> failures \<Rightarrow> failure_entry list" where
  "tagged a fs = map (\<lambda>(i, f). (i, a, f)) fs"

lemma evaluate_assignment_cong:
  assumes "rule_assignment_columns d = rule_assignment_columns e"
  shows "evaluate_assignment regex cols rows stats d = evaluate_assignment regex cols rows stats e"
proof -
  have "cross_names a cols d = cross_names a cols e" for a using assms by (simp add: cross_names_def)
  then show ?thesis unfolding evaluate_assignment_def by presburger
qed

lemma do_evaluation_entries:
  assumes "do_evaluation regex cols rows stats job run polls timer now n info es un d = (d', Inr (es', un'))"
  shows "validation_results d' = validation_results d \<and> validation_failures d' = validation_failures d \<and>
    (\<exists>fss. map_ok (evaluate_assignment regex cols rows stats d) (supported_assignments info) = Inr fss \<and>
      es' = es @ concat (map2 tagged (supported_assignments info) fss))"
  using assms
proof (induction regex cols rows stats job run polls timer now n info es un d rule: do_evaluation.induct)
  case (2 regex cols rows stats job run polls timer now n a v r info es un d)
  let ?d1 = "add_metric run ''rule_evaluated'' (Some (uuid_str (ra_id a))) 1 now d"
  have same: "evaluate_assignment regex cols rows stats ?d1 = evaluate_assignment regex cols rows stats d"
    by (rule evaluate_assignment_cong) simp
  have go: "timer \<noteq> Some n" "\<not> (polls n \<or> is_cancel_requested job d)" using "2.prems" by (auto split: if_splits)
  show ?case
  proof (cases "is_supported_rule_type (rule_type r)")
    case False
    with "2.IH"(1) [OF go] "2.prems" go show ?thesis by (simp add: supported_assignments_def)
  next
    case True
    with "2.prems" go obtain fs where fs: "evaluate_assignment regex cols rows stats d (a, v, r) = Inr fs"
      "do_evaluation regex cols rows stats job run polls timer now (Suc n) info
         (es @ map (\<lambda>(i, f). (i, (a, v, r), f)) fs) un ?d1 = (d', Inr (es', un'))"
      by (auto simp: attempt_returns Let_def same)
    from "2.IH"(2) [OF go _ refl fs(2)] True fs(1)
    obtain fss where "map_ok (evaluate_assignment regex cols rows stats d) (supported_assignments info) = Inr fss"
      "es' = es @ tagged (a, v, r) fs @ concat (map2 tagged (supported_assignments info) fss)"
      "validation_results d' = validation_results d" "validation_failures d' = validation_failures d"
      by (auto simp: same tagged_def)
    then show ?thesis using True fs(1)
      by (intro conjI exI [of _ "fs # fss"]) (simp_all add: supported_assignments_def)
  qed
qed (auto simp: supported_assignments_def)

text \<open>What the API shows of a stored result and of a stored failure.\<close>

definition result_view :: "validation_result \<Rightarrow> uuid \<times> int \<times> string \<times> int" where
  "result_view q = (vres_validation_run_id q, vres_row_index q, vres_status q, vres_failure_count q)"

definition failure_view :: "validation_failure \<Rightarrow> uuid \<times> uuid \<times> string \<times> string option" where
  "failure_view f = (vf_validation_result_id f, vf_rule_assignment_id f, vf_severity f, vf_reason f)"

definition entry_view :: "uuid \<Rightarrow> assignment \<times> row_failure \<Rightarrow> uuid \<times> uuid \<times> string \<times> string option" where
  "entry_view res = (\<lambda>((a, v, r), f). (res, ra_id a, rv_severity v, Some (rf_reason f)))"

lemma add_failures_stored:
  "\<exists>fs. validation_failures (fst (add_failures cap run res now es (d, k))) = validation_failures d @ fs \<and>
     map failure_view fs = take (nat (cap - k)) (map (entry_view res) es) \<and>
     snd (add_failures cap run res now es (d, k)) = k + int (length fs)"
proof (induction es arbitrary: d k)
  case (Cons e es)
  show ?case
  proof (cases "cap \<le> k")
    case True
    then have "nat (cap - k) = 0" by simp
    with True Cons [of d k] show ?thesis by simp
  next
    case False
    then have n: "nat (cap - k) = Suc (nat (cap - (k + 1)))" by simp
    obtain fs where fs: "validation_failures (fst (add_failures cap run res now es (add_failure run res now e d, k + 1))) =
        validation_failures (add_failure run res now e d) @ fs"
      "map failure_view fs = take (nat (cap - (k + 1))) (map (entry_view res) es)"
      "snd (add_failures cap run res now es (add_failure run res now e d, k + 1)) = k + 1 + int (length fs)"
      using Cons by blast
    obtain f where "validation_failures (add_failure run res now e d) = validation_failures d @ [f]"
      "failure_view f = entry_view res e"
      by (cases e) (auto simp: add_failure_def failure_view_def entry_view_def split_def)
    with fs False show ?thesis by (intro exI [of _ "f # fs"]) (simp add: n)
  qed
qed simp

lemma add_failures_results [simp]:
  "validation_results (fst (add_failures cap run res now es s)) = validation_results (fst s)"
  by (induction cap run res now es s rule: add_failures.induct) auto

lemma store_rows_stored:
  assumes "store_rows env cfg strategy keys names job run polls now es i rows t d = (d', Inr t')"
  shows "\<exists>rs fs. validation_results d' = validation_results d @ rs \<and>
    validation_failures d' = validation_failures d @ fs \<and>
    tl_verdicts t' = tl_verdicts t @ map (\<lambda>k. row_verdict_of (entries_of es k)) [i..<i + length rows] \<and>
    map result_view rs = map (\<lambda>k. (run, int k, verdict_text (row_verdict_of (entries_of es k)),
      int (length (entries_of es k)))) [i..<i + length rows] \<and>
    map failure_view fs = take (nat (VALIDATION_MAX_FAILURES cfg - tl_stored t))
      (concat (map2 (\<lambda>k q. map (entry_view (vres_id q)) (entries_of es k)) [i..<i + length rows] rs)) \<and>
    tl_stored t' = tl_stored t + int (length fs)"
  using assms
proof (induction rows arbitrary: i t d)
  case (Cons r rows)
  let ?cap = "VALIDATION_MAX_FAILURES cfg" and ?es = "entries_of es i"
  let ?view = "\<lambda>k q. map (entry_view (vres_id q)) (entries_of es k)"
  have upt: "[i..<i + length (r # rows)] = i # [Suc i..<Suc i + length rows]"
    by (simp add: upt_conv_Cons del: upt_Suc)
  from Cons.prems obtain ref where rest: "store_rows env cfg strategy keys names job run polls now es (Suc i) rows
      (snd (store_row env cfg names run now ?es ref i r t d))
      (fst (store_row env cfg names run now ?es ref i r t d)) = (d', Inr t')"
    by (auto simp: attempt_returns Let_def split: if_splits)
  define d1 where "d1 = add_result run ref i (verdict_text (row_verdict_of ?es)) (length ?es)
    (compute_source_row_hash (env_sha256 env) r names) now d"
  define s where "s = add_failures ?cap run (db_next d) now ?es (d1, tl_stored t)"
  have row: "store_row env cfg names run now ?es ref i r t d =
      (fst s, \<lparr>tl_verdicts = tl_verdicts t @ [row_verdict_of ?es], tl_stored = snd s\<rparr>)"
    by (simp add: store_row_def d1_def s_def Let_def)
  obtain q where q: "validation_results (fst s) = validation_results d @ [q]" "vres_id q = db_next d"
      "result_view q = (run, int i, verdict_text (row_verdict_of ?es), int (length ?es))"
    by (auto simp: s_def d1_def add_result_def result_view_def)
  obtain gs where gs: "validation_failures (fst s) = validation_failures d @ gs"
      "map failure_view gs = take (nat (?cap - tl_stored t)) (?view i q)"
      "snd s = tl_stored t + int (length gs)"
    using add_failures_stored [of ?cap run "db_next d" now ?es d1 "tl_stored t"]
    unfolding s_def [symmetric] q(2) by (auto simp: d1_def)
  obtain rs fs where IH: "validation_results d' = validation_results (fst s) @ rs"
      "validation_failures d' = validation_failures (fst s) @ fs"
      "tl_verdicts t' = tl_verdicts t @ row_verdict_of ?es #
         map (\<lambda>k. row_verdict_of (entries_of es k)) [Suc i..<Suc i + length rows]"
      "map result_view rs = map (\<lambda>k. (run, int k, verdict_text (row_verdict_of (entries_of es k)),
         int (length (entries_of es k)))) [Suc i..<Suc i + length rows]"
      "map failure_view fs = take (nat (?cap - snd s)) (concat (map2 ?view [Suc i..<Suc i + length rows] rs))"
      "tl_stored t' = snd s + int (length fs)"
    using Cons.IH [OF rest] unfolding row by (auto simp del: upt_Suc)
  have len: "length gs = min (nat (?cap - tl_stored t)) (length (?view i q))"
    using arg_cong [OF gs(2), of length] by simp
  have "map failure_view (gs @ fs) = take (nat (?cap - tl_stored t))
      (?view i q @ concat (map2 ?view [Suc i..<Suc i + length rows] rs))"
  proof (cases "nat (?cap - tl_stored t) \<le> length (?view i q)")
    case True
    then have "nat (?cap - snd s) = 0" using len gs(3) by linarith
    with True gs(2) IH(5) show ?thesis by simp
  next
    case False
    then have "nat (?cap - snd s) = nat (?cap - tl_stored t) - length (?view i q)" using len gs(3) by linarith
    with False gs(2) IH(5) show ?thesis by simp
  qed
  then show ?case
    unfolding upt using q gs IH
    by (intro exI [of _ "q # rs"] exI [of _ "gs @ fs"]) (simp del: upt_Suc)
qed simp

text \<open>The state in which the worker resolves the assignments and reads the columns.\<close>

lemma validation_started_reads:
  assumes d2_def: "d2 = audit_record a ty ac et ei b af m started (validation_start j v started d)"
  shows "resolve_assignments i d2 = resolve_assignments i d" "dataset_columns i d2 = dataset_columns i d"
    and "dataset_source i d2 = dataset_source i d" "rule_assignment_columns d2 = rule_assignment_columns d"
    and "validation_results d2 = validation_results d" "validation_failures d2 = validation_failures d"
    and "rule_assignment_columns (set_validation_run k f d2) = rule_assignment_columns d"
proof -
  have chain: "assignment_chain i d2 = assignment_chain i d" for i
    by (simp add: assignment_chain_def d2_def validation_start_def mark_defs set_validation_run_def)
  show "resolve_assignments i d2 = resolve_assignments i d"
    unfolding resolve_assignments_def chain
    by (simp add: d2_def validation_start_def mark_defs set_validation_run_def)
  have "dataset_source i d2 = dataset_source i (validation_start j v started d)"
    by (simp add: dataset_source_def d2_def cong: option.case_cong)
  then show "dataset_source i d2 = dataset_source i d" by simp
qed (simp_all add: d2_def dataset_columns_def validation_start_def mark_defs set_validation_run_def)

lemma finish_run_frame:
  "validation_results (finish_run cfg j r dsid t un score started now d) = validation_results d"
  "validation_failures (finish_run cfg j r dsid t un score started now d) = validation_failures d"
  by (simp_all add: finish_run_def Let_def mark_defs complete_run_def split: option.split)

lemma validate_rows_completed:
  assumes "validate_rows env regex cfg j r ds info cols rows stats polls polls2 timer started now base d =
    (d', Inr (ValCompleted n p w f))"
  obtains tm d1 es un d2 t score strategy keys where
    "do_evaluation regex cols rows stats (job_id j) (vr_id r) polls tm now 0 info [] [] d = (d1, Inr (es, un))"
    and "store_rows env cfg strategy keys (map col_name cols) (job_id j) (vr_id r) polls2 now es 0 rows
      \<lparr>tl_verdicts = [], tl_stored = 0\<rparr> d1 = (d2, Inr t)"
    and "d' = finish_run cfg j r (ds_id ds) t un score started now d2" and "n = int (length rows)"
    and "p = verdict_count ROW_PASSED t" "w = verdict_count ROW_WARNING t" "f = verdict_count ROW_FAILED t"
  using assms unfolding validate_rows_def Let_def
  by (auto simp: attempt_returns split: prod.splits sum.splits if_splits intro: that)

lemma execute_completed:
  assumes exec0: "execute_validation env regex cfg j r polls polls2 timer started now d =
      (d', Inr (ValCompleted n p w f))"
    and "0 < n" and ds: "get_dataset d (job_entity_id j) = Some ds" "ds_id ds = job_entity_id j"
  obtains ds' sch conn ct prov info rows stats d2 d4 where
    "dataset_source (ds_id ds) d = Inr (ds', sch, conn, ct)" "open_source env conn ct = Inr prov"
    and "resolve_assignments (ds_id ds) d = Inr info"
    and "pull_rows prov cfg (sch_name sch) ds (dataset_columns (ds_id ds) d) info = Inr (rows, stats)"
    and "validate_rows env regex cfg j r ds info (dataset_columns (ds_id ds) d) rows stats polls polls2 timer started now
      d2 d4 = (d', Inr (ValCompleted n p w f))"
    and "validation_results d4 = validation_results d" "validation_failures d4 = validation_failures d"
      "rule_assignment_columns d4 = rule_assignment_columns d"
proof -
  note exec = exec0 [unfolded execute_validation_def Let_def dataset_source_start ds or_raise_simps attempt_simps
      validation_started_reads [OF refl]]
  obtain ds' sch conn ct where src: "dataset_source (ds_id ds) d = Inr (ds', sch, conn, ct)"
    using exec by (cases "dataset_source (ds_id ds) d") (auto simp: ds)
  note exec = exec [unfolded src [unfolded ds] attempt_simps prod.case]
  obtain prov where prov: "open_source env conn ct = Inr prov"
    using exec by (cases "open_source env conn ct") (auto split: if_splits)
  note exec = exec [unfolded prov sum.case]
  obtain info where info: "resolve_assignments (ds_id ds) d = Inr info"
    using exec by (cases "resolve_assignments (ds_id ds) d") (auto simp: ds)
  note exec = exec [unfolded info [unfolded ds] attempt_simps]
  obtain rows stats where pull:
    "pull_rows prov cfg (sch_name sch) ds (dataset_columns (ds_id ds) d) info = Inr (rows, stats)"
    using exec by (cases "pull_rows prov cfg (sch_name sch) ds (dataset_columns (ds_id ds) d) info")
      (auto simp: ds split: if_splits)
  note exec = exec [unfolded pull [unfolded ds] sum.case prod.case]
  let ?d2 = "audit_record (job_actor j (validation_start j (vr_id r) started d)) ''USER'' ''validation.started''
    ''DATASET'' (ds_id ds) None None None started (validation_start j (vr_id r) started d)"
  let ?d4 = "set_validation_run (vr_id r) (\<lambda>x. x\<lparr>vr_sample_size := Some (int (length rows))\<rparr>)
    (set_validation_run (vr_id r) (\<lambda>x. x\<lparr>vr_rules_evaluated_count := int (length info),
      vr_no_applicable_rules := (info = [])\<rparr>) ?d2)"
  have "validate_rows env regex cfg j r ds info (dataset_columns (ds_id ds) d) rows stats polls polls2 timer started now
      ?d2 ?d4 = (d', Inr (ValCompleted n p w f))"
    using exec \<open>0 < n\<close> unfolding ds(2) by (auto split: if_splits)
  then show thesis
    by (rule that [OF src prov info pull]) (simp_all add: validation_start_def mark_defs)
qed

text \<open>C30.
  A completed run over at least one row: the entries are the failures that the enabled
  assignments of supported types report for the pulled rows; each row gets one result, in order,
  that is PASSED without an entry, FAILED when a reporting rule is CRITICAL or HIGH, and
  WARNING otherwise; the counts are those of the verdicts; and the stored failures are the
  entries in row order, cut off at the configured maximum.\<close>

theorem completed_validation_spec:
  assumes run: "validating jid run j r ds d"
    and completed: "run_validation env regex cfg jid run polls polls2 timer started now d =
      (d', Inr (ValCompleted n p w f))"
    and nonempty: "0 < n"
  shows "\<exists>ds' sch conn ct prov info rows stats fss rs fs.
    dataset_source (ds_id ds) d = Inr (ds', sch, conn, ct) \<and> open_source env conn ct = Inr prov \<and>
    resolve_assignments (ds_id ds) d = Inr info \<and>
    pull_rows prov cfg (sch_name sch) ds (dataset_columns (ds_id ds) d) info = Inr (rows, stats) \<and>
    map_ok (evaluate_assignment regex (dataset_columns (ds_id ds) d) rows stats d) (supported_assignments info) = Inr fss \<and>
    validation_results d' = validation_results d @ rs \<and> validation_failures d' = validation_failures d @ fs \<and>
    (let entries = entries_of (concat (map2 tagged (supported_assignments info) fss));
         verdicts = map (\<lambda>i. row_verdict_of (entries i)) [0..<length rows] in
      n = int (length rows) \<and> p = int (length (filter (\<lambda>v. v = ROW_PASSED) verdicts)) \<and>
      w = int (length (filter (\<lambda>v. v = ROW_WARNING) verdicts)) \<and>
      f = int (length (filter (\<lambda>v. v = ROW_FAILED) verdicts)) \<and>
      map result_view rs = map (\<lambda>i. (run, int i, verdict_text (verdicts ! i), int (length (entries i)))) [0..<length rows] \<and>
      map failure_view fs = take (nat (VALIDATION_MAX_FAILURES cfg))
        (concat (map2 (\<lambda>i q. map (entry_view (vres_id q)) (entries i)) [0..<length rows] rs)))"
proof -
  note ids = validating_ids [OF run]
  have "execute_validation env regex cfg j r polls polls2 timer started now d = (d', Inr (ValCompleted n p w f))"
    using completed unfolding run_validation_unfold [OF run]
    by (auto simp: returns_def split: prod.splits sum.splits)
  moreover have "get_dataset d (job_entity_id j) = Some ds" using run by (simp add: validating_def)
  ultimately obtain ds' sch conn ct prov info rows stats d2 d4 where found:
    "dataset_source (ds_id ds) d = Inr (ds', sch, conn, ct)" "open_source env conn ct = Inr prov"
    "resolve_assignments (ds_id ds) d = Inr info"
    "pull_rows prov cfg (sch_name sch) ds (dataset_columns (ds_id ds) d) info = Inr (rows, stats)"
    and rows: "validate_rows env regex cfg j r ds info (dataset_columns (ds_id ds) d) rows stats polls polls2 timer
      started now d2 d4 = (d', Inr (ValCompleted n p w f))"
    and same: "validation_results d4 = validation_results d" "validation_failures d4 = validation_failures d"
      "rule_assignment_columns d4 = rule_assignment_columns d"
    by (rule execute_completed [OF _ nonempty _ ids(4)])
  from rows obtain tm d5 es un d6 t score strategy keys where
    eval: "do_evaluation regex (dataset_columns (ds_id ds) d) rows stats (job_id j) (vr_id r) polls tm now 0 info [] [] d4 =
      (d5, Inr (es, un))"
    and store: "store_rows env cfg strategy keys (map col_name (dataset_columns (ds_id ds) d)) (job_id j) (vr_id r) polls2
      now es 0 rows \<lparr>tl_verdicts = [], tl_stored = 0\<rparr> d5 = (d6, Inr t)"
    and d': "d' = finish_run cfg j r (ds_id ds) t un score started now d6" and n: "n = int (length rows)"
      "p = verdict_count ROW_PASSED t" "w = verdict_count ROW_WARNING t" "f = verdict_count ROW_FAILED t"
    by (rule validate_rows_completed)
  obtain fss where fss: "map_ok (evaluate_assignment regex (dataset_columns (ds_id ds) d) rows stats d)
      (supported_assignments info) = Inr fss" "es = concat (map2 tagged (supported_assignments info) fss)"
      "validation_results d5 = validation_results d" "validation_failures d5 = validation_failures d"
    using do_evaluation_entries [OF eval] same evaluate_assignment_cong [OF same(3)] by auto
  define entries where "entries = entries_of es"
  obtain rs fs where stored: "validation_results d' = validation_results d @ rs"
      "validation_failures d' = validation_failures d @ fs"
      "tl_verdicts t = map (\<lambda>k. row_verdict_of (entries k)) [0..<length rows]"
      "map result_view rs = map (\<lambda>k. (run, int k, verdict_text (row_verdict_of (entries k)),
         int (length (entries k)))) [0..<length rows]"
      "map failure_view fs = take (nat (VALIDATION_MAX_FAILURES cfg))
         (concat (map2 (\<lambda>k q. map (entry_view (vres_id q)) (entries k)) [0..<length rows] rs))"
    using store_rows_stored [OF store] unfolding d' finish_run_frame fss(3,4) ids(2) entries_def by auto
  have "map result_view rs = map (\<lambda>k. (run, int k, verdict_text (tl_verdicts t ! k), int (length (entries k)))) [0..<length rows]"
    unfolding stored(3,4) by (rule map_cong [OF refl]) simp
  with found fss(1) stored n show ?thesis
    unfolding Let_def fss(2) [symmetric] entries_def [symmetric] verdict_count_def
    by (intro exI [of _ ds'] exI [of _ sch] exI [of _ conn] exI [of _ ct] exI [of _ prov] exI [of _ info] exI [of _ rows]
        exI [of _ stats] exI [of _ fss] exI [of _ rs] exI [of _ fs]) (simp only: fss(2) [symmetric] entries_def [symmetric] stored(3) simp_thms)
qed

section \<open>Examples\<close>

text \<open>The sample dataset with its completeness rule and a queued validation.\<close>

definition queued_validation_db :: db where
  "queued_validation_db = (approved_db ''POSTGRESQL'')\<lparr>jobs := [new_job 42 ''VALIDATION_RUN'' ''DATASET'' 1 1 5],
     validation_runs := [new_validation_run 41 1 None 42 1 5], validation_results := [], validation_failures := []\<rparr>"

abbreviation null_row :: "row list" where
  "null_row \<equiv> [[(''k'', PyStr ''A''), (''c'', PyNone)]]"

lemma queued_validating:
  "validating 42 41 (new_job 42 ''VALIDATION_RUN'' ''DATASET'' 1 1 5) (new_validation_run 41 1 None 42 1 5)
     sample_dataset queued_validation_db"
  by code_simp

text \<open>The state in which the rows of the example are evaluated.\<close>

definition started_db :: db where
  "started_db = audit_record None ''USER'' ''validation.started'' ''DATASET'' 1 None None None 6
     (validation_start (new_job 42 ''VALIDATION_RUN'' ''DATASET'' 1 1 5) 41 6 queued_validation_db)"

definition pulled_db :: db where
  "pulled_db = set_validation_run 41 (\<lambda>x. x\<lparr>vr_sample_size := Some 1\<rparr>)
     (set_validation_run 41 (\<lambda>x. x\<lparr>vr_rules_evaluated_count := 1, vr_no_applicable_rules := False\<rparr>) started_db)"

abbreviation null_entry :: failure_entry where
  "null_entry \<equiv> (0, (sample_assignment, sample_rule_version, sample_rule),
     \<lparr>rf_reason = ''Column '' @ [char_of (39::nat)] @ ''c'' @ [char_of (39::nat)] @ '' is null (max_null_percentage=0.0)'',
      rf_failed_value = None, rf_expected_value = Some ''NOT NULL''\<rparr>)"

lemma null_row_evaluated:
  "snd (do_evaluation (\<lambda>_. None) (dataset_columns 1 queued_validation_db) null_row [] 42 41 (\<lambda>_. False) None 6 0
     [(sample_assignment, sample_rule_version, sample_rule)] [] [] pulled_db) = Inr ([null_entry], [])"
  by code_simp

lemma null_row_stored:
  "snd (store_rows (sample_env null_row) default_settings ''SINGLE_COLUMN'' [''k'']
     (map col_name (dataset_columns 1 queued_validation_db)) 42 41 (\<lambda>_. False) 6 [null_entry] 0 null_row
     \<lparr>tl_verdicts = [], tl_stored = 0\<rparr>
     (fst (do_evaluation (\<lambda>_. None) (dataset_columns 1 queued_validation_db) null_row [] 42 41 (\<lambda>_. False) None 6 0
        [(sample_assignment, sample_rule_version, sample_rule)] [] [] pulled_db))) =
   Inr \<lparr>tl_verdicts = [ROW_FAILED], tl_stored = 1\<rparr>"
  by code_simp

lemma no_row_passed: "\<exists>s. round_score 0 1 = Inr s"
proof -
  have "\<not> isl (round_score 0 1)" by code_simp
  then show ?thesis by (cases "round_score 0 1") auto
qed

lemma null_row_validated:
  "snd (validate_rows (sample_env null_row) (\<lambda>_. None) default_settings (new_job 42 ''VALIDATION_RUN'' ''DATASET'' 1 1 5)
     (new_validation_run 41 1 None 42 1 5) sample_dataset [(sample_assignment, sample_rule_version, sample_rule)]
     (dataset_columns 1 queued_validation_db) null_row [] (\<lambda>_. False) (\<lambda>_. False) None 6 6 started_db pulled_db) =
   Inr (ValCompleted 1 0 0 1)"
proof -
  let ?cols = "dataset_columns 1 queued_validation_db"
  obtain d5 where eval: "do_evaluation (\<lambda>_. None) ?cols null_row [] 42 41 (\<lambda>_. False) None 6 0
      [(sample_assignment, sample_rule_version, sample_rule)] [] [] pulled_db = (d5, Inr ([null_entry], []))"
    using null_row_evaluated by (metis prod.collapse)
  obtain d6 where store: "store_rows (sample_env null_row) default_settings ''SINGLE_COLUMN'' [''k''] (map col_name ?cols)
      42 41 (\<lambda>_. False) 6 [null_entry] 0 null_row \<lparr>tl_verdicts = [], tl_stored = 0\<rparr> d5 =
      (d6, Inr \<lparr>tl_verdicts = [ROW_FAILED], tl_stored = 1\<rparr>)"
    using null_row_stored unfolding eval fst_conv by (metis prod.collapse)
  obtain score where score: "round_score 0 1 = Inr score" using no_row_passed by blast
  have keys: "key_names 1 ?cols started_db = [''k'']" by code_simp
  have ids: "vr_id (new_validation_run 41 1 None 42 1 5) = 41" "job_id (new_job 42 ''VALIDATION_RUN'' ''DATASET'' 1 1 5) = 42"
      "ds_id sample_dataset = 1"
      "(if [''k''] \<noteq> [] then ds_key_strategy sample_dataset else ''ROW_INDEX_FALLBACK'') = ''SINGLE_COLUMN''"
    by code_simp+
  show ?thesis
    unfolding validate_rows_def Let_def ids(1-3) keys if_cancel eval prod.case sum.case ids(4) store
    by (simp add: verdict_count_def score)
qed

lemma queued_validation_result:
  "snd (run_validation (sample_env null_row) (\<lambda>_. None) default_settings 42 41 (\<lambda>_. False) (\<lambda>_. False) None 6 6
     queued_validation_db) = Inr (ValCompleted 1 0 0 1)"
proof -
  let ?j = "new_job 42 ''VALIDATION_RUN'' ''DATASET'' 1 1 5" and ?r = "new_validation_run 41 1 None 42 1 5"
  let ?cols = "dataset_columns 1 queued_validation_db"
  have ids: "vr_id ?r = 41" "job_id ?j = 42" "job_entity_id ?j = 1" "ds_id sample_dataset = 1"
      "job_actor ?j (validation_start ?j 41 6 queued_validation_db) = None"
      "get_dataset queued_validation_db 1 = Some sample_dataset"
      "dataset_source 1 queued_validation_db = Inr (sample_dataset, sample_schema, sample_connection,
        Some (sample_connection_type ''POSTGRESQL''))"
      "resolve_assignments 1 queued_validation_db = Inr [(sample_assignment, sample_rule_version, sample_rule)]"
      "is_cancel_requested 42 pulled_db = False"
    by code_simp+
  have source: "open_source (sample_env null_row) sample_connection (Some (sample_connection_type ''POSTGRESQL'')) =
      Inr (sample_provider null_row)"
    by (simp add: open_source_def vault_resolve_def get_provider_def PROVIDERS_BY_CODE_def sample_env_def sample_connection_def
        sample_connection_type_def)
  have pull: "pull_rows (sample_provider null_row) default_settings (sch_name sample_schema) sample_dataset ?cols
      [(sample_assignment, sample_rule_version, sample_rule)] = Inr (null_row, [])"
    by (simp add: pull_rows_def sample_provider_def Let_def)
  have "snd (execute_validation (sample_env null_row) (\<lambda>_. None) default_settings ?j ?r (\<lambda>_. False) (\<lambda>_. False) None 6 6
     queued_validation_db) = Inr (ValCompleted 1 0 0 1)"
    unfolding execute_validation_def Let_def dataset_source_start ids or_raise_simps attempt_simps
      validation_started_reads [OF refl] prod.case source sum.case pull
    using null_row_validated ids(9) by (simp add: pulled_db_def started_db_def)
  then obtain d1 where "execute_validation (sample_env null_row) (\<lambda>_. None) default_settings ?j ?r (\<lambda>_. False) (\<lambda>_. False)
     None 6 6 queued_validation_db = (d1, Inr (ValCompleted 1 0 0 1))" by (metis prod.collapse)
  then show ?thesis by (simp add: run_validation_unfold [OF queued_validating])
qed

theorem validation_resolves_witness:
  "\<exists>d' x. run_validation (sample_env null_row) (\<lambda>_. None) default_settings 42 41 (\<lambda>_. False) (\<lambda>_. False) None 6 6
     queued_validation_db = (d', Inr x) \<and> resolved_as 42 41 x d'"
  by (rule validation_resolves [OF queued_validating])

theorem completed_validation_spec_witness:
  "\<exists>rs. validation_results (fst (run_validation (sample_env null_row) (\<lambda>_. None) default_settings 42 41 (\<lambda>_. False)
     (\<lambda>_. False) None 6 6 queued_validation_db)) = rs \<and> length rs = 1"
proof -
  let ?out = "run_validation (sample_env null_row) (\<lambda>_. None) default_settings 42 41 (\<lambda>_. False) (\<lambda>_. False) None 6 6
    queued_validation_db"
  have "?out = (fst ?out, Inr (ValCompleted 1 0 0 1))" by (metis prod.collapse queued_validation_result)
  from completed_validation_spec [OF queued_validating this]
  obtain rs and rows :: "row list" where "validation_results (fst ?out) = validation_results queued_validation_db @ rs"
    "(1::int) = int (length rows)" "length (map result_view rs) = length rows"
    by (auto simp: Let_def dest: arg_cong [where f = length])
  moreover have "validation_results queued_validation_db = []" by code_simp
  ultimately show ?thesis by simp
qed

end
