(* ===== verification/StagedRevalidation.thy ===== *)
theory StagedRevalidation
  imports ValidatedRows Publishing
begin

text \<open>
  The revalidation of a staging record against the enabled rules of its dataset:
  \<open>app/modules/staging/revalidation_service.py\<close>. It reads the stored snapshot only.
\<close>

record revalidation_report =
  rep_revalidation :: staged_rule_revalidation
  rep_rule_assignment_id :: uuid
  rep_rule_id :: uuid

definition revalidate_assignment ::
  "regex_engine \<Rightarrow> column list \<Rightarrow> row \<Rightarrow> db \<Rightarrow> assignment \<Rightarrow> exn + revalidation_report" where
  "revalidate_assignment regex cols snapshot d = (\<lambda>(a, v, r).
     let cross = (rule_type r = ''CROSS_COLUMN'');
         c = (if cross then None else map_option col_name (column_of cols (ra_column_id a)));
         names = (if cross then cross_names (ra_id a) cols d else [])
     in map_sum id (\<lambda>x. \<lparr>rep_revalidation = x, rep_rule_assignment_id = ra_id a, rep_rule_id = rule_id r\<rparr>)
          (revalidate_row_against_rule regex snapshot (rule_type r) (rv_definition v) c names))"

text \<open>The assignments are resolved one by one, between the evaluations.\<close>

definition revalidate_staging_record ::
  "regex_engine \<Rightarrow> uuid \<Rightarrow> db \<Rightarrow> exn + revalidation_report list" where
  "revalidate_staging_record regex i d =
     (case get_staging_record d i of None \<Rightarrow> Inl (NotFound StagingRecordNotFoundError) | Some rec \<Rightarrow>
      (case get_staging_run d (srec_staging_run_id rec) of None \<Rightarrow> Inl (NotFound StagingRunNotFoundError) | Some s \<Rightarrow>
       map_ok (\<lambda>a. case assignment_chain (ra_id a) d of None \<Rightarrow> Inl AttributeError
           | Some x \<Rightarrow> revalidate_assignment regex (dataset_columns (sr_dataset_id s) d)
               (jsonb_object (srec_row_snapshot rec)) d x)
         (filter (\<lambda>a. ra_dataset_id a = sr_dataset_id s \<and> ra_is_enabled a) (rule_assignments d))))"

end
