(* ===== verification/Rules.thy ===== *)
theory Rules
  imports AuditLineage "HOL-Library.List_Lexorder"
begin

text \<open>
  Rules, their versions and their assignments: \<open>app/modules/rules/service.py\<close>. A rule has
  versions, one of them current; an assignment binds a version to a dataset, to one of its
  columns or to several. Each operation is one transaction. The constraints of the tables are
  those of the migrations 0009 and 0021: a flush that breaks a check, a key or a unique index
  raises \<open>IntegrityError\<close>, one with an overlong text \<open>DataError\<close>.
\<close>

section \<open>Constraints\<close>

definition SUPPORTED_RULE_TYPES' :: "string list" where
  "SUPPORTED_RULE_TYPES' = [''COMPLETENESS'', ''UNIQUENESS'', ''DUPLICATE'', ''RANGE'', ''PATTERN'', ''CROSS_COLUMN'']"

definition ASSIGNMENT_SCOPES :: "string list" where
  "ASSIGNMENT_SCOPES = [''SINGLE_COLUMN'', ''DATASET_LEVEL'', ''CROSS_COLUMN'']"

definition REVIEW_REQUIRED_ORIGINS :: "string list" where
  "REVIEW_REQUIRED_ORIGINS = [''AI_RECOMMENDED'', ''PATTERN_DETECTED'']"

definition rule_error :: "rule \<Rightarrow> rule list \<Rightarrow> exn option" where
  "rule_error r others =
     (if 255 < length (rule_name r) \<or> (\<exists>c \<in> set_option (rule_category r). 100 < length c) \<or>
         20 < length (rule_origin r) \<or> 20 < length (rule_status r) then Some DataError
      else if rule_origin r \<notin> {''BUILT_IN'', ''CUSTOM'', ''AI_RECOMMENDED'', ''PATTERN_DETECTED''} \<or>
         rule_status r \<notin> {''ACTIVE'', ''DISABLED'', ''PENDING_REVIEW''} \<or>
         rule_name r \<in> rule_name ` set others then Some IntegrityError
      else None)"

definition version_error :: "rule_version \<Rightarrow> rule_version list \<Rightarrow> exn option" where
  "version_error v others =
     (if 20 < length (rv_severity v) then Some DataError
      else if rv_severity v \<notin> {''CRITICAL'', ''HIGH'', ''MEDIUM'', ''LOW''} \<or>
         (\<exists>w \<in> set others. rv_rule_id w = rv_rule_id v \<and>
            (rv_version_number w = rv_version_number v \<or> rv_is_current w)) then Some IntegrityError
      else None)"

text \<open>The six partial unique indexes: what they compare, for the scope of an assignment.\<close>

definition scope_key :: "rule_assignment \<Rightarrow> string \<times> uuid \<times> uuid \<times> uuid option \<times> uuid option \<times> string option" where
  "scope_key a = (ra_assignment_scope a, ra_rule_version_id a, ra_dataset_id a, ra_template_id a,
     (if ra_assignment_scope a = ''SINGLE_COLUMN'' then ra_column_id a else None),
     (if ra_assignment_scope a = ''CROSS_COLUMN'' then ra_cross_column_key a else None))"

definition assignment_shape :: "rule_assignment \<Rightarrow> bool" where
  "assignment_shape a \<longleftrightarrow>
     (ra_assignment_scope a = ''SINGLE_COLUMN'' \<and> ra_column_id a \<noteq> None \<and> ra_cross_column_key a = None) \<or>
     (ra_assignment_scope a = ''DATASET_LEVEL'' \<and> ra_column_id a = None \<and> ra_cross_column_key a = None) \<or>
     (ra_assignment_scope a = ''CROSS_COLUMN'' \<and> ra_column_id a = None \<and> ra_cross_column_key a \<noteq> None)"

definition assignment_error :: "rule_assignment \<Rightarrow> db \<Rightarrow> exn option" where
  "assignment_error a d =
     (if \<not> assignment_shape a \<or> scope_key a \<in> scope_key ` set (rule_assignments d) \<or>
         (\<exists>t \<in> set_option (ra_template_id a). get_validation_template d t = None) then Some IntegrityError
      else None)"

section \<open>Rules and their versions\<close>

definition get_rule_or_raise :: "uuid \<Rightarrow> db \<Rightarrow> exn + rule" where
  "get_rule_or_raise i d = or_raise (NotFound RuleNotFoundError) (get_rule d i)"

definition list_rules :: "string option \<Rightarrow> string option \<Rightarrow> db \<Rightarrow> rule list" where
  "list_rules st ty d = sort_key (\<lambda>r. map code_of (rule_name r))
     (filter (\<lambda>r. (case st of None \<Rightarrow> True | Some s \<Rightarrow> rule_status r = s) \<and>
        (case ty of None \<Rightarrow> True | Some t \<Rightarrow> rule_type r = t)) (rules d))"

definition initial_status :: "string \<Rightarrow> string" where
  "initial_status origin = (if origin \<in> set REVIEW_REQUIRED_ORIGINS then ''PENDING_REVIEW'' else ''ACTIVE'')"

definition new_rule ::
  "uuid \<Rightarrow> string \<Rightarrow> string option \<Rightarrow> string option \<Rightarrow> string \<Rightarrow> string \<Rightarrow> uuid \<Rightarrow> instant \<Rightarrow> rule" where
  "new_rule i name desc cat ty origin actor now =
     \<lparr>rule_id = i, rule_name = name, rule_description = desc, rule_category = cat, rule_type = ty,
      rule_origin = origin, rule_status = initial_status origin, rule_created_by = Some actor,
      rule_created_at = now, rule_updated_at = None\<rparr>"

definition new_version ::
  "uuid \<Rightarrow> uuid \<Rightarrow> int \<Rightarrow> json \<Rightarrow> string \<Rightarrow> string option \<Rightarrow> uuid \<Rightarrow> instant \<Rightarrow> rule_version" where
  "new_version i rule n defn severity template actor now =
     \<lparr>rv_id = i, rv_rule_id = rule, rv_version_number = n, rv_definition = defn, rv_severity = severity,
      rv_error_message_template = template, rv_is_current = True, rv_created_by = Some actor, rv_created_at = now\<rparr>"

definition insert_version :: "rule_version \<Rightarrow> db \<Rightarrow> db" where
  "insert_version v d = d\<lparr>rule_versions := rule_versions d @ [v], db_next := Suc (db_next d)\<rparr>"

definition rule_audit :: "uuid \<Rightarrow> string \<Rightarrow> uuid \<Rightarrow> json option \<Rightarrow> json option \<Rightarrow> instant \<Rightarrow> db \<Rightarrow> db" where
  "rule_audit actor action rule bef aft now d =
     audit_record (Some actor) ''USER'' action ''RULE'' rule bef aft None now d"

definition create_rule ::
  "string \<Rightarrow> string option \<Rightarrow> string option \<Rightarrow> string \<Rightarrow> string \<Rightarrow> json \<Rightarrow> string \<Rightarrow> string option \<Rightarrow>
   uuid \<Rightarrow> instant \<Rightarrow> (db, uuid) op" where
  "create_rule name desc cat ty origin defn severity template actor now d =
     checked d (raise_if (ty \<notin> set SUPPORTED_RULE_TYPES') (Unprocessable UnsupportedRuleTypeError))
       (let i = db_next d; r = new_rule i name desc cat ty origin actor now;
            d1 = d\<lparr>rules := rules d @ [r], db_next := Suc i\<rparr>;
            v = new_version (db_next d1) i 1 defn severity template actor now
        in checked d (rule_error r (rules d))
             (checked d (version_error v (rule_versions d1))
               (returns (rule_audit actor ''rule.created'' i None
                   (Some [(''name'', PyStr name), (''rule_type'', PyStr ty)]) now (insert_version v d1)) i)))"

definition text_value :: "string option \<Rightarrow> pyval" where
  "text_value s = (case s of None \<Rightarrow> PyNone | Some t \<Rightarrow> PyStr t)"

definition rule_summary :: "rule \<Rightarrow> json" where
  "rule_summary r = [(''description'', text_value (rule_description r)), (''category'', text_value (rule_category r)),
     (''status'', PyStr (rule_status r))]"

definition upd_rule :: "uuid \<Rightarrow> (rule \<Rightarrow> rule) \<Rightarrow> db \<Rightarrow> db" where
  "upd_rule i f d = d\<lparr>rules := upd_row rule_id i f (rules d)\<rparr>"

definition edited_rule :: "string option \<Rightarrow> string option \<Rightarrow> string option \<Rightarrow> instant \<Rightarrow> rule \<Rightarrow> rule" where
  "edited_rule desc cat st now r = r\<lparr>
     rule_description := (case desc of None \<Rightarrow> rule_description r | Some x \<Rightarrow> Some x),
     rule_category := (case cat of None \<Rightarrow> rule_category r | Some x \<Rightarrow> Some x),
     rule_status := (case st of None \<Rightarrow> rule_status r | Some x \<Rightarrow> x), rule_updated_at := Some now\<rparr>"

definition update_rule ::
  "uuid \<Rightarrow> string option \<Rightarrow> string option \<Rightarrow> string option \<Rightarrow> uuid \<Rightarrow> instant \<Rightarrow> (db, uuid) op" where
  "update_rule i desc cat st actor now d =
     attempt d (get_rule_or_raise i d) (\<lambda>r.
     let r1 = edited_rule desc cat st now r in
     checked d (rule_error r1 (filter (\<lambda>x. rule_id x \<noteq> i) (rules d)))
       (returns (rule_audit actor ''rule.updated'' i (Some (rule_summary r)) (Some (rule_summary r1)) now
          (upd_rule i (\<lambda>_. r1) d)) i))"

definition versions_of :: "uuid \<Rightarrow> db \<Rightarrow> rule_version list" where
  "versions_of i d = filter (\<lambda>v. rv_rule_id v = i) (rule_versions d)"

definition list_versions :: "uuid \<Rightarrow> db \<Rightarrow> exn + rule_version list" where
  "list_versions i d = (case get_rule_or_raise i d of Inl e \<Rightarrow> Inl e
     | Inr _ \<Rightarrow> Inr (sort_key (\<lambda>v. - rv_version_number v) (versions_of i d)))"

definition current_versions :: "uuid \<Rightarrow> db \<Rightarrow> rule_version list" where
  "current_versions i d = filter rv_is_current (versions_of i d)"

text \<open>The update of the former version is flushed before the new one is inserted.\<close>

definition retire_version :: "uuid \<Rightarrow> db \<Rightarrow> db" where
  "retire_version i d = d\<lparr>rule_versions := upd_row rv_id i (\<lambda>v. v\<lparr>rv_is_current := False\<rparr>) (rule_versions d)\<rparr>"

definition publish_version ::
  "uuid \<Rightarrow> json \<Rightarrow> string \<Rightarrow> string option \<Rightarrow> uuid \<Rightarrow> instant \<Rightarrow> (db, uuid) op" where
  "publish_version i defn severity template actor now d =
     attempt d (get_rule_or_raise i d) (\<lambda>r.
     attempt d (at_most_one MultipleResultsFound (current_versions (rule_id r) d)) (\<lambda>current.
     let n = (case current of None \<Rightarrow> 1 | Some v \<Rightarrow> rv_version_number v + 1);
         d1 = (case current of None \<Rightarrow> d | Some v \<Rightarrow> retire_version (rv_id v) d);
         v = new_version (db_next d1) (rule_id r) n defn severity template actor now
     in checked d (version_error v (rule_versions d1))
          (returns (rule_audit actor ''rule.version_published'' (rule_id r) None
             (Some [(''version_number'', PyInt n)]) now (insert_version v d1)) (rv_id v))))"

section \<open>Assignments\<close>

definition new_assignment ::
  "uuid \<Rightarrow> uuid \<Rightarrow> uuid \<Rightarrow> string \<Rightarrow> uuid option \<Rightarrow> string option \<Rightarrow> uuid option \<Rightarrow> uuid \<Rightarrow> instant \<Rightarrow> rule_assignment" where
  "new_assignment i version ds scope col key template actor now =
     \<lparr>ra_id = i, ra_rule_version_id = version, ra_dataset_id = ds, ra_assignment_scope = scope,
      ra_column_id = col, ra_cross_column_key = key, ra_template_id = template, ra_is_enabled = True,
      ra_paused_at = None, ra_assigned_by = Some actor, ra_assigned_at = now, ra_updated_at = None\<rparr>"

definition insert_assignment :: "rule_assignment \<Rightarrow> db \<Rightarrow> db" where
  "insert_assignment a d = d\<lparr>rule_assignments := rule_assignments d @ [a], db_next := Suc (db_next d)\<rparr>"

definition assignment_audit :: "uuid \<Rightarrow> string \<Rightarrow> uuid \<Rightarrow> json option \<Rightarrow> instant \<Rightarrow> db \<Rightarrow> db" where
  "assignment_audit actor action i aft now d =
     audit_record (Some actor) ''USER'' action ''RULE_ASSIGNMENT'' i None aft None now d"

definition assigned_json :: "uuid \<Rightarrow> string \<Rightarrow> json" where
  "assigned_json ds scope = [(''dataset_id'', PyStr (uuid_str ds)), (''assignment_scope'', PyStr scope)]"

definition column_in_dataset :: "uuid \<Rightarrow> uuid \<Rightarrow> db \<Rightarrow> bool" where
  "column_in_dataset c ds d = (\<exists>x \<in> set (columns d). col_id x = c \<and> col_dataset_id x = ds)"

definition validate_scope_shape :: "string \<Rightarrow> uuid option \<Rightarrow> uuid list option \<Rightarrow> bool" where
  "validate_scope_shape scope col cols \<longleftrightarrow>
     (let ids = (case cols of None \<Rightarrow> [] | Some xs \<Rightarrow> xs) in
      scope \<in> set ASSIGNMENT_SCOPES \<and>
      (scope = ''SINGLE_COLUMN'' \<longrightarrow> col \<noteq> None \<and> ids = []) \<and>
      (scope = ''DATASET_LEVEL'' \<longrightarrow> col = None \<and> ids = []) \<and>
      (scope = ''CROSS_COLUMN'' \<longrightarrow> col = None \<and> 2 \<le> length ids))"

definition cross_column_key :: "uuid list \<Rightarrow> string" where
  "cross_column_key ids = py_join [char_of (31::nat)] (sort_key (map code_of) (map uuid_str ids))"

definition columns_valid :: "string \<Rightarrow> uuid option \<Rightarrow> uuid list \<Rightarrow> uuid \<Rightarrow> db \<Rightarrow> bool" where
  "columns_valid scope col ids ds d \<longleftrightarrow>
     (scope = ''SINGLE_COLUMN'' \<longrightarrow> (\<exists>c \<in> set_option col. column_in_dataset c ds d)) \<and>
     (scope = ''CROSS_COLUMN'' \<longrightarrow> (\<forall>c \<in> set ids. column_in_dataset c ds d))"

definition link_columns :: "uuid \<Rightarrow> uuid list \<Rightarrow> db \<Rightarrow> db" where
  "link_columns i ids d = d\<lparr>rule_assignment_columns := rule_assignment_columns d @
     map (\<lambda>(k, c). \<lparr>rac_rule_assignment_id = i, rac_column_id = c, rac_ordinal = int k\<rparr>) (List.enumerate 0 ids)\<rparr>"

text \<open>
  Every error of the first flush is reported as a duplicate; the key of the second table is the
  assignment with the column.
\<close>

definition create_assignment ::
  "uuid \<Rightarrow> uuid \<Rightarrow> string \<Rightarrow> uuid option \<Rightarrow> uuid list option \<Rightarrow> uuid option \<Rightarrow> uuid \<Rightarrow> instant \<Rightarrow> (db, uuid) op" where
  "create_assignment version ds scope col cols template actor now d =
     (let ids = (case cols of None \<Rightarrow> [] | Some xs \<Rightarrow> xs); cross = (scope = ''CROSS_COLUMN'') in
      checked d (raise_if (get_rule_version d version = None) (NotFound RuleVersionNotFoundError))
      (checked d (raise_if (get_dataset d ds = None) (NotFound DatasetNotFoundError))
      (checked d (raise_if (\<not> validate_scope_shape scope col cols \<or> \<not> columns_valid scope col ids ds d)
          (Unprocessable InvalidRuleAssignmentScopeError))
      (let i = db_next d;
           a = new_assignment i version ds scope (if scope = ''SINGLE_COLUMN'' then col else None)
                 (if cross then Some (cross_column_key ids) else None) template actor now
       in checked d (map_option (\<lambda>_. Conflict DuplicateRuleAssignmentError) (assignment_error a d))
          (checked d (raise_if (cross \<and> \<not> distinct ids) IntegrityError)
            (returns (assignment_audit actor ''rule_assignment.created'' i (Some (assigned_json ds scope)) now
               (link_columns i (if cross then ids else []) (insert_assignment a d))) i))))))"

definition get_assignment_or_raise :: "uuid \<Rightarrow> db \<Rightarrow> exn + rule_assignment" where
  "get_assignment_or_raise i d = or_raise (NotFound RuleAssignmentNotFoundError) (get_rule_assignment d i)"

definition list_assignments :: "uuid option \<Rightarrow> bool option \<Rightarrow> db \<Rightarrow> rule_assignment list" where
  "list_assignments ds en d = sort_key (\<lambda>a. - ra_assigned_at a)
     (filter (\<lambda>a. (case ds of None \<Rightarrow> True | Some i \<Rightarrow> ra_dataset_id a = i) \<and>
        (case en of None \<Rightarrow> True | Some b \<Rightarrow> ra_is_enabled a = b)) (rule_assignments d))"

definition soft_disable :: "uuid \<Rightarrow> uuid \<Rightarrow> instant \<Rightarrow> (db, uuid) op" where
  "soft_disable i actor now d =
     attempt d (get_assignment_or_raise i d) (\<lambda>_.
       returns (assignment_audit actor ''rule_assignment.removed'' i None now
         (d\<lparr>rule_assignments := upd_row ra_id i (\<lambda>a. a\<lparr>ra_is_enabled := False, ra_updated_at := Some now\<rparr>)
              (rule_assignments d)\<rparr>)) i)"

section \<open>Promotion\<close>

text \<open>
  \<open>uuid.UUID(text)\<close>: prefixes, braces and hyphens are dropped; what is left must be 32 characters
  that \<open>int(text, 16)\<close> reads.
\<close>

fun py_remove :: "string \<Rightarrow> string \<Rightarrow> string" where
  "py_remove sub [] = []"
| "py_remove sub (c # cs) =
     (if sub \<noteq> [] \<and> take (length sub) (c # cs) = sub then py_remove sub (drop (length sub - 1) cs)
      else c # py_remove sub cs)"

definition hex_value :: "char \<Rightarrow> nat option" where
  "hex_value c = (let n = code_of c in
     if 48 \<le> n \<and> n \<le> 57 then Some (n - 48) else if 97 \<le> n \<and> n \<le> 102 then Some (n - 87)
     else if 65 \<le> n \<and> n \<le> 70 then Some (n - 55) else None)"

text \<open>The digits, with single underscores between them; \<open>after\<close> says that a digit was just read.\<close>

fun read_hex :: "nat \<Rightarrow> bool \<Rightarrow> string \<Rightarrow> nat option" where
  "read_hex acc after [] = (if after then Some acc else None)"
| "read_hex acc after (c # cs) = (case hex_value c of Some v \<Rightarrow> read_hex (acc * 16 + v) True cs
     | None \<Rightarrow> if c = CHR ''_'' \<and> after then read_hex acc False cs else None)"

definition int_base16 :: "string \<Rightarrow> int option" where
  "int_base16 s = (let t = py_strip s;
       neg = (t \<noteq> [] \<and> hd t = CHR ''-'');
       u = (if t \<noteq> [] \<and> hd t \<in> {CHR ''-'', CHR ''+''} then tl t else t);
       pre = (take 2 u \<in> {''0x'', ''0X''});
       v = (if pre then (if take 1 (drop 2 u) = ''_'' then drop 3 u else drop 2 u) else u)
     in map_option (\<lambda>n. if neg then - int n else int n) (read_hex 0 False v))"

definition parse_uuid :: "pyval \<Rightarrow> exn + uuid" where
  "parse_uuid x = (case x of
     PyStr s \<Rightarrow> (let h = py_remove ''-'' (py_strip_by (\<lambda>c. c \<in> {CHR ''{'', CHR ''}''})
           (py_remove ''uuid:'' (py_remove ''urn:'' s)))
         in if length h \<noteq> 32 then Inl (Conv ValueError)
            else (case int_base16 h of None \<Rightarrow> Inl (Conv ValueError)
              | Some n \<Rightarrow> if 0 \<le> n \<and> n < 2 ^ 128 then Inr (nat n) else Inl (Conv ValueError)))
   | _ \<Rightarrow> Inl AttributeError)"

text \<open>Scope, column and dataset of the assignment, from the metadata of the detection.\<close>

definition resolve_promotion_assignment :: "rule \<Rightarrow> rule_version \<Rightarrow> exn + string \<times> uuid option \<times> uuid" where
  "resolve_promotion_assignment r v =
     (let detected = dict_get (rv_definition v) ''_detected_for'';
          refused = Unprocessable RulePromotionNotSupportedError in
      if \<not> py_truthy detected then Inl refused
      else (case detected of
        PyDict meta \<Rightarrow>
          if \<not> py_truthy (dict_get meta ''dataset_id'') then Inl refused
          else (case parse_uuid (dict_get meta ''dataset_id'') of Inl e \<Rightarrow> Inl e
            | Inr ds \<Rightarrow>
                if rule_type r = ''DUPLICATE'' then Inr (''DATASET_LEVEL'', None, ds)
                else if rule_type r = ''CROSS_COLUMN'' then Inl refused
                else if \<not> py_truthy (dict_get meta ''column_id'') then Inl refused
                else (case parse_uuid (dict_get meta ''column_id'') of Inl e \<Rightarrow> Inl e
                  | Inr c \<Rightarrow> Inr (''SINGLE_COLUMN'', Some c, ds)))
      | _ \<Rightarrow> Inl AttributeError))"

definition scalar_one :: "'r list \<Rightarrow> exn + 'r" where
  "scalar_one rs = (case rs of [r] \<Rightarrow> Inr r | [] \<Rightarrow> Inl (OtherException ''NoResultFound'') | _ \<Rightarrow> Inl MultipleResultsFound)"

definition set_rule_status :: "uuid \<Rightarrow> string \<Rightarrow> instant \<Rightarrow> db \<Rightarrow> db" where
  "set_rule_status i st now = upd_rule i (\<lambda>r. r\<lparr>rule_status := st, rule_updated_at := Some now\<rparr>)"

definition status_json :: "string \<Rightarrow> json" where
  "status_json st = [(''status'', PyStr st)]"

definition promote_rule :: "uuid \<Rightarrow> uuid \<Rightarrow> instant \<Rightarrow> (db, uuid) op" where
  "promote_rule i actor now d =
     attempt d (get_rule_or_raise i d) (\<lambda>r.
     checked d (raise_if (rule_status r \<noteq> ''PENDING_REVIEW'') (Conflict InvalidRuleReviewTransitionError))
     (attempt d (scalar_one (current_versions i d)) (\<lambda>v.
      attempt d (resolve_promotion_assignment r v) (\<lambda>(scope, col, ds).
      checked d (raise_if (get_dataset d ds = None) (NotFound DatasetNotFoundError))
      (checked d (raise_if (\<exists>c \<in> set_option col. \<not> column_in_dataset c ds d) (Unprocessable InvalidRuleAssignmentScopeError))
      (let d1 = set_rule_status i ''ACTIVE'' now d;
           a = new_assignment (db_next d) (rv_id v) ds scope col None None actor now
       in checked d (map_option (\<lambda>_. Conflict DuplicateRuleAssignmentError) (assignment_error a d1))
          (returns (assignment_audit actor ''rule_assignment.created'' (ra_id a) (Some (assigned_json ds scope)) now
             (rule_audit actor ''rule.promoted'' i (Some (status_json ''PENDING_REVIEW'')) (Some (status_json ''ACTIVE'')) now
               (insert_assignment a d1))) i)))))))"

definition dismiss_rule :: "uuid \<Rightarrow> uuid \<Rightarrow> instant \<Rightarrow> (db, uuid) op" where
  "dismiss_rule i actor now d =
     attempt d (get_rule_or_raise i d) (\<lambda>r.
     checked d (raise_if (rule_status r \<noteq> ''PENDING_REVIEW'') (Conflict InvalidRuleReviewTransitionError))
       (returns (rule_audit actor ''rule.dismissed'' i (Some (status_json ''PENDING_REVIEW''))
          (Some (status_json ''DISABLED'')) now (set_rule_status i ''DISABLED'' now d)) i))"

section \<open>Commands\<close>

datatype rule_command =
    CreateRule string "string option" "string option" string string json string "string option"
  | UpdateRule uuid "string option" "string option" "string option"
  | PublishVersion uuid json string "string option"
  | PromoteRule uuid
  | DismissRule uuid
  | CreateAssignment uuid uuid string "uuid option" "uuid list option" "uuid option"
  | DisableAssignment uuid

primrec run_rule_command :: "rule_command \<Rightarrow> uuid \<Rightarrow> instant \<Rightarrow> (db, uuid) op" where
  "run_rule_command (CreateRule name desc cat ty origin defn sev tmpl) a now =
     create_rule name desc cat ty origin defn sev tmpl a now"
| "run_rule_command (UpdateRule i desc cat st) a now = update_rule i desc cat st a now"
| "run_rule_command (PublishVersion i defn sev tmpl) a now = publish_version i defn sev tmpl a now"
| "run_rule_command (PromoteRule i) a now = promote_rule i a now"
| "run_rule_command (DismissRule i) a now = dismiss_rule i a now"
| "run_rule_command (CreateAssignment v ds scope col cols tmpl) a now =
     create_assignment v ds scope col cols tmpl a now"
| "run_rule_command (DisableAssignment i) a now = soft_disable i a now"

end
