(* ===== verification/RuleHistory.thy ===== *)
theory RuleHistory
  imports Rules ValidationRuns Sample
begin

text \<open>
  What every sequence of rule commands keeps: a rule has versions numbered from one, the last one
  current; an assignment has the shape of its scope and differs from every other; and nothing
  that was published or assigned is ever rewritten.
\<close>

section \<open>The invariant\<close>

definition numbered :: "rule_version list \<Rightarrow> bool" where
  "numbered vs \<longleftrightarrow> (\<forall>k < length vs. rv_version_number (vs ! k) = int k + 1 \<and>
     rv_is_current (vs ! k) = (Suc k = length vs))"

definition rules_ok :: "db \<Rightarrow> bool" where
  "rules_ok d \<longleftrightarrow> keys_ok rule_id (db_next d) (rules d) \<and> distinct (map rule_name (rules d))"

definition versions_ok :: "db \<Rightarrow> bool" where
  "versions_ok d \<longleftrightarrow> keys_ok rv_id (db_next d) (rule_versions d) \<and>
     (\<forall>v \<in> set (rule_versions d). rv_rule_id v \<in> rule_id ` set (rules d)) \<and>
     (\<forall>i \<in> rule_id ` set (rules d). versions_of i d \<noteq> [] \<and> numbered (versions_of i d))"

definition assigned_columns :: "uuid \<Rightarrow> db \<Rightarrow> uuid list" where
  "assigned_columns i d = map rac_column_id (filter (\<lambda>c. rac_rule_assignment_id c = i) (rule_assignment_columns d))"

definition columns_match :: "rule_assignment \<Rightarrow> uuid list \<Rightarrow> bool" where
  "columns_match a cs \<longleftrightarrow> (if ra_assignment_scope a = ''CROSS_COLUMN''
     then distinct cs \<and> 2 \<le> length cs \<and> ra_cross_column_key a = Some (cross_column_key cs) else cs = [])"

definition assignments_ok :: "db \<Rightarrow> bool" where
  "assignments_ok d \<longleftrightarrow> keys_ok ra_id (db_next d) (rule_assignments d) \<and>
     distinct (map scope_key (rule_assignments d)) \<and>
     (\<forall>a \<in> set (rule_assignments d). assignment_shape a \<and> ra_rule_version_id a \<in> rv_id ` set (rule_versions d) \<and>
        columns_match a (assigned_columns (ra_id a) d)) \<and>
     (\<forall>c \<in> set (rule_assignment_columns d). rac_rule_assignment_id c \<in> ra_id ` set (rule_assignments d))"

definition rules_inv :: "db \<Rightarrow> bool" where
  "rules_inv d \<longleftrightarrow> rules_ok d \<and> versions_ok d \<and> assignments_ok d"

lemma numbered_last:
  assumes "numbered vs" and "vs \<noteq> []"
  shows "filter rv_is_current vs = [last vs]" and "rv_version_number (last vs) = int (length vs)"
    and "rv_is_current (last vs)"
proof -
  have "\<not> rv_is_current v" if "v \<in> set (butlast vs)" for v
  proof -
    from that obtain k where "k < length vs - 1" "v = vs ! k" by (auto simp: in_set_conv_nth nth_butlast)
    then show ?thesis using assms(1) by (simp add: numbered_def)
  qed
  then have "filter rv_is_current (butlast vs) = []" by simp
  moreover have last: "rv_is_current (last vs)" "rv_version_number (last vs) = int (length vs)"
    using assms by (cases vs rule: rev_cases; auto simp: numbered_def nth_append)+
  ultimately have "filter rv_is_current (butlast vs @ [last vs]) = [last vs]" by simp
  then show "filter rv_is_current vs = [last vs]" using assms(2) by simp
  show "rv_is_current (last vs)" "rv_version_number (last vs) = int (length vs)" by (rule last)+
qed

lemma numbered_next:
  assumes "numbered vs" and "distinct (map rv_id vs)" and "vs \<noteq> []"
    and "rv_version_number w = int (length vs) + 1" and "rv_is_current w"
  shows "numbered (upd_row rv_id (rv_id (last vs)) (\<lambda>v. v\<lparr>rv_is_current := False\<rparr>) vs @ [w])"
  unfolding numbered_def
proof (intro allI impI)
  fix k assume "k < length (upd_row rv_id (rv_id (last vs)) (\<lambda>v. v\<lparr>rv_is_current := False\<rparr>) vs @ [w])"
  then consider (old) "k < length vs" | (new) "k = length vs" by force
  then show "rv_version_number ((upd_row rv_id (rv_id (last vs)) (\<lambda>v. v\<lparr>rv_is_current := False\<rparr>) vs @ [w]) ! k) = int k + 1 \<and>
      rv_is_current ((upd_row rv_id (rv_id (last vs)) (\<lambda>v. v\<lparr>rv_is_current := False\<rparr>) vs @ [w]) ! k) =
      (Suc k = length (upd_row rv_id (rv_id (last vs)) (\<lambda>v. v\<lparr>rv_is_current := False\<rparr>) vs @ [w]))"
  proof cases
    case old
    have "rv_id (vs ! k) = rv_id (last vs) \<longleftrightarrow> Suc k = length vs"
    proof
      assume that: "rv_id (vs ! k) = rv_id (last vs)"
      have "map rv_id vs ! k = map rv_id vs ! (length vs - 1)" using that old assms(3) by (simp add: last_conv_nth)
      then have "k = length vs - 1" using nth_eq_iff_index_eq [OF assms(2), of k "length vs - 1"] assms(3) old by simp
      then show "Suc k = length vs" using assms(3) by simp
    next
      assume "Suc k = length vs"
      then have "k = length vs - 1" by simp
      then show "rv_id (vs ! k) = rv_id (last vs)" using assms(3) by (simp add: last_conv_nth)
    qed
    with old assms(1) show ?thesis by (auto simp: numbered_def upd_row_def nth_append)
  qed (simp add: assms(4,5) nth_append)
qed

lemma rules_inv_next:
  assumes "rules_inv d" and "db_next d \<le> n" shows "rules_inv (d\<lparr>db_next := n\<rparr>)"
  using assms by (auto simp: rules_inv_def rules_ok_def versions_ok_def assignments_ok_def versions_of_def
      assigned_columns_def intro: keys_ok_mono)

text \<open>The invariant looks at five tables and the next key.\<close>

lemma rules_inv_cong:
  assumes "rules e = rules d" "rule_versions e = rule_versions d" "rule_assignments e = rule_assignments d"
    "rule_assignment_columns e = rule_assignment_columns d" "db_next d \<le> db_next e" and "rules_inv d"
  shows "rules_inv e"
  using assms by (auto simp: rules_inv_def rules_ok_def versions_ok_def assignments_ok_def versions_of_def
      assigned_columns_def intro: keys_ok_mono)

lemma rules_inv_audit:
  "rules_inv d \<Longrightarrow> rules_inv (rule_audit a ac i b af now d)"
  "rules_inv d \<Longrightarrow> rules_inv (assignment_audit a ac i af now d)"
  by (rule rules_inv_cong; simp add: rule_audit_def assignment_audit_def)+

section \<open>The commands keep it\<close>

lemma upd_rule_inv:
  assumes inv: "rules_inv d" and "\<And>r. rule_id (f r) = rule_id r"
    and "distinct (map rule_name (upd_row rule_id i f (rules d)))"
  shows "rules_inv (upd_rule i f d)"
proof -
  have "map rule_id (upd_row rule_id i f (rules d)) = map rule_id (rules d)"
    by (rule rule_table.keys_upd) (rule assms(2))
  then have ids: "rule_id ` set (upd_row rule_id i f (rules d)) = rule_id ` set (rules d)" by (metis set_map)
  have "keys_ok rule_id (db_next d) (upd_row rule_id i f (rules d))"
    using inv assms(2) by (intro rule_table.keys_ok_upd) (simp_all add: rules_inv_def rules_ok_def)
  then show ?thesis
    using assms(1,3) unfolding rules_inv_def rules_ok_def versions_ok_def assignments_ok_def versions_of_def
      assigned_columns_def upd_rule_def
    by (simp add: ids)
qed

lemma names_upd_same:
  "(\<And>r. rule_name (f r) = rule_name r) \<Longrightarrow> map rule_name (upd_row rule_id i f rs) = map rule_name rs"
  by (auto simp: upd_row_def)

lemma set_status_inv: "rules_inv d \<Longrightarrow> rules_inv (set_rule_status i st now d)"
  unfolding set_rule_status_def
  by (rule upd_rule_inv) (simp_all add: names_upd_same rules_inv_def rules_ok_def)

lemma update_inv:
  assumes inv: "rules_inv d" shows "ends_in rules_inv (update_rule i desc cat st a now d)"
  unfolding update_rule_def Let_def
proof (intro ends inv)
  fix r assume r: "get_rule_or_raise i d = Inr r"
  let ?r = "edited_rule desc cat st now r"
  assume ok: "rule_error ?r (filter (\<lambda>x. rule_id x \<noteq> i) (rules d)) = None"
  have r: "find_row rule_id (rules d) i = Some r" using r by (simp add: get_rule_or_raise_def or_raise_def split: option.splits)
  then have id: "rule_id r = i" "r \<in> set (rules d)" by (auto dest: find_row_SomeD)
  have same: "upd_row rule_id i (\<lambda>_. ?r) (rules d) = upd_row rule_id i (edited_rule desc cat st now) (rules d)"
  proof -
    have "x = r" if "x \<in> set (rules d)" "rule_id x = i" for x
      using that id inv by (auto simp: rules_inv_def rules_ok_def keys_ok_def distinct_map inj_on_def)
    then show ?thesis by (auto simp: upd_row_def)
  qed
  have "rules_inv (upd_rule i (edited_rule desc cat st now) d)"
    by (rule upd_rule_inv [OF inv]) (use inv in \<open>simp_all add: edited_rule_def names_upd_same rules_inv_def rules_ok_def\<close>)
  then show "rules_inv (rule_audit a ''rule.updated'' i (Some (rule_summary r)) (Some (rule_summary ?r)) now
      (upd_rule i (\<lambda>_. ?r) d))"
    by (intro rules_inv_audit) (simp add: upd_rule_def same)
qed

lemma create_rule_inv:
  assumes inv: "rules_inv d"
  shows "ends_in rules_inv (create_rule name desc cat ty origin defn sev tmpl a now d)"
  unfolding create_rule_def Let_def
proof (intro ends inv rules_inv_audit)
  let ?i = "db_next d"
  let ?r = "new_rule ?i name desc cat ty origin a now"
  let ?d1 = "d\<lparr>rules := rules d @ [?r], db_next := Suc ?i\<rparr>"
  let ?v = "new_version (db_next ?d1) ?i 1 defn sev tmpl a now"
  assume ok: "rule_error ?r (rules d) = None"
  have "keys_ok rule_id (Suc ?i) (rules d @ [?r])"
    using inv by (intro rule_table.keys_ok_insert) (simp_all add: rules_inv_def rules_ok_def new_rule_def)
  moreover have "rule_name ?r \<notin> rule_name ` set (rules d)"
    using ok by (simp add: rule_error_def split: if_splits)
  ultimately have "rules_ok (insert_version ?v ?d1)"
    using inv by (auto simp: rules_inv_def rules_ok_def insert_version_def intro: keys_ok_mono)
  moreover have "versions_ok (insert_version ?v ?d1)"
  proof -
    have fresh: "\<forall>v \<in> set (rule_versions d). rv_rule_id v \<noteq> ?i"
      using inv by (fastforce simp: rules_inv_def rules_ok_def versions_ok_def keys_ok_def)
    have "versions_of j (insert_version ?v ?d1) = (if j = ?i then [?v] else versions_of j d)" for j
      using fresh by (auto simp: versions_of_def insert_version_def new_version_def filter_empty_conv)
    moreover have "numbered [?v]" by (simp add: numbered_def new_version_def)
    moreover have "keys_ok rv_id (Suc ?i) (rule_versions d)"
      using inv by (auto simp: rules_inv_def versions_ok_def intro: keys_ok_mono)
    then have "keys_ok rv_id (Suc (Suc ?i)) (rule_versions d @ [?v])"
      by (auto simp: keys_ok_def less_Suc_eq new_version_def)
    ultimately show ?thesis
      using inv by (auto simp: rules_inv_def versions_ok_def insert_version_def new_rule_def new_version_def)
  qed
  moreover have "assignments_ok (insert_version ?v ?d1)"
    using inv by (auto simp: rules_inv_def assignments_ok_def insert_version_def assigned_columns_def intro: keys_ok_mono)
  ultimately show "rules_inv (insert_version ?v ?d1)" by (simp add: rules_inv_def)
qed

lemma image_upd_row: "(\<And>r. g (h r) = g r) \<Longrightarrow> g ` set (upd_row idf i h t) = g ` set t"
proof -
  assume "\<And>r. g (h r) = g r"
  then have "map g (upd_row idf i h t) = map g t" by (auto simp: upd_row_def)
  then show ?thesis by (metis set_map)
qed

lemma versions_retire:
  "versions_of j (retire_version k d) = upd_row rv_id k (\<lambda>v. v\<lparr>rv_is_current := False\<rparr>) (versions_of j d)"
  by (simp add: versions_of_def retire_version_def filter_upd_row)

lemma publish_inv:
  assumes inv: "rules_inv d" shows "ends_in rules_inv (publish_version i defn sev tmpl a now d)"
  unfolding publish_version_def Let_def
proof (intro ends inv rules_inv_audit)
  fix r current
  assume r: "get_rule_or_raise i d = Inr r"
    and current: "at_most_one MultipleResultsFound (current_versions (rule_id r) d) = Inr current"
  have "rule_id r = i" "r \<in> set (rules d)"
    using r by (auto simp: get_rule_or_raise_def or_raise_def split: option.splits dest: find_row_SomeD)
  then have i: "rule_id r = i" "i \<in> rule_id ` set (rules d)" by auto
  let ?vs = "versions_of i d"
  have vs: "?vs \<noteq> []" "numbered ?vs" using inv i(2) by (auto simp: rules_inv_def versions_ok_def)
  have cur: "current = Some (last ?vs)"
    using current numbered_last(1) [OF vs(2,1)] by (simp add: current_versions_def i(1))
  let ?d1 = "retire_version (rv_id (last ?vs)) d"
  let ?v = "new_version (db_next ?d1) i (rv_version_number (last ?vs) + 1) defn sev tmpl a now"
  have keys: "keys_ok rv_id (db_next d) (rule_versions d)" using inv by (simp add: rules_inv_def versions_ok_def)
  have dist: "distinct (map rv_id (versions_of j d))" for j
    using keys by (simp add: versions_of_def keys_ok_def distinct_map_filter)
  have ids: "rv_id ` set (rule_versions ?d1) = rv_id ` set (rule_versions d)"
    "rv_rule_id ` set (rule_versions ?d1) = rv_rule_id ` set (rule_versions d)"
    unfolding retire_version_def by (simp_all add: image_upd_row)
  have mem: "last ?vs \<in> set (versions_of i d)" using vs(1) by simp
  have "numbered (versions_of j (insert_version ?v ?d1)) \<and> versions_of j (insert_version ?v ?d1) \<noteq> []"
    if j: "j \<in> rule_id ` set (rules d)" for j
  proof (cases "j = i")
    case True
    have "versions_of i (insert_version ?v ?d1) = versions_of i ?d1 @ [?v]"
      by (simp add: versions_of_def insert_version_def new_version_def)
    moreover have "numbered (versions_of i ?d1 @ [?v])"
      unfolding versions_retire
      by (rule numbered_next [OF vs(2) dist vs(1)])
         (simp_all add: new_version_def numbered_last(2) [OF vs(2,1)])
    ultimately show ?thesis using True by simp
  next
    case False
    have "rv_id v \<noteq> rv_id (last ?vs)" if "v \<in> set (versions_of j d)" for v
    proof
      assume "rv_id v = rv_id (last ?vs)"
      then have "v = last ?vs"
        using keys that mem by (auto simp: versions_of_def keys_ok_def distinct_map inj_on_def)
      then show False using that mem False by (auto simp: versions_of_def)
    qed
    then have "versions_of j ?d1 = versions_of j d" unfolding versions_retire by (auto simp: upd_row_def intro: map_idI)
    moreover have "versions_of j (insert_version ?v ?d1) = versions_of j ?d1"
      using False by (simp add: versions_of_def insert_version_def new_version_def)
    ultimately show ?thesis using j inv by (auto simp: rules_inv_def versions_ok_def)
  qed
  moreover have "keys_ok rv_id (db_next d) (rule_versions ?d1)"
    using keys by (simp add: retire_version_def keys_ok_cong [OF keys_upd_row])
  then have "keys_ok rv_id (Suc (db_next d)) (rule_versions ?d1 @ [?v])"
    by (auto simp: keys_ok_def less_Suc_eq new_version_def retire_version_def)
  moreover have "rv_rule_id v \<in> rule_id ` set (rules d)" if "v \<in> set (rule_versions ?d1)" for v
    using that ids(2) inv by (fastforce simp: rules_inv_def versions_ok_def)
  ultimately have "versions_ok (insert_version ?v ?d1)"
    using i by (auto simp: versions_ok_def insert_version_def retire_version_def new_version_def)
  moreover have "rules_ok (insert_version ?v ?d1)"
    using inv by (auto simp: rules_inv_def rules_ok_def insert_version_def retire_version_def intro: keys_ok_mono)
  moreover have "assignments_ok (insert_version ?v ?d1)"
    using inv ids(1) by (auto simp: rules_inv_def assignments_ok_def insert_version_def retire_version_def
        assigned_columns_def intro: keys_ok_mono)
  ultimately show "rules_inv (insert_version (new_version (db_next (case current of None \<Rightarrow> d
      | Some v \<Rightarrow> retire_version (rv_id v) d)) (rule_id r) (case current of None \<Rightarrow> 1
      | Some v \<Rightarrow> rv_version_number v + 1) defn sev tmpl a now)
      (case current of None \<Rightarrow> d | Some v \<Rightarrow> retire_version (rv_id v) d))"
    by (simp add: cur i(1) rules_inv_def)
qed

lemma assigned_columns_link:
  assumes "\<forall>c \<in> set (rule_assignment_columns d). rac_rule_assignment_id c \<noteq> i"
  shows "assigned_columns j (link_columns i ids d) = (if j = i then ids else assigned_columns j d)"
proof -
  let ?new = "map (\<lambda>(k, c). \<lparr>rac_rule_assignment_id = i, rac_column_id = c, rac_ordinal = int k\<rparr>) (List.enumerate 0 ids)"
  have "filter (\<lambda>c. rac_rule_assignment_id c = j) ?new = (if j = i then ?new else [])"
    by (auto simp: filter_empty_conv intro!: filter_True)
  moreover have "map rac_column_id ?new = ids" by (simp add: comp_def split_def)
  moreover have "filter (\<lambda>c. rac_rule_assignment_id c = i) (rule_assignment_columns d) = []"
    using assms by (simp add: filter_empty_conv)
  ultimately show ?thesis by (simp add: assigned_columns_def link_columns_def)
qed

lemma insert_assignment_inv:
  assumes inv: "rules_inv d" and a: "ra_id a = db_next d" "assignment_error a d = None"
    and "ra_rule_version_id a \<in> rv_id ` set (rule_versions d)" and "columns_match a ids"
  shows "rules_inv (link_columns (ra_id a) ids (insert_assignment a d))"
proof -
  have ok: "assignments_ok d" using inv by (simp add: rules_inv_def)
  have new: "assignment_shape a" "scope_key a \<notin> scope_key ` set (rule_assignments d)"
    using a(2) by (auto simp: assignment_error_def split: if_splits)
  have fresh: "\<forall>c \<in> set (rule_assignment_columns (insert_assignment a d)). rac_rule_assignment_id c \<noteq> ra_id a"
    using ok a(1) by (fastforce simp: assignments_ok_def keys_ok_def insert_assignment_def)
  have old: "ra_id b \<noteq> ra_id a" if "b \<in> set (rule_assignments d)" for b
    using ok a(1) that by (fastforce simp: assignments_ok_def keys_ok_def)
  let ?e = "link_columns (ra_id a) ids (insert_assignment a d)"
  have same: "assigned_columns j (insert_assignment a d) = assigned_columns j d" for j
    by (simp add: assigned_columns_def insert_assignment_def)
  have tables: "rule_assignments ?e = rule_assignments d @ [a]" "rule_versions ?e = rule_versions d"
    "rules ?e = rules d" "db_next ?e = Suc (db_next d)"
    by (simp_all add: link_columns_def insert_assignment_def)
  have "keys_ok ra_id (Suc (db_next d)) (rule_assignments d @ [a])"
    using ok a(1) by (intro assignment_table.keys_ok_insert) (simp_all add: assignments_ok_def)
  moreover have "columns_match b (assigned_columns (ra_id b) ?e)" if "b \<in> set (rule_assignments d @ [a])" for b
    using that ok old assms(5) unfolding assigned_columns_link [OF fresh] same
    by (auto simp: assignments_ok_def)
  moreover have "rac_rule_assignment_id c \<in> ra_id ` set (rule_assignments d @ [a])"
    if "c \<in> set (rule_assignment_columns ?e)" for c
    using that ok by (auto simp: link_columns_def insert_assignment_def assignments_ok_def)
  ultimately have "assignments_ok ?e"
    using ok new assms(4) unfolding assignments_ok_def tables by (auto simp del: image_iff)
  moreover have "rules_ok ?e" using inv by (auto simp: rules_inv_def rules_ok_def tables intro: keys_ok_mono)
  moreover have "versions_ok ?e"
    using inv by (auto simp: rules_inv_def versions_ok_def tables versions_of_def intro: keys_ok_mono)
  ultimately show ?thesis by (simp add: rules_inv_def)
qed

lemma link_no_columns: "link_columns i [] d = d"
  by (simp add: link_columns_def)

lemma create_assignment_inv:
  assumes inv: "rules_inv d"
  shows "ends_in rules_inv (create_assignment version ds scope col cols tmpl a now d)"
proof -
  let ?ids = "case cols of None \<Rightarrow> [] | Some xs \<Rightarrow> xs"
  let ?a = "new_assignment (db_next d) version ds scope (if scope = ''SINGLE_COLUMN'' then col else None)
    (if scope = ''CROSS_COLUMN'' then Some (cross_column_key ?ids) else None) tmpl a now"
  show ?thesis
    unfolding create_assignment_def Let_def
  proof (intro ends inv rules_inv_audit)
    assume version: "raise_if (get_rule_version d version = None) (NotFound RuleVersionNotFoundError) = None"
      and shape: "raise_if (\<not> validate_scope_shape scope col cols \<or> \<not> columns_valid scope col ?ids ds d)
        (Unprocessable InvalidRuleAssignmentScopeError) = None"
      and free: "map_option (\<lambda>_. Conflict DuplicateRuleAssignmentError) (assignment_error ?a d) = None"
      and dist: "raise_if (scope = ''CROSS_COLUMN'' \<and> \<not> distinct ?ids) IntegrityError = None"
    have "columns_match ?a (if scope = ''CROSS_COLUMN'' then ?ids else [])"
      using shape dist by (auto simp: columns_match_def new_assignment_def validate_scope_shape_def Let_def)
    moreover have "ra_rule_version_id ?a \<in> rv_id ` set (rule_versions d)"
      using version by (auto simp: new_assignment_def find_row_None)
    ultimately show "rules_inv (link_columns (db_next d) (if scope = ''CROSS_COLUMN'' then ?ids else [])
        (insert_assignment ?a d))"
      using insert_assignment_inv [OF inv, of ?a] free by (simp add: new_assignment_def)
  qed
qed

lemma promote_inv:
  assumes inv: "rules_inv d" shows "ends_in rules_inv (promote_rule i a now d)"
  unfolding promote_rule_def Let_def
proof (intro ends inv rules_inv_audit)
  fix r v x scope y col ds
  assume v: "scalar_one (current_versions i d) = Inr v" and "x = (scope, y)" "y = (col, ds)"
    and res: "resolve_promotion_assignment r v = Inr x"
  let ?d1 = "set_rule_status i ''ACTIVE'' now d"
  let ?a = "new_assignment (db_next d) (rv_id v) ds scope col None None a now"
  assume free: "map_option (\<lambda>_. Conflict DuplicateRuleAssignmentError) (assignment_error ?a ?d1) = None"
  have "v \<in> set (current_versions i d)" using v by (auto simp: scalar_one_def split: list.splits)
  then have "v \<in> set (rule_versions d)" by (simp add: current_versions_def versions_of_def)
  moreover have "scope \<noteq> ''CROSS_COLUMN''"
    using res \<open>x = _\<close> \<open>y = _\<close>
    by (auto simp: resolve_promotion_assignment_def Let_def split: if_splits pyval.splits sum.splits)
  ultimately have "rules_inv (link_columns (ra_id ?a) [] (insert_assignment ?a ?d1))"
    using free by (intro insert_assignment_inv set_status_inv inv)
      (auto simp: new_assignment_def columns_match_def set_rule_status_def upd_rule_def)
  then show "rules_inv (insert_assignment ?a ?d1)" by (simp add: link_no_columns)
qed

lemma dismiss_inv: "rules_inv d \<Longrightarrow> ends_in rules_inv (dismiss_rule i a now d)"
  unfolding dismiss_rule_def by (intro ends rules_inv_audit set_status_inv)

lemma disable_inv:
  assumes inv: "rules_inv d" shows "ends_in rules_inv (soft_disable i a now d)"
  unfolding soft_disable_def
proof (intro ends inv rules_inv_audit)
  let ?f = "\<lambda>b. b\<lparr>ra_is_enabled := False, ra_updated_at := Some now\<rparr>"
  let ?as = "upd_row ra_id i ?f (rule_assignments d)"
  have ok: "assignments_ok d" using inv by (simp add: rules_inv_def)
  have keys: "map scope_key ?as = map scope_key (rule_assignments d)"
    by (auto simp: upd_row_def scope_key_def)
  have ids: "ra_id ` set ?as = ra_id ` set (rule_assignments d)" by (rule image_upd_row) simp
  have "keys_ok ra_id (db_next d) ?as"
    using ok by (intro assignment_table.keys_ok_upd) (simp_all add: assignments_ok_def)
  moreover have "assignment_shape b \<and> ra_rule_version_id b \<in> rv_id ` set (rule_versions d) \<and>
      columns_match b (assigned_columns (ra_id b) d)" if b: "b \<in> set ?as" for b
  proof -
    obtain c where "c \<in> set (rule_assignments d)" "b = c \<or> b = ?f c" using b by (auto simp: set_upd_row)
    then show ?thesis using ok by (auto simp: assignments_ok_def assignment_shape_def columns_match_def)
  qed
  ultimately have "assignments_ok (d\<lparr>rule_assignments := ?as\<rparr>)"
    using ok unfolding assignments_ok_def by (simp add: keys ids assigned_columns_def)
  then show "rules_inv (d\<lparr>rule_assignments := ?as\<rparr>)"
    using inv by (auto simp: rules_inv_def rules_ok_def versions_ok_def versions_of_def)
qed

lemma rule_command_inv: "rules_inv d \<Longrightarrow> ends_in rules_inv (run_rule_command c a now d)"
  by (cases c) (simp_all add: create_rule_inv update_inv publish_inv promote_inv dismiss_inv create_assignment_inv disable_inv)

section \<open>Nothing published or assigned is rewritten\<close>

definition same_version :: "rule_version \<Rightarrow> rule_version \<Rightarrow> bool" where
  "same_version v w \<longleftrightarrow> w\<lparr>rv_is_current := rv_is_current v\<rparr> = v"

definition same_assignment :: "rule_assignment \<Rightarrow> rule_assignment \<Rightarrow> bool" where
  "same_assignment a b \<longleftrightarrow> b\<lparr>ra_is_enabled := ra_is_enabled a, ra_updated_at := ra_updated_at a\<rparr> = a \<and>
     (ra_is_enabled b \<longrightarrow> ra_is_enabled a)"

definition same_rule :: "rule \<Rightarrow> rule \<Rightarrow> bool" where
  "same_rule r s \<longleftrightarrow> rule_id s = rule_id r \<and> rule_name s = rule_name r \<and> rule_type s = rule_type r \<and>
     rule_origin s = rule_origin r"

definition kept_history :: "db \<Rightarrow> db \<Rightarrow> bool" where
  "kept_history d e \<longleftrightarrow>
     (\<forall>r \<in> set (rules d). \<exists>s \<in> set (rules e). same_rule r s) \<and>
     (\<forall>v \<in> set (rule_versions d). \<exists>w \<in> set (rule_versions e). same_version v w) \<and>
     (\<forall>a \<in> set (rule_assignments d). \<exists>b \<in> set (rule_assignments e). same_assignment a b \<and>
        assigned_columns (ra_id a) e = assigned_columns (ra_id a) d)"

lemma same_refl [simp]: "same_rule r r" "same_version v v" "same_assignment a a"
  by (simp_all add: same_rule_def same_version_def same_assignment_def)

lemma same_self [intro]:
  "r \<in> R \<Longrightarrow> \<exists>s \<in> R. same_rule r s" "v \<in> V \<Longrightarrow> \<exists>w \<in> V. same_version v w"
  "a \<in> A \<Longrightarrow> \<exists>b \<in> A. same_assignment a b"
  by (rule bexI [where P = "same_rule r" and x = r], simp_all,
      rule bexI [where P = "same_version v" and x = v], simp_all,
      rule bexI [where P = "same_assignment a" and x = a], simp_all)

lemma same_rule_trans: "same_rule r s \<Longrightarrow> same_rule s t \<Longrightarrow> same_rule r t"
  by (simp add: same_rule_def)

lemma same_version_trans: "same_version v w \<Longrightarrow> same_version w x \<Longrightarrow> same_version v x"
  by (cases v; cases w; cases x) (simp add: same_version_def)

lemma same_assignment_trans: "same_assignment a b \<Longrightarrow> same_assignment b c \<Longrightarrow> same_assignment a c"
  by (cases a; cases b; cases c) (auto simp: same_assignment_def)

lemma same_assignment_id: "same_assignment a b \<Longrightarrow> ra_id b = ra_id a"
  by (cases a; cases b) (simp add: same_assignment_def)

text \<open>Tables that only grow.\<close>

lemma kept_grown:
  assumes "set (rules d) \<subseteq> set (rules e)" "set (rule_versions d) \<subseteq> set (rule_versions e)"
    and "set (rule_assignments d) \<subseteq> set (rule_assignments e)"
    and "\<And>a. a \<in> set (rule_assignments d) \<Longrightarrow> assigned_columns (ra_id a) e = assigned_columns (ra_id a) d"
  shows "kept_history d e"
  unfolding kept_history_def using assms same_refl by blast

lemma kept_refl: "kept_history d d"
  by (rule kept_grown) auto

lemma kept_trans: "kept_history d e \<Longrightarrow> kept_history e f \<Longrightarrow> kept_history d f"
proof -
  assume de: "kept_history d e" and ef: "kept_history e f"
  have "\<exists>s \<in> set (rules f). same_rule r s" if "r \<in> set (rules d)" for r
    using de ef that unfolding kept_history_def by (meson same_rule_trans)
  moreover have "\<exists>w \<in> set (rule_versions f). same_version v w" if "v \<in> set (rule_versions d)" for v
    using de ef that unfolding kept_history_def by (meson same_version_trans)
  moreover have "\<exists>c \<in> set (rule_assignments f). same_assignment a c \<and>
      assigned_columns (ra_id a) f = assigned_columns (ra_id a) d" if a: "a \<in> set (rule_assignments d)" for a
  proof -
    obtain b where b: "b \<in> set (rule_assignments e)" "same_assignment a b"
        "assigned_columns (ra_id a) e = assigned_columns (ra_id a) d"
      using de a unfolding kept_history_def by blast
    obtain c where "c \<in> set (rule_assignments f)" "same_assignment b c"
        "assigned_columns (ra_id b) f = assigned_columns (ra_id b) e"
      using ef b(1) unfolding kept_history_def by blast
    with b show ?thesis using same_assignment_trans same_assignment_id by metis
  qed
  ultimately show ?thesis unfolding kept_history_def by blast
qed

lemma kept_cong:
  "rules f = rules e \<Longrightarrow> rule_versions f = rule_versions e \<Longrightarrow> rule_assignments f = rule_assignments e \<Longrightarrow>
   rule_assignment_columns f = rule_assignment_columns e \<Longrightarrow> kept_history d f = kept_history d e"
  by (simp add: kept_history_def assigned_columns_def)

lemma kept_audit [simp]:
  "kept_history d (rule_audit a ac i b af now e) = kept_history d e"
  "kept_history d (assignment_audit a ac i af now e) = kept_history d e"
  by (rule kept_cong; simp add: rule_audit_def assignment_audit_def)+

lemma kept_upd_rule:
  assumes "\<And>r. r \<in> set (rules d) \<Longrightarrow> rule_id r = i \<Longrightarrow> same_rule r (f r)"
  shows "kept_history d (upd_rule i f d)"
proof -
  have "\<exists>s \<in> set (rules (upd_rule i f d)). same_rule r s" if "r \<in> set (rules d)" for r
    using that assms by (intro bexI [of _ "if rule_id r = i then f r else r"]) (auto simp: upd_rule_def upd_row_def)
  then show ?thesis by (auto simp: kept_history_def upd_rule_def assigned_columns_def)
qed

lemma kept_insert_version: "kept_history d (insert_version v d)"
  by (rule kept_grown) (auto simp: insert_version_def assigned_columns_def)

lemma kept_new_rule: "kept_history d (d\<lparr>rules := rules d @ [r], db_next := n\<rparr>)"
  by (rule kept_grown) (auto simp: assigned_columns_def)

lemma kept_retire: "kept_history d (retire_version i d)"
proof -
  have "\<exists>w \<in> set (rule_versions (retire_version i d)). same_version v w" if "v \<in> set (rule_versions d)" for v
    using that by (intro bexI [of _ "if rv_id v = i then v\<lparr>rv_is_current := False\<rparr> else v"])
      (auto simp: same_version_def retire_version_def upd_row_def)
  then show ?thesis
    by (auto simp: kept_history_def retire_version_def assigned_columns_def)
qed

lemma kept_disable:
  "kept_history d (d\<lparr>rule_assignments := upd_row ra_id i (\<lambda>b. b\<lparr>ra_is_enabled := False, ra_updated_at := t\<rparr>)
     (rule_assignments d)\<rparr>)" (is "kept_history d ?e")
proof -
  have "\<exists>b \<in> set (rule_assignments ?e). same_assignment a b" if "a \<in> set (rule_assignments d)" for a
    using that by (intro bexI [of _ "if ra_id a = i then a\<lparr>ra_is_enabled := False, ra_updated_at := t\<rparr> else a"])
      (auto simp: same_assignment_def upd_row_def)
  then show ?thesis
    by (auto simp: kept_history_def assigned_columns_def)
qed

lemma kept_insert_assignment:
  assumes "rules_inv d" and "ra_id a = db_next d"
  shows "kept_history d (link_columns (ra_id a) ids (insert_assignment a d))"
proof -
  have ok: "assignments_ok d" using assms(1) by (simp add: rules_inv_def)
  then have fresh: "\<forall>c \<in> set (rule_assignment_columns (insert_assignment a d)). rac_rule_assignment_id c \<noteq> ra_id a"
    using assms(2) by (fastforce simp: assignments_ok_def keys_ok_def insert_assignment_def)
  have "ra_id b \<noteq> ra_id a" if "b \<in> set (rule_assignments d)" for b
    using ok assms(2) that by (fastforce simp: assignments_ok_def keys_ok_def)
  moreover have "assigned_columns j (insert_assignment a d) = assigned_columns j d" for j
    by (simp add: assigned_columns_def insert_assignment_def)
  ultimately have "assigned_columns (ra_id b) (link_columns (ra_id a) ids (insert_assignment a d)) = assigned_columns (ra_id b) d"
    if "b \<in> set (rule_assignments d)" for b
    using that unfolding assigned_columns_link [OF fresh] by auto
  then show ?thesis
    by (intro kept_grown) (auto simp: link_columns_def insert_assignment_def)
qed

lemma rule_command_kept:
  assumes inv: "rules_inv d" shows "ends_in (kept_history d) (run_rule_command c a now d)"
proof (cases c)
  case (CreateRule name desc cat ty origin defn sev tmpl)
  have "kept_history d (insert_version v (d\<lparr>rules := rules d @ [r], db_next := n\<rparr>))" for v r n
    by (rule kept_trans [OF kept_new_rule kept_insert_version])
  then show ?thesis unfolding CreateRule run_rule_command.simps create_rule_def Let_def
    by (intro ends) (simp_all add: kept_refl)
next
  case (UpdateRule i desc cat st)
  have "kept_history d (upd_rule i (\<lambda>_. edited_rule desc cat st now r) d)" if "get_rule_or_raise i d = Inr r" for r
  proof (rule kept_upd_rule)
    fix s assume s: "s \<in> set (rules d)" "rule_id s = i"
    have r: "r \<in> set (rules d)" "rule_id r = i"
      using that by (auto simp: get_rule_or_raise_def or_raise_def split: option.splits dest: find_row_SomeD)
    have "s = r" using r s inv by (auto simp: rules_inv_def rules_ok_def keys_ok_def distinct_map inj_on_def)
    then show "same_rule s (edited_rule desc cat st now r)" by (simp add: same_rule_def edited_rule_def)
  qed
  then show ?thesis unfolding UpdateRule run_rule_command.simps update_rule_def Let_def
    by (intro ends) (simp_all add: kept_refl)
next
  case (PublishVersion i defn sev tmpl)
  have "kept_history d (insert_version w (case current of None \<Rightarrow> d | Some v \<Rightarrow> retire_version (rv_id v) d))" for w current
    by (cases current) (auto intro: kept_insert_version kept_trans [OF kept_retire])
  then show ?thesis unfolding PublishVersion run_rule_command.simps publish_version_def Let_def
    by (intro ends) (simp_all add: kept_refl)
next
  case (PromoteRule i)
  have "kept_history d (insert_assignment b (set_rule_status i ''ACTIVE'' now d))" if "ra_id b = db_next d" for b
  proof (rule kept_trans)
    show "kept_history d (set_rule_status i ''ACTIVE'' now d)"
      unfolding set_rule_status_def by (rule kept_upd_rule) (simp add: same_rule_def)
    show "kept_history (set_rule_status i ''ACTIVE'' now d) (insert_assignment b (set_rule_status i ''ACTIVE'' now d))"
      using kept_insert_assignment [OF set_status_inv [OF inv], of b i "''ACTIVE''" now "[]"] that
      by (simp add: link_no_columns set_rule_status_def upd_rule_def)
  qed
  then show ?thesis unfolding PromoteRule run_rule_command.simps promote_rule_def Let_def
    by (intro ends) (simp_all add: kept_refl new_assignment_def)
next
  case (DismissRule i)
  have "kept_history d (set_rule_status i ''DISABLED'' now d)"
    unfolding set_rule_status_def by (rule kept_upd_rule) (simp add: same_rule_def)
  then show ?thesis unfolding DismissRule run_rule_command.simps dismiss_rule_def
    by (intro ends) (simp_all add: kept_refl)
next
  case (CreateAssignment v ds scope col cols tmpl)
  have "kept_history d (link_columns (db_next d) ids (insert_assignment b d))" if "ra_id b = db_next d" for b ids
    using kept_insert_assignment [OF inv that] that by simp
  then show ?thesis unfolding CreateAssignment run_rule_command.simps create_assignment_def Let_def
    by (intro ends) (simp_all add: kept_refl new_assignment_def)
next
  case (DisableAssignment i)
  then show ?thesis unfolding DisableAssignment run_rule_command.simps soft_disable_def
    by (intro ends) (simp_all add: kept_refl kept_disable)
qed

section \<open>Properties\<close>

definition rule_step :: "rule_command \<times> uuid \<times> instant \<Rightarrow> db \<Rightarrow> db" where
  "rule_step = (\<lambda>(c, a, now) d. fst (run_rule_command c a now d))"

interpretation rulebook: stable_system rule_step rules_inv "kept_history d0" for d0
proof unfold_locales
  fix s and c :: "rule_command \<times> uuid \<times> instant"
  assume inv: "rules_inv s"
  obtain rc a now where c: "c = (rc, a, now)" by (cases c)
  show "rules_inv (rule_step c s)"
    using rule_command_inv [OF inv] by (simp add: c rule_step_def ends_in_def)
  assume "kept_history d0 s"
  then show "kept_history d0 (rule_step c s)"
    using rule_command_kept [OF inv] by (auto simp: c rule_step_def ends_in_def intro: kept_trans)
qed

text \<open>A rule that the detection made for column 2 of dataset 1, still to be reviewed.\<close>

definition reviewed_rule :: rule where
  "reviewed_rule = new_rule 40 ''r'' None None ''COMPLETENESS'' ''PATTERN_DETECTED'' 9 0"

definition reviewed_version :: rule_version where
  "reviewed_version = new_version 41 40 1
     [(''_detected_for'', PyDict [(''dataset_id'', PyStr (uuid_str 1)), (''column_id'', PyStr (uuid_str 2))])] ''HIGH'' None 9 0"

definition reviewed_db :: db where
  "reviewed_db = empty_db\<lparr>db_next := 42, datasets := [sample_dataset], columns := [sample_column 2 ''c'' ''STRING'' 1],
     rules := [reviewed_rule], rule_versions := [reviewed_version]\<rparr>"

lemma reviewed_inv: "rules_inv reviewed_db"
  by (simp add: rules_inv_def rules_ok_def versions_ok_def assignments_ok_def keys_ok_def reviewed_db_def empty_db_def
      versions_of_def numbered_def reviewed_rule_def reviewed_version_def new_rule_def new_version_def)

lemma reviewed_facts:
  "get_rule reviewed_db 40 = Some reviewed_rule" "versions_of 40 reviewed_db = [reviewed_version]"
  "rule_status reviewed_rule = ''PENDING_REVIEW''" "rv_id reviewed_version = 41"
  "get_dataset reviewed_db 1 \<noteq> None" "rule_assignments reviewed_db = []" "column_in_dataset 2 1 reviewed_db"
  "rules reviewed_db = [reviewed_rule]"
  by (simp_all add: reviewed_db_def empty_db_def reviewed_rule_def reviewed_version_def new_rule_def new_version_def
      versions_of_def initial_status_def REVIEW_REQUIRED_ORIGINS_def column_in_dataset_def sample_row_defs find_row_def)

text \<open>C33.
  Whatever rule commands are run, in any order and by anyone: every rule has versions numbered
  from one without a gap and only the last one is current; every assignment has the shape and
  the columns of its scope, and no two assign the same version to the same thing; and what was
  there stays, the text of a version never changes and a disabled assignment is never enabled.\<close>

theorem rule_history_consistent:
  assumes "rules_inv d"
  shows "(let e = run_all rule_step cs d in
    (\<forall>i \<in> rule_id ` set (rules e). \<exists>vs v. versions_of i e = vs @ [v] \<and> rv_is_current v \<and>
       (\<forall>w \<in> set vs. \<not> rv_is_current w) \<and>
       map rv_version_number (vs @ [v]) = map int [1..<length vs + 2]) \<and>
    (\<forall>a \<in> set (rule_assignments e). assignment_shape a \<and> columns_match a (assigned_columns (ra_id a) e)) \<and>
    distinct (map scope_key (rule_assignments e)) \<and> kept_history d e)"
proof -
  let ?e = "run_all rule_step cs d"
  have inv: "rules_inv ?e" and kept: "kept_history d ?e"
    using rulebook.run_inv [OF assms] rulebook.run_stable [OF assms kept_refl] by auto
  have "\<exists>vs v. versions_of i ?e = vs @ [v] \<and> rv_is_current v \<and> (\<forall>w \<in> set vs. \<not> rv_is_current w) \<and>
      map rv_version_number (vs @ [v]) = map int [1..<length vs + 2]" if "i \<in> rule_id ` set (rules ?e)" for i
  proof -
    have ok: "versions_of i ?e \<noteq> []" "numbered (versions_of i ?e)"
      using inv that by (auto simp: rules_inv_def versions_ok_def)
    let ?vs = "versions_of i ?e"
    have split: "?vs = butlast ?vs @ [last ?vs]" using ok(1) by simp
    have "\<not> rv_is_current w" if "w \<in> set (butlast ?vs)" for w
      using that ok(2) by (auto simp: in_set_conv_nth nth_butlast numbered_def)
    moreover have "map rv_version_number ?vs = map int [1..<length ?vs + 1]"
      using ok by (intro nth_equalityI) (auto simp: numbered_def nth_append Suc_le_eq)
    moreover have "length ?vs + 1 = length (butlast ?vs) + 2" using ok(1) by (cases ?vs) auto
    ultimately show ?thesis
      using split numbered_last(3) [OF ok(2,1)] by (intro exI [of _ "butlast ?vs"] exI [of _ "last ?vs"]) simp
  qed
  then show ?thesis using inv kept by (simp add: rules_inv_def assignments_ok_def Let_def)
qed

lemma rule_history_consistent_witness:
  "(let e = run_all rule_step [(PublishVersion 40 [] ''LOW'' None, 9, 1)] reviewed_db in
    map rv_version_number (rule_versions e) = [1, 2] \<and> map rv_is_current (rule_versions e) = [False, True] \<and>
    kept_history reviewed_db e)"
proof -
  let ?cs = "[(PublishVersion 40 [] ''LOW'' None, 9, 1)]"
  have "map rv_version_number (rule_versions (run_all rule_step ?cs reviewed_db)) = [1, 2]"
    "map rv_is_current (rule_versions (run_all rule_step ?cs reviewed_db)) = [False, True]"
    by code_simp+
  then show ?thesis using rule_history_consistent [OF reviewed_inv, of ?cs] by (simp add: Let_def)
qed

lemma current_version:
  assumes "rules_inv d" and "get_rule d i = Some r"
  shows "current_versions i d = [last (versions_of i d)]" and "last (versions_of i d) \<in> set (rule_versions d)"
    and "rv_rule_id (last (versions_of i d)) = i"
proof -
  have "i \<in> rule_id ` set (rules d)" using assms(2) by (auto dest: find_row_SomeD)
  then have vs: "versions_of i d \<noteq> []" "numbered (versions_of i d)"
    using assms(1) by (auto simp: rules_inv_def versions_ok_def)
  then show "current_versions i d = [last (versions_of i d)]"
    using numbered_last(1) by (simp add: current_versions_def)
  have "last (versions_of i d) \<in> set (versions_of i d)" using vs(1) by simp
  then show "last (versions_of i d) \<in> set (rule_versions d)" "rv_rule_id (last (versions_of i d)) = i"
    by (simp_all add: versions_of_def)
qed

lemma rule_audit_frame [simp]:
  "rules (rule_audit a ac i b af now d) = rules d" "rule_versions (rule_audit a ac i b af now d) = rule_versions d"
  "rule_assignments (rule_audit a ac i b af now d) = rule_assignments d"
  "rules (assignment_audit a ac i af now d) = rules d" "rule_versions (assignment_audit a ac i af now d) = rule_versions d"
  "rule_assignments (assignment_audit a ac i af now d) = rule_assignments d"
  by (simp_all add: rule_audit_def assignment_audit_def)

lemma version_row: "rules_inv d \<Longrightarrow> v \<in> set (rule_versions d) \<Longrightarrow> get_rule_version d (rv_id v) = Some v"
  by (rule keyed_table.get_unique [OF keyed_table_find_row]) (auto simp: rules_inv_def versions_ok_def)

lemma promote_outcome:
  fixes now :: instant and actor :: uuid
  assumes inv: "rules_inv d" and r: "get_rule d i = Some r" "rule_status r = ''PENDING_REVIEW''"
    and res: "resolve_promotion_assignment r (last (versions_of i d)) = Inr (scope, col, ds)"
    and ok: "get_dataset d ds \<noteq> None" "\<forall>c \<in> set_option col. column_in_dataset c ds d"
  defines "v \<equiv> last (versions_of i d)"
  defines "a \<equiv> new_assignment (db_next d) (rv_id v) ds scope col None None actor now"
  shows "promote_rule i actor now d = (if scope_key a \<in> scope_key ` set (rule_assignments d)
     then raises d (Conflict DuplicateRuleAssignmentError)
     else returns (assignment_audit actor ''rule_assignment.created'' (ra_id a) (Some (assigned_json ds scope)) now
       (rule_audit actor ''rule.promoted'' i (Some (status_json ''PENDING_REVIEW'')) (Some (status_json ''ACTIVE'')) now
         (insert_assignment a (set_rule_status i ''ACTIVE'' now d)))) i)"
proof -
  have "assignment_shape a"
    using res by (auto simp: resolve_promotion_assignment_def Let_def a_def new_assignment_def assignment_shape_def
        split: if_splits pyval.splits sum.splits)
  moreover have "ra_template_id a = None" "rule_assignments (set_rule_status i ''ACTIVE'' now d) = rule_assignments d"
    by (simp_all add: a_def new_assignment_def set_rule_status_def upd_rule_def)
  ultimately have "assignment_error a (set_rule_status i ''ACTIVE'' now d) =
      (if scope_key a \<in> scope_key ` set (rule_assignments d) then Some IntegrityError else None)"
    by (simp add: assignment_error_def)
  then show ?thesis
    using r ok res unfolding a_def v_def
    by (auto simp: promote_rule_def get_rule_or_raise_def scalar_one_def current_version(1) [OF inv r(1)] Let_def)
qed

text \<open>C34.
  Promoting a rule succeeds exactly when it is under review, its detection names an existing
  dataset and a column of it, and the version is not assigned there yet. Then the rule is
  ACTIVE and one enabled assignment of its current version exists, which the next validation of
  the dataset resolves; otherwise nothing at all has changed.\<close>

theorem promote_rule_spec:
  fixes i :: uuid
  assumes inv: "rules_inv d"
  defines "v \<equiv> last (versions_of i d)"
  shows "(succeeds (promote_rule i actor now d) \<longleftrightarrow>
      (\<exists>r scope col ds. get_rule d i = Some r \<and> rule_status r = ''PENDING_REVIEW'' \<and>
        resolve_promotion_assignment r v = Inr (scope, col, ds) \<and> get_dataset d ds \<noteq> None \<and>
        (\<forall>c \<in> set_option col. column_in_dataset c ds d) \<and>
        scope_key (new_assignment (db_next d) (rv_id v) ds scope col None None actor now)
          \<notin> scope_key ` set (rule_assignments d))) \<and>
    (case promote_rule i actor now d of
       (d', Inl e) \<Rightarrow> d' = d
     | (d', Inr x) \<Rightarrow> \<exists>r a. get_rule d i = Some r \<and> rule_assignments d' = rule_assignments d @ [a] \<and>
         ra_is_enabled a \<and> resolve_promotion_assignment r v =
           Inr (ra_assignment_scope a, ra_column_id a, ra_dataset_id a) \<and>
         assignment_chain (ra_id a) d' =
           Some (a, v, r\<lparr>rule_status := ''ACTIVE'', rule_updated_at := Some now\<rparr>))"
proof (cases "promote_rule i actor now d")
  case (Pair d' out)
  show ?thesis
  proof (cases "\<exists>r scope col ds. get_rule d i = Some r \<and> rule_status r = ''PENDING_REVIEW'' \<and>
        resolve_promotion_assignment r v = Inr (scope, col, ds) \<and> get_dataset d ds \<noteq> None \<and>
        (\<forall>c \<in> set_option col. column_in_dataset c ds d)")
    case False
    have "\<exists>e. promote_rule i actor now d = raises d e"
    proof (cases "get_rule d i")
      case (Some r)
      then show ?thesis
        using False unfolding v_def
        by (cases "resolve_promotion_assignment r (last (versions_of i d))")
           (auto simp: promote_rule_def get_rule_or_raise_def scalar_one_def current_version(1) [OF inv Some] raise_if_def)
    qed (simp add: promote_rule_def get_rule_or_raise_def)
    with False show ?thesis by (auto simp: succeeds_def raises_def)
  next
    case True
    then obtain r scope col ds where r: "get_rule d i = Some r" "rule_status r = ''PENDING_REVIEW''"
        and res: "resolve_promotion_assignment r v = Inr (scope, col, ds)"
        and ok: "get_dataset d ds \<noteq> None" "\<forall>c \<in> set_option col. column_in_dataset c ds d" by blast
    let ?a = "new_assignment (db_next d) (rv_id v) ds scope col None None actor now"
    note out = promote_outcome [OF inv r res [unfolded v_def] ok, folded v_def, of actor now]
    show ?thesis
    proof (cases "scope_key ?a \<in> scope_key ` set (rule_assignments d)")
      case True
      then show ?thesis using out r res by (auto simp: succeeds_def raises_def)
    next
      case False
      define e where "e = insert_assignment ?a (set_rule_status i ''ACTIVE'' now d)"
      have e: "rule_assignments e = rule_assignments d @ [?a]" "rule_versions e = rule_versions d"
          "rules e = upd_row rule_id i (\<lambda>r. r\<lparr>rule_status := ''ACTIVE'', rule_updated_at := Some now\<rparr>) (rules d)"
        by (simp_all add: e_def insert_assignment_def set_rule_status_def upd_rule_def)
      have "find_row ra_id (rule_assignments d @ [?a]) (ra_id ?a) = Some ?a"
        using inv by (subst assignment_table.get_insert [of "db_next d"])
          (simp_all add: rules_inv_def assignments_ok_def new_assignment_def)
      then have "assignment_chain (ra_id ?a) e = Some (?a, v, r\<lparr>rule_status := ''ACTIVE'', rule_updated_at := Some now\<rparr>)"
        using version_row [OF inv current_version(2) [OF inv r(1)]] current_version(3) [OF inv r(1)] r(1)
        by (simp add: assignment_chain_def e find_row_upd_row v_def) (simp add: new_assignment_def)
      then have "assignment_chain (ra_id ?a) (assignment_audit actor ac k af now (rule_audit actor bc l b g now e)) =
          Some (?a, v, r\<lparr>rule_status := ''ACTIVE'', rule_updated_at := Some now\<rparr>)" for ac k af bc l b g
        by (simp add: assignment_chain_def)
      then show ?thesis
        using out False r res e(1) ok unfolding e_def [symmetric]
        by (auto simp: succeeds_def new_assignment_def returns_def)
    qed
  qed
qed

lemma promote_rule_spec_witness:
  "succeeds (promote_rule 40 9 1 reviewed_db) \<and> (\<exists>a. rule_assignments (fst (promote_rule 40 9 1 reviewed_db)) = [a] \<and>
     ra_is_enabled a \<and> ra_column_id a = Some 2)"
proof -
  have res: "resolve_promotion_assignment reviewed_rule reviewed_version = Inr (''SINGLE_COLUMN'', Some 2, 1)" by code_simp
  note spec = promote_rule_spec [OF reviewed_inv, of 40 9 1]
  have ok: "succeeds (promote_rule 40 9 1 reviewed_db)" using conjunct1 [OF spec] res by (auto simp: reviewed_facts(1-7) simp del: One_nat_def)
  then obtain d' x where out: "promote_rule 40 9 1 reviewed_db = (d', Inr x)"
    by (cases "promote_rule 40 9 1 reviewed_db") (auto simp: succeeds_def split: sum.splits)
  then show ?thesis using ok conjunct2 [OF spec] res by (auto simp: reviewed_facts(1-7) simp del: One_nat_def)
qed



end
