(* ===== verification/FloatBounds.thy ===== *)
theory FloatBounds
  imports Generators
begin

text \<open>
  Rounding to a float never crosses a whole number below \<open>2\<^sup>5\<^sup>3\<close>: a number that is at least \<open>n\<close> rounds
  to a float that is at least \<open>n\<close>.
\<close>

lemma finite_le [simp]: "pf_le (Fin a) (Fin b) \<longleftrightarrow> a \<le> b"
  by (auto simp: pf_le_def pf_eq_def)

lemma infinite_le [simp]: "pf_le x PosInf \<longleftrightarrow> x \<noteq> NotANumber" "\<not> pf_le (Fin a) NegInf" "\<not> pf_le (Fin a) NotANumber"
  by (cases x; simp add: pf_le_def pf_eq_def)+

lemma ndigits_bounds:
  assumes "1 < b" and "0 < n"
  shows "b ^ (ndigits b n - 1) \<le> n" and "n < b ^ ndigits b n"
proof -
  have "b ^ (ndigits b n - 1) \<le> n \<and> n < b ^ ndigits b n \<and> 0 < ndigits b n"
    using assms
  proof (induction b n rule: ndigits.induct)
    case (1 b n)
    show ?case
    proof (cases "n < b")
      case True
      then show ?thesis using 1 by (subst (1 2 3) ndigits.simps) simp
    next
      case False
      then have step: "ndigits b n = Suc (ndigits b (n div b))" using 1(2) by (subst ndigits.simps) simp
      let ?m = "n div b"
      have pos: "0 < ?m" using False 1(2) by (simp add: div_greater_zero_iff)
      have IH: "b ^ (ndigits b ?m - 1) \<le> ?m" "?m < b ^ ndigits b ?m" "0 < ndigits b ?m"
        using 1(1) [OF _ 1(2) pos] False 1(2) by auto
      have "b ^ ndigits b ?m = b * b ^ (ndigits b ?m - 1)" using IH(3) by (metis Suc_diff_1 power_Suc)
      also have "\<dots> \<le> b * ?m" using IH(1) by simp
      also have "\<dots> \<le> n" by simp
      finally have low: "b ^ ndigits b ?m \<le> n" .
      have "n < b * (?m + 1)" using 1(2) by (metis add.commute dividend_less_times_div mult.commute mult_Suc Suc_eq_plus1 zero_less_one order.strict_trans)
      also have "\<dots> \<le> b * b ^ ndigits b ?m" using IH(2) by (intro mult_le_mono) auto
      finally show ?thesis using low step by simp
    qed
  qed
  then show "b ^ (ndigits b n - 1) \<le> n" and "n < b ^ ndigits b n" by auto
qed

lemma rat_pow_diff: "0 < b \<Longrightarrow> rat_pow b (i - j) = rat_pow b i / rat_pow b j"
proof -
  assume b: "0 < b"
  have "rat_pow b i = (of_nat b :: rat) powi i" for i
    by (cases "0 \<le> i") (simp_all add: rat_pow_def power_int_def inverse_eq_divide power_one_over)
  then show ?thesis using b by (simp add: power_int_diff)
qed

lemma rat_pow_nat: "rat_pow b (int n) = of_nat (b ^ n)"
  by (simp add: rat_pow_def)

lemma rat_pow_pos: "0 < b \<Longrightarrow> 0 < rat_pow b i"
  by (simp add: rat_pow_def)

lemma floor_log_le:
  assumes "0 < x" shows "rat_pow 2 (floor_log 2 x) \<le> x"
proof -
  obtain p q where pq: "quotient_of x = (p, q)" by (cases "quotient_of x")
  have q: "0 < q" using quotient_of_denom_pos [OF pq] .
  have x: "x = of_int p / of_int q" using quotient_of_div [OF pq] .
  then have p: "0 < p" using assms q by (simp add: zero_less_divide_iff)
  define i where "i = ndigits 2 (nat p)" define j where "j = ndigits 2 (nat q)"
  have low: "2 ^ (i - 1) \<le> nat p" and high: "nat q < 2 ^ j"
    using ndigits_bounds [of 2 "nat p"] ndigits_bounds [of 2 "nat q"] p q by (auto simp: i_def j_def)
  have "0 < i" by (simp add: i_def) (subst ndigits.simps, simp)
  then have "rat_pow 2 (int i - int j - 1) = rat_pow 2 (int (i - 1)) / rat_pow 2 (int j)"
    using rat_pow_diff [of 2 "int (i - 1)" "int j"] by (simp add: of_nat_diff algebra_simps)
  also have "\<dots> \<le> of_int p / of_int q"
  proof (rule frac_le)
    have "(2::int) ^ (i - 1) \<le> p" using low p by (metis nat_le_iff of_nat_numeral of_nat_power zero_less_imp_eq_int nat_int of_nat_le_iff)
    then show "rat_pow 2 (int (i - 1)) \<le> of_int p"
      by (metis of_int_le_iff of_int_numeral of_int_power rat_pow_nat of_nat_power of_nat_numeral)
    have "q \<le> (2::int) ^ j" using high q by (simp add: nat_less_iff)
    then show "of_int q \<le> rat_pow 2 (int j)"
      by (metis of_int_le_iff of_int_numeral of_int_power rat_pow_nat of_nat_power of_nat_numeral)
  qed (use p q in simp_all)
  finally have "rat_pow 2 (int i - int j - 1) \<le> x" by (simp only: x)
  moreover have "floor_log 2 x = (if x < rat_pow 2 (int i - int j) then int i - int j - 1 else int i - int j)"
    by (simp add: floor_log_def pq i_def j_def Let_def)
  ultimately show ?thesis by simp
qed

lemma fl_ge:
  fixes n :: int
  assumes "0 < n" and "n < 2 ^ 53" and "of_int n \<le> x"
  shows "pf_le (Fin (of_int n)) (fl x)"
proof -
  have pos: "0 < x" using assms(1,3) by (simp add: order_less_le_trans [of 0 "of_int n"])
  define k where "k = max (floor_log 2 x - 52) (- 1074)"
  define m where "m = round_half_even (x / rat_pow 2 k)"
  have pow: "0 < rat_pow 2 k" by (simp add: rat_pow_pos)
  have "of_int n \<le> of_int m * rat_pow 2 k"
  proof (cases "k \<le> 0")
    case True
    then have k: "rat_pow 2 k = 1 / 2 ^ nat (- k)" by (cases "k = 0") (auto simp: rat_pow_def)
    have "of_int (n * 2 ^ nat (- k)) \<le> x / rat_pow 2 k" using assms(3) by (simp add: k)
    then have "n * 2 ^ nat (- k) \<le> m" unfolding m_def by (rule round_half_even_ge)
    then have "of_int (n * 2 ^ nat (- k)) \<le> (of_int m :: rat)" by (simp only: of_int_le_iff)
    then show ?thesis by (simp add: k pos_le_divide_eq)
  next
    case False
    then have f: "floor_log 2 x = k + 52" by (simp add: k_def)
    have "rat_pow 2 (k + 52) \<le> x" using floor_log_le [OF pos] f by simp
    moreover have "rat_pow 2 (k + 52) = of_int (2 ^ 52) * rat_pow 2 k"
      using False by (simp add: rat_pow_def nat_add_distrib power_add)
    ultimately have "of_int (2 ^ 52) \<le> x / rat_pow 2 k" using pow by (simp add: pos_le_divide_eq)
    then have "2 ^ 52 \<le> m" unfolding m_def by (rule round_half_even_ge)
    moreover have "(2::rat) \<le> rat_pow 2 k"
    proof -
      have "(2::rat) ^ 1 \<le> 2 ^ nat k" using False by (intro power_increasing) auto
      then show ?thesis using False by (simp add: rat_pow_def)
    qed
    moreover have "(0::rat) \<le> of_int m" using \<open>2 ^ 52 \<le> m\<close> by simp
    ultimately have "(of_int (2 ^ 52) :: rat) * 2 \<le> of_int m * rat_pow 2 k"
      by (intro mult_mono) (simp_all only: of_int_le_iff)
    moreover have "(of_int n :: rat) \<le> of_int (2 ^ 52) * 2"
    proof -
      have "n \<le> 2 ^ 52 * 2" using assms(2) by simp
      then have "(of_int n :: rat) \<le> of_int (2 ^ 52 * 2)" by (simp only: of_int_le_iff)
      then show ?thesis by (simp only: of_int_mult of_int_numeral)
    qed
    ultimately show ?thesis by linarith
  qed
  moreover have "fl x = (if 2 ^ 1024 \<le> of_int m * rat_pow 2 k then PosInf else Fin (of_int m * rat_pow 2 k))"
    using pos unfolding fl_def Let_def k_def m_def by (simp only: abs_of_pos if_True pos [THEN less_imp_neq, symmetric] if_False)
  moreover have "pf_le (Fin y) PosInf" for y by (simp add: pf_le_def)
  ultimately show ?thesis
    by (cases "(2 ^ 1024 :: rat) \<le> of_int m * rat_pow 2 k") (simp_all only: if_True if_False finite_le)
qed

text \<open>A number is rounded to a multiple of a power of two, which is read off its logarithm.\<close>

lemma fl_exact:
  assumes "0 < x" and "k = max (floor_log 2 x - 52) (- 1074)" and "k \<le> 900"
    and "m = round_half_even (x / rat_pow 2 k)" and "m \<le> 2 ^ 53"
  shows "fl x = Fin (of_int m * rat_pow 2 k)"
proof -
  have eq: "fl x = (if 2 ^ 1024 \<le> of_int m * rat_pow 2 k then PosInf else Fin (of_int m * rat_pow 2 k))"
    using assms(1) unfolding fl_def Let_def assms(2,4) by (simp only: abs_of_pos if_True assms(1) [THEN less_imp_neq, symmetric] if_False)
  have pow: "0 < rat_pow 2 k" by (simp add: rat_pow_pos)
  have two: "rat_pow 2 (i + j) = rat_pow 2 i * rat_pow 2 j" for i j
    using rat_pow_diff [of 2 i "- j"] rat_pow_diff [of 2 0 j] by (simp add: rat_pow_def)
  have "(1::rat) < 2 ^ (nat (1000 - k) - 53)" using assms(3) by (intro one_less_power) auto
  have "\<not> (2 ^ 1024 :: rat) \<le> of_int m * rat_pow 2 k"
  proof
    assume le: "(2 ^ 1024 :: rat) \<le> of_int m * rat_pow 2 k"
    have "(of_int m :: rat) \<le> of_int (2 ^ 53)" using assms(5) by (simp only: of_int_le_iff)
    then have "of_int m * rat_pow 2 k \<le> 2 ^ 53 * rat_pow 2 k" using pow by (intro mult_right_mono) simp_all
    also have "\<dots> = rat_pow 2 (53 + k)" unfolding two by (simp add: rat_pow_def)
    also have "\<dots> \<le> (2 ^ 953 :: rat)"
    proof (cases "0 \<le> 53 + k")
      case True
      then have "rat_pow 2 (53 + k) = 2 ^ nat (53 + k)" by (simp add: rat_pow_def)
      also have "\<dots> \<le> (2 :: rat) ^ 953" using assms(3) by (intro power_increasing) simp_all
      finally show ?thesis .
    next
      case False
      then have "rat_pow 2 (53 + k) \<le> 1" by (simp add: rat_pow_def)
      also have "(1 :: rat) \<le> 2 ^ 953" by (rule one_le_power) simp
      finally show ?thesis .
    qed
    also have "(2 ^ 953 :: rat) < 2 ^ 1024" by (intro power_strict_increasing) simp_all
    finally show False using le by (simp only: not_le)
  qed
  then show ?thesis unfolding eq by (simp only: if_False)
qed

end
