(* ===== verification/Evidence.thy ===== *)
theory Evidence
  imports FloatBounds
begin

text \<open>
  What the evidence engines of \<open>app/modules/ai\<close> share: the four statuses of their results,
  sets and counters in insertion order, \<open>range\<close>, and ratios as floats.
\<close>

datatype evidence_status = EV_CANDIDATE | EV_NO_RELATIONSHIP | EV_AMBIGUOUS | EV_INSUFFICIENT_GROUP

section \<open>Counting\<close>

fun unique_in_order :: "'a list \<Rightarrow> 'a list" where
  "unique_in_order [] = []"
| "unique_in_order (x # xs) = x # filter (\<lambda>y. y \<noteq> x) (unique_in_order xs)"

text \<open>\<open>max\<close> of a list that is not empty: the first of the greatest.\<close>

fun first_max :: "('a \<Rightarrow> nat) \<Rightarrow> 'a \<Rightarrow> 'a list \<Rightarrow> 'a" where
  "first_max f x [] = x"
| "first_max f x (y # ys) = first_max f (if f x < f y then y else x) ys"

text \<open>\<open>Counter(xs).most_common(1)[0]\<close>.\<close>

definition most_common :: "'a list \<Rightarrow> 'a \<times> nat" where
  "most_common xs = (let counts = map (\<lambda>x. (x, count_list xs x)) (unique_in_order xs)
     in first_max snd (hd counts) (tl counts))"

definition duplicate_count :: "'a list \<Rightarrow> nat" where
  "duplicate_count xs = sum_list (map (\<lambda>x. count_list xs x - 1) (unique_in_order xs))"

definition differences :: "int list \<Rightarrow> int list" where
  "differences xs = map2 (\<lambda>a b. b - a) xs (tl xs)"

definition ratio :: "nat \<Rightarrow> nat \<Rightarrow> pyfloat" where
  "ratio m n = fl (of_nat m / of_nat n)"

text \<open>\<open>range(a, b, step)\<close> with a positive step.\<close>

definition py_range :: "int \<Rightarrow> int \<Rightarrow> int \<Rightarrow> int list" where
  "py_range a b step = map (\<lambda>k. a + int k * step) [0..<nat ((b - a + step - 1) div step)]"

fun pf_mul :: "pyfloat \<Rightarrow> pyfloat \<Rightarrow> pyfloat" where
  "pf_mul (Fin a) (Fin b) = fl (a * b)"
| "pf_mul x y = NotANumber"

definition pf_min :: "pyfloat \<Rightarrow> pyfloat \<Rightarrow> pyfloat" where
  "pf_min x y = (if pf_lt y x then y else x)"

text \<open>\<open>str.upper\<close>, of ASCII letters.\<close>

definition upper_ascii :: "string \<Rightarrow> string" where
  "upper_ascii = map (\<lambda>c. let n = code_of c in if 97 \<le> n \<and> n \<le> 122 then char_of (n - 32) else c)"

section \<open>Lemmas\<close>

lemma set_map_filter: "set (List.map_filter f xs) = {y. \<exists>x \<in> set xs. f x = Some y}"
  by (induction xs) (auto simp: map_filter_simps split: option.splits)

lemma set_unique [simp]: "set (unique_in_order xs) = set xs"
  by (induction xs) auto

lemma distinct_unique [simp]: "distinct (unique_in_order xs)"
  by (induction xs) auto

lemma unique_Nil [simp]: "unique_in_order xs = [] \<longleftrightarrow> xs = []"
  by (cases xs) auto

lemma first_max_set: "first_max f x xs \<in> insert x (set xs)"
  by (induction f x xs rule: first_max.induct) auto

lemma first_max_ge: "\<forall>y \<in> insert x (set xs). f y \<le> f (first_max f x xs)"
  by (induction f x xs rule: first_max.induct) (auto split: if_splits)

lemma most_common_count:
  assumes "xs \<noteq> []" and "most_common xs = (x, n)"
  shows "x \<in> set xs" and "n = count_list xs x"
proof -
  let ?cs = "map (\<lambda>x. (x, count_list xs x)) (unique_in_order xs)"
  obtain c cs where cs: "?cs = c # cs" using assms(1) by (cases ?cs) auto
  have "(x, n) \<in> set ?cs"
    using first_max_set [of snd c cs] assms(2) unfolding most_common_def Let_def cs by simp
  then show "x \<in> set xs" and "n = count_list xs x" by auto
qed

lemma le_div_pos:
  fixes k :: int
  assumes "0 < s"
  shows "k \<le> y div s \<longleftrightarrow> k * s \<le> y"
proof
  assume "k \<le> y div s"
  then have "k * s \<le> (y div s) * s" using assms by (intro mult_right_mono) auto
  also have "\<dots> \<le> y" using pos_mod_sign [OF assms, of y] by (simp add: minus_mod_eq_div_mult [symmetric])
  finally show "k * s \<le> y" .
next
  assume "k * s \<le> y"
  then have "(k * s) div s \<le> y div s" using assms by (intro zdiv_mono1) auto
  then show "k \<le> y div s" using assms by simp
qed

lemma set_py_range:
  assumes "0 < step"
  shows "set (py_range a b step) = {x. a \<le> x \<and> x < b \<and> step dvd (x - a)}"
proof -
  have bound: "k < (b - a + step - 1) div step \<longleftrightarrow> k * step < b - a" for k
    using le_div_pos [OF assms, of "k + 1" "b - a + step - 1"] by (simp add: algebra_simps) linarith
  have "x \<in> set (py_range a b step)" if "a \<le> x" "x < b" "x - a = step * q" for x q
  proof -
    have "0 \<le> q" using that assms by (metis diff_ge_0_iff_ge zero_le_mult_iff not_less)
    moreover have "q < (b - a + step - 1) div step" using that by (simp add: bound mult.commute)
    ultimately have "nat q \<in> set [0..<nat ((b - a + step - 1) div step)]" by auto
    moreover have "x = a + int (nat q) * step" using that \<open>0 \<le> q\<close> by (simp add: mult.commute)
    ultimately show ?thesis unfolding py_range_def set_map by (rule rev_image_eqI)
  qed
  moreover have "a + int k * step < b" if "k < nat ((b - a + step - 1) div step)" for k
    using that unfolding zless_nat_eq_int_zless bound by linarith
  ultimately show ?thesis using assms by (auto simp: py_range_def elim!: dvdE)
qed

lemma float_half: "fl (1/2) = Fin (1/2)"
proof -
  have "quotient_of (1/2) = (1, 2)" by code_simp
  then have "floor_log 2 (1/2) = - 1" by (simp add: floor_log_def rat_pow_def ndigits.simps)
  then show ?thesis using fl_exact [of "1/2" "- 53" "2 ^ 52"] by (simp add: rat_pow_def round_half_even_def)
qed

lemma float_three_quarters: "fl (3/4) = Fin (3/4)"
proof -
  have "quotient_of (3/4) = (3, 4)" by code_simp
  then have "floor_log 2 (3/4) = - 1" by (simp add: floor_log_def rat_pow_def ndigits.simps)
  then show ?thesis using fl_exact [of "3/4" "- 53" "3 * 2 ^ 51"] by (simp add: rat_pow_def round_half_even_def)
qed

lemma float_thousandth: "fl (1/1000) = Fin (1152921504606847 / 1152921504606846976)"
proof -
  have "quotient_of (1/1000) = (1, 1000)" by code_simp
  then have "floor_log 2 (1/1000) = - 10" by (simp add: floor_log_def rat_pow_def ndigits.simps)
  moreover have "\<lfloor>576460752303423488 / 125 :: rat\<rfloor> = 4611686018427387" by (simp add: floor_eq_iff)
  ultimately show ?thesis
    using fl_exact [of "1/1000" "- 62" "round_half_even (1/1000 / rat_pow 2 (- 62))"]
    by (simp add: rat_pow_def round_half_even_def)
qed

lemma float_one: "fl 1 = Fin 1" using fl_of_int [of 1] by simp

lemma differences_simps [simp]:
  "differences [] = []" "differences [a] = []" "differences (a # b # xs) = (b - a) # differences (b # xs)"
  by (simp_all add: differences_def)

lemma differences_positive: "sorted_wrt (<) xs \<Longrightarrow> x \<in> set (differences xs) \<Longrightarrow> 0 < x"
proof (induction xs rule: induct_list012)
  case (3 a b xs)
  then show ?case by auto
qed auto

lemma length_differences: "length (differences xs) = length xs - 1"
  by (cases xs) (auto simp: differences_def)

lemma sorted_ends:
  fixes xs :: "int list"
  assumes "sorted xs" and "xs \<noteq> []"
  shows "Min (set xs) = hd xs" and "Max (set xs) = last xs"
proof -
  show "Min (set xs) = hd xs" using assms by (cases xs) (auto intro!: Min_eqI)
  show "Max (set xs) = last xs" using assms by (cases xs rule: rev_cases) (auto simp: sorted_append intro!: Max_eqI)
qed

lemma py_range_rec:
  assumes "0 < step"
  shows "py_range a b step = (if a < b then a # py_range (a + step) b step else [])"
proof -
  have "(b - a + step - 1) div step = (b - (a + step) + step - 1) div step + 1"
  proof -
    have "b - a + step - 1 = (b - (a + step) + step - 1) + step" by simp
    then show ?thesis using assms by (metis div_add_self2 less_irrefl)
  qed
  moreover have "0 \<le> (b - (a + step) + step - 1) div step" if "a < b"
    using that assms by (simp add: pos_imp_zdiv_nonneg_iff)
  moreover have "(b - a + step - 1) div step \<le> 0" if "\<not> a < b"
    using that assms le_div_pos [OF assms, of 1 "b - a + step - 1"] by linarith
  ultimately show ?thesis
    by (auto simp: py_range_def nat_add_distrib upt_conv_Cons map_Suc_upt [symmetric] algebra_simps simp del: upt_Suc)
qed

lemma length_py_range: "length (py_range a b step) = nat ((b - a + step - 1) div step)"
  by (simp add: py_range_def)

end
