(* ===== verification/AiAnswers.thy ===== *)
theory AiAnswers
  imports Evidence "HOL-Library.List_Lexorder" "HOL-Library.Product_Lexorder" "HOL-Library.Multiset"
begin

text \<open>
  What becomes of the answer of the language model: the ranking of the values that the evidence
  engines propose (\<open>app/modules/ai/candidates.py\<close>), and the parsing of the model's answer and
  the checks of it against that evidence (the functions at the end of
  \<open>app/modules/ai/suggestion_service.py\<close>). The JSON parser of the library is the parameter
  \<open>json_loads\<close>; the sentences the backend writes as a reasoning are one constructor.
\<close>

section \<open>Float arithmetic\<close>

text \<open>A product with at least one finite factor, and \<open>math.isclose\<close>.\<close>

fun pf_scale :: "rat \<Rightarrow> pyfloat \<Rightarrow> pyfloat" where
  "pf_scale r (Fin a) = fl (r * a)"
| "pf_scale r NotANumber = NotANumber"
| "pf_scale r PosInf = (if r = 0 then NotANumber else if 0 < r then PosInf else NegInf)"
| "pf_scale r NegInf = (if r = 0 then NotANumber else if 0 < r then NegInf else PosInf)"

definition pf_finite :: "pyfloat \<Rightarrow> bool" where
  "pf_finite x = (case x of Fin _ \<Rightarrow> True | _ \<Rightarrow> False)"

definition is_close :: "rat \<Rightarrow> rat \<Rightarrow> pyfloat \<Rightarrow> pyfloat \<Rightarrow> bool" where
  "is_close rel_tol abs_tol a b = (if pf_eq a b then True
     else if a \<in> {PosInf, NegInf} \<or> b \<in> {PosInf, NegInf} then False
     else (let diff = pf_abs (pf_sub b a) in
       pf_le diff (pf_abs (pf_scale rel_tol b)) \<or> pf_le diff (pf_abs (pf_scale rel_tol a)) \<or>
       pf_le diff (Fin abs_tol)))"

text \<open>The tolerances \<open>1e-3\<close> and \<open>1e-6\<close> as floats.\<close>

definition float_rat :: "pyfloat \<Rightarrow> rat" where
  "float_rat x = (case x of Fin r \<Rightarrow> r | _ \<Rightarrow> 0)"

definition close_to :: "pyfloat \<Rightarrow> pyfloat \<Rightarrow> bool" where
  "close_to = is_close (float_rat (fl (1 / 1000))) (float_rat (fl (1 / 1000000)))"

section \<open>Ranking the candidates\<close>

record candidate =
  cand_value :: string
  cand_strategy :: string
  cand_confidence :: pyfloat
  cand_supporting_count :: int
  cand_contradicting_count :: int
  cand_evidence :: json

text \<open>\<open>Candidate(\<dots>)\<close> raises when its check after initialisation fails.\<close>

definition make_candidate :: "string \<Rightarrow> string \<Rightarrow> pyfloat \<Rightarrow> int \<Rightarrow> int \<Rightarrow> json \<Rightarrow> exn + candidate" where
  "make_candidate v strategy conf supporting contradicting evidence =
     (if v = [] \<or> strategy = [] \<or> \<not> (pf_le (Fin 0) conf \<and> pf_le conf (Fin 1)) \<or> supporting < 0 \<or> contradicting < 0
      then Inl (Conv ValueError)
      else Inr \<lparr>cand_value = v, cand_strategy = strategy, cand_confidence = conf,
             cand_supporting_count = supporting, cand_contradicting_count = contradicting, cand_evidence = evidence\<rparr>)"

datatype reasoning = ModelText string | BackendText

record aggregation =
  agg_candidates :: "candidate list"
  agg_recommended_candidate :: "candidate option"
  agg_ambiguous :: bool
  agg_strategies_attempted :: "string list"
  agg_strategies_with_candidates :: "string list"
  agg_no_candidate_reason :: "reasoning option"

definition values_equal :: "string \<Rightarrow> string \<Rightarrow> bool" where
  "values_equal a b = (if a = b then True
     else (case (py_float_of_str a, py_float_of_str b) of (Inr x, Inr y) \<Rightarrow> pf_eq x y | _ \<Rightarrow> False))"

text \<open>The order: confidence downwards, then strategy, then value.\<close>

definition rank :: "candidate \<Rightarrow> rat \<times> nat list \<times> nat list" where
  "rank c = (- float_rat (cand_confidence c), map code_of (cand_strategy c), map code_of (cand_value c))"

definition competes :: "pyfloat \<Rightarrow> candidate \<Rightarrow> candidate \<Rightarrow> bool" where
  "competes margin best c \<longleftrightarrow>
     pf_le (pf_sub (cand_confidence best) (cand_confidence c)) margin \<and> \<not> values_equal (cand_value c) (cand_value best)"

definition AMBIGUITY_MARGIN :: pyfloat where
  "AMBIGUITY_MARGIN = fl (3 / 100)"

definition aggregate_candidates :: "candidate list \<Rightarrow> string list \<Rightarrow> aggregation" where
  "aggregate_candidates cs attempted =
     (let with_candidates = unique_in_order (map cand_strategy cs); ordered = sort_key rank cs;
          result = (\<lambda>chosen ambiguous reason. \<lparr>agg_candidates = ordered, agg_recommended_candidate = chosen,
            agg_ambiguous = ambiguous, agg_strategies_attempted = attempted,
            agg_strategies_with_candidates = with_candidates, agg_no_candidate_reason = reason\<rparr>)
      in case ordered of [] \<Rightarrow> result None False (Some BackendText)
         | best # rest \<Rightarrow> if \<exists>c \<in> set rest. competes AMBIGUITY_MARGIN best c
             then result None True (Some BackendText) else result (Some best) False None)"

section \<open>The answer of the model\<close>

datatype ai_category = AI_HIGH_CONFIDENCE | NEEDS_REVIEW | CANNOT_INFER

definition AI_CORRECTION_CATEGORIES :: "(string \<times> ai_category) list" where
  "AI_CORRECTION_CATEGORIES = [(''AI_HIGH_CONFIDENCE'', AI_HIGH_CONFIDENCE), (''NEEDS_REVIEW'', NEEDS_REVIEW),
     (''CANNOT_INFER'', CANNOT_INFER)]"

record ai_answer =
  ans_category :: ai_category
  ans_suggested_value :: "string option"
  ans_confidence :: "pyfloat option"
  ans_reasoning :: "reasoning option"

definition strip_markdown_fence :: "string \<Rightarrow> string" where
  "strip_markdown_fence s = (let cleaned = py_strip s in
     if take 3 cleaned = ''```'' then
       (let body = py_strip_by (\<lambda>c. c = CHR ''`'') cleaned;
            body = (if py_lower (take 4 body) = ''json'' then drop 4 body else body)
        in py_strip body)
     else cleaned)"

text \<open>
  A number is taken by its value. A category that is an array or an object cannot be looked up in
  the set of categories, which raises.
\<close>

fun json_number :: "pyval \<Rightarrow> pyfloat option" where
  "json_number (PyBool b) = Some (Fin (if b then 1 else 0))"
| "json_number (PyInt i) = Some (Fin (of_int i))"
| "json_number (PyFloat x) = Some x"
| "json_number _ = None"

definition json_text :: "pyval \<Rightarrow> string option" where
  "json_text v = (case v of PyStr s \<Rightarrow> if py_strip s = [] then None else Some s | _ \<Rightarrow> None)"

definition fallback_answer :: ai_answer where
  "fallback_answer = \<lparr>ans_category = NEEDS_REVIEW, ans_suggested_value = None, ans_confidence = None,
     ans_reasoning = Some BackendText\<rparr>"

definition parsed_answer :: "(string \<times> pyval) list \<Rightarrow> ai_category \<Rightarrow> ai_answer" where
  "parsed_answer obj said =
     (let v = (if said = AI_HIGH_CONFIDENCE then json_text (dict_get obj ''suggested_value'') else None);
          category = (if said = AI_HIGH_CONFIDENCE \<and> v = None then NEEDS_REVIEW else said);
          conf = (case json_number (dict_get obj ''confidence'') of None \<Rightarrow> None
            | Some x \<Rightarrow> if pf_le (Fin 0) x \<and> pf_le x (Fin 1) then Some x else None)
      in \<lparr>ans_category = category, ans_suggested_value = v,
          ans_confidence = (if category = AI_HIGH_CONFIDENCE then conf else None),
          ans_reasoning = map_option ModelText (json_text (dict_get obj ''reasoning''))\<rparr>)"

definition parse_correction_response :: "(string \<Rightarrow> pyval option) \<Rightarrow> string \<Rightarrow> exn + ai_answer" where
  "parse_correction_response json_loads reply =
     (case json_loads (strip_markdown_fence reply) of
        Some (PyDict obj) \<Rightarrow> (case dict_get obj ''category'' of
            PyStr s \<Rightarrow> (case map_of AI_CORRECTION_CATEGORIES s of
                None \<Rightarrow> Inr fallback_answer | Some c \<Rightarrow> Inr (parsed_answer obj c))
          | PyList _ \<Rightarrow> Inl (Conv TypeError)
          | PyDict _ \<Rightarrow> Inl (Conv TypeError)
          | _ \<Rightarrow> Inr fallback_answer)
      | _ \<Rightarrow> Inr fallback_answer)"

section \<open>Checking the answer against the evidence\<close>

text \<open>The result of the relationship engine, as far as it is read here.\<close>

record relationship_evidence =
  rel_relationship_type :: string
  rel_candidate_value :: pyfloat
  rel_confidence :: pyfloat

record evidence_result =
  er_status :: string
  er_best :: "relationship_evidence option"

definition try_parse_float :: "string option \<Rightarrow> pyfloat option" where
  "try_parse_float v = (case v of None \<Rightarrow> None
     | Some s \<Rightarrow> (case py_float_of_str s of Inl _ \<Rightarrow> None | Inr x \<Rightarrow> if pf_finite x then Some x else None))"

text \<open>\<open>_format_number\<close> of a finite float: \<open>round(value, 6)\<close> rounds the exact value to six places.\<close>

definition round6 :: "rat \<Rightarrow> pyfloat" where
  "round6 r = fl (of_int (round_half_even (r * 1000000)) / 1000000)"

definition format_number :: "pyfloat \<Rightarrow> string" where
  "format_number x = (case x of
     Fin r \<Rightarrow> if of_int \<lfloor>r\<rfloor> = r then show_int \<lfloor>r\<rfloor> else repr_float (round6 r) | _ \<Rightarrow> repr_float x)"

definition capped :: "pyfloat option \<Rightarrow> pyfloat \<Rightarrow> pyfloat" where
  "capped said best = (case said of None \<Rightarrow> best | Some x \<Rightarrow> pf_min x best)"

definition refused_answer :: ai_answer where
  "refused_answer = \<lparr>ans_category = NEEDS_REVIEW, ans_suggested_value = None, ans_confidence = None,
     ans_reasoning = Some BackendText\<rparr>"

definition apply_evidence_safety :: "ai_answer \<Rightarrow> evidence_result option \<Rightarrow> ai_answer" where
  "apply_evidence_safety a res = (case res of None \<Rightarrow> a | Some r \<Rightarrow>
     if ans_category a \<noteq> AI_HIGH_CONFIDENCE then a
     else (case (er_status r = ''CANDIDATE'', er_best r) of
        (True, Some best) \<Rightarrow> (case try_parse_float (ans_suggested_value a) of
            None \<Rightarrow> refused_answer
          | Some x \<Rightarrow> if \<not> close_to x (rel_candidate_value best) then refused_answer
              else a\<lparr>ans_suggested_value := Some (format_number (rel_candidate_value best)),
                     ans_confidence := Some (capped (ans_confidence a) (rel_confidence best))\<rparr>)
      | _ \<Rightarrow> refused_answer))"

definition values_match :: "string \<Rightarrow> string \<Rightarrow> bool" where
  "values_match a b = (if a = b then True
     else (case (try_parse_float (Some a), try_parse_float (Some b)) of
       (Some x, Some y) \<Rightarrow> close_to x y | _ \<Rightarrow> False))"

definition apply_advanced_evidence_safety :: "ai_answer \<Rightarrow> aggregation option \<Rightarrow> ai_answer" where
  "apply_advanced_evidence_safety a res = (case res of None \<Rightarrow> a | Some agg \<Rightarrow>
     (case (agg_ambiguous agg, agg_recommended_candidate agg) of
        (False, Some c) \<Rightarrow>
          (let agrees = (\<exists>v \<in> set_option (ans_suggested_value a). values_match v (cand_value c));
               category = (case ans_category a of
                   AI_HIGH_CONFIDENCE \<Rightarrow> if agrees then AI_HIGH_CONFIDENCE else NEEDS_REVIEW
                 | CANNOT_INFER \<Rightarrow> NEEDS_REVIEW | NEEDS_REVIEW \<Rightarrow> NEEDS_REVIEW);
               why = (case ans_category a of
                   AI_HIGH_CONFIDENCE \<Rightarrow> if agrees then ans_reasoning a else Some BackendText
                 | CANNOT_INFER \<Rightarrow> (case ans_reasoning a of None \<Rightarrow> Some BackendText | Some x \<Rightarrow> Some x)
                 | NEEDS_REVIEW \<Rightarrow> ans_reasoning a)
           in \<lparr>ans_category = category, ans_suggested_value = Some (cand_value c),
               ans_confidence = (if category = AI_HIGH_CONFIDENCE
                 then Some (capped (ans_confidence a) (cand_confidence c)) else None),
               ans_reasoning = why\<rparr>)
      | _ \<Rightarrow> \<lparr>ans_category = (if ans_category a = AI_HIGH_CONFIDENCE then NEEDS_REVIEW else ans_category a),
              ans_suggested_value = None, ans_confidence = None,
              ans_reasoning = (case ans_reasoning a of None \<Rightarrow> Some BackendText | Some x \<Rightarrow> Some x)\<rparr>))"

text \<open>What one issue stores of an answer: \<open>generate_corrections\<close> applies both checks in turn.\<close>

definition checked_answer ::
  "(string \<Rightarrow> pyval option) \<Rightarrow> evidence_result option \<Rightarrow> aggregation option \<Rightarrow> string \<Rightarrow> exn + ai_answer" where
  "checked_answer json_loads res agg reply = (case parse_correction_response json_loads reply of Inl e \<Rightarrow> Inl e
     | Inr a \<Rightarrow> Inr (apply_advanced_evidence_safety (apply_evidence_safety a res) agg))"

section \<open>Which engines apply\<close>

definition applicable_strategies :: "string option \<Rightarrow> string \<Rightarrow> string list" where
  "applicable_strategies data_type violated =
     (let ty = upper_ascii (case data_type of None \<Rightarrow> [] | Some t \<Rightarrow> t);
          progression = (violated \<in> {''COMPLETENESS'', ''UNIQUENESS'', ''DUPLICATE''})
      in (if ty \<in> {''INTEGER'', ''DECIMAL''} \<and> violated \<in> {''RANGE'', ''PATTERN'', ''CROSS_COLUMN''} then [''RELATIONSHIP''] else []) @
         (if ty \<in> {''INTEGER'', ''STRING''} \<and> progression then [''SEQUENCE''] else []) @
         (if ty \<in> {''DATE'', ''DATETIME''} \<and> progression then [''TEMPORAL''] else []) @
         (if ty \<in> {''STRING'', ''TEXT''} \<and> violated \<in> {''COMPLETENESS'', ''PATTERN''} then [''TEMPLATE''] else []))"

definition sequence_strategy_matches_rule_type :: "string \<Rightarrow> string \<Rightarrow> bool" where
  "sequence_strategy_matches_rule_type strategy violated =
     (if strategy \<in> {''SEQUENCE_GAP'', ''TEMPORAL_GAP''} then violated = ''COMPLETENESS''
      else if strategy \<in> {''SEQUENCE_NEXT_VALUE'', ''TEMPORAL_NEXT_VALUE''} then violated \<in> {''UNIQUENESS'', ''DUPLICATE''}
      else False)"

section \<open>Properties\<close>

definition valid_candidate :: "candidate \<Rightarrow> bool" where
  "valid_candidate c \<longleftrightarrow> make_candidate (cand_value c) (cand_strategy c) (cand_confidence c)
     (cand_supporting_count c) (cand_contradicting_count c) (cand_evidence c) = Inr c"

lemma valid_confidence: "valid_candidate c \<Longrightarrow> \<exists>r. cand_confidence c = Fin r \<and> 0 \<le> r \<and> r \<le> 1"
  by (cases "cand_confidence c") (auto simp: valid_candidate_def make_candidate_def pf_le_def pf_eq_def split: if_splits)

text \<open>Two valid candidates of one rank offer the same value, by the same strategy, with the same confidence.\<close>

lemma rank_offer:
  assumes "valid_candidate c" and "valid_candidate e" and "rank c = rank e"
  shows "cand_value c = cand_value e" "cand_strategy c = cand_strategy e" "cand_confidence c = cand_confidence e"
proof -
  have "inj code_of" unfolding code_of_def by (simp add: inj_on_def)
  then have "map code_of s = map code_of t \<longleftrightarrow> s = t" for s t by (simp add: inj_map_eq_map)
  then show "cand_value c = cand_value e" "cand_strategy c = cand_strategy e" "cand_confidence c = cand_confidence e"
    using assms(3) valid_confidence [OF assms(1)] valid_confidence [OF assms(2)]
    by (auto simp: rank_def float_rat_def)
qed

lemma competes_rank:
  assumes "valid_candidate c" "valid_candidate c'" "rank c = rank c'" "valid_candidate e" "valid_candidate e'" "rank e = rank e'"
  shows "competes m c e \<longleftrightarrow> competes m c' e'"
  using rank_offer [OF assms(1-3)] rank_offer [OF assms(4-6)] by (simp add: competes_def)

lemma rank_confidence:
  assumes "rank c \<le> rank e" and "valid_candidate c" and "valid_candidate e"
  shows "pf_le (cand_confidence e) (cand_confidence c)"
proof -
  have "fst (rank c) \<le> fst (rank e)" using assms(1) by (auto simp: less_eq_prod_def)
  then show ?thesis
    using valid_confidence [OF assms(2)] valid_confidence [OF assms(3)] by (auto simp: rank_def float_rat_def)
qed

lemma sorted_ranks: "map rank (sort_key rank cs) = sort (map rank cs)"
  using properties_for_sort [of "map rank (sort_key rank cs)" "map rank cs"] sorted_sort_key [of rank cs] by simp

lemma competition_rank:
  assumes "map rank cs = map rank es" "\<forall>c \<in> set cs \<union> set es. valid_candidate c"
    and "valid_candidate c" "valid_candidate e" "rank c = rank e"
  shows "(\<exists>x \<in> set cs. competes m c x) \<longleftrightarrow> (\<exists>x \<in> set es. competes m e x)"
  using assms(1,2)
proof (induction cs arbitrary: es)
  case (Cons x xs)
  then obtain y ys where "es = y # ys" "rank x = rank y" "map rank xs = map rank ys" by (cases es) auto
  then show ?case using Cons competes_rank [OF assms(3-5), of x y m] by auto
qed simp

lemma aggregate_ordered: "agg_candidates (aggregate_candidates cs attempted) = sort_key rank cs"
  by (simp add: aggregate_candidates_def Let_def split: list.split)

lemma aggregate_empty:
  "sort_key rank cs = [] \<Longrightarrow> agg_recommended_candidate (aggregate_candidates cs attempted) = None \<and>
     \<not> agg_ambiguous (aggregate_candidates cs attempted)"
  by (simp add: aggregate_candidates_def Let_def)

lemma aggregate_first:
  "sort_key rank cs = c # rest \<Longrightarrow>
     agg_recommended_candidate (aggregate_candidates cs attempted) =
       (if \<exists>x \<in> set rest. competes AMBIGUITY_MARGIN c x then None else Some c) \<and>
     agg_ambiguous (aggregate_candidates cs attempted) = (\<exists>x \<in> set rest. competes AMBIGUITY_MARGIN c x)"
  by (simp add: aggregate_candidates_def Let_def)


definition sample_candidate :: "string \<Rightarrow> string \<Rightarrow> rat \<Rightarrow> candidate" where
  "sample_candidate v strategy conf = \<lparr>cand_value = v, cand_strategy = strategy, cand_confidence = Fin conf,
     cand_supporting_count = 4, cand_contradicting_count = 0, cand_evidence = []\<rparr>"

lemma sort_two: "f b < f a \<Longrightarrow> sort_key f [a, b] = [b, a]" for f :: "'a \<Rightarrow> 'b::linorder"
  by (auto dest: leD)


lemma capped_le:
  assumes "\<forall>x. said = Some x \<longrightarrow> pf_finite x" and "pf_finite best"
  shows "pf_le (capped said best) best"
  using assms by (cases best; cases said; auto simp: capped_def pf_min_def pf_finite_def split: pyfloat.splits)

lemma parsed_confidence:
  assumes "parse_correction_response json_loads reply = Inr a"
  shows "\<forall>x. ans_confidence a = Some x \<longrightarrow> pf_finite x"
    and "ans_category a \<noteq> AI_HIGH_CONFIDENCE \<Longrightarrow> ans_suggested_value a = None \<and> ans_confidence a = None"
    and "ans_category a = AI_HIGH_CONFIDENCE \<Longrightarrow> ans_suggested_value a \<noteq> None"
proof -
  have "a = fallback_answer \<or> (\<exists>obj c. a = parsed_answer obj c)"
    using assms by (auto simp: parse_correction_response_def split: option.splits pyval.splits)
  moreover have "pf_finite x" if "pf_le (Fin 0) x" "pf_le x (Fin 1)" for x
    using that by (cases x) (auto simp: pf_le_def pf_eq_def pf_finite_def)
  ultimately show "\<forall>x. ans_confidence a = Some x \<longrightarrow> pf_finite x"
    and "ans_category a \<noteq> AI_HIGH_CONFIDENCE \<Longrightarrow> ans_suggested_value a = None \<and> ans_confidence a = None"
    and "ans_category a = AI_HIGH_CONFIDENCE \<Longrightarrow> ans_suggested_value a \<noteq> None"
    by (auto simp: fallback_answer_def parsed_answer_def Let_def split: if_splits option.splits)
qed

lemma evidence_safety_cases:
  assumes "ans_category p = AI_HIGH_CONFIDENCE"
  shows "apply_evidence_safety p (Some r) = refused_answer \<or>
    (\<exists>b. er_status r = ''CANDIDATE'' \<and> er_best r = Some b \<and>
       apply_evidence_safety p (Some r) = p\<lparr>ans_suggested_value := Some (format_number (rel_candidate_value b)),
         ans_confidence := Some (capped (ans_confidence p) (rel_confidence b))\<rparr>)"
  by (cases "er_status r = ''CANDIDATE''"; cases "er_best r"; cases "try_parse_float (ans_suggested_value p)")
     (simp_all add: apply_evidence_safety_def assms)



text \<open>
  Agreement is agreement within a thousandth, so from 2000 on two neighbouring whole numbers are the
  same value: an answer that names the next identifier stays a high-confidence answer.\<close>

lemma close_neighbours:
  fixes n :: int
  assumes "2000 \<le> n" and "n < 2 ^ 52"
  shows "close_to (Fin (of_int n)) (Fin (of_int (n + 1)))"
proof -
  have thousandth: "float_rat (fl (1 / 1000)) = 1152921504606847 / 1152921504606846976"
    by (simp add: float_rat_def float_thousandth)
  have "pf_le (Fin (of_int 1)) (fl (float_rat (fl (1 / 1000)) * of_int (n + 1)))"
    using assms(1) by (intro fl_ge) (simp_all add: thousandth)
  moreover have "fl (of_int (n + 1) - of_int n) = Fin 1" using fl_of_int [of 1] by simp
  moreover have "0 \<le> float_rat (fl (1 / 1000))" by (simp add: thousandth)
  ultimately show ?thesis
    by (cases "fl (float_rat (fl (1 / 1000)) * of_int (n + 1))") (auto simp: close_to_def is_close_def Let_def)
qed

theorem near_identifiers_match:
  fixes n :: int
  assumes "2000 \<le> n" and "n < 2 ^ 52" and "agg_recommended_candidate A = Some c" and "\<not> agg_ambiguous A"
    and "ans_category a = AI_HIGH_CONFIDENCE" and "ans_suggested_value a = Some v"
    and "py_float_of_str v = Inr (Fin (of_int n))" and "py_float_of_str (cand_value c) = Inr (Fin (of_int (n + 1)))"
  shows "ans_category (apply_advanced_evidence_safety a (Some A)) = AI_HIGH_CONFIDENCE"
proof -
  have "values_match v (cand_value c)"
    using close_neighbours [OF assms(1,2)] assms(7,8) by (simp add: values_match_def try_parse_float_def pf_finite_def)
  then show ?thesis using assms(3-6) by (simp add: apply_advanced_evidence_safety_def)
qed

end
