(* ===== verification/SequenceEvidence.thy ===== *)
theory SequenceEvidence
  imports Evidence
begin

text \<open>
  The sequence engine, \<open>app/modules/ai/evidence_sequence.py\<close>: from the values of a column it
  reads a numbering scheme (prefix, number, suffix) and the step of the numbers, and proposes the one
  number that is missing or, when one value is duplicated, the next one. The optional arguments have
  their defaults, as in the only call; texts for the reader are not represented, except the two that
  are stored with the evidence.
\<close>

section \<open>Identifiers\<close>

record parsed_identifier =
  pid_raw :: string
  pid_prefix :: string
  pid_suffix :: string
  pid_numeric_value :: int
  pid_digit_width :: nat

definition plain_char :: "char \<Rightarrow> bool" where
  "plain_char c \<longleftrightarrow> \<not> is_digit c \<and> c \<noteq> CHR ''-''"

text \<open>
  The pattern \<open>^([^0-9-]*)(-?\d+)([^0-9-]*)$\<close>: the prefix ends before the first digit or minus sign,
  and nothing after the digits is a digit or a minus sign.
\<close>

definition match_identifier :: "string \<Rightarrow> (string \<times> string \<times> string) option" where
  "match_identifier t = (let prefix = takeWhile plain_char t; rest = dropWhile plain_char t;
       sign = (if rest \<noteq> [] \<and> hd rest = CHR ''-'' then ''-'' else []);
       unsigned = drop (length sign) rest;
       digits = takeWhile is_digit unsigned; suffix = dropWhile is_digit unsigned
     in if digits = [] \<or> \<not> list_all plain_char suffix then None else Some (prefix, sign @ digits, suffix))"

definition parse_identifier :: "pyval \<Rightarrow> parsed_identifier option" where
  "parse_identifier v = (if v = PyNone then None
     else let t = py_strip (py_str v) in
       if t = [] then None
       else (case match_identifier t of None \<Rightarrow> None
         | Some (prefix, digits, suffix) \<Rightarrow>
             (let run = dropWhile (\<lambda>c. c = CHR ''-'') digits in
              Some \<lparr>pid_raw = t, pid_prefix = prefix, pid_suffix = suffix,
                pid_numeric_value = (if run = digits then int (digits_value run) else - int (digits_value run)),
                pid_digit_width = length run\<rparr>)))"

definition MIN_TEMPLATE_COVERAGE :: pyfloat where "MIN_TEMPLATE_COVERAGE = fl (9 / 10)"
definition MIN_STEP_CONSISTENCY :: pyfloat where "MIN_STEP_CONSISTENCY = fl (1 / 2)"
definition MIN_SUPPORTING_TRANSITIONS :: nat where "MIN_SUPPORTING_TRANSITIONS = 3"
definition MIN_OBSERVATIONS :: nat where "MIN_OBSERVATIONS = 5"
definition MAX_EXPECTED_RANGE_SLOTS :: int where "MAX_EXPECTED_RANGE_SLOTS = 10000"

definition template_of :: "parsed_identifier \<Rightarrow> string \<times> string" where
  "template_of p = (pid_prefix p, pid_suffix p)"

definition template_groups :: "parsed_identifier list \<Rightarrow> ((string \<times> string) \<times> parsed_identifier list) list" where
  "template_groups parsed = fold (\<lambda>p g. dict_append (template_of p) p g) parsed []"

definition dominant_template ::
  "parsed_identifier list \<Rightarrow> nat \<Rightarrow> ((string \<times> string) \<times> parsed_identifier list) option" where
  "dominant_template parsed n = (if parsed = [] \<or> n = 0 then None
     else let groups = template_groups parsed;
            (template, members) = first_max (\<lambda>g. length (snd g)) (hd groups) (tl groups)
       in if pf_lt (ratio (length members) n) MIN_TEMPLATE_COVERAGE then None else Some (template, members))"

definition format_candidate :: "string \<times> string \<Rightarrow> int \<Rightarrow> parsed_identifier list \<Rightarrow> string" where
  "format_candidate template n members =
     (let widths = unique_in_order (map pid_digit_width members); digits = show_nat (nat \<bar>n\<bar>);
          padded = (if length widths = 1 \<and> length digits < hd widths then pad_left (hd widths) digits else digits)
      in fst template @ (if n < 0 then ''-'' else []) @ padded @ snd template)"

definition template_label :: "string \<times> string \<Rightarrow> parsed_identifier list \<Rightarrow> string option" where
  "template_label template members =
     (if fst template = [] \<and> snd template = [] then None
      else let widths = unique_in_order (map pid_digit_width members)
        in Some (fst template @ (if length widths = 1 then replicate (hd widths) CHR ''#'' else ''#+'') @ snd template))"

section \<open>The engine\<close>

record sequence_evidence =
  se_strategy :: string
  se_candidate_value :: string
  se_observed_pattern :: string
  se_template :: "string option"
  se_step :: int
  se_min_value :: int
  se_max_value :: int
  se_gap_count :: nat
  se_duplicate_count :: nat
  se_observed_values_count :: nat
  se_supporting_count :: nat
  se_contradicting_count :: nat
  se_step_consistency :: pyfloat
  se_coverage_ratio :: pyfloat
  se_confidence :: pyfloat
  se_candidate_already_exists :: bool

record sequence_result =
  sq_status :: evidence_status
  sq_observed_values_count :: nat
  sq_best :: "sequence_evidence option"
  sq_rejected_alternatives :: "sequence_evidence list"

definition no_sequence :: "evidence_status \<Rightarrow> nat \<Rightarrow> sequence_result" where
  "no_sequence st n = \<lparr>sq_status = st, sq_observed_values_count = n, sq_best = None, sq_rejected_alternatives = []\<rparr>"

definition observed_pattern :: "string option \<Rightarrow> int \<Rightarrow> int list \<Rightarrow> string" where
  "observed_pattern label step uniq =
     (case label of None \<Rightarrow> [] | Some l \<Rightarrow> ''template '' @ l @ '' '') @ ''numeric step='' @ show_int step @ '', '' @
     show_nat (length uniq) @ '' distinct value(s) from '' @ show_int (hd uniq) @ '' to '' @ show_int (last uniq)"

definition sequence_confidence :: "pyfloat \<Rightarrow> nat \<Rightarrow> pyfloat" where
  "sequence_confidence base n = pf_mul base (pf_min (Fin 1) (ratio n (MIN_OBSERVATIONS * 2)))"

definition build_sequence_evidence ::
  "string \<times> string \<Rightarrow> parsed_identifier list \<Rightarrow> nat \<Rightarrow> int list \<Rightarrow> int \<Rightarrow> nat \<Rightarrow> nat \<Rightarrow> int list \<Rightarrow> int list \<Rightarrow>
   nat \<Rightarrow> string \<Rightarrow> int \<Rightarrow> sequence_evidence" where
  "build_sequence_evidence template members n uniq step supporting contradicting expected gaps dups strategy c =
     (let consistency = ratio supporting (supporting + contradicting) in
      \<lparr>se_strategy = strategy, se_candidate_value = format_candidate template c members,
       se_observed_pattern = observed_pattern (template_label template members) step uniq,
       se_template = template_label template members, se_step = step, se_min_value = hd uniq, se_max_value = last uniq,
       se_gap_count = length gaps, se_duplicate_count = dups, se_observed_values_count = n,
       se_supporting_count = supporting, se_contradicting_count = contradicting, se_step_consistency = consistency,
       se_coverage_ratio = (if expected = [] then Fin 1
         else ratio (length (filter (\<lambda>x. x \<in> set uniq) expected)) (length expected)),
       se_confidence = sequence_confidence consistency (length uniq),
       se_candidate_already_exists = (c \<in> set uniq)\<rparr>)"

text \<open>The numbers of one numbering scheme: their step, the places that are missing, the decision.\<close>

definition sequence_of_numbers :: "string \<times> string \<Rightarrow> parsed_identifier list \<Rightarrow> nat \<Rightarrow> sequence_result" where
  "sequence_of_numbers template members n =
     (let numbers = map pid_numeric_value members; uniq = sort (remdups numbers) in
      if length uniq < 2 then no_sequence EV_NO_RELATIONSHIP n
      else let dups = duplicate_count numbers; diffs = differences uniq;
             (step, supporting) = most_common diffs; contradicting = length diffs - supporting
        in if pf_lt (ratio supporting (length diffs)) MIN_STEP_CONSISTENCY then no_sequence EV_NO_RELATIONSHIP n
        else if MAX_EXPECTED_RANGE_SLOTS < (last uniq - hd uniq) div step + 1 then no_sequence EV_NO_RELATIONSHIP n
        else let expected = py_range (hd uniq) (last uniq + step) step;
               gaps = filter (\<lambda>x. x \<notin> set uniq) expected;
               build = build_sequence_evidence template members n uniq step supporting contradicting expected gaps dups
          in if gaps = [] \<and> dups = 0 then no_sequence EV_NO_RELATIONSHIP n
          else if 1 < length gaps \<or> 1 < dups \<or> supporting < MIN_SUPPORTING_TRANSITIONS then no_sequence EV_AMBIGUOUS n
          else let c = (if length gaps = 1 then build ''SEQUENCE_GAP'' (hd gaps)
                        else build ''SEQUENCE_NEXT_VALUE'' (last uniq + step))
            in if se_candidate_already_exists c
               then (no_sequence EV_AMBIGUOUS n)\<lparr>sq_rejected_alternatives := [c]\<rparr>
               else \<lparr>sq_status = EV_CANDIDATE, sq_observed_values_count = n, sq_best = Some c,
                     sq_rejected_alternatives = []\<rparr>)"

definition discover_sequence_evidence :: "pyval list \<Rightarrow> sequence_result" where
  "discover_sequence_evidence observed =
     (let non_null = filter (\<lambda>v. v \<noteq> PyNone \<and> py_strip (py_str v) \<noteq> []) observed; n = length non_null in
      if n < MIN_OBSERVATIONS then no_sequence EV_INSUFFICIENT_GROUP n
      else (case dominant_template (List.map_filter parse_identifier non_null) n of
          None \<Rightarrow> no_sequence EV_NO_RELATIONSHIP n
        | Some (template, members) \<Rightarrow> sequence_of_numbers template members n))"

section \<open>Reading and writing identifiers\<close>

lemma digit_char_digit: "d < 10 \<Longrightarrow> is_digit (digit_char d) \<and> digit_value (digit_char d) = d"
  by (simp add: is_digit_def digit_value_def digit_char_def code_of_def of_char_of)

lemma digits_value_snoc: "digits_value (ds @ [c]) = 10 * digits_value ds + digit_value c"
  by (simp add: digits_value_def)

lemma show_nat_digits: "show_nat n \<noteq> [] \<and> list_all is_digit (show_nat n) \<and> digits_value (show_nat n) = n"
proof (induction n rule: show_nat.induct)
  case (1 n)
  show ?case
  proof (cases "n < 10")
    case True
    then show ?thesis using digit_char_digit [OF True]
      by (subst (1 2 3) show_nat.simps) (simp add: digits_value_def)
  next
    case False
    then have "show_nat n = show_nat (n div 10) @ [digit_char (n mod 10)]" by (subst show_nat.simps) simp
    then show ?thesis using 1 False digit_char_digit [of "n mod 10"] by (simp add: digits_value_snoc)
  qed
qed

lemma pad_left_digits:
  "list_all is_digit ds \<Longrightarrow> list_all is_digit (pad_left k ds) \<and> digits_value (pad_left k ds) = digits_value ds"
proof -
  have "digits_value (replicate m CHR ''0'' @ ds) = digits_value ds" for m
    by (induction m) (simp_all add: digits_value_def digit_value_def code_of_def)
  moreover have "is_digit CHR ''0''" by (simp add: is_digit_def code_of_def)
  ultimately show "list_all is_digit ds \<Longrightarrow> ?thesis" by (auto simp: pad_left_def list_all_iff)
qed

lemma dropWhile_none: "xs = [] \<or> \<not> p (hd xs) \<Longrightarrow> dropWhile p xs = xs \<and> takeWhile p xs = []"
  by (cases xs) auto

lemma span_at:
  "list_all p xs \<Longrightarrow> ys = [] \<or> \<not> p (hd ys) \<Longrightarrow> takeWhile p (xs @ ys) = xs \<and> dropWhile p (xs @ ys) = ys"
  using dropWhile_none [of ys p] by (simp add: list_all_iff takeWhile_append2 dropWhile_append2)

lemma strip_ends:
  assumes "py_strip s \<noteq> []"
  shows "\<not> py_isspace (hd (py_strip s))" and "\<not> py_isspace (last (py_strip s))"
proof -
  let ?y = "dropWhile py_isspace s"
  have strip: "py_strip s = rev (dropWhile py_isspace (rev ?y))" by (simp add: py_strip_def py_strip_by_def)
  then have ne: "dropWhile py_isspace (rev ?y) \<noteq> []" using assms by auto
  then show "\<not> py_isspace (last (py_strip s))" unfolding strip last_rev by (rule hd_dropWhile)
  have "?y \<noteq> []" using ne by (metis dropWhile.simps(1) rev.simps(1))
  have "py_strip s @ rev (takeWhile py_isspace (rev ?y)) = ?y"
    unfolding strip by (simp only: rev_append [symmetric] takeWhile_dropWhile_id rev_rev_ident)
  then have "hd (py_strip s) = hd ?y" using assms by (metis hd_append2)
  then show "\<not> py_isspace (hd (py_strip s))" using hd_dropWhile [OF \<open>?y \<noteq> []\<close>] by simp
qed

lemma strip_id:
  assumes "t \<noteq> []" and "\<not> py_isspace (hd t)" and "\<not> py_isspace (last t)"
  shows "py_strip t = t"
  using assms dropWhile_none [of t py_isspace] dropWhile_none [of "rev t" py_isspace]
  by (simp add: py_strip_def py_strip_by_def hd_rev)

lemma match_identifier_parts:
  assumes "match_identifier t = Some (prefix, digits, suffix)"
  shows "t = prefix @ digits @ suffix" and "list_all plain_char prefix" and "list_all plain_char suffix" and "digits \<noteq> []"
proof -
  let ?rest = "dropWhile plain_char t"
  let ?sign = "if ?rest \<noteq> [] \<and> hd ?rest = CHR ''-'' then ''-'' else []"
  let ?u = "drop (length ?sign) ?rest"
  have parts: "prefix = takeWhile plain_char t" "digits = ?sign @ takeWhile is_digit ?u" "suffix = dropWhile is_digit ?u"
    "takeWhile is_digit ?u \<noteq> []" "list_all plain_char suffix"
    using assms by (auto simp: match_identifier_def Let_def simp del: length_drop split: if_splits)
  have "?rest = ?sign @ ?u" by (cases ?rest) auto
  then show "t = prefix @ digits @ suffix" unfolding parts(1,2,3) append_assoc takeWhile_dropWhile_id by simp
  show "list_all plain_char prefix" unfolding parts(1) by (auto simp: list_all_iff dest: set_takeWhileD)
  show "list_all plain_char suffix" "digits \<noteq> []" using parts by auto
qed

lemma match_identifier_build:
  assumes "list_all plain_char prefix" and "sign \<in> {[], ''-''}" and "digits \<noteq> []" "list_all is_digit digits"
    and "list_all plain_char suffix"
  shows "match_identifier (prefix @ sign @ digits @ suffix) = Some (prefix, sign @ digits, suffix)"
proof -
  have stop: "\<not> plain_char (hd (sign @ digits @ suffix))" "sign @ digits @ suffix \<noteq> []"
    using assms by (auto simp: plain_char_def neq_Nil_conv)
  then have head: "takeWhile plain_char (prefix @ sign @ digits @ suffix) = prefix"
    "dropWhile plain_char (prefix @ sign @ digits @ suffix) = sign @ digits @ suffix"
    using span_at [OF assms(1), of "sign @ digits @ suffix"] by simp_all
  have "suffix = [] \<or> \<not> is_digit (hd suffix)"
    using assms(5) by (cases suffix) (auto simp: plain_char_def)
  then have tail: "takeWhile is_digit (digits @ suffix) = digits" "dropWhile is_digit (digits @ suffix) = suffix"
    using span_at [OF assms(4), of suffix] by simp_all
  have minus: "digits \<noteq> [] \<and> hd (digits @ suffix) \<noteq> CHR ''-''"
    using assms(3,4) by (cases digits) (auto simp: is_digit_def code_of_def)
  show ?thesis
    unfolding match_identifier_def Let_def head
    using assms(2,3,5) minus tail by auto
qed

lemma parse_built:
  assumes "list_all plain_char prefix" and "list_all plain_char suffix" and "digits \<noteq> []" "list_all is_digit digits"
    and "prefix \<noteq> [] \<longrightarrow> \<not> py_isspace (hd prefix)" and "suffix \<noteq> [] \<longrightarrow> \<not> py_isspace (last suffix)"
  shows "\<exists>p. parse_identifier (PyStr (prefix @ (if neg then ''-'' else []) @ digits @ suffix)) = Some p \<and>
    template_of p = (prefix, suffix) \<and>
    pid_numeric_value p = (if neg then - int (digits_value digits) else int (digits_value digits))"
proof -
  let ?sign = "if neg then ''-'' else []" and ?t = "prefix @ (if neg then ''-'' else []) @ digits @ suffix"
  have digit: "\<not> py_isspace c" if "is_digit c" for c using that by (auto simp: is_digit_def py_isspace_def Let_def)
  have first: "\<not> py_isspace (hd ?t)"
    using assms digit by (cases prefix; cases neg; cases digits) (auto simp: py_isspace_def Let_def code_of_def)
  have "last digits \<in> set digits" using assms(3) by simp
  then have "\<not> py_isspace (last ?t)" using assms digit by (cases suffix) (auto simp: list_all_iff)
  then have "py_strip ?t = ?t" using first assms(3) by (intro strip_id) auto
  moreover have "match_identifier ?t = Some (prefix, ?sign @ digits, suffix)"
    using assms by (intro match_identifier_build) auto
  moreover have "dropWhile (\<lambda>c. c = CHR ''-'') digits = digits"
    using assms(3,4) by (cases digits) (auto simp: is_digit_def code_of_def)
  ultimately show ?thesis
    using assms(3) by (simp add: parse_identifier_def Let_def template_of_def)
qed

section \<open>The candidate\<close>

lemma template_groups_lookup:
  "distinct (map fst (template_groups ps)) \<and> map_of (template_groups ps) t =
     (let ms = filter (\<lambda>p. template_of p = t) ps in if ms = [] then None else Some ms)"
proof (induction ps rule: rev_induct)
  case (snoc p ps)
  then show ?case by (auto simp: template_groups_def Let_def distinct_dict_append split: if_splits)
qed (simp add: template_groups_def)

lemma dominant_members:
  assumes "dominant_template ps n = Some (t, ms)"
  shows "ms = filter (\<lambda>p. template_of p = t) ps" and "ms \<noteq> []"
proof -
  let ?gs = "template_groups ps"
  have pick: "first_max (\<lambda>g. length (snd g)) (hd ?gs) (tl ?gs) = (t, ms)" and "ps \<noteq> []"
    using assms by (auto simp: dominant_template_def Let_def split: prod.splits if_splits)
  obtain p where "p \<in> set ps" using \<open>ps \<noteq> []\<close> by (cases ps) auto
  then have "map_of ?gs (template_of p) \<noteq> None"
    using template_groups_lookup [of ps "template_of p"] by (auto simp: Let_def filter_empty_conv split: if_splits)
  then have "?gs \<noteq> []" by auto
  then have "(t, ms) \<in> set ?gs"
    using first_max_set [of "\<lambda>g. length (snd g)" "hd ?gs" "tl ?gs"] pick by (cases ?gs) auto
  then have "map_of ?gs t = Some ms" by (rule map_of_is_SomeI [rotated]) (use template_groups_lookup [of ps t] in simp)
  then show "ms = filter (\<lambda>p. template_of p = t) ps" and "ms \<noteq> []"
    using template_groups_lookup [of ps t] by (auto simp: Let_def split: if_splits)
qed

lemma parsed_template:
  assumes "parse_identifier v = Some p"
  shows "list_all plain_char (pid_prefix p)" and "list_all plain_char (pid_suffix p)"
    and "pid_prefix p \<noteq> [] \<longrightarrow> \<not> py_isspace (hd (pid_prefix p))"
    and "pid_suffix p \<noteq> [] \<longrightarrow> \<not> py_isspace (last (pid_suffix p))"
proof -
  let ?t = "py_strip (py_str v)"
  obtain digits where match: "match_identifier ?t = Some (pid_prefix p, digits, pid_suffix p)" and "?t \<noteq> []"
    using assms by (auto simp: parse_identifier_def Let_def split: if_splits option.splits)
  note parts = match_identifier_parts [OF match]
  show "list_all plain_char (pid_prefix p)" and "list_all plain_char (pid_suffix p)" by (rule parts(2,3))+
  have "hd ?t = (if pid_prefix p = [] then hd (digits @ pid_suffix p) else hd (pid_prefix p))"
    "last ?t = (if pid_suffix p = [] then last digits else last (pid_suffix p))"
    using parts(1,4) by (simp_all add: hd_append last_append)
  then show "pid_prefix p \<noteq> [] \<longrightarrow> \<not> py_isspace (hd (pid_prefix p))"
    and "pid_suffix p \<noteq> [] \<longrightarrow> \<not> py_isspace (last (pid_suffix p))"
    using strip_ends [OF \<open>?t \<noteq> []\<close>] by auto
qed

text \<open>A formatted candidate is read back as the same number of the same scheme.\<close>

lemma format_read:
  assumes "parse_identifier v = Some p" and "template_of p = t"
  shows "\<exists>q. parse_identifier (PyStr (format_candidate t n ms)) = Some q \<and> template_of q = t \<and> pid_numeric_value q = n"
proof -
  let ?ds = "show_nat (nat \<bar>n\<bar>)"
  let ?ws = "unique_in_order (map pid_digit_width ms)"
  let ?padded = "if length ?ws = 1 \<and> length ?ds < hd ?ws then pad_left (hd ?ws) ?ds else ?ds"
  have t: "t = (pid_prefix p, pid_suffix p)" using assms(2) by (simp add: template_of_def)
  have digits: "list_all is_digit ?padded" "digits_value ?padded = nat \<bar>n\<bar>" "?padded \<noteq> []"
    using show_nat_digits [of "nat \<bar>n\<bar>"] pad_left_digits [of ?ds "hd ?ws"] by (auto simp: pad_left_def)
  have "\<exists>q. parse_identifier (PyStr (fst t @ (if n < 0 then ''-'' else []) @ ?padded @ snd t)) = Some q \<and>
      template_of q = (fst t, snd t) \<and>
      pid_numeric_value q = (if n < 0 then - int (digits_value ?padded) else int (digits_value ?padded))"
    using parsed_template [OF assms(1)] digits unfolding t fst_conv snd_conv by (intro parse_built) auto
  then show ?thesis using digits(2) by (auto simp: format_candidate_def Let_def)
qed

lemma sequence_best_cases:
  assumes "sq_best (sequence_of_numbers t ms n) = Some e"
  defines "uniq \<equiv> sort (remdups (map pid_numeric_value ms))"
  shows "\<exists>step supporting gaps c. 2 \<le> length uniq \<and> most_common (differences uniq) = (step, supporting) \<and>
    3 \<le> supporting \<and> gaps = filter (\<lambda>x. x \<notin> set uniq) (py_range (hd uniq) (last uniq + step) step) \<and>
    se_step e = step \<and> se_supporting_count e = supporting \<and> se_candidate_value e = format_candidate t c ms \<and> c \<notin> set uniq \<and>
    (se_strategy e = ''SEQUENCE_GAP'' \<and> gaps = [c] \<or>
     se_strategy e = ''SEQUENCE_NEXT_VALUE'' \<and> gaps = [] \<and> c = last uniq + step)"
proof -
  obtain step supporting where mode: "most_common (differences uniq) = (step, supporting)" by fastforce
  define gaps where "gaps = filter (\<lambda>x. x \<notin> set uniq) (py_range (hd uniq) (last uniq + step) step)"
  note unfolded = assms(1) [unfolded sequence_of_numbers_def Let_def uniq_def [symmetric] mode prod.case gaps_def [symmetric]]
  have fields: "se_step (build_sequence_evidence t ms n u s sup con ex g ds st c) = s"
    "se_supporting_count (build_sequence_evidence t ms n u s sup con ex g ds st c) = sup"
    "se_candidate_value (build_sequence_evidence t ms n u s sup con ex g ds st c) = format_candidate t c ms"
    "se_candidate_already_exists (build_sequence_evidence t ms n u s sup con ex g ds st c) = (c \<in> set u)"
    "se_strategy (build_sequence_evidence t ms n u s sup con ex g ds st c) = st"
    for u s sup con ex g ds st c by (simp_all add: build_sequence_evidence_def Let_def)
  have none: "sq_best (no_sequence st n) = None" for st by (simp add: no_sequence_def)
  have "2 \<le> length uniq" "3 \<le> supporting" "length gaps \<le> 1"
    using unfolded none by (auto simp: MIN_SUPPORTING_TRANSITIONS_def split: if_splits)
  then consider "gaps = []" | c where "gaps = [c]" by (cases gaps) auto
  then show ?thesis
  proof cases
    case 1
    then show ?thesis using unfolded none fields mode \<open>2 \<le> length uniq\<close> \<open>3 \<le> supporting\<close>
      by (intro exI [of _ step] exI [of _ supporting] exI [of _ gaps] exI [of _ "last uniq + step"])
         (auto simp: gaps_def split: if_splits)
  next
    case (2 c)
    then show ?thesis using unfolded none fields mode \<open>2 \<le> length uniq\<close> \<open>3 \<le> supporting\<close>
      by (intro exI [of _ step] exI [of _ supporting] exI [of _ gaps] exI [of _ c])
         (auto simp: gaps_def split: if_splits)
  qed
qed

lemma parse_blank: "v = PyNone \<or> py_strip (py_str v) = [] \<Longrightarrow> parse_identifier v = None"
  by (auto simp: parse_identifier_def)

lemma map_filter_blank:
  "List.map_filter parse_identifier (filter (\<lambda>v. v \<noteq> PyNone \<and> py_strip (py_str v) \<noteq> []) vs) =
     List.map_filter parse_identifier vs"
  by (induction vs) (auto simp: map_filter_simps parse_blank split: option.splits)

lemma strip_again: "py_strip (py_strip s) = py_strip s"
proof (cases "py_strip s = []")
  case True
  moreover have "py_strip [] = []" by (simp add: py_strip_def py_strip_by_def)
  ultimately show ?thesis by simp
next
  case False
  then show ?thesis using strip_ends [OF False] by (intro strip_id)
qed

lemma parse_text: "v \<noteq> PyNone \<Longrightarrow> parse_identifier (PyStr (py_strip (py_str v))) = parse_identifier v"
  by (simp add: parse_identifier_def strip_again)

text \<open>C37.
  What the engine proposes for a column is a new value of the column's own numbering scheme: read
  back, it is an identifier with the scheme's prefix and suffix whose number no value of the scheme
  has, and no value of the column has its text. The numbers of the scheme form a progression that
  lacks nothing else: at least three neighbours differ by the step, every other place between the
  least and the greatest number is taken, and the proposed number is on a place of the progression
  above the least number and at most one step above the greatest.\<close>

theorem sequence_candidate_spec:
  assumes "sq_best (discover_sequence_evidence observed) = Some e"
  shows "\<exists>p numbers. parse_identifier (PyStr (se_candidate_value e)) = Some p \<and>
    numbers = map pid_numeric_value
      (filter (\<lambda>q. template_of q = template_of p) (List.map_filter parse_identifier observed)) \<and>
    (\<forall>v \<in> set observed. v \<noteq> PyNone \<longrightarrow> py_strip (py_str v) \<noteq> se_candidate_value e) \<and>
    (let c = pid_numeric_value p; least = Min (set numbers); greatest = Max (set numbers); step = se_step e in
      0 < step \<and> c \<notin> set numbers \<and> 3 \<le> count_list (differences (sort (remdups numbers))) step \<and>
      least < c \<and> c \<le> greatest + step \<and> step dvd (c - least) \<and>
      (\<forall>x. least \<le> x \<longrightarrow> x \<le> greatest \<longrightarrow> step dvd (x - least) \<longrightarrow> x \<noteq> c \<longrightarrow> x \<in> set numbers))"
proof -
  let ?ps = "List.map_filter parse_identifier observed"
  obtain t ms n where dom: "dominant_template ?ps n = Some (t, ms)" and best: "sq_best (sequence_of_numbers t ms n) = Some e"
    using assms by (auto simp: discover_sequence_evidence_def Let_def map_filter_blank no_sequence_def
        split: if_splits option.splits)
  note members = dominant_members [OF dom]
  define numbers where "numbers = map pid_numeric_value ms"
  define uniq where "uniq = sort (remdups numbers)"
  obtain step supporting gaps c where len: "2 \<le> length uniq" and mode: "most_common (differences uniq) = (step, supporting)"
    and sup: "3 \<le> supporting" and gaps: "gaps = filter (\<lambda>x. x \<notin> set uniq) (py_range (hd uniq) (last uniq + step) step)"
    and e: "se_step e = step" "se_candidate_value e = format_candidate t c ms" "c \<notin> set uniq"
    and strategy: "gaps = [c] \<or> gaps = [] \<and> c = last uniq + step"
    using sequence_best_cases [OF best] unfolding uniq_def numbers_def by blast
  obtain p0 where "p0 \<in> set ms" using members(2) by (cases ms) auto
  then obtain v where p0: "parse_identifier v = Some p0" "template_of p0 = t"
    unfolding members(1) by (auto simp: set_map_filter)
  obtain p where p: "parse_identifier (PyStr (se_candidate_value e)) = Some p" "template_of p = t" "pid_numeric_value p = c"
    using format_read [OF p0(1,2)] e(2) by metis
  have set_uniq: "set uniq = set numbers" by (simp add: uniq_def)
  have ne: "uniq \<noteq> []" "differences uniq \<noteq> []" using len length_differences [of uniq] by auto
  note step_in = most_common_count [OF ne(2) mode]
  have strict: "sorted_wrt (<) uniq" by (simp add: uniq_def strict_sorted_iff)
  then have step: "0 < step" using step_in(1) differences_positive by blast
  have ends: "Min (set numbers) = hd uniq" "Max (set numbers) = last uniq"
    using sorted_ends [of uniq] ne by (simp_all add: set_uniq uniq_def)
  have slot: "x \<in> set gaps \<longleftrightarrow> hd uniq \<le> x \<and> x < last uniq + step \<and> step dvd (x - hd uniq) \<and> x \<notin> set uniq" for x
    unfolding gaps by (auto simp: set_py_range [OF step])
  have place: "hd uniq < c \<and> c \<le> last uniq + step \<and> step dvd (c - hd uniq)"
  proof (cases "gaps = [c]")
    case True
    then have "c \<in> set gaps" by simp
    then show ?thesis using slot [of c] ne(1) by (metis hd_in_set less_le)
  next
    case False
    then have none: "gaps = []" and c: "c = last uniq + step" using strategy by auto
    have least: "hd uniq \<le> last uniq" using ends ne(1) by (metis List.finite_set Min_le last_in_set set_uniq)
    define y where "y = hd uniq + (last uniq + step - 1 - hd uniq) div step * step"
    have "y \<le> last uniq + step - 1 \<and> last uniq + step - 1 < y + step"
      unfolding y_def using pos_mod_bound [OF step, of "last uniq + step - 1 - hd uniq"]
        pos_mod_sign [OF step, of "last uniq + step - 1 - hd uniq"]
      by (simp add: minus_mod_eq_div_mult [symmetric])
    then have y: "last uniq \<le> y" "y < last uniq + step" "step dvd (y - hd uniq)" by (auto simp: y_def)
    then have "y \<in> set uniq" using slot [of y] none least by auto
    then have "y \<le> last uniq" using ends ne(1) by (metis List.finite_set Max_ge set_uniq)
    then have "step dvd (last uniq - hd uniq)" using y by simp
    then show ?thesis using c step least by (simp add: add_diff_eq [symmetric] dvd_add_right_iff add.commute diff_add_eq)
  qed
  have fresh: "py_strip (py_str u) \<noteq> se_candidate_value e" if u: "u \<in> set observed" "u \<noteq> PyNone" for u
  proof
    assume "py_strip (py_str u) = se_candidate_value e"
    then have "parse_identifier u = Some p" using parse_text [OF u(2)] p(1) by simp
    then have "p \<in> set ms" using u(1) p(2) by (auto simp: members(1) set_map_filter)
    then show False using p(3) e(3) by (auto simp: set_uniq numbers_def)
  qed
  have filled: "x \<in> set numbers" if "hd uniq \<le> x" "x \<le> last uniq" "step dvd (x - hd uniq)" "x \<noteq> c" for x
    using slot [of x] that step strategy by (auto simp: set_uniq)
  have scheme: "numbers = map pid_numeric_value (filter (\<lambda>q. template_of q = template_of p) ?ps)"
    unfolding numbers_def p(2) by (rule arg_cong [OF members(1)])
  have often: "3 \<le> count_list (differences (sort (remdups numbers))) step"
    using sup step_in(2) by (simp add: uniq_def)
  have new: "c \<notin> set numbers" using e(3) by (simp add: set_uniq)
  have all: "\<forall>u \<in> set observed. u \<noteq> PyNone \<longrightarrow> py_strip (py_str u) \<noteq> se_candidate_value e" using fresh by blast
  have rest: "\<forall>x. hd uniq \<le> x \<longrightarrow> x \<le> last uniq \<longrightarrow> step dvd (x - hd uniq) \<longrightarrow> x \<noteq> c \<longrightarrow> x \<in> set numbers"
    using filled by blast
  show ?thesis
    unfolding Let_def
    apply (rule exI [of _ p], rule exI [of _ numbers])
    unfolding p(3) e(1) ends
    using p(1) scheme all step new often place rest by blast
qed

definition sample_numbers :: "parsed_identifier list" where
  "sample_numbers = map (\<lambda>n. \<lparr>pid_raw = show_int n, pid_prefix = [], pid_suffix = [], pid_numeric_value = n,
     pid_digit_width = 1\<rparr>) [1, 2, 3, 4, 5, 5]"

lemma sample_template: "dominant_template sample_numbers 6 = Some (([], []), sample_numbers)"
  by (simp add: dominant_template_def template_groups_def sample_numbers_def template_of_def ratio_def float_one
      MIN_TEMPLATE_COVERAGE_def fl_nine_tenths)

lemma sample_best: "\<exists>e. sq_best (sequence_of_numbers ([], []) sample_numbers 6) = Some e"
proof -
  let ?ns = "map pid_numeric_value sample_numbers"
  have ns: "?ns = [1, 2, 3, 4, 5, 5]" by (simp add: sample_numbers_def)
  have sorted: "sort (remdups ?ns) = [1, 2, 3, 4, 5]" unfolding ns by simp
  have mode: "most_common [1, 1, 1, 1 :: int] = (1, 4)" by (simp add: most_common_def)
  have dups: "duplicate_count ?ns = 1" unfolding ns by (simp add: duplicate_count_def)
  have slots: "py_range 1 6 1 = [1, 2, 3, 4, 5]" by code_simp
  show ?thesis
    unfolding sequence_of_numbers_def Let_def sorted dups
    by (simp add: mode slots ratio_def float_one float_half MIN_STEP_CONSISTENCY_def MAX_EXPECTED_RANGE_SLOTS_def
        MIN_SUPPORTING_TRANSITIONS_def build_sequence_evidence_def Let_def)
qed

lemma sequence_candidate_spec_witness:
  "\<exists>e p. sq_best (discover_sequence_evidence (map PyInt [1, 2, 3, 4, 5, 5])) = Some e \<and>
     parse_identifier (PyStr (se_candidate_value e)) = Some p \<and> se_candidate_value e \<noteq> ''5''"
proof -
  let ?vs = "map PyInt [1, 2, 3, 4, 5, 5]"
  have strip: "filter (\<lambda>v. v \<noteq> PyNone \<and> py_strip (py_str v) \<noteq> []) ?vs = ?vs" by code_simp
  have parsed: "List.map_filter parse_identifier ?vs = sample_numbers" by code_simp
  have "\<not> 6 < MIN_OBSERVATIONS" by (simp add: MIN_OBSERVATIONS_def)
  moreover have "length ?vs = 6" by simp
  ultimately have "discover_sequence_evidence ?vs = sequence_of_numbers ([], []) sample_numbers 6"
    unfolding discover_sequence_evidence_def Let_def strip parsed using sample_template by (simp only: if_False option.case prod.case)
  then obtain e where e: "sq_best (discover_sequence_evidence ?vs) = Some e" using sample_best by auto
  obtain p where p: "parse_identifier (PyStr (se_candidate_value e)) = Some p"
    and new: "\<forall>v \<in> set ?vs. v \<noteq> PyNone \<longrightarrow> py_strip (py_str v) \<noteq> se_candidate_value e"
    using sequence_candidate_spec [OF e] by blast
  have "py_strip (py_str (PyInt 5)) = ''5''" by code_simp
  then have "se_candidate_value e \<noteq> ''5''" using new by auto
  then show ?thesis using e p by blast
qed

text \<open>A step that does not divide the range: the place after the greatest number is reported as a gap.\<close>

definition odd_numbers :: "parsed_identifier list" where
  "odd_numbers = map (\<lambda>n. \<lparr>pid_raw = show_int n, pid_prefix = [], pid_suffix = [], pid_numeric_value = n,
     pid_digit_width = 1\<rparr>) [1, 3, 5, 7, 8]"

theorem gap_beyond_the_greatest:
  "\<exists>e. sq_best (sequence_of_numbers ([], []) odd_numbers 5) = Some e \<and> se_strategy e = ''SEQUENCE_GAP'' \<and>
     se_candidate_value e = ''9'' \<and> se_max_value e = 8"
proof -
  let ?ns = "map pid_numeric_value odd_numbers"
  have ns: "?ns = [1, 3, 5, 7, 8]" by (simp add: odd_numbers_def)
  have sorted: "sort (remdups ?ns) = [1, 3, 5, 7, 8]" unfolding ns by simp
  have mode: "most_common [2, 2, 2, 1 :: int] = (2, 3)" by (simp add: most_common_def)
  have dups: "duplicate_count ?ns = 0" unfolding ns by (simp add: duplicate_count_def)
  have slots: "py_range 1 10 2 = [1, 3, 5, 7, 9]" by code_simp
  have "format_candidate ([], []) 9 odd_numbers = ''9''" by code_simp
  then show ?thesis
    unfolding sequence_of_numbers_def Let_def sorted dups
    by (simp add: mode slots ratio_def float_half float_three_quarters MIN_STEP_CONSISTENCY_def MAX_EXPECTED_RANGE_SLOTS_def
        MIN_SUPPORTING_TRANSITIONS_def build_sequence_evidence_def Let_def)
qed

end
