(* ===== verification/TemporalEvidence.thy ===== *)
theory TemporalEvidence
  imports Evidence
begin

text \<open>
  The temporal engine, \<open>app/modules/ai/evidence_temporal.py\<close>: from the dates and times of a column it
  reads an interval (a fixed one, a number of calendar years or of calendar months) and proposes the
  one value that is missing or, when one is duplicated, the next one.

  An instant is the number of microseconds since the start of year 1 in local time; values with
  different offsets are refused before they are compared. The ISO parsers of the library are
  parameters: \<open>date_iso\<close> gives year, month and day, \<open>datetime_iso\<close> the instant and the offset. A loop
  that may run forever is a partial function, so that not returning is the value \<open>None\<close>; arithmetic
  that leaves the years 1 to 9999 raises. Texts for the reader are not represented.
\<close>

section \<open>The calendar\<close>

definition is_leap :: "int \<Rightarrow> bool" where
  "is_leap y \<longleftrightarrow> y mod 4 = 0 \<and> (y mod 100 \<noteq> 0 \<or> y mod 400 = 0)"

definition last_day_of_month :: "int \<Rightarrow> int \<Rightarrow> int" where
  "last_day_of_month y m = (if m = 2 then if is_leap y then 29 else 28
     else if m \<in> {4, 6, 9, 11} then 30 else 31)"

definition days_before_year :: "int \<Rightarrow> int" where
  "days_before_year y = (y - 1) * 365 + (y - 1) div 4 - (y - 1) div 100 + (y - 1) div 400"

definition days_before_month :: "int \<Rightarrow> int \<Rightarrow> int" where
  "days_before_month y m = sum_list (map (last_day_of_month y) [1..m - 1])"

type_synonym ymd = "int \<times> int \<times> int"

text \<open>\<open>date(y, m, d)\<close> raises \<open>ValueError\<close> unless this holds.\<close>

definition valid_date :: "ymd \<Rightarrow> bool" where
  "valid_date = (\<lambda>(y, m, d). 1 \<le> y \<and> y \<le> 9999 \<and> 1 \<le> m \<and> m \<le> 12 \<and> 1 \<le> d \<and> d \<le> last_day_of_month y m)"

definition ordinal :: "ymd \<Rightarrow> int" where
  "ordinal = (\<lambda>(y, m, d). days_before_year y + days_before_month y m + d)"

text \<open>The date of an ordinal: its year is at most one below an estimate.\<close>

fun month_day :: "int \<Rightarrow> int list \<Rightarrow> int \<Rightarrow> int \<times> int" where
  "month_day y [] n = (12, n)"
| "month_day y (m # ms) n =
     (if n \<le> last_day_of_month y m then (m, n) else month_day y ms (n - last_day_of_month y m))"

definition ymd_of :: "int \<Rightarrow> ymd" where
  "ymd_of n = (let guess = (n * 400) div 146097 + 1;
       y = (if n \<le> days_before_year guess then guess - 1
            else if days_before_year (guess + 1) < n then guess + 1 else guess)
     in (y, month_day y [1..12] (n - days_before_year y)))"

definition DAY :: int where "DAY = 86400000000"
definition MAX_INSTANT :: int where "MAX_INSTANT = 3652059 * DAY"

text \<open>\<open>datetime.combine\<close>, \<open>date()\<close> and \<open>time()\<close>.\<close>

definition combine :: "ymd \<Rightarrow> int \<Rightarrow> int" where
  "combine d t = (ordinal d - 1) * DAY + t"

definition date_of :: "int \<Rightarrow> ymd" where "date_of i = ymd_of (i div DAY + 1)"
definition time_of :: "int \<Rightarrow> int" where "time_of i = i mod DAY"

text \<open>An instant plus a difference.\<close>

definition add_delta :: "int \<Rightarrow> int \<Rightarrow> exn + int" where
  "add_delta i d = (if 0 \<le> i + d \<and> i + d < MAX_INSTANT then Inr (i + d) else Inl (Conv OverflowError))"

section \<open>Reading the values\<close>

record temporal_value =
  tv_instant :: int
  tv_offset :: "int option"
  tv_is_date_only :: bool

definition ambiguous_shape :: "nat \<Rightarrow> nat \<Rightarrow> string \<Rightarrow> bool" where
  "ambiguous_shape a b t \<longleftrightarrow> a + b + 2 < length t \<and> list_all is_digit (take a t) \<and> t ! a \<in> {CHR ''/'', CHR ''-''} \<and>
     list_all is_digit (take b (drop (a + 1) t)) \<and> t ! (a + b + 1) \<in> {CHR ''/'', CHR ''-''} \<and>
     (let year = drop (a + b + 2) t in 2 \<le> length year \<and> length year \<le> 4 \<and> list_all is_digit year)"

text \<open>The pattern \<open>^\d{1,2}[/-]\d{1,2}[/-]\d{2,4}$\<close>, and a search for \<open>\d:\d\<close>.\<close>

definition looks_ambiguous :: "string \<Rightarrow> bool" where
  "looks_ambiguous t \<longleftrightarrow> (\<exists>a \<in> {1, 2}. \<exists>b \<in> {1, 2}. ambiguous_shape a b t)"

fun has_clock :: "string \<Rightarrow> bool" where
  "has_clock (a # b # c # cs) = (is_digit a \<and> b = CHR '':'' \<and> is_digit c \<or> has_clock (b # c # cs))"
| "has_clock _ = False"

definition clock_time :: "nat \<Rightarrow> nat \<Rightarrow> nat \<Rightarrow> nat \<Rightarrow> int" where
  "clock_time h mi s us = ((int h * 60 + int mi) * 60 + int s) * 1000000 + int us"

type_synonym date_parser = "string \<Rightarrow> (nat \<times> nat \<times> nat) option"
type_synonym datetime_parser = "string \<Rightarrow> (int \<times> int option) option"

definition of_nats :: "nat \<times> nat \<times> nat \<Rightarrow> ymd" where
  "of_nats = (\<lambda>(y, m, d). (int y, int m, int d))"

definition utc_suffix :: "string \<Rightarrow> string" where
  "utc_suffix t = concat (map (\<lambda>c. if c = CHR ''Z'' then ''+00:00'' else [c]) t)"

definition parse_one :: "date_parser \<Rightarrow> datetime_parser \<Rightarrow> pyval \<Rightarrow> temporal_value option" where
  "parse_one date_iso datetime_iso v =
     (let whole = (\<lambda>d. \<lparr>tv_instant = combine (of_nats d) 0, tv_offset = None, tv_is_date_only = True\<rparr>) in
      case v of
        PyDateTime y m d h mi s us \<Rightarrow> Some \<lparr>tv_instant = combine (of_nats (y, m, d)) (clock_time h mi s us),
            tv_offset = None, tv_is_date_only = False\<rparr>
      | PyDate y m d \<Rightarrow> Some (whole (y, m, d))
      | PyStr s \<Rightarrow> (let t = py_strip s in
          if t = [] \<or> looks_ambiguous t then None
          else if CHR ''T'' \<in> set t \<or> CHR '' '' \<in> set t \<and> has_clock t
            then map_option (\<lambda>(i, off). \<lparr>tv_instant = i, tv_offset = off, tv_is_date_only = False\<rparr>)
                   (datetime_iso (utc_suffix t))
          else map_option whole (date_iso t))
      | _ \<Rightarrow> None)"

text \<open>The values that could be read; nothing when naive and aware ones, or offsets, are mixed.\<close>

definition normalize_all :: "date_parser \<Rightarrow> datetime_parser \<Rightarrow> pyval list \<Rightarrow> temporal_value list option" where
  "normalize_all date_iso datetime_iso vs =
     (let parsed = List.map_filter (parse_one date_iso datetime_iso)
            (filter (\<lambda>v. v \<noteq> PyNone \<and> py_strip (py_str v) \<noteq> []) vs)
      in if length (unique_in_order (map tv_offset parsed)) \<le> 1 then Some parsed else None)"

section \<open>Writing the candidate\<close>

definition nat_of :: "int \<Rightarrow> nat" where "nat_of i = nat i"

definition iso_of_date :: "ymd \<Rightarrow> string" where
  "iso_of_date = (\<lambda>(y, m, d). iso_date (nat_of y) (nat_of m) (nat_of d))"

definition iso_of_time :: "int \<Rightarrow> string" where
  "iso_of_time t = (let s = t div 1000000 in
     iso_time (nat_of (s div 3600)) (nat_of (s div 60 mod 60)) (nat_of (s mod 60)) (nat_of (t mod 1000000)))"

definition iso_of_offset :: "int \<Rightarrow> string" where
  "iso_of_offset off = (let s = \<bar>off\<bar> div 1000000; us = \<bar>off\<bar> mod 1000000 in
     (if off < 0 then ''-'' else ''+'') @ pad_left 2 (show_nat (nat_of (s div 3600))) @ '':'' @
     pad_left 2 (show_nat (nat_of (s div 60 mod 60))) @
     (if s mod 60 = 0 \<and> us = 0 then [] else '':'' @ pad_left 2 (show_nat (nat_of (s mod 60))) @
       (if us = 0 then [] else ''.'' @ pad_left 6 (show_nat (nat_of us)))))"

definition format_instant :: "int \<Rightarrow> bool \<Rightarrow> int option \<Rightarrow> string" where
  "format_instant i date_only offset = (if date_only then iso_of_date (date_of i)
     else iso_of_date (date_of i) @ ''T'' @ iso_of_time (time_of i) @
       (case offset of None \<Rightarrow> [] | Some off \<Rightarrow> iso_of_offset off))"

section \<open>Results\<close>

record temporal_evidence =
  te_strategy :: string
  te_candidate_value :: string
  te_progression_type :: string
  te_interval :: string
  te_observed_values_count :: nat
  te_duplicate_count :: nat
  te_gap_count :: nat
  te_supporting_count :: nat
  te_contradicting_count :: nat
  te_consistency :: pyfloat
  te_confidence :: pyfloat
  te_candidate_already_exists :: bool

record temporal_result =
  tr_status :: evidence_status
  tr_observed_values_count :: nat
  tr_best :: "temporal_evidence option"

type_synonym strategy_outcome = "evidence_status \<times> temporal_evidence option"

definition TEMPORAL_MIN_OBSERVATIONS :: nat where "TEMPORAL_MIN_OBSERVATIONS = 5"
definition TEMPORAL_MIN_SUPPORT :: nat where "TEMPORAL_MIN_SUPPORT = 3"
definition TEMPORAL_MIN_CONSISTENCY :: pyfloat where "TEMPORAL_MIN_CONSISTENCY = fl (1 / 2)"
definition MAX_SLOTS :: pyfloat where "MAX_SLOTS = Fin 10000"
definition MAX_EXPECTED_MONTHS :: int where "MAX_EXPECTED_MONTHS = 2000"
definition MAX_EXPECTED_YEARS :: int where "MAX_EXPECTED_YEARS = 2000"

definition temporal_confidence :: "nat \<Rightarrow> pyfloat" where
  "temporal_confidence n = pf_min (Fin 1) (ratio n (TEMPORAL_MIN_SUPPORT * 2))"

section \<open>A fixed interval\<close>

text \<open>The loop \<open>while cur <= max_value: expected_slots.add(cur); cur += step\<close>.\<close>

partial_function (option) fill_slots :: "int \<Rightarrow> int \<Rightarrow> int \<Rightarrow> int list \<Rightarrow> (exn + int list) option" where
  [code]: "fill_slots step greatest cur acc =
     (if cur \<le> greatest then (case add_delta cur step of Inl e \<Rightarrow> Some (Inl e)
        | Inr moved \<Rightarrow> fill_slots step greatest moved (acc @ [cur]))
      else Some (Inr acc))"

text \<open>A quotient of two differences is a float, and so is one more.\<close>

definition slot_count :: "int \<Rightarrow> int \<Rightarrow> pyfloat" where
  "slot_count width step = (case fl (of_int width / of_int step) of Fin x \<Rightarrow> fl (x + 1) | y \<Rightarrow> y)"

text \<open>\<open>str\<close> of a difference.\<close>

definition show_delta :: "int \<Rightarrow> string" where
  "show_delta d = (let days = d div DAY; s = d mod DAY div 1000000; us = d mod 1000000 in
     (if days = 0 then [] else show_int days @ (if \<bar>days\<bar> = 1 then '' day, '' else '' days, '')) @
     show_int (s div 3600) @ '':'' @ pad_left 2 (show_int (s div 60 mod 60)) @ '':'' @ pad_left 2 (show_int (s mod 60)) @
     (if us = 0 then [] else ''.'' @ pad_left 6 (show_int us)))"

definition temporal_candidate ::
  "string \<Rightarrow> string \<Rightarrow> string \<Rightarrow> string \<Rightarrow> nat \<Rightarrow> nat \<Rightarrow> nat \<Rightarrow> nat \<Rightarrow> nat \<Rightarrow> pyfloat \<Rightarrow> nat \<Rightarrow> strategy_outcome" where
  "temporal_candidate progression interval strategy v n dups gaps supporting contradicting consistency distinct_values =
     (EV_CANDIDATE, Some \<lparr>te_strategy = strategy, te_candidate_value = v, te_progression_type = progression, te_interval = interval,
        te_observed_values_count = n, te_duplicate_count = dups, te_gap_count = gaps,
        te_supporting_count = supporting, te_contradicting_count = contradicting, te_consistency = consistency,
        te_confidence = temporal_confidence distinct_values, te_candidate_already_exists = False\<rparr>)"

definition fixed_decision ::
  "int list \<Rightarrow> nat \<Rightarrow> bool \<Rightarrow> int option \<Rightarrow> nat \<Rightarrow> int \<Rightarrow> nat \<Rightarrow> int list \<Rightarrow> exn + strategy_outcome" where
  "fixed_decision uniq dups date_only offset n step supporting expected =
     (let gaps = filter (\<lambda>x. x \<notin> set uniq) expected; transitions = length (differences uniq) in
      if gaps = [] \<and> dups = 0 then Inr (EV_NO_RELATIONSHIP, None)
      else if 1 < length gaps \<or> 1 < dups \<or> supporting < TEMPORAL_MIN_SUPPORT then Inr (EV_AMBIGUOUS, None)
      else (case (if length gaps = 1 then Inr (hd gaps) else add_delta (last uniq) step) of
          Inl e \<Rightarrow> Inl e
        | Inr c \<Rightarrow> if c \<in> set uniq then Inr (EV_AMBIGUOUS, None)
            else Inr (temporal_candidate ''FIXED_INTERVAL'' (show_delta step)
              (if length gaps = 1 then ''TEMPORAL_GAP'' else ''TEMPORAL_NEXT_VALUE'')
              (format_instant c date_only offset) n dups (length gaps) supporting (transitions - supporting)
              (ratio supporting transitions) (length uniq))))"

definition try_fixed_interval ::
  "int list \<Rightarrow> nat \<Rightarrow> bool \<Rightarrow> int option \<Rightarrow> nat \<Rightarrow> (exn + strategy_outcome) option" where
  "try_fixed_interval uniq dups date_only offset n =
     (let diffs = differences uniq; (step, supporting) = most_common diffs in
      if pf_lt (ratio supporting (length diffs)) TEMPORAL_MIN_CONSISTENCY \<or> step \<le> 0 \<or>
         pf_lt MAX_SLOTS (slot_count (last uniq - hd uniq) step) then Some (Inr (EV_NO_RELATIONSHIP, None))
      else (case fill_slots step (last uniq) (hd uniq) [] of
          None \<Rightarrow> None
        | Some (Inl e) \<Rightarrow> Some (Inl e)
        | Some (Inr expected) \<Rightarrow> Some (fixed_decision uniq dups date_only offset n step supporting expected)))"

section \<open>Calendar years and months\<close>

definition day_of :: "ymd \<Rightarrow> int" where "day_of = (\<lambda>(y, m, d). d)"
definition year_of :: "ymd \<Rightarrow> int" where "year_of = (\<lambda>(y, m, d). y)"
definition month_index :: "ymd \<Rightarrow> int" where "month_index = (\<lambda>(y, m, d). y * 12 + (m - 1))"

definition date_or_none :: "ymd \<Rightarrow> ymd option" where
  "date_or_none d = (if valid_date d then Some d else None)"

definition month_date :: "int \<Rightarrow> int \<Rightarrow> bool \<Rightarrow> ymd option" where
  "month_date index day end_of_month = (let y = index div 12; m = index mod 12 + 1; final = last_day_of_month y m
     in date_or_none (y, m, if end_of_month then final else min day final))"

definition add_calendar_months :: "ymd \<Rightarrow> int \<Rightarrow> bool \<Rightarrow> ymd option" where
  "add_calendar_months d months end_of_month = month_date (month_index d + months) (day_of d) end_of_month"

definition add_calendar_years :: "ymd \<Rightarrow> int \<Rightarrow> ymd option" where
  "add_calendar_years = (\<lambda>(y, m, d) years. date_or_none (y + years, m, d))"

text \<open>How both calendar strategies end, once they know a date.\<close>

definition calendar_candidate ::
  "string \<Rightarrow> string \<Rightarrow> ymd list \<Rightarrow> nat \<Rightarrow> nat \<Rightarrow> bool \<Rightarrow> int option \<Rightarrow> int \<Rightarrow> nat \<Rightarrow> ymd option \<Rightarrow> strategy_outcome" where
  "calendar_candidate progression interval dates dups gaps date_only offset t n c = (case c of
     None \<Rightarrow> (EV_AMBIGUOUS, None)
   | Some d \<Rightarrow> if d \<in> set dates then (EV_AMBIGUOUS, None)
       else temporal_candidate progression interval (if gaps = 1 then ''TEMPORAL_GAP'' else ''TEMPORAL_NEXT_VALUE'')
         (format_instant (combine d t) date_only offset) n dups gaps (length dates) 0 (Fin 1) (length dates))"

definition try_calendar_month_interval ::
  "ymd list \<Rightarrow> nat \<Rightarrow> bool \<Rightarrow> int option \<Rightarrow> int \<Rightarrow> nat \<Rightarrow> strategy_outcome" where
  "try_calendar_month_interval dates dups date_only offset t n =
     (let same_day = (\<forall>d \<in> set dates. day_of d = day_of (hd dates));
          end_of_month = (\<forall>(y, m, d) \<in> set dates. d = last_day_of_month y m) in
      if length dates < 2 \<or> \<not> same_day \<and> \<not> end_of_month then (EV_NO_RELATIONSHIP, None)
      else let indexes = map month_index dates; step = fst (most_common (differences indexes)) in
        if step \<le> 0 \<or> MAX_EXPECTED_MONTHS < step \<or> MAX_EXPECTED_MONTHS < (last indexes - hd indexes) div step
        then (EV_NO_RELATIONSHIP, None)
        else let gaps = filter (\<lambda>i. i \<notin> set indexes) (py_range (hd indexes) (last indexes + step) step) in
          if length dates < TEMPORAL_MIN_SUPPORT then (EV_AMBIGUOUS, None)
          else if gaps = [] \<and> dups = 0 then (EV_NO_RELATIONSHIP, None)
          else if 1 < length gaps \<or> 1 < dups then (EV_AMBIGUOUS, None)
          else calendar_candidate ''CALENDAR_MONTH_INTERVAL'' (show_int step @ '' calendar month(s) ('' @
              (if end_of_month then ''end-of-month'' else ''same day-of-month'') @ '')'') dates dups (length gaps) date_only offset t n
            (if length gaps = 1 then month_date (hd gaps) (day_of (hd dates)) end_of_month
             else add_calendar_months (last dates) step end_of_month))"

text \<open>The date of a missing year is built outside every handler: it raises when there is no such date.\<close>

definition try_calendar_year_interval ::
  "ymd list \<Rightarrow> nat \<Rightarrow> bool \<Rightarrow> int option \<Rightarrow> int \<Rightarrow> nat \<Rightarrow> exn + strategy_outcome" where
  "try_calendar_year_interval dates dups date_only offset t n =
     (if length dates < 2 \<or> \<not> (\<forall>d \<in> set dates. snd d = snd (hd dates)) then Inr (EV_NO_RELATIONSHIP, None)
      else let years = map year_of dates; step = fst (most_common (differences years)) in
        if step \<le> 0 \<or> MAX_EXPECTED_YEARS < step \<or> MAX_EXPECTED_YEARS < (last years - hd years) div step
        then Inr (EV_NO_RELATIONSHIP, None)
        else let gaps = filter (\<lambda>y. y \<notin> set years) (py_range (hd years) (last years + step) step);
               decide = calendar_candidate ''CALENDAR_YEAR_INTERVAL'' (show_int step @ '' calendar year(s)'') dates dups (length gaps) date_only offset t n in
          if length dates < TEMPORAL_MIN_SUPPORT then Inr (EV_AMBIGUOUS, None)
          else if gaps = [] \<and> dups = 0 then Inr (EV_NO_RELATIONSHIP, None)
          else if 1 < length gaps \<or> 1 < dups then Inr (EV_AMBIGUOUS, None)
          else if length gaps = 1 then
            (let d = (hd gaps, snd (hd dates)) in
             if valid_date d then Inr (decide (add_calendar_years d 0)) else Inl (Conv ValueError))
          else Inr (decide (add_calendar_years (last dates) step)))"

section \<open>The engine\<close>

definition temporal_outcome :: "nat \<Rightarrow> strategy_outcome \<Rightarrow> temporal_result" where
  "temporal_outcome n r = \<lparr>tr_status = fst r, tr_observed_values_count = n,
     tr_best = (if fst r = EV_CANDIDATE then snd r else None)\<rparr>"

text \<open>The calendar strategies are tried when there is one time of day only.\<close>

definition calendar_strategies ::
  "int list \<Rightarrow> bool \<Rightarrow> int option \<Rightarrow> nat \<Rightarrow> strategy_outcome \<Rightarrow> exn + strategy_outcome" where
  "calendar_strategies instants date_only offset n fixed_result =
     (let times = unique_in_order (map time_of instants) in
      if length times \<noteq> 1 then Inr fixed_result
      else let all_dates = map date_of instants; dates = sort_key ordinal (remdups all_dates);
             dups = duplicate_count all_dates
        in case try_calendar_year_interval dates dups date_only offset (hd times) n of
            Inl e \<Rightarrow> Inl e
          | Inr year_result \<Rightarrow> if fst year_result = EV_CANDIDATE then Inr year_result
              else (let month_result = try_calendar_month_interval dates dups date_only offset (hd times) n in
                Inr (if fst month_result = EV_CANDIDATE then month_result else fixed_result)))"

definition temporal_of_values :: "temporal_value list \<Rightarrow> (exn + temporal_result) option" where
  "temporal_of_values parsed =
     (let n = length parsed; stop = (\<lambda>st. Some (Inr (temporal_outcome n (st, None)))) in
      if n < TEMPORAL_MIN_OBSERVATIONS then stop EV_INSUFFICIENT_GROUP
      else let date_only = list_all tv_is_date_only parsed; offset = tv_offset (hd parsed);
             instants = map tv_instant parsed; uniq = sort (remdups instants)
        in if length uniq < 2 then stop EV_NO_RELATIONSHIP
        else (case try_fixed_interval uniq (duplicate_count instants) date_only offset n of
            None \<Rightarrow> None
          | Some (Inl e) \<Rightarrow> Some (Inl e)
          | Some (Inr fixed_result) \<Rightarrow>
              if fst fixed_result = EV_CANDIDATE then Some (Inr (temporal_outcome n fixed_result))
              else Some (map_sum id (temporal_outcome n) (calendar_strategies instants date_only offset n fixed_result))))"

definition discover_temporal_evidence ::
  "date_parser \<Rightarrow> datetime_parser \<Rightarrow> pyval list \<Rightarrow> (exn + temporal_result) option" where
  "discover_temporal_evidence date_iso datetime_iso observed = (case normalize_all date_iso datetime_iso observed of
     None \<Rightarrow> Some (Inr (temporal_outcome 0 (EV_AMBIGUOUS, None)))
   | Some parsed \<Rightarrow> temporal_of_values parsed)"

section \<open>Termination\<close>

lemma fill_slots_returns:
  assumes "0 < step" and "0 \<le> cur"
  shows "\<exists>r. fill_slots step greatest cur acc = Some r \<and> (case r of
      Inr slots \<Rightarrow> slots = acc @ py_range cur (greatest + 1) step
    | Inl e \<Rightarrow> e = Conv OverflowError \<and> MAX_INSTANT \<le> greatest + step)"
  using assms(2)
proof (induction "nat (greatest + 1 - cur)" arbitrary: cur acc rule: less_induct)
  case less
  note unfold = fill_slots.simps [of step greatest cur acc] py_range_rec [OF assms(1), of cur "greatest + 1"]
  show ?case
  proof (cases "cur \<le> greatest \<and> cur + step < MAX_INSTANT")
    case True
    then have "add_delta cur step = Inr (cur + step)" using less.prems assms(1) by (simp add: add_delta_def)
    moreover have "\<exists>r. fill_slots step greatest (cur + step) (acc @ [cur]) = Some r \<and> (case r of
        Inr slots \<Rightarrow> slots = (acc @ [cur]) @ py_range (cur + step) (greatest + 1) step
      | Inl e \<Rightarrow> e = Conv OverflowError \<and> MAX_INSTANT \<le> greatest + step)"
      using True less.prems assms(1) by (intro less.hyps) auto
    then obtain r where "fill_slots step greatest (cur + step) (acc @ [cur]) = Some r" "case r of
        Inr slots \<Rightarrow> slots = (acc @ [cur]) @ py_range (cur + step) (greatest + 1) step
      | Inl e \<Rightarrow> e = Conv OverflowError \<and> MAX_INSTANT \<le> greatest + step" by blast
    ultimately show ?thesis using True unfold by (cases r) auto
  next
    case False
    then show ?thesis using unfold by (auto simp: add_delta_def)
  qed
qed

text \<open>What passes the guard on the number of slots has at most 10000 of them.\<close>

lemma guarded_slots:
  assumes "0 < step" and "0 \<le> width" and "\<not> pf_lt MAX_SLOTS (slot_count width step)"
  shows "width div step + 1 \<le> 10000"
proof (rule ccontr)
  assume "\<not> ?thesis"
  then have "10000 * step \<le> width" using le_div_pos [OF assms(1), of 10000 width] by simp
  then have "(of_int (10000 * step) :: rat) \<le> of_int width" by (simp only: of_int_le_iff)
  then have "of_int 10000 \<le> (of_int width / of_int step :: rat)" using assms(1) by (simp add: pos_le_divide_eq)
  then have first: "pf_le (Fin (of_int 10000)) (fl (of_int width / of_int step))" by (intro fl_ge) auto
  show False
  proof (cases "fl (of_int width / of_int step)")
    case (Fin x)
    then have "of_int 10001 \<le> x + 1" using first by simp
    then have second: "pf_le (Fin (of_int 10001)) (fl (x + 1))" by (intro fl_ge) auto
    have "slot_count width step = fl (x + 1)" by (simp add: slot_count_def Fin)
    then show ?thesis using second assms(3) by (cases "fl (x + 1)") (auto simp: MAX_SLOTS_def)
  next
    case NotANumber
    then show ?thesis using first by (simp add: pf_le_def pf_eq_def)
  qed (use first assms(3) in \<open>auto simp: slot_count_def MAX_SLOTS_def\<close>)
qed


lemma try_fixed_returns:
  assumes "sorted_wrt (<) uniq" and "0 \<le> hd uniq" and "uniq \<noteq> []"
  shows "\<exists>r. try_fixed_interval uniq dups date_only offset n = Some r"
proof -
  obtain step supporting where mode: "most_common (differences uniq) = (step, supporting)" by fastforce
  have "\<exists>r. fill_slots step (last uniq) (hd uniq) [] = Some r" if "0 < step"
    using fill_slots_returns [OF that assms(2)] by blast
  then show ?thesis
    by (cases "0 < step") (auto simp: try_fixed_interval_def mode Let_def split: option.splits sum.splits)
qed

text \<open>C36.
  The search for an interval always ends. Its loop adds the step until it is past the greatest value:
  with the step the engine passes (positive) it returns, and what it has collected are the places of
  the progression up to the greatest value, at most 10000 of them, or it leaves the calendar,
  which only happens within a step of the end of the year 9999. So the engine returns for every
  column.\<close>

theorem temporal_search_ends:
  assumes readable: "\<forall>p \<in> set parsed. 0 \<le> tv_instant p"
  shows "(\<exists>r. temporal_of_values parsed = Some r) \<and>
    (\<forall>step least greatest. 0 < step \<longrightarrow> 0 \<le> least \<longrightarrow> least \<le> greatest \<longrightarrow>
       \<not> pf_lt MAX_SLOTS (slot_count (greatest - least) step) \<longrightarrow>
       (\<exists>r. fill_slots step greatest least [] = Some r \<and> (case r of
          Inr slots \<Rightarrow> set slots = {x. least \<le> x \<and> x \<le> greatest \<and> step dvd (x - least)} \<and> length slots \<le> 10000
        | Inl e \<Rightarrow> e = Conv OverflowError \<and> MAX_INSTANT \<le> greatest + step)))"
proof (intro conjI allI impI)
  let ?uniq = "sort (remdups (map tv_instant parsed))"
  show "\<exists>r. temporal_of_values parsed = Some r"
  proof (cases "length parsed < TEMPORAL_MIN_OBSERVATIONS \<or> length ?uniq < 2")
    case True
    then show ?thesis unfolding temporal_of_values_def Let_def by auto
  next
    case False
    then have "0 < length ?uniq" by linarith
    then have ne: "?uniq \<noteq> []" by (rule length_greater_0_conv [THEN iffD1])
    then have "hd ?uniq \<in> set (map tv_instant parsed)" using hd_in_set [OF ne] by (simp only: set_sort set_remdups)
    then have "0 \<le> hd ?uniq" using readable by auto
    then obtain r where "try_fixed_interval ?uniq (duplicate_count (map tv_instant parsed))
        (list_all tv_is_date_only parsed) (tv_offset (hd parsed)) (length parsed) = Some r"
      using try_fixed_returns [OF _ _ ne] by (metis distinct_remdups distinct_sort sorted_sort strict_sorted_iff)
    then show ?thesis using False unfolding temporal_of_values_def Let_def by (cases r) auto
  qed
next
  fix step least greatest
  assume step: "0 < step" and range: "0 \<le> least" "least \<le> greatest"
    and guard: "\<not> pf_lt MAX_SLOTS (slot_count (greatest - least) step)"
  have "(greatest + 1 - least + step - 1) div step \<le> 10000"
  proof -
    have "greatest + 1 - least + step - 1 = (greatest - least) + step" by simp
    then have "(greatest + 1 - least + step - 1) div step = (greatest - least) div step + 1"
      using step by (metis div_add_self2 less_irrefl)
    then show ?thesis using guarded_slots [OF step _ guard] range by simp
  qed
  then have "length (py_range least (greatest + 1) step) \<le> 10000" by (simp add: length_py_range)
  then show "\<exists>r. fill_slots step greatest least [] = Some r \<and> (case r of
      Inr slots \<Rightarrow> set slots = {x. least \<le> x \<and> x \<le> greatest \<and> step dvd (x - least)} \<and> length slots \<le> 10000
    | Inl e \<Rightarrow> e = Conv OverflowError \<and> MAX_INSTANT \<le> greatest + step)"
    using fill_slots_returns [OF step range(1), of greatest "[]"] set_py_range [OF step, of least "greatest + 1"]
    by (auto split: sum.splits)
qed

lemma temporal_search_ends_witness:
  "(\<exists>r. temporal_of_values (map (\<lambda>k. \<lparr>tv_instant = k * DAY, tv_offset = None, tv_is_date_only = True\<rparr>) [0, 1, 2, 4, 5]) = Some r) \<and>
   (\<exists>slots. fill_slots DAY (5 * DAY) 0 [] = Some (Inr slots) \<and> 3 * DAY \<in> set slots)"
proof -
  let ?vs = "map (\<lambda>k. \<lparr>tv_instant = k * DAY, tv_offset = None, tv_is_date_only = True\<rparr>) [0, 1, 2, 4, 5]"
  have "\<forall>p \<in> set ?vs. 0 \<le> tv_instant p" by (simp add: DAY_def)
  note ends = temporal_search_ends [OF this]
  have "slot_count (5 * DAY - 0) DAY = Fin 6"
    using fl_of_int [of 5] fl_of_int [of 6] by (simp add: slot_count_def DAY_def)
  then have "\<not> pf_lt MAX_SLOTS (slot_count (5 * DAY - 0) DAY)" by (simp add: MAX_SLOTS_def)
  moreover have "0 < DAY" "0 \<le> 5 * DAY" by (simp_all add: DAY_def)
  ultimately obtain r where "fill_slots DAY (5 * DAY) 0 [] = Some r" "case r of
      Inr slots \<Rightarrow> set slots = {x. 0 \<le> x \<and> x \<le> 5 * DAY \<and> DAY dvd (x - 0)} \<and> length slots \<le> 10000
    | Inl e \<Rightarrow> e = Conv OverflowError \<and> MAX_INSTANT \<le> 5 * DAY + DAY"
    using conjunct2 [OF ends, THEN spec, THEN spec, THEN spec, of DAY 0 "5 * DAY"] by blast
  then have "\<exists>slots. fill_slots DAY (5 * DAY) 0 [] = Some (Inr slots) \<and> 3 * DAY \<in> set slots"
    by (cases r) (auto simp: MAX_INSTANT_def DAY_def)
  then show ?thesis using conjunct1 [OF ends] by blast
qed

text \<open>
  The 29th of February in 1888, 1892, 1896, 1904 and 1908: the missing year is 1900, which had no
  such day, and the search raises. Months that share the 30th, without a February: the 28th is proposed.\<close>

theorem missing_leap_day_raises:
  "try_calendar_year_interval (map (\<lambda>y. (y, 2, 29)) [1888, 1892, 1896, 1904, 1908]) 0 True None 0 5 =
     Inl (Conv ValueError)"
  by code_simp

theorem missing_thirtieth_is_replaced:
  "month_date (month_index (2023, 1, 30) + 1) 30 False = Some (2023, 2, 28)"
  by code_simp

end
