(* ===== verification/TemplateEvidence.thy ===== *)
theory TemplateEvidence
  imports Evidence "HOL-Library.List_Lexorder" "HOL-Library.Product_Lexorder"
begin

text \<open>
  The template engine, \<open>app/modules/ai/evidence_template.py\<close>: from pairs of a source (one or several
  columns) and a target it learns how the target is written with the words of the source (their case,
  what joins them, what stands before and after), and applies it to one more source. The optional
  arguments have their defaults, as in the only call; of the texts for the reader only the one that is
  stored with the evidence is represented.
\<close>

section \<open>Words\<close>

definition token_char :: "char \<Rightarrow> bool" where
  "token_char c \<longleftrightarrow> is_digit c \<or> (let n = code_of c in 65 \<le> n \<and> n \<le> 90 \<or> 97 \<le> n \<and> n \<le> 122)"

text \<open>\<open>re.findall("[A-Za-z0-9]+", s)\<close>; \<open>word\<close> is what has been read of the current match.\<close>

fun find_tokens :: "string \<Rightarrow> string \<Rightarrow> string list" where
  "find_tokens word [] = (if word = [] then [] else [word])"
| "find_tokens word (c # cs) = (if token_char c then find_tokens (word @ [c]) cs
     else (if word = [] then [] else [word]) @ find_tokens [] cs)"

definition combined_source_text :: "pyval list \<Rightarrow> string" where
  "combined_source_text vs = py_join '' '' (map (\<lambda>v. py_strip (py_str v))
     (filter (\<lambda>v. v \<noteq> PyNone \<and> py_strip (py_str v) \<noteq> []) vs))"

definition source_tokens :: "pyval list \<Rightarrow> string list" where
  "source_tokens vs = find_tokens [] (py_strip (combined_source_text vs))"

section \<open>Hypotheses\<close>

datatype case_transform = As_Is | Lower | Upper

primrec transform_name :: "case_transform \<Rightarrow> string" where
  "transform_name As_Is = ''as_is''"
| "transform_name Lower = ''lower''"
| "transform_name Upper = ''upper''"

primrec transform_token :: "case_transform \<Rightarrow> string \<Rightarrow> string" where
  "transform_token As_Is s = s"
| "transform_token Lower s = py_lower s"
| "transform_token Upper s = upper_ascii s"

definition DELIMITERS :: "string list" where
  "DELIMITERS = [[], ''.'', ''_'', ''-'', '' '']"

record hypothesis =
  hyp_case_transform :: case_transform
  hyp_delimiter :: string
  hyp_prefix :: string
  hyp_suffix :: string

definition core_text :: "case_transform \<Rightarrow> string \<Rightarrow> string list \<Rightarrow> string" where
  "core_text tr delimiter tokens = py_join delimiter (map (transform_token tr) tokens)"

definition apply_hypothesis :: "hypothesis \<Rightarrow> pyval list \<Rightarrow> string option" where
  "apply_hypothesis h source = (let tokens = source_tokens source;
       core = core_text (hyp_case_transform h) (hyp_delimiter h) tokens
     in if tokens = [] \<or> core = [] then None else Some (hyp_prefix h @ core @ hyp_suffix h))"

text \<open>\<open>target.find(core)\<close>.\<close>

fun find_text :: "string \<Rightarrow> string \<Rightarrow> nat option" where
  "find_text sub [] = (if sub = [] then Some 0 else None)"
| "find_text sub (c # cs) = (if take (length sub) (c # cs) = sub then Some 0
     else map_option Suc (find_text sub cs))"

definition hypotheses_matching_pair :: "pyval list \<Rightarrow> string \<Rightarrow> hypothesis list" where
  "hypotheses_matching_pair source target = (let tokens = source_tokens source in
     if tokens = [] then []
     else List.map_filter (\<lambda>(tr, delimiter). let core = core_text tr delimiter tokens in
       if core = [] then None
       else map_option (\<lambda>i. \<lparr>hyp_case_transform = tr, hyp_delimiter = delimiter, hyp_prefix = take i target,
              hyp_suffix = drop (i + length core) target\<rparr>) (find_text core target))
       (List.product [As_Is, Lower, Upper] DELIMITERS))"

section \<open>The engine\<close>

record template_evidence =
  tm_candidate_value :: string
  tm_template :: string
  tm_hypothesis :: hypothesis
  tm_supporting_count :: nat
  tm_contradicting_count :: nat
  tm_consistency :: pyfloat
  tm_confidence :: pyfloat

record template_result =
  tmr_status :: evidence_status
  tmr_observed_pairs_count :: nat
  tmr_best :: "template_evidence option"

definition MIN_TEMPLATE_OBSERVATIONS :: nat where "MIN_TEMPLATE_OBSERVATIONS = 3"
definition MIN_SUPPORTING_PAIRS :: nat where "MIN_SUPPORTING_PAIRS = 3"

definition valid_pairs :: "(pyval list \<times> pyval) list \<Rightarrow> (pyval list \<times> string) list" where
  "valid_pairs pairs = map (\<lambda>(src, tgt). (src, py_str tgt))
     (filter (\<lambda>(src, tgt). tgt \<noteq> PyNone \<and> py_strip (py_str tgt) \<noteq> [] \<and> source_tokens src \<noteq> []) pairs)"

definition explains :: "hypothesis \<Rightarrow> pyval list \<times> string \<Rightarrow> bool" where
  "explains h p \<longleftrightarrow> apply_hypothesis h (fst p) = Some (snd p)"

definition support :: "hypothesis \<Rightarrow> (pyval list \<times> string) list \<Rightarrow> nat" where
  "support h pairs = length (filter (explains h) pairs)"

definition hypothesis_rank ::
  "(pyval list \<times> string) list \<Rightarrow> hypothesis \<Rightarrow> int \<times> nat list \<times> nat list \<times> nat list \<times> nat list" where
  "hypothesis_rank pairs h = (- int (support h pairs), map code_of (transform_name (hyp_case_transform h)),
     map code_of (hyp_delimiter h), map code_of (hyp_prefix h), map code_of (hyp_suffix h))"

definition perfect_hypotheses :: "(pyval list \<times> string) list \<Rightarrow> hypothesis list" where
  "perfect_hypotheses pairs = sort_key (hypothesis_rank pairs)
     (filter (\<lambda>h. length pairs - support h pairs = 0)
       (unique_in_order (concat (map (\<lambda>(src, tgt). hypotheses_matching_pair src tgt) pairs))))"

definition template_text :: "hypothesis \<Rightarrow> string" where
  "template_text h = transform_name (hyp_case_transform h) @ ''(tokens) joined by '' @ repr_str (hyp_delimiter h) @
     (if hyp_prefix h = [] \<and> hyp_suffix h = [] then []
      else '', wrapped as '' @ repr_str (hyp_prefix h) @ '' + core + '' @ repr_str (hyp_suffix h))"

definition no_template :: "evidence_status \<Rightarrow> nat \<Rightarrow> template_result" where
  "no_template st n = \<lparr>tmr_status = st, tmr_observed_pairs_count = n, tmr_best = None\<rparr>"

definition template_candidate :: "hypothesis \<Rightarrow> nat \<Rightarrow> string \<Rightarrow> nat \<Rightarrow> template_result" where
  "template_candidate h supporting v n = \<lparr>tmr_status = EV_CANDIDATE, tmr_observed_pairs_count = n,
     tmr_best = Some \<lparr>tm_candidate_value = v, tm_template = template_text h, tm_hypothesis = h,
       tm_supporting_count = supporting, tm_contradicting_count = 0, tm_consistency = Fin 1,
       tm_confidence = pf_min (Fin 1) (ratio supporting (MIN_SUPPORTING_PAIRS * 2))\<rparr>\<rparr>"

definition discover_template_evidence ::
  "(pyval list \<times> pyval) list \<Rightarrow> pyval list \<Rightarrow> template_result" where
  "discover_template_evidence comparable query =
     (let pairs = valid_pairs comparable; n = length pairs in
      if n < MIN_TEMPLATE_OBSERVATIONS then no_template EV_INSUFFICIENT_GROUP n
      else if concat (map (\<lambda>(src, tgt). hypotheses_matching_pair src tgt) pairs) = [] then no_template EV_NO_RELATIONSHIP n
      else (case perfect_hypotheses pairs of
          [] \<Rightarrow> no_template EV_AMBIGUOUS n
        | best # others \<Rightarrow>
            if support best pairs < MIN_SUPPORTING_PAIRS then no_template EV_AMBIGUOUS n
            else if source_tokens query = [] then no_template EV_NO_RELATIONSHIP n
            else if \<exists>h \<in> set others. MIN_SUPPORTING_PAIRS \<le> support h pairs \<and>
                apply_hypothesis h query \<noteq> apply_hypothesis best query then no_template EV_AMBIGUOUS n
            else (case apply_hypothesis best query of
                None \<Rightarrow> no_template EV_NO_RELATIONSHIP n
              | Some v \<Rightarrow> template_candidate best (support best pairs) v n)))"

section \<open>The candidate\<close>

lemma perfect_explains:
  "h \<in> set (perfect_hypotheses pairs) \<Longrightarrow> \<forall>p \<in> set pairs. explains h p"
proof -
  assume "h \<in> set (perfect_hypotheses pairs)"
  then have "length pairs \<le> length (filter (explains h) pairs)"
    by (simp add: perfect_hypotheses_def support_def)
  then have "filter (explains h) pairs = pairs"
    by (metis filter_is_subset filter_id_conv length_filter_less not_less)
  then show ?thesis by (simp add: filter_id_conv)
qed

lemma perfect_support: "h \<in> set (perfect_hypotheses pairs) \<Longrightarrow> support h pairs = length pairs"
  using perfect_explains [of h pairs] by (simp add: support_def filter_id_conv [THEN iffD2])

text \<open>C38.
  A template is only applied when it reproduces every observed pair, and there are at least three;
  the proposed value is the template applied to the words of the query, and every other template
  the engine has found that reproduces all pairs gives the same value. If another of them gives a different
  one, nothing is proposed.\<close>

theorem template_candidate_spec:
  shows "(\<forall>e. tmr_best (discover_template_evidence comparable query) = Some e \<longrightarrow>
      (let pairs = valid_pairs comparable; h = tm_hypothesis e in
        3 \<le> length pairs \<and> tm_supporting_count e = length pairs \<and>
        (\<forall>(source, target) \<in> set pairs. apply_hypothesis h source = Some target) \<and>
        apply_hypothesis h query = Some (tm_candidate_value e) \<and>
        (\<exists>core. core \<noteq> [] \<and> tm_candidate_value e = hyp_prefix h @ core @ hyp_suffix h \<and>
           core = core_text (hyp_case_transform h) (hyp_delimiter h) (source_tokens query)) \<and>
        (\<forall>h' \<in> set (perfect_hypotheses pairs). apply_hypothesis h' query = Some (tm_candidate_value e)))) \<and>
    ((\<exists>h \<in> set (perfect_hypotheses (valid_pairs comparable)). \<exists>h' \<in> set (perfect_hypotheses (valid_pairs comparable)).
        apply_hypothesis h query \<noteq> apply_hypothesis h' query) \<longrightarrow>
      tmr_best (discover_template_evidence comparable query) = None)"
proof -
  let ?ps = "valid_pairs comparable" and ?r = "discover_template_evidence comparable query"
  have chosen: "\<exists>best others v. perfect_hypotheses ?ps = best # others \<and> 3 \<le> length ?ps \<and>
      apply_hypothesis best query = Some v \<and> (\<forall>h \<in> set others. apply_hypothesis h query = Some v) \<and>
      ?r = template_candidate best (length ?ps) v (length ?ps)" if some: "tmr_best ?r \<noteq> None"
  proof -
    obtain best others where perfect: "perfect_hypotheses ?ps = best # others"
      using some by (cases "perfect_hypotheses ?ps") (auto simp: discover_template_evidence_def no_template_def Let_def split: if_splits)
    have same: "support best ?ps = length ?ps" "\<forall>h \<in> set others. support h ?ps = length ?ps"
      using perfect_support [of _ ?ps] perfect by auto
    obtain v where v: "apply_hypothesis best query = Some v"
      using some by (cases "apply_hypothesis best query")
        (auto simp: discover_template_evidence_def no_template_def Let_def perfect split: if_splits)
    show ?thesis
      using some same v
      by (auto simp: discover_template_evidence_def no_template_def Let_def perfect MIN_SUPPORTING_PAIRS_def split: if_splits)
  qed
  have "let h = tm_hypothesis e in
      3 \<le> length ?ps \<and> tm_supporting_count e = length ?ps \<and>
      (\<forall>(source, target) \<in> set ?ps. apply_hypothesis h source = Some target) \<and>
      apply_hypothesis h query = Some (tm_candidate_value e) \<and>
      (\<exists>core. core \<noteq> [] \<and> tm_candidate_value e = hyp_prefix h @ core @ hyp_suffix h \<and>
         core = core_text (hyp_case_transform h) (hyp_delimiter h) (source_tokens query)) \<and>
      (\<forall>h' \<in> set (perfect_hypotheses ?ps). apply_hypothesis h' query = Some (tm_candidate_value e))"
    if e: "tmr_best ?r = Some e" for e
  proof -
    obtain best others v where best: "perfect_hypotheses ?ps = best # others" "3 \<le> length ?ps"
      "apply_hypothesis best query = Some v" "\<forall>h \<in> set others. apply_hypothesis h query = Some v"
      "?r = template_candidate best (length ?ps) v (length ?ps)"
      using chosen e by auto
    have fields: "tm_hypothesis e = best" "tm_candidate_value e = v" "tm_supporting_count e = length ?ps"
      using e best(5) by (auto simp: template_candidate_def)
    have "\<forall>p \<in> set ?ps. explains best p" using best(1) by (intro perfect_explains) auto
    then show ?thesis
      using best(1-4) fields by (fastforce simp: explains_def apply_hypothesis_def Let_def split: if_splits)
  qed
  moreover have "tmr_best ?r = None"
    if "h \<in> set (perfect_hypotheses ?ps)" "h' \<in> set (perfect_hypotheses ?ps)"
      "apply_hypothesis h query \<noteq> apply_hypothesis h' query" for h h'
    using chosen that by fastforce
  ultimately show ?thesis unfolding Let_def by blast
qed

definition sample_pairs :: "(pyval list \<times> pyval) list" where
  "sample_pairs = [([PyStr ''A1''], PyStr ''a1@x''), ([PyStr ''B2''], PyStr ''b2@x''), ([PyStr ''C3''], PyStr ''c3@x'')]"

lemma template_candidate_spec_witness:
  "\<exists>e. tmr_best (discover_template_evidence sample_pairs [PyStr ''D4'']) = Some e \<and> tm_candidate_value e = ''d4@x'' \<and>
     apply_hypothesis (tm_hypothesis e) [PyStr ''D4''] = Some (tm_candidate_value e)"
proof -
  let ?ps = "[([PyStr ''A1''], ''a1@x''), ([PyStr ''B2''], ''b2@x''), ([PyStr ''C3''], ''c3@x'')]" and ?q = "[PyStr ''D4'']"
  have pairs: "valid_pairs sample_pairs = ?ps" by code_simp
  have found: "hypotheses_matching_pair [PyStr ''A1''] ''a1@x'' \<noteq> []" by code_simp
  have "list_all (\<lambda>h. support h ?ps = 3 \<and> apply_hypothesis h ?q = Some ''d4@x'')
      (unique_in_order (concat (map (\<lambda>(src, tgt). hypotheses_matching_pair src tgt) ?ps)))" by code_simp
  then have all: "\<forall>h \<in> set (concat (map (\<lambda>(src, tgt). hypotheses_matching_pair src tgt) ?ps)).
      support h ?ps = 3 \<and> apply_hypothesis h ?q = Some ''d4@x''" by (simp only: list_all_iff set_unique)
  have members: "set (perfect_hypotheses ?ps) = set (concat (map (\<lambda>(src, tgt). hypotheses_matching_pair src tgt) ?ps))"
    using all unfolding perfect_hypotheses_def set_sort set_filter set_unique by auto
  then obtain best others where perfect: "perfect_hypotheses ?ps = best # others"
    using found by (cases "perfect_hypotheses ?ps") auto
  have applied: "\<forall>h \<in> set (best # others). support h ?ps = 3 \<and> apply_hypothesis h ?q = Some ''d4@x''"
    using all unfolding perfect [symmetric] members .
  have "source_tokens ?q \<noteq> []" by code_simp
  then have "discover_template_evidence sample_pairs ?q = template_candidate best 3 ''d4@x'' 3"
    using applied found unfolding discover_template_evidence_def Let_def pairs perfect
    by (simp add: MIN_TEMPLATE_OBSERVATIONS_def MIN_SUPPORTING_PAIRS_def numeral_3_eq_3)
  then obtain e where "tmr_best (discover_template_evidence sample_pairs ?q) = Some e" "tm_candidate_value e = ''d4@x''"
    by (simp add: template_candidate_def)
  then show ?thesis using template_candidate_spec [of sample_pairs ?q] by (auto simp: Let_def)
qed

end
