(* ===== verification/Spec2Isabelle.thy ===== *)
theory Spec2Isabelle
  imports Workflow MaterializedTable PublishedFiles StagedRevalidation RuleHistory
    AiAnswers SequenceEvidence TemporalEvidence TemplateEvidence
begin

text \<open>
  The data quality platform.
\<close>

end
